(* ===== verification/Xtc_Prelude.thy ===== *)
theory Xtc_Prelude
  imports Main "HOL-Library.Word"
begin

text \<open>
  Shared vocabulary of the development: machine words, a result type for code that can
  fail, checked access to fixed-size arrays, first-fit search in slot tables, and the
  generic theory of a machine whose steps can fail.  No definition of this theory models
  a particular source line; every component theory builds on it.
\<close>

unbundle bit_operations_syntax

named_theorems sim_defs \<open>definitions of the simulator's operations\<close>
named_theorems mem_defs \<open>definitions of the simulator's memory accessors\<close>
named_theorems reloc_defs \<open>definitions of the relocation routines\<close>
named_theorems lib_defs \<open>definitions of the run-time library's operations\<close>

subsection \<open>Machine words\<close>

type_synonym u8 = "8 word"
type_synonym u16 = "16 word"
type_synonym u32 = "32 word"
type_synonym u64 = "64 word"

text \<open>
  A C \<^verbatim>\<open>int\<close> is kept as its 32-bit pattern: conversions between \<^verbatim>\<open>int\<close> and
  \<^verbatim>\<open>unsigned\<close> are then the identity, and only widening has to say whether it
  copies the sign (\<open>scast\<close>) or not (\<open>ucast\<close>).
\<close>

lemma mask_8: "(255 :: 'a::len word) = mask 8"
  by (simp add: mask_eq_exp_minus_1)

lemma mask_4: "(15 :: 'a::len word) = mask 4"
  by (simp add: mask_eq_exp_minus_1)

lemma mask_3: "(7 :: 'a::len word) = mask 3"
  by (simp add: mask_eq_exp_minus_1)

lemma mask_12: "(4095 :: 'a::len word) = mask 12"
  by (simp add: mask_eq_exp_minus_1)

lemma and_255 [simp]: "w AND 255 = take_bit 8 (w :: 'a::len word)"
  unfolding mask_8 by (rule take_bit_eq_mask [symmetric])

lemma and_15 [simp]: "w AND 15 = take_bit 4 (w :: 'a::len word)"
  unfolding mask_4 by (rule take_bit_eq_mask [symmetric])

lemma and_7 [simp]: "w AND 7 = take_bit 3 (w :: 'a::len word)"
  unfolding mask_3 by (rule take_bit_eq_mask [symmetric])

lemma and_4095 [simp]: "w AND 4095 = take_bit 12 (w :: 'a::len word)"
  unfolding mask_12 by (rule take_bit_eq_mask [symmetric])

lemma unat_take_bit_lt: "unat (take_bit n (w :: 'a::len word)) < 2 ^ n"
proof -
  have "unat (take_bit n w) = take_bit n (unat w)"
    by (simp add: unsigned_take_bit_eq)
  then show ?thesis by simp
qed

lemma take_bit_small: "unat (w :: 'a::len word) < 2 ^ n \<Longrightarrow> take_bit n w = w"
  unfolding word_unat_eq_iff unsigned_take_bit_eq by (simp add: take_bit_nat_eq_self)

lemmas unat_take_bit_lts =
  unat_take_bit_lt [of 3, simplified] unat_take_bit_lt [of 4, simplified]
  unat_take_bit_lt [of 8, simplified] unat_take_bit_lt [of 12, simplified]

text \<open>The values a masked selector can take, for the \<^verbatim>\<open>switch\<close> statements of the sources.\<close>

lemma nibble_cases:
  "take_bit 4 (w :: u32) \<in> {0, 1, 2, 3, 4, 5, 6, 7, 8, 9, 10, 11, 12, 13, 14, 15}"
proof -
  have "unat k < 16 \<Longrightarrow> k \<in> {0, 1, 2, 3, 4, 5, 6, 7, 8, 9, 10, 11, 12, 13, 14, 15}" for k :: u32
    unfolding insert_iff empty_iff word_unat_eq_iff by simp presburger
  from this [OF unat_take_bit_lt [of 4, simplified]] show ?thesis .
qed

lemma octal_cases: "take_bit 3 (w :: u32) \<in> {0, 1, 2, 3, 4, 5, 6, 7}"
proof -
  have "unat k < 8 \<Longrightarrow> k \<in> {0, 1, 2, 3, 4, 5, 6, 7}" for k :: u32
    unfolding insert_iff empty_iff word_unat_eq_iff by simp linarith
  from this [OF unat_take_bit_lt [of 3, simplified]] show ?thesis .
qed

lemma top_nibble:
  "drop_bit 12 (ucast (w :: u16) :: u32) = take_bit 4 (drop_bit 12 (ucast w))"
  by (rule bit_word_eqI) (auto simp: bit_simps dest: bit_imp_le_length)

lemma top_nibble_cases:
  "drop_bit 12 (ucast (w :: u16) :: u32) \<in> {0, 1, 2, 3, 4, 5, 6, 7, 8, 9, 10, 11, 12, 13, 14, 15}"
  by (subst top_nibble) (rule nibble_cases)

text \<open>Two words that agree on every bit position below their width are equal.\<close>

lemma u32_eqI:
  fixes v w :: u32
  assumes "\<And>n. n < 32 \<Longrightarrow> bit v n = bit w n"
  shows "v = w"
  using assms by (intro bit_word_eqI) simp

subsection \<open>Values of words\<close>

lemma u8_lt: "unat (b :: u8) < 256"
  using unsigned_less [of b] by simp

lemma u16_lt: "unat (w :: u16) < 65536"
  using unsigned_less [of w] by simp

lemma u32_lt: "unat (w :: u32) < 4294967296"
  using unsigned_less [of w] by simp

lemma of_unatI: "unat (w :: 'a::len word) = n \<Longrightarrow> w = of_nat n"
  by auto

lemma uint_sint_nonneg: "0 \<le> sint (n :: u32) \<Longrightarrow> uint n = sint n"
proof -
  assume "0 \<le> sint n"
  then have "\<not> bit n 31" by (simp add: not_less [symmetric] bit_last_iff [of n, simplified])
  moreover have "take_bit 32 (uint n) = uint n"
    using uint_lt2p [of n] by (simp add: take_bit_int_eq_self)
  ultimately show ?thesis
    by (simp add: sint_uint signed_take_bit_eq_take_bit_minus bit_uint_iff)
qed

lemma sint_positive:
  assumes "0 < sint (t :: u32)"
  shows "sint t = int (unat t)" "0 < unat t" "unat t < 2 ^ 31"
proof -
  have "uint t = sint t" using uint_sint_nonneg [of t] assms by simp
  then show s: "sint t = int (unat t)" by (simp only: uint_nat)
  show "0 < unat t" using assms unfolding s by (simp only: of_nat_0_less_iff)
  have "sint t < int (2 ^ 31)" using sint_less [of t] by simp
  then show "unat t < 2 ^ 31" unfolding s by (simp only: of_nat_less_iff)
qed

lemma sint_below: "unat (t :: u32) < 2 ^ 31 \<Longrightarrow> sint t = int (unat t)"
proof -
  assume "unat t < 2 ^ 31"
  moreover have "sint (of_nat n :: u32) = int n" if "n < 2 ^ 31" for n
    using that by (simp add: signed_of_nat signed_take_bit_int_eq_self)
  ultimately show ?thesis by (metis of_unatI)
qed

lemma unat_minus_1: "w \<noteq> 0 \<Longrightarrow> unat (w - 1 :: 'a::len word) = unat w - 1"
  by (rule unat_minus_one)

lemma bit_small: "unat (y :: 'a::len word) < 2 ^ n \<Longrightarrow> bit y k \<Longrightarrow> k < n"
  by (metis bit_take_bit_iff take_bit_small)

lemma unat_join:
  fixes x y :: "'a::len word"
  assumes y: "unat y < 2 ^ n" and x: "unat x * 2 ^ n + unat y < 2 ^ LENGTH('a)"
  shows "unat (push_bit n x OR y) = unat x * 2 ^ n + unat y"
proof -
  have "push_bit n x OR y = push_bit n x + y"
    by (rule disjunctive_add [symmetric]) (use bit_small [OF y] in \<open>fastforce simp: bit_push_bit_iff not_less\<close>)
  moreover have "unat (push_bit n x) = unat x * 2 ^ n"
    using x unfolding unsigned_push_bit_eq by (simp add: push_bit_eq_mult take_bit_nat_eq_self)
  ultimately show ?thesis using x by (simp add: unat_word_ariths)
qed

lemma unat_ucast_u8: "8 \<le> LENGTH('a) \<Longrightarrow> unat (ucast (b :: u8) :: 'a::len word) = unat b"
  using less_le_trans [OF u8_lt [of b] power_increasing [of 8 "LENGTH('a)" "2 :: nat", simplified]]
  by (simp add: unsigned_ucast_eq take_bit_nat_eq_self)

lemma div_mod_add:
  fixes p i S :: nat
  assumes "p mod S + i < S"
  shows "(p + i) div S = p div S" "(p + i) mod S = p mod S + i"
proof -
  have eq: "p + i = (p mod S + i) + p div S * S" using div_mult_mod_eq [of p S] by linarith
  have S: "S \<noteq> 0" using assms by auto
  show "(p + i) div S = p div S" unfolding eq div_mult_self1 [OF S] using assms by simp
  show "(p + i) mod S = p mod S + i" by (subst eq) (use assms in \<open>simp only: mod_mult_self1 mod_less\<close>)
qed

subsection \<open>The 24-bit extension\<close>

text \<open>The value and the condition an extension word carries.\<close>

definition e24_value :: "u64 \<Rightarrow> u64" where
  "e24_value w = take_bit 15 (drop_bit 16 w) OR push_bit 15 (take_bit 8 w) OR
     push_bit 23 (take_bit 1 (drop_bit 12 w))"

definition e24_cond :: "u64 \<Rightarrow> u64" where
  "e24_cond w = take_bit 4 (drop_bit 8 w)"

text \<open>The 8-bit immediate of an instruction word.\<close>

definition imm8_value :: "u64 \<Rightarrow> u64" where
  "imm8_value w = take_bit 8 (drop_bit 4 w)"

subsection \<open>Results\<close>

text \<open>
  Code that can fail returns \<open>'e + 'a\<close>: \<open>Inl\<close> carries the reason, \<open>Inr\<close> the value.
  \<open>rbind\<close> sequences two such steps and stops at the first failure.
\<close>

definition rbind :: "'e + 'a \<Rightarrow> ('a \<Rightarrow> 'e + 'b) \<Rightarrow> 'e + 'b" where
  "rbind m f = (case m of Inl e \<Rightarrow> Inl e | Inr x \<Rightarrow> f x)"

lemma rbind_simps [simp]:
  "rbind (Inl e) f = Inl e"
  "rbind (Inr x) f = f x"
  by (simp_all add: rbind_def)

lemma rbind_eq_Inr [simp]: "rbind m f = Inr y \<longleftrightarrow> (\<exists>x. m = Inr x \<and> f x = Inr y)"
  by (cases m) auto

lemma rbind_eq_Inl [simp]:
  "rbind m f = Inl e \<longleftrightarrow> m = Inl e \<or> (\<exists>x. m = Inr x \<and> f x = Inl e)"
  by (cases m) auto

lemma rbind_Inr [simp]: "rbind m Inr = m"
  by (cases m) auto

lemma rbind_assoc: "rbind (rbind m f) g = rbind m (\<lambda>x. rbind (f x) g)"
  by (cases m) auto

lemma rbind_cong [fundef_cong]:
  "m = m' \<Longrightarrow> (\<And>x. m' = Inr x \<Longrightarrow> f x = f' x) \<Longrightarrow> rbind m f = rbind m' f'"
  by (cases m') auto

lemma rbind_if: "rbind (if b then m else m') f = (if b then rbind m f else rbind m' f)"
  by simp

text \<open>\<open>ensure b e\<close> is an assertion: it fails with \<open>e\<close> when \<open>b\<close> does not hold.\<close>

definition ensure :: "bool \<Rightarrow> 'e \<Rightarrow> 'e + unit" where
  "ensure b e = (if b then Inr () else Inl e)"

lemma ensure_simps [simp]:
  "ensure True e = Inr ()"
  "ensure False e = Inl e"
  by (simp_all add: ensure_def)

lemma ensure_eq [simp]:
  "ensure b e = Inr u \<longleftrightarrow> b"
  "ensure b e = Inl e' \<longleftrightarrow> \<not> b \<and> e' = e"
  by (auto simp: ensure_def)

subsection \<open>Checked arrays\<close>

text \<open>
  A C array is a list; an access outside of it is undefined behaviour in the source and
  the error \<open>e\<close> here.
\<close>

definition arr_get :: "'e \<Rightarrow> 'a list \<Rightarrow> nat \<Rightarrow> 'e + 'a" where
  "arr_get e xs i = (if i < length xs then Inr (xs ! i) else Inl e)"

definition arr_put :: "'e \<Rightarrow> 'a list \<Rightarrow> nat \<Rightarrow> 'a \<Rightarrow> 'e + 'a list" where
  "arr_put e xs i v = (if i < length xs then Inr (xs[i := v]) else Inl e)"

lemma arr_get_eq [simp]:
  "arr_get e xs i = Inr v \<longleftrightarrow> i < length xs \<and> xs ! i = v"
  "arr_get e xs i = Inl e' \<longleftrightarrow> \<not> i < length xs \<and> e' = e"
  by (auto simp: arr_get_def)

lemma arr_put_eq [simp]:
  "arr_put e xs i v = Inr ys \<longleftrightarrow> i < length xs \<and> ys = xs[i := v]"
  "arr_put e xs i v = Inl e' \<longleftrightarrow> \<not> i < length xs \<and> e' = e"
  by (auto simp: arr_put_def)

lemma arr_get_in [simp]: "i < length xs \<Longrightarrow> arr_get e xs i = Inr (xs ! i)"
  by simp

lemma arr_put_in [simp]: "i < length xs \<Longrightarrow> arr_put e xs i v = Inr (xs[i := v])"
  by simp

subsection \<open>Fixed-width cells in a byte block\<close>

text \<open>
  What a pair of accessors for \<open>width\<close>-byte cells promises: inside the block both
  succeed, a store keeps the block's size, is read back, and leaves every cell it does
  not overlap alone.
\<close>

fun store_seq :: "('m \<Rightarrow> nat \<Rightarrow> 'v \<Rightarrow> 'e + 'm) \<Rightarrow> (nat \<times> 'v) list \<Rightarrow> 'm \<Rightarrow> 'e + 'm" where
  "store_seq store [] m = Inr m"
| "store_seq store ((a, v) # ws) m = rbind (store m a v) (store_seq store ws)"

locale mem_cell =
  fixes load :: "'m \<Rightarrow> nat \<Rightarrow> 'e + 'v"
    and store :: "'m \<Rightarrow> nat \<Rightarrow> 'v \<Rightarrow> 'e + 'm"
    and width :: nat
    and size :: "'m \<Rightarrow> nat"
  assumes load_ok: "a + width \<le> size m \<Longrightarrow> \<exists>v. load m a = Inr v"
    and store_ok: "a + width \<le> size m \<Longrightarrow> \<exists>m'. store m a v = Inr m'"
    and store_size: "store m a v = Inr m' \<Longrightarrow> size m' = size m"
    and load_store_same: "store m a v = Inr m' \<Longrightarrow> load m' a = Inr v"
    and load_store_other:
      "store m a v = Inr m' \<Longrightarrow> b + width \<le> a \<or> a + width \<le> b \<Longrightarrow> load m' b = load m b"
begin

lemma store_seq_ok:
  "\<forall>(a, v) \<in> set ws. a + width \<le> size m \<Longrightarrow> \<exists>m'. store_seq store ws m = Inr m' \<and> size m' = size m"
proof (induction ws arbitrary: m)
  case Nil
  then show ?case by simp
next
  case (Cons w ws)
  obtain a v where w: "w = (a, v)" by (cases w)
  with Cons.prems obtain m1 where m1: "store m a v = Inr m1"
    using store_ok by fastforce
  with Cons.prems w have "\<forall>(a, v) \<in> set ws. a + width \<le> size m1"
    using store_size [OF m1] by fastforce
  then obtain m' where "store_seq store ws m1 = Inr m'" "size m' = size m1"
    using Cons.IH by blast
  with m1 w show ?case by (simp add: store_size)
qed

lemma store_seq_frame:
  "store_seq store ws m = Inr m' \<Longrightarrow>
     \<forall>(a, v) \<in> set ws. b + width \<le> a \<or> a + width \<le> b \<Longrightarrow> load m' b = load m b"
proof (induction ws arbitrary: m)
  case Nil
  then show ?case by simp
next
  case (Cons w ws)
  obtain a v where w: "w = (a, v)" by (cases w)
  with Cons.prems(1) obtain m1 where
      m1: "store m a v = Inr m1" and rest: "store_seq store ws m1 = Inr m'"
    by auto
  have "load m' b = load m1 b"
    using Cons.IH [OF rest] Cons.prems(2) by simp
  also have "load m1 b = load m b"
    using load_store_other [OF m1] Cons.prems(2) w by auto
  finally show ?case .
qed

text \<open>Of several stores, the last one to an address is what is read there.\<close>

lemma store_seq_last:
  assumes "store_seq store (ws @ (a, v) # zs) m = Inr m'"
    and "\<forall>(c, u) \<in> set zs. a + width \<le> c \<or> c + width \<le> a"
  shows "load m' a = Inr v"
  using assms
proof (induction ws arbitrary: m)
  case Nil
  then obtain m1 where m1: "store m a v = Inr m1" and zs: "store_seq store zs m1 = Inr m'"
    by auto
  have "load m' a = load m1 a"
    using store_seq_frame [OF zs] Nil.prems(2) by blast
  with load_store_same [OF m1] show ?case by simp
next
  case (Cons w ws)
  then show ?case by (cases w) auto
qed

end

subsection \<open>Characters\<close>

text \<open>\<^verbatim>\<open>tolower\<close> of the C locale.\<close>

definition to_lower :: "char \<Rightarrow> char" where
  "to_lower c = (if 65 \<le> (of_char c :: nat) \<and> (of_char c :: nat) \<le> 90 then char_of (of_char c + 32 :: nat) else c)"

subsection \<open>First fit\<close>

text \<open>
  The loop \<^verbatim>\<open>for (i = 0; i < N; i++) if (P(a[i])) ...\<close> that stops at the first
  hit: the index of the first element that satisfies the predicate.
\<close>

fun first_index :: "('a \<Rightarrow> bool) \<Rightarrow> 'a list \<Rightarrow> nat option" where
  "first_index P [] = None"
| "first_index P (x # xs) = (if P x then Some 0 else map_option Suc (first_index P xs))"

lemma first_index_Some:
  "first_index P xs = Some i \<Longrightarrow> i < length xs \<and> P (xs ! i) \<and> (\<forall>j < i. \<not> P (xs ! j))"
proof (induction xs arbitrary: i)
  case Nil
  then show ?case by simp
next
  case (Cons x xs)
  show ?case
  proof (cases "P x")
    case True
    with Cons.prems show ?thesis by simp
  next
    case False
    with Cons.prems obtain k where k: "first_index P xs = Some k" "i = Suc k"
      by auto
    with Cons.IH [OF k(1)] False show ?thesis
      by (auto simp: less_Suc_eq_0_disj)
  qed
qed

lemma first_index_None: "first_index P xs = None \<longleftrightarrow> (\<forall>x \<in> set xs. \<not> P x)"
  by (induction xs) auto

lemma first_indexI: "i < length xs \<Longrightarrow> P (xs ! i) \<Longrightarrow> (\<And>j. j < i \<Longrightarrow> \<not> P (xs ! j)) \<Longrightarrow> first_index P xs = Some i"
proof (induction xs arbitrary: i)
  case (Cons x xs)
  show ?case
  proof (cases i)
    case 0
    with Cons.prems show ?thesis by simp
  next
    case (Suc k)
    have "\<not> P (xs ! j)" if "j < k" for j using Cons.prems(3) [of "Suc j"] that Suc by simp
    with Cons Suc Cons.prems(3) [of 0] show ?thesis by simp
  qed
qed simp

lemma first_index_update:
  "i < length xs \<Longrightarrow> \<not> P (xs ! i) \<Longrightarrow> \<not> P x \<Longrightarrow> first_index P (xs[i := x]) = first_index P xs"
  by (induction xs arbitrary: i) (auto split: nat.splits)

lemma find_append: "find P (xs @ ys) = (case find P xs of None \<Rightarrow> find P ys | Some x \<Rightarrow> Some x)"
  by (induction xs) auto

lemma find_in: "find P xs = Some x \<Longrightarrow> x \<in> set xs \<and> P x"
  by (induction xs) (auto split: if_splits)

subsection \<open>Machines whose steps can fail\<close>

text \<open>
  \<open>run_steps step n s\<close> takes \<open>n\<close> steps from \<open>s\<close>, or stops with the first failure.
\<close>

fun run_steps :: "('s \<Rightarrow> 'e + 's) \<Rightarrow> nat \<Rightarrow> 's \<Rightarrow> 'e + 's" where
  "run_steps step 0 s = Inr s"
| "run_steps step (Suc n) s = rbind (step s) (run_steps step n)"

lemma run_steps_add: "run_steps step (m + n) s = rbind (run_steps step m s) (run_steps step n)"
  by (induction m arbitrary: s) (auto simp: rbind_assoc rbind_def split: sum.splits)

lemma run_steps_one: "run_steps step 1 = step"
  unfolding One_nat_def by (intro ext) (simp add: rbind_def split: sum.splits)

lemma run_steps_snoc: "run_steps step (Suc n) s = rbind (run_steps step n s) step"
  using run_steps_add [of step n 1 s] unfolding run_steps_one by (simp only: Suc_eq_plus1)

text \<open>
  The contract of such a machine: an invariant every step keeps, and a set of failures
  that can happen from a state where it holds.
\<close>

locale machine =
  fixes step :: "'s \<Rightarrow> 'e + 's"
    and inv :: "'s \<Rightarrow> bool"
    and may_fail :: "'e \<Rightarrow> bool"
  assumes step_inv: "inv s \<Longrightarrow> step s = Inr t \<Longrightarrow> inv t"
    and step_fail: "inv s \<Longrightarrow> step s = Inl e \<Longrightarrow> may_fail e"
begin

lemma run_inv: "inv s \<Longrightarrow> run_steps step n s = Inr t \<Longrightarrow> inv t"
  by (induction n arbitrary: s) (auto intro: step_inv)

lemma run_fail: "inv s \<Longrightarrow> run_steps step n s = Inl e \<Longrightarrow> may_fail e"
  by (induction n arbitrary: s) (auto intro: step_inv step_fail)

text \<open>A run that fails has a last good state, which satisfies the invariant.\<close>

lemma run_fail_last:
  assumes "inv s" and "run_steps step n s = Inl e"
  shows "\<exists>m t. m < n \<and> run_steps step m s = Inr t \<and> inv t \<and> step t = Inl e"
  using assms
proof (induction n arbitrary: s)
  case 0
  then show ?case by simp
next
  case (Suc n)
  show ?case
  proof (cases "step s")
    case (Inl a)
    with Suc.prems show ?thesis by (intro exI [of _ 0] exI [of _ s]) simp
  next
    case (Inr s')
    with Suc.prems have "inv s'" "run_steps step n s' = Inl e"
      by (auto intro: step_inv)
    then obtain m t where "m < n" "run_steps step m s' = Inr t" "inv t" "step t = Inl e"
      using Suc.IH by blast
    with Inr show ?thesis by (intro exI [of _ "Suc m"] exI [of _ t]) simp
  qed
qed

end

end
