(* ===== verification/Sim_Cpu.thy ===== *)
theory Sim_Cpu
  imports Xtc_Prelude
begin

text \<open>
  The state of the instruction-set simulator and its byte-level accessors:
  \<^verbatim>\<open>softsim/cpu.h\<close>, \<^verbatim>\<open>softsim/cpu.c\<close>, \<^verbatim>\<open>softsim/opcodes.h\<close>.
  Memory is the allocated block, a list of bytes; an access outside of it is the error
  \<open>OutOfBounds\<close>.  The text the simulator writes to its trace file is not modelled; the
  characters it prints for the program (the UART) are the field \<open>uart_out\<close>.
\<close>

subsection \<open>Data\<close>

type_synonym cpu_pointer_t = u32
type_synonym cpu_word_t = u32
type_synonym inst_t = u16

datatype (plugins only: code size) opcode_type =
    OP_NOP | OP_ADD | OP_ADDC | OP_SUB | OP_SUBB | OP_AND | OP_OR | OP_COPY | OP_XOR
  | OP_SRA | OP_SRL | OP_SHL | OP_MUL | OP_CMP | OP_ADDI | OP_IMM | OP_LIMR | OP_CALLI
  | OP_RET | OP_STW | OP_STS | OP_STB | OP_STSPR | OP_STWp | OP_STSp | OP_STBp | OP_STSPRp
  | OP_LDW | OP_LDS | OP_LDB | OP_LDSPR | OP_LDWp | OP_LDSp | OP_LDBp | OP_LDSPRp
  | OP_BRI | OP_BRIE | OP_BRINE | OP_BRILT | OP_BRILE | OP_BRIGT | OP_BRIGE | OP_BRIUGT
  | OP_BRIULT | OP_BRIUGE | OP_BRIULE | OP_CMPI

record opcode =
  opv :: opcode_type
  r1 :: u32
  r2 :: u32
  hasImmed :: u32
  immed :: u32
  op_word :: u32
  alu_op_immed :: u32

record xtc_cpu =
  memsize :: u32
  memory :: "u8 list"
  regs :: "cpu_word_t list"
  npc :: cpu_word_t
  spr :: "cpu_word_t list"
  zero :: u32
  carry :: u32
  sign :: u32
  imm :: u32
  imflag :: u32
  branchNext :: u32
  resetImmed :: u32
  uart_out :: "u8 list"

text \<open>
  Every way the simulator stops: the calls to \<^verbatim>\<open>abort\<close> and the undefined behaviour
  of an access outside an array (\<open>OutOfBounds\<close>), of an over-wide shift (\<open>BadShift\<close>) or of
  a call through a null pointer (\<open>NullHandler\<close>).
\<close>

datatype sim_error =
    UnknownOp u32 u32
  | UnhandledOp string u32 u32
  | AssertFailed
  | UnmappedAccess u32
  | InvalidIO u32
  | InvalidTable nat
  | OutOfBounds
  | BadShift
  | NullHandler

abbreviation NO_BRANCH :: u32 where
  "NO_BRANCH \<equiv> 0xFFFFFFFF"

subsection \<open>Byte accessors\<close>

definition xtc_read_mem_u32 :: "u8 list \<Rightarrow> nat \<Rightarrow> sim_error + u32" where
  "xtc_read_mem_u32 m a =
     rbind (arr_get OutOfBounds m a) (\<lambda>b0.
     rbind (arr_get OutOfBounds m (a + 1)) (\<lambda>b1.
     rbind (arr_get OutOfBounds m (a + 2)) (\<lambda>b2.
     rbind (arr_get OutOfBounds m (a + 3)) (\<lambda>b3.
       Inr (push_bit 24 (ucast b0) + push_bit 16 (ucast b1) + push_bit 8 (ucast b2) + ucast b3)))))"

definition xtc_read_mem_u16 :: "u8 list \<Rightarrow> nat \<Rightarrow> sim_error + u16" where
  "xtc_read_mem_u16 m a =
     rbind (arr_get OutOfBounds m a) (\<lambda>b0.
     rbind (arr_get OutOfBounds m (a + 1)) (\<lambda>b1.
       Inr (push_bit 8 (ucast b0) + ucast b1)))"

definition xtc_read_mem_u8 :: "u8 list \<Rightarrow> nat \<Rightarrow> sim_error + u8" where
  "xtc_read_mem_u8 m a = arr_get OutOfBounds m a"

definition xtc_store_mem_u32 :: "u8 list \<Rightarrow> nat \<Rightarrow> u32 \<Rightarrow> sim_error + u8 list" where
  "xtc_store_mem_u32 m a v =
     rbind (arr_put OutOfBounds m a (ucast (drop_bit 24 v))) (\<lambda>m.
     rbind (arr_put OutOfBounds m (a + 1) (ucast (drop_bit 16 v))) (\<lambda>m.
     rbind (arr_put OutOfBounds m (a + 2) (ucast (drop_bit 8 v))) (\<lambda>m.
       arr_put OutOfBounds m (a + 3) (ucast v))))"

definition xtc_store_mem_u16 :: "u8 list \<Rightarrow> nat \<Rightarrow> u16 \<Rightarrow> sim_error + u8 list" where
  "xtc_store_mem_u16 m a v =
     rbind (arr_put OutOfBounds m a (ucast (drop_bit 8 v))) (\<lambda>m.
       arr_put OutOfBounds m (a + 1) (ucast v))"

definition xtc_store_mem_u8 :: "u8 list \<Rightarrow> nat \<Rightarrow> u8 \<Rightarrow> sim_error + u8 list" where
  "xtc_store_mem_u8 m a v = arr_put OutOfBounds m a v"

lemmas byte_access_defs =
  xtc_read_mem_u32_def xtc_read_mem_u16_def xtc_read_mem_u8_def
  xtc_store_mem_u32_def xtc_store_mem_u16_def xtc_store_mem_u8_def

subsection \<open>Special registers and start-up\<close>

definition xtc_get_spr :: "xtc_cpu \<Rightarrow> u32 \<Rightarrow> cpu_word_t" where
  "xtc_get_spr cpu index = spr cpu ! unat (index AND 7)"

definition xtc_set_spr :: "xtc_cpu \<Rightarrow> u32 \<Rightarrow> cpu_word_t \<Rightarrow> xtc_cpu" where
  "xtc_set_spr cpu index value = cpu\<lparr>spr := (spr cpu)[unat (index AND 7) := value]\<rparr>"

text \<open>The named members of the union \<^verbatim>\<open>xtc_spr\<close>: \<open>pc\<close> is slot 0 and \<open>br\<close> slot 1.\<close>

definition spr_pc :: "xtc_cpu \<Rightarrow> cpu_word_t" where
  "spr_pc cpu = spr cpu ! 0"

definition spr_br :: "xtc_cpu \<Rightarrow> cpu_word_t" where
  "spr_br cpu = spr cpu ! 1"

definition set_spr_pc :: "cpu_word_t \<Rightarrow> xtc_cpu \<Rightarrow> xtc_cpu" where
  "set_spr_pc v cpu = cpu\<lparr>spr := (spr cpu)[0 := v]\<rparr>"

definition set_spr_br :: "cpu_word_t \<Rightarrow> xtc_cpu \<Rightarrow> xtc_cpu" where
  "set_spr_br v cpu = cpu\<lparr>spr := (spr cpu)[1 := v]\<rparr>"

definition IS_IO :: "u32 \<Rightarrow> bool" where
  "IS_IO x \<longleftrightarrow> x AND 0x80000000 \<noteq> 0"

text \<open>
  \<open>initialize fresh\<close>: \<open>fresh\<close> is the block \<^verbatim>\<open>malloc\<close> returned.  The flags,
  \<open>npc\<close> and \<open>resetImmed\<close> are not assigned and keep whatever it held.
\<close>

definition initialize :: "xtc_cpu \<Rightarrow> xtc_cpu" where
  "initialize fresh = fresh\<lparr>
     memsize := 16384,
     memory := replicate 16384 0,
     spr := replicate 8 0,
     imm := 0,
     imflag := 0,
     branchNext := NO_BRANCH,
     regs := replicate 32 0\<rparr>"

text \<open>One block \<^verbatim>\<open>malloc\<close> may return, and one uninitialised structure: all bytes zero.\<close>

definition zero_cpu :: xtc_cpu where
  "zero_cpu = \<lparr>memsize = 0, memory = [], regs = replicate 32 0, npc = 0, spr = replicate 8 0,
     zero = 0, carry = 0, sign = 0, imm = 0, imflag = 0, branchNext = 0, resetImmed = 0,
     uart_out = []\<rparr>"

definition zero_opcode :: opcode where
  "zero_opcode = \<lparr>opv = OP_NOP, r1 = 0, r2 = 0, hasImmed = 0, immed = 0, op_word = 0,
     alu_op_immed = 0\<rparr>"

definition get_reg :: "xtc_cpu \<Rightarrow> u32 \<Rightarrow> sim_error + cpu_word_t" where
  "get_reg cpu r = arr_get OutOfBounds (regs cpu) (unat r)"

definition set_reg :: "xtc_cpu \<Rightarrow> u32 \<Rightarrow> cpu_word_t \<Rightarrow> sim_error + xtc_cpu" where
  "set_reg cpu r v =
     rbind (arr_put OutOfBounds (regs cpu) (unat r) v) (\<lambda>rs. Inr (cpu\<lparr>regs := rs\<rparr>))"

subsection \<open>The type invariant\<close>

text \<open>
  The arrays have the sizes the declarations give them, the memory block has
  \<^verbatim>\<open>memsize\<close> bytes, and that size is a whole number of words.
\<close>

definition cpu_wf :: "xtc_cpu \<Rightarrow> bool" where
  "cpu_wf cpu \<longleftrightarrow>
     length (regs cpu) = 32 \<and> length (spr cpu) = 8 \<and>
     length (memory cpu) = unat (memsize cpu) \<and> unat (memsize cpu) mod 4 = 0"

lemma cpu_wf_initialize: "cpu_wf (initialize fresh)"
  by (simp add: cpu_wf_def initialize_def)

lemma spr_pc_set [simp]:
  "spr cpu \<noteq> [] \<Longrightarrow> spr_pc (set_spr_pc v cpu) = v"
  "spr_pc (set_spr_br v cpu) = spr_pc cpu"
  "spr_br (set_spr_pc v cpu) = spr_br cpu"
  "1 < length (spr cpu) \<Longrightarrow> spr_br (set_spr_br v cpu) = v"
  by (simp_all add: spr_pc_def spr_br_def set_spr_pc_def set_spr_br_def)

lemma cpu_wf_upd [simp]:
  "cpu_wf (set_spr_pc v cpu) = cpu_wf cpu"
  "cpu_wf (set_spr_br v cpu) = cpu_wf cpu"
  "cpu_wf (xtc_set_spr cpu i v) = cpu_wf cpu"
  "cpu_wf (cpu\<lparr>npc := v\<rparr>) = cpu_wf cpu"
  "cpu_wf (cpu\<lparr>branchNext := v\<rparr>) = cpu_wf cpu"
  "cpu_wf (cpu\<lparr>imm := v\<rparr>) = cpu_wf cpu"
  "cpu_wf (cpu\<lparr>imflag := v\<rparr>) = cpu_wf cpu"
  "cpu_wf (cpu\<lparr>zero := v\<rparr>) = cpu_wf cpu"
  "cpu_wf (cpu\<lparr>carry := v\<rparr>) = cpu_wf cpu"
  "cpu_wf (cpu\<lparr>sign := v\<rparr>) = cpu_wf cpu"
  "cpu_wf (cpu\<lparr>resetImmed := v\<rparr>) = cpu_wf cpu"
  "cpu_wf (cpu\<lparr>uart_out := out\<rparr>) = cpu_wf cpu"
  by (simp_all add: cpu_wf_def set_spr_pc_def set_spr_br_def xtc_set_spr_def)

lemma get_reg_eq [simp]:
  "get_reg cpu r = Inr v \<longleftrightarrow> unat r < length (regs cpu) \<and> regs cpu ! unat r = v"
  "get_reg cpu r = Inl e \<longleftrightarrow> \<not> unat r < length (regs cpu) \<and> e = OutOfBounds"
  by (auto simp: get_reg_def)

lemma set_reg_eq [simp]:
  "set_reg cpu r v = Inr cpu' \<longleftrightarrow>
     unat r < length (regs cpu) \<and> cpu' = cpu\<lparr>regs := (regs cpu)[unat r := v]\<rparr>"
  "set_reg cpu r v = Inl e \<longleftrightarrow> \<not> unat r < length (regs cpu) \<and> e = OutOfBounds"
  by (auto simp: set_reg_def)

lemma get_reg_in [simp]: "unat r < length (regs cpu) \<Longrightarrow> get_reg cpu r = Inr (regs cpu ! unat r)"
  by simp

lemma set_reg_in [simp]:
  "unat r < length (regs cpu) \<Longrightarrow>
     set_reg cpu r v = Inr (cpu\<lparr>regs := (regs cpu)[unat r := v]\<rparr>)"
  by simp

lemma cpu_wf_regs [simp]: "cpu_wf (cpu\<lparr>regs := (regs cpu)[i := v]\<rparr>) = cpu_wf cpu"
  by (simp add: cpu_wf_def)

subsection \<open>Big-endian round trips\<close>

lemma u32_of_bytes:
  fixes v :: u32
  shows "push_bit 24 (ucast (ucast (drop_bit 24 v) :: u8)) + push_bit 16 (ucast (ucast (drop_bit 16 v) :: u8))
       + push_bit 8 (ucast (ucast (drop_bit 8 v) :: u8)) + ucast (ucast v :: u8) = v"
proof -
  let ?a = "push_bit 24 (ucast (ucast (drop_bit 24 v) :: u8)) :: u32"
  let ?b = "push_bit 16 (ucast (ucast (drop_bit 16 v) :: u8)) :: u32"
  let ?c = "push_bit 8 (ucast (ucast (drop_bit 8 v) :: u8)) :: u32"
  let ?d = "ucast (ucast v :: u8) :: u32"
  have ab: "?a + ?b = ?a OR ?b"
    by (rule disjunctive_add) (auto simp: bit_simps)
  have abc: "?a + ?b + ?c = ?a OR ?b OR ?c"
    unfolding ab by (rule disjunctive_add [THEN trans]) (auto simp: bit_simps or.assoc)
  have "?a + ?b + ?c + ?d = ?a OR ?b OR ?c OR ?d"
    unfolding abc by (rule disjunctive_add [THEN trans]) (auto simp: bit_simps or.assoc)
  moreover have "?a OR ?b OR ?c OR ?d = v"
  proof (rule u32_eqI)
    fix n :: nat
    assume "n < 32"
    then consider "n < 8" | "8 \<le> n \<and> n < 16" | "16 \<le> n \<and> n < 24" | "24 \<le> n \<and> n < 32"
      by linarith
    then show "bit (?a OR ?b OR ?c OR ?d) n = bit v n"
      by cases (auto simp: bit_simps)
  qed
  ultimately show ?thesis by simp
qed

lemma u16_of_bytes:
  fixes v :: u16
  shows "push_bit 8 (ucast (ucast (drop_bit 8 v) :: u8)) + ucast (ucast v :: u8) = v"
proof -
  let ?a = "push_bit 8 (ucast (ucast (drop_bit 8 v) :: u8)) :: u16"
  let ?b = "ucast (ucast v :: u8) :: u16"
  have "?a + ?b = ?a OR ?b"
    by (rule disjunctive_add) (auto simp: bit_simps)
  also have "\<dots> = v"
    by (rule bit_word_eqI) (auto simp: bit_simps)
  finally show ?thesis .
qed

lemma store_mem_u32_in:
  "a + 3 < length m \<Longrightarrow>
     xtc_store_mem_u32 m a v =
       Inr (m[a := ucast (drop_bit 24 v), a + 1 := ucast (drop_bit 16 v),
              a + 2 := ucast (drop_bit 8 v), a + 3 := ucast v])"
  by (simp add: xtc_store_mem_u32_def)

lemma store_mem_u16_in:
  "a + 1 < length m \<Longrightarrow>
     xtc_store_mem_u16 m a v = Inr (m[a := ucast (drop_bit 8 v), a + 1 := ucast v])"
  by (simp add: xtc_store_mem_u16_def)

lemma read_mem_u32_in:
  "a + 3 < length m \<Longrightarrow>
     xtc_read_mem_u32 m a =
       Inr (push_bit 24 (ucast (m ! a)) + push_bit 16 (ucast (m ! (a + 1)))
            + push_bit 8 (ucast (m ! (a + 2))) + ucast (m ! (a + 3)))"
  by (simp add: xtc_read_mem_u32_def)

lemma read_mem_u16_in:
  "a + 1 < length m \<Longrightarrow>
     xtc_read_mem_u16 m a = Inr (push_bit 8 (ucast (m ! a)) + ucast (m ! (a + 1)))"
  by (simp add: xtc_read_mem_u16_def)

lemma store_mem_u32_eq:
  "xtc_store_mem_u32 m a v = Inr m' \<longleftrightarrow>
     a + 3 < length m \<and>
     m' = m[a := ucast (drop_bit 24 v), a + 1 := ucast (drop_bit 16 v),
            a + 2 := ucast (drop_bit 8 v), a + 3 := ucast v]"
  by (auto simp: xtc_store_mem_u32_def)

lemma store_mem_u16_eq:
  "xtc_store_mem_u16 m a v = Inr m' \<longleftrightarrow>
     a + 1 < length m \<and> m' = m[a := ucast (drop_bit 8 v), a + 1 := ucast v]"
  by (auto simp: xtc_store_mem_u16_def)

text \<open>Each pair of accessors is a big-endian cell of its width.\<close>

interpretation mem32: mem_cell xtc_read_mem_u32 xtc_store_mem_u32 4 length
proof
  fix m m' :: "u8 list" and a b :: nat and v :: u32
  show "a + 4 \<le> length m \<Longrightarrow> \<exists>v. xtc_read_mem_u32 m a = Inr v"
    by (simp add: read_mem_u32_in)
  show "a + 4 \<le> length m \<Longrightarrow> \<exists>m'. xtc_store_mem_u32 m a v = Inr m'"
    by (simp add: store_mem_u32_in)
  show "xtc_store_mem_u32 m a v = Inr m' \<Longrightarrow> length m' = length m"
    by (simp add: store_mem_u32_eq)
  show "xtc_store_mem_u32 m a v = Inr m' \<Longrightarrow> xtc_read_mem_u32 m' a = Inr v"
    by (auto simp: store_mem_u32_eq read_mem_u32_in u32_of_bytes)
  show "xtc_store_mem_u32 m a v = Inr m' \<Longrightarrow> b + 4 \<le> a \<or> a + 4 \<le> b \<Longrightarrow>
      xtc_read_mem_u32 m' b = xtc_read_mem_u32 m b"
    by (auto simp: store_mem_u32_eq xtc_read_mem_u32_def arr_get_def)
qed

interpretation mem16: mem_cell xtc_read_mem_u16 xtc_store_mem_u16 2 length
proof
  fix m m' :: "u8 list" and a b :: nat and v :: u16
  show "a + 2 \<le> length m \<Longrightarrow> \<exists>v. xtc_read_mem_u16 m a = Inr v"
    by (simp add: read_mem_u16_in)
  show "a + 2 \<le> length m \<Longrightarrow> \<exists>m'. xtc_store_mem_u16 m a v = Inr m'"
    by (simp add: store_mem_u16_in)
  show "xtc_store_mem_u16 m a v = Inr m' \<Longrightarrow> length m' = length m"
    by (simp add: store_mem_u16_eq)
  show "xtc_store_mem_u16 m a v = Inr m' \<Longrightarrow> xtc_read_mem_u16 m' a = Inr v"
    by (auto simp: store_mem_u16_eq read_mem_u16_in u16_of_bytes)
  show "xtc_store_mem_u16 m a v = Inr m' \<Longrightarrow> b + 2 \<le> a \<or> a + 2 \<le> b \<Longrightarrow>
      xtc_read_mem_u16 m' b = xtc_read_mem_u16 m b"
    by (auto simp: store_mem_u16_eq xtc_read_mem_u16_def arr_get_def)
qed

interpretation mem8: mem_cell xtc_read_mem_u8 xtc_store_mem_u8 1 length
  by unfold_locales
    (auto simp: xtc_read_mem_u8_def xtc_store_mem_u8_def arr_get_def arr_put_def split: if_splits)

end
