(* ===== verification/Sim_Memory.thy ===== *)
theory Sim_Memory
  imports Sim_Cpu
begin

text \<open>
  The simulator's memory system: \<^verbatim>\<open>softsim/memory.c\<close> and \<^verbatim>\<open>softsim/io.c\<close>.
  An address below \<^verbatim>\<open>memsize\<close> is RAM, an address with bit 31 set is I/O, and
  what lies between is unmapped.  The lemmas give the behaviour of every access and show
  that none of them leaves the memory block.
\<close>

subsection \<open>I/O\<close>

definition handle_store_io :: "cpu_pointer_t \<Rightarrow> cpu_word_t \<Rightarrow> u8 list \<Rightarrow> sim_error + u8 list" where
  "handle_store_io address value out =
     (if address AND 0x7FFFFFF0 = 0
      then if address AND 0xF = 0 then Inr (out @ [ucast (value AND 0xFF)]) else Inr out
      else Inl (InvalidIO address))"

definition handle_read_io :: "cpu_pointer_t \<Rightarrow> cpu_word_t" where
  "handle_read_io address = 0"

subsection \<open>Stores\<close>

definition handle_store_val :: "xtc_cpu \<Rightarrow> u32 \<Rightarrow> u32 \<Rightarrow> u32 \<Rightarrow> sim_error + xtc_cpu" where
  "handle_store_val cpu reg_addr val offset =
     rbind (get_reg cpu reg_addr) (\<lambda>base.
     let realaddr = base + offset in
     rbind (ensure (realaddr AND 3 = 0) AssertFailed) (\<lambda>_.
     let realaddr = realaddr AND NOT 3 in
     if realaddr < memsize cpu
     then rbind (xtc_store_mem_u32 (memory cpu) (unat realaddr) val) (\<lambda>m. Inr (cpu\<lparr>memory := m\<rparr>))
     else if IS_IO realaddr
     then rbind (handle_store_io realaddr val (uart_out cpu)) (\<lambda>out. Inr (cpu\<lparr>uart_out := out\<rparr>))
     else Inl (UnmappedAccess realaddr)))"

definition handle_store :: "xtc_cpu \<Rightarrow> u32 \<Rightarrow> u32 \<Rightarrow> u32 \<Rightarrow> sim_error + xtc_cpu" where
  "handle_store cpu reg_addr reg_val offset =
     rbind (get_reg cpu reg_val) (\<lambda>v. handle_store_val cpu reg_addr v offset)"

definition handle_store_short :: "xtc_cpu \<Rightarrow> u32 \<Rightarrow> u32 \<Rightarrow> u32 \<Rightarrow> sim_error + xtc_cpu" where
  "handle_store_short cpu reg_addr reg_val offset =
     rbind (get_reg cpu reg_addr) (\<lambda>base.
     let realaddr = base + offset in
     rbind (ensure (realaddr AND 1 = 0) AssertFailed) (\<lambda>_.
     let realaddr = realaddr AND NOT 1 in
     if realaddr < memsize cpu
     then rbind (get_reg cpu reg_val) (\<lambda>v.
          rbind (xtc_store_mem_u16 (memory cpu) (unat realaddr) (ucast v)) (\<lambda>m.
            Inr (cpu\<lparr>memory := m\<rparr>)))
     else if IS_IO realaddr then Inl (UnmappedAccess realaddr)
     else Inr cpu))"

definition handle_store_byte :: "xtc_cpu \<Rightarrow> u32 \<Rightarrow> u32 \<Rightarrow> u32 \<Rightarrow> sim_error + xtc_cpu" where
  "handle_store_byte cpu reg_addr reg_val offset =
     rbind (get_reg cpu reg_addr) (\<lambda>base.
     let realaddr = base + offset in
     if realaddr < memsize cpu
     then rbind (get_reg cpu reg_val) (\<lambda>v.
          rbind (xtc_store_mem_u8 (memory cpu) (unat realaddr) (ucast v)) (\<lambda>m.
            Inr (cpu\<lparr>memory := m\<rparr>)))
     else if IS_IO realaddr then Inl (UnmappedAccess realaddr)
     else Inr cpu)"

subsection \<open>Reads\<close>

definition handle_read :: "xtc_cpu \<Rightarrow> u32 \<Rightarrow> u32 \<Rightarrow> sim_error + cpu_word_t" where
  "handle_read cpu reg_addr offset =
     rbind (get_reg cpu reg_addr) (\<lambda>base.
     let realaddr = base + offset in
     rbind (ensure (realaddr AND 3 = 0) AssertFailed) (\<lambda>_.
     let realaddr = realaddr AND NOT 3 in
     if realaddr < memsize cpu then xtc_read_mem_u32 (memory cpu) (unat realaddr)
     else if IS_IO realaddr then Inr (handle_read_io realaddr)
     else Inl (UnmappedAccess realaddr)))"

definition handle_read_short :: "xtc_cpu \<Rightarrow> u32 \<Rightarrow> u32 \<Rightarrow> sim_error + cpu_word_t" where
  "handle_read_short cpu reg_addr offset =
     rbind (get_reg cpu reg_addr) (\<lambda>base.
     let realaddr = base + offset in
     rbind (ensure (realaddr AND 1 = 0) AssertFailed) (\<lambda>_.
     let realaddr = realaddr AND NOT 1 in
     if realaddr < memsize cpu
     then rbind (xtc_read_mem_u16 (memory cpu) (unat realaddr)) (\<lambda>v. Inr (ucast v))
     else if IS_IO realaddr then Inl (UnmappedAccess realaddr)
     else Inr 0))"

definition handle_read_byte :: "xtc_cpu \<Rightarrow> u32 \<Rightarrow> u32 \<Rightarrow> sim_error + cpu_word_t" where
  "handle_read_byte cpu reg_addr offset =
     rbind (get_reg cpu reg_addr) (\<lambda>base.
     let realaddr = base + offset in
     if realaddr < memsize cpu
     then rbind (xtc_read_mem_u8 (memory cpu) (unat realaddr)) (\<lambda>v. Inr (ucast v))
     else if IS_IO realaddr then Inl (UnmappedAccess realaddr)
     else Inr 0)"

lemmas mem_access_defs =
  handle_store_val_def handle_store_def handle_store_short_def handle_store_byte_def
  handle_read_def handle_read_short_def handle_read_byte_def

subsection \<open>Alignment keeps an access inside the block\<close>

lemma unat_take_bit_mod: "unat (take_bit n (w :: u32)) = unat w mod 2 ^ n"
  unfolding unsigned_take_bit_eq by (rule take_bit_eq_mod)

lemma aligned4: "(w :: u32) AND 3 = 0 \<longleftrightarrow> unat w mod 4 = 0"
proof -
  have "w AND 3 = take_bit 2 w"
    by (simp add: take_bit_eq_mask mask_eq_exp_minus_1)
  then have "unat (w AND 3) = unat w mod 4"
    using unat_take_bit_mod [of 2 w] by simp
  then show ?thesis
    by (metis unsigned_0 unat_eq_zero)
qed

lemma aligned2: "(w :: u32) AND 1 = 0 \<longleftrightarrow> unat w mod 2 = 0"
proof -
  have "w AND 1 = take_bit 1 w"
    unfolding take_bit_eq_mask by (simp add: mask_eq_exp_minus_1)
  then have "unat (w AND 1) = unat w mod 2"
    using unat_take_bit_mod [of 1 w] by (simp only: power_one_right)
  then show ?thesis
    by (metis unsigned_0 unat_eq_zero)
qed

lemma aligned_clear: "(w :: u32) AND m = 0 \<Longrightarrow> w AND NOT m = w"
  by (rule bit_word_eqI) (auto simp: bit_simps bit_eq_iff)

lemmas aligned_clears = aligned_clear [of _ 3, simplified] aligned_clear [of _ 1, simplified]

lemma aligned_below4:
  assumes "w AND 3 = (0 :: u32)" and "w < memsize cpu" and "cpu_wf cpu"
  shows "unat w + 3 < length (memory cpu)"
proof -
  from assms have "unat w mod 4 = 0" "unat w < unat (memsize cpu)"
      "unat (memsize cpu) mod 4 = 0" "length (memory cpu) = unat (memsize cpu)"
    by (simp_all add: aligned4 cpu_wf_def word_less_nat_alt)
  then show ?thesis by presburger
qed

lemma aligned_below2:
  assumes "w AND 1 = (0 :: u32)" and "w < memsize cpu" and "cpu_wf cpu"
  shows "unat w + 1 < length (memory cpu)"
proof -
  from assms have "unat w mod 2 = 0" "unat w < unat (memsize cpu)"
      "unat (memsize cpu) mod 4 = 0" "length (memory cpu) = unat (memsize cpu)"
    by (simp_all add: aligned2 cpu_wf_def word_less_nat_alt)
  then show ?thesis by presburger
qed

lemma below1: "w < memsize cpu \<Longrightarrow> cpu_wf cpu \<Longrightarrow> unat w < length (memory cpu)"
  by (simp add: cpu_wf_def word_less_nat_alt)

subsection \<open>What a store changes\<close>

text \<open>
  A store touches memory or the UART only, keeps the size of the block, and when it stops
  the simulator it is never because it left the block.
\<close>

definition mem_frame :: "xtc_cpu \<Rightarrow> xtc_cpu \<Rightarrow> bool" where
  "mem_frame cpu cpu' \<longleftrightarrow>
     cpu' = cpu\<lparr>memory := memory cpu', uart_out := uart_out cpu'\<rparr> \<and>
     length (memory cpu') = length (memory cpu)"

lemma mem_frame_refl [simp]: "mem_frame cpu cpu"
  by (simp add: mem_frame_def)

lemma mem_frame_wf: "mem_frame cpu cpu' \<Longrightarrow> cpu_wf cpu \<Longrightarrow> cpu_wf cpu'"
  unfolding mem_frame_def cpu_wf_def by (metis xtc_cpu.select_convs(1,3,5) xtc_cpu.surjective
      xtc_cpu.update_convs(2,13))

lemma store_val_frame:
  "handle_store_val cpu r v off = Inr cpu' \<Longrightarrow> mem_frame cpu cpu'"
  by (auto simp: handle_store_val_def mem_frame_def Let_def store_mem_u32_eq split: if_splits)

lemma store_frame: "handle_store cpu r rv off = Inr cpu' \<Longrightarrow> mem_frame cpu cpu'"
  by (auto simp: handle_store_def dest: store_val_frame)

lemma store_short_frame: "handle_store_short cpu r rv off = Inr cpu' \<Longrightarrow> mem_frame cpu cpu'"
  by (auto simp: handle_store_short_def mem_frame_def Let_def store_mem_u16_eq split: if_splits)

lemma store_byte_frame: "handle_store_byte cpu r rv off = Inr cpu' \<Longrightarrow> mem_frame cpu cpu'"
  by (auto simp: handle_store_byte_def mem_frame_def Let_def xtc_store_mem_u8_def split: if_splits)

lemmas store_frames = store_val_frame store_frame store_short_frame store_byte_frame

definition access_error :: "sim_error \<Rightarrow> bool" where
  "access_error e \<longleftrightarrow> e = AssertFailed \<or> (\<exists>a. e = UnmappedAccess a) \<or> (\<exists>a. e = InvalidIO a)"

lemma store_val_error:
  assumes "cpu_wf cpu" and "unat r < 32" and "handle_store_val cpu r v off = Inl e"
  shows "access_error e"
proof -
  let ?a = "regs cpu ! unat r + off"
  from assms(1,2) have r: "unat r < length (regs cpu)" by (simp add: cpu_wf_def)
  show ?thesis
  proof (cases "?a AND 3 = 0")
    case True
    note a = aligned_clear [OF True, simplified]
    show ?thesis
    proof (cases "?a < memsize cpu")
      case lt: True
      from aligned_below4 [OF True lt assms(1)] assms(3) r True lt a show ?thesis
        by (simp add: handle_store_val_def store_mem_u32_in Let_def)
    next
      case False
      with assms(3) r True a show ?thesis
        by (auto simp: handle_store_val_def access_error_def handle_store_io_def Let_def split: if_splits)
    qed
  next
    case False
    with assms(3) r show ?thesis
      by (simp add: handle_store_val_def access_error_def)
  qed
qed

lemma store_error:
  "cpu_wf cpu \<Longrightarrow> unat r < 32 \<Longrightarrow> unat rv < 32 \<Longrightarrow> handle_store cpu r rv off = Inl e \<Longrightarrow> access_error e"
  by (auto simp: handle_store_def cpu_wf_def intro: store_val_error [unfolded cpu_wf_def])

lemma store_short_error:
  assumes "cpu_wf cpu" and "unat r < 32" and "unat rv < 32"
    and "handle_store_short cpu r rv off = Inl e"
  shows "access_error e"
proof -
  let ?a = "regs cpu ! unat r + off"
  from assms(1-3) have r: "unat r < length (regs cpu)" "unat rv < length (regs cpu)"
    by (simp_all add: cpu_wf_def)
  show ?thesis
  proof (cases "?a AND 1 = 0 \<and> ?a < memsize cpu")
    case True
    then have "unat ?a + 1 < length (memory cpu)"
      using aligned_below2 assms(1) by blast
    with assms(4) r True show ?thesis
      by (auto simp: handle_store_short_def aligned_clears store_mem_u16_in Let_def)
  next
    case False
    with assms(4) r show ?thesis
      by (auto simp: handle_store_short_def access_error_def aligned_clears Let_def split: if_splits)
  qed
qed

lemma store_byte_error:
  "cpu_wf cpu \<Longrightarrow> unat r < 32 \<Longrightarrow> unat rv < 32 \<Longrightarrow> handle_store_byte cpu r rv off = Inl e
     \<Longrightarrow> access_error e"
  by (auto simp: handle_store_byte_def access_error_def cpu_wf_def xtc_store_mem_u8_def
      word_less_nat_alt Let_def split: if_splits)

subsection \<open>What a read returns\<close>

lemma read_error:
  assumes "cpu_wf cpu" and "unat r < 32" and "handle_read cpu r off = Inl e"
  shows "access_error e"
proof -
  let ?a = "regs cpu ! unat r + off"
  from assms(1,2) have r: "unat r < length (regs cpu)" by (simp add: cpu_wf_def)
  show ?thesis
  proof (cases "?a AND 3 = 0 \<and> ?a < memsize cpu")
    case True
    then have "unat ?a + 3 < length (memory cpu)"
      using aligned_below4 assms(1) by blast
    with assms(3) r True show ?thesis
      by (auto simp: handle_read_def aligned_clears read_mem_u32_in Let_def)
  next
    case False
    with assms(3) r show ?thesis
      by (auto simp: handle_read_def access_error_def aligned_clears Let_def split: if_splits)
  qed
qed

lemma read_short_error:
  assumes "cpu_wf cpu" and "unat r < 32" and "handle_read_short cpu r off = Inl e"
  shows "access_error e"
proof -
  let ?a = "regs cpu ! unat r + off"
  from assms(1,2) have r: "unat r < length (regs cpu)" by (simp add: cpu_wf_def)
  show ?thesis
  proof (cases "?a AND 1 = 0 \<and> ?a < memsize cpu")
    case True
    then have "unat ?a + 1 < length (memory cpu)"
      using aligned_below2 assms(1) by blast
    with assms(3) r True show ?thesis
      by (auto simp: handle_read_short_def aligned_clears read_mem_u16_in Let_def)
  next
    case False
    with assms(3) r show ?thesis
      by (auto simp: handle_read_short_def access_error_def aligned_clears Let_def split: if_splits)
  qed
qed

lemma read_byte_error:
  "cpu_wf cpu \<Longrightarrow> unat r < 32 \<Longrightarrow> handle_read_byte cpu r off = Inl e \<Longrightarrow> access_error e"
  by (auto simp: handle_read_byte_def access_error_def cpu_wf_def xtc_read_mem_u8_def
      word_less_nat_alt Let_def split: if_splits)

lemmas mem_errors =
  store_val_error store_error store_short_error store_byte_error
  read_error read_short_error read_byte_error

end
