(* ===== verification/Sim_Ops.thy ===== *)
theory Sim_Ops
  imports Sim_Memory
begin

text \<open>
  The instruction handlers: \<^verbatim>\<open>softsim/alu_ops.c\<close>, \<^verbatim>\<open>softsim/reg_ops.c\<close>,
  \<^verbatim>\<open>softsim/cflow_ops.c\<close> and \<^verbatim>\<open>softsim/mem_ops.c\<close>.  Each handler takes the
  processor and the decoded instruction and returns the new processor or the reason the
  simulator stopped.
\<close>

subsection \<open>Helpers\<close>

definition UNHANDLED_OP :: "string \<Rightarrow> xtc_cpu \<Rightarrow> opcode \<Rightarrow> sim_error + xtc_cpu" where
  "UNHANDLED_OP name cpu opcode = Inl (UnhandledOp name (op_word opcode) (spr_pc cpu))"

text \<open>The operand an ALU instruction combines with a register: the extension immediate
  when the encoding says so, the register otherwise.\<close>

definition alu_operand :: "xtc_cpu \<Rightarrow> opcode \<Rightarrow> u32 \<Rightarrow> sim_error + u32" where
  "alu_operand cpu opcode r =
     (if alu_op_immed opcode \<noteq> 0 then Inr (immed opcode) else get_reg cpu r)"

text \<open>The branch every taken control-flow instruction makes: relative to \<open>npc\<close>.\<close>

definition take_branch :: "xtc_cpu \<Rightarrow> opcode \<Rightarrow> xtc_cpu" where
  "take_branch cpu opcode = cpu\<lparr>branchNext := npc cpu + immed opcode\<rparr>"

subsection \<open>ALU operations\<close>

definition alu_add :: "xtc_cpu \<Rightarrow> opcode \<Rightarrow> sim_error + xtc_cpu" where
  "alu_add cpu opcode =
     rbind (alu_operand cpu opcode (r1 opcode)) (\<lambda>operand.
     rbind (get_reg cpu (r2 opcode)) (\<lambda>b. set_reg cpu (r1 opcode) (b + operand)))"

definition alu_addc :: "xtc_cpu \<Rightarrow> opcode \<Rightarrow> sim_error + xtc_cpu" where
  "alu_addc cpu opcode = UNHANDLED_OP ''addc'' cpu opcode"

definition alu_sub :: "xtc_cpu \<Rightarrow> opcode \<Rightarrow> sim_error + xtc_cpu" where
  "alu_sub cpu opcode =
     rbind (alu_operand cpu opcode (r2 opcode)) (\<lambda>operand.
     rbind (get_reg cpu (r1 opcode)) (\<lambda>a.
     rbind (set_reg cpu (r1 opcode) (a - operand)) (\<lambda>cpu.
     rbind (get_reg cpu (r1 opcode)) (\<lambda>a.
     rbind (get_reg cpu (r2 opcode)) (\<lambda>b.
       Inr (cpu\<lparr>zero := of_bool (a = b), carry := of_bool (a > b)\<rparr>))))))"

definition alu_subb :: "xtc_cpu \<Rightarrow> opcode \<Rightarrow> sim_error + xtc_cpu" where
  "alu_subb cpu opcode = UNHANDLED_OP ''subb'' cpu opcode"

definition alu_and :: "xtc_cpu \<Rightarrow> opcode \<Rightarrow> sim_error + xtc_cpu" where
  "alu_and cpu opcode =
     rbind (alu_operand cpu opcode (r1 opcode)) (\<lambda>operand.
     rbind (get_reg cpu (r2 opcode)) (\<lambda>b.
     rbind (set_reg cpu (r1 opcode) (b AND operand)) (\<lambda>cpu.
     rbind (get_reg cpu (r1 opcode)) (\<lambda>a.
       Inr (cpu\<lparr>zero := of_bool (a = 0), carry := 0\<rparr>)))))"

definition alu_or :: "xtc_cpu \<Rightarrow> opcode \<Rightarrow> sim_error + xtc_cpu" where
  "alu_or cpu opcode =
     rbind (alu_operand cpu opcode (r1 opcode)) (\<lambda>operand.
     rbind (get_reg cpu (r2 opcode)) (\<lambda>b.
     rbind (set_reg cpu (r1 opcode) (b OR operand)) (\<lambda>cpu.
     rbind (get_reg cpu (r1 opcode)) (\<lambda>a.
       Inr (cpu\<lparr>zero := of_bool (a = 0), carry := 0\<rparr>)))))"

definition alu_copy :: "xtc_cpu \<Rightarrow> opcode \<Rightarrow> sim_error + xtc_cpu" where
  "alu_copy cpu opcode =
     rbind (get_reg cpu (r2 opcode)) (\<lambda>b. set_reg cpu (r1 opcode) b)"

definition alu_xor :: "xtc_cpu \<Rightarrow> opcode \<Rightarrow> sim_error + xtc_cpu" where
  "alu_xor cpu opcode =
     rbind (alu_operand cpu opcode (r1 opcode)) (\<lambda>operand.
     rbind (get_reg cpu (r2 opcode)) (\<lambda>b. set_reg cpu (r1 opcode) (b XOR operand)))"

definition alu_sra :: "xtc_cpu \<Rightarrow> opcode \<Rightarrow> sim_error + xtc_cpu" where
  "alu_sra cpu opcode =
     rbind (get_reg cpu (r1 opcode)) (\<lambda>a.
     rbind (get_reg cpu (r2 opcode)) (\<lambda>b.
     rbind (ensure (b < 32) BadShift) (\<lambda>_.
       set_reg cpu (r1 opcode) (signed_drop_bit (unat b) a))))"

definition alu_srl :: "xtc_cpu \<Rightarrow> opcode \<Rightarrow> sim_error + xtc_cpu" where
  "alu_srl cpu opcode =
     rbind (get_reg cpu (r1 opcode)) (\<lambda>a.
     rbind (get_reg cpu (r2 opcode)) (\<lambda>b.
     rbind (ensure (b < 32) BadShift) (\<lambda>_.
       set_reg cpu (r1 opcode) (drop_bit (unat b) a))))"

definition alu_shl :: "xtc_cpu \<Rightarrow> opcode \<Rightarrow> sim_error + xtc_cpu" where
  "alu_shl cpu opcode =
     rbind (get_reg cpu (r1 opcode)) (\<lambda>a.
     rbind (get_reg cpu (r2 opcode)) (\<lambda>b.
     rbind (ensure (b < 32) BadShift) (\<lambda>_.
       set_reg cpu (r1 opcode) (push_bit (unat b) a))))"

definition alu_mul :: "xtc_cpu \<Rightarrow> opcode \<Rightarrow> sim_error + xtc_cpu" where
  "alu_mul cpu opcode =
     rbind (get_reg cpu (r1 opcode)) (\<lambda>a.
     rbind (get_reg cpu (r2 opcode)) (\<lambda>b. set_reg cpu (r1 opcode) (a * b)))"

text \<open>The comparison flags are bits of the 64-bit difference.\<close>

definition set_cmp_flags :: "u64 \<Rightarrow> xtc_cpu \<Rightarrow> xtc_cpu" where
  "set_cmp_flags subr cpu = cpu\<lparr>
     zero := of_bool (subr = 0),
     carry := of_bool (subr AND 0x100000000 \<noteq> 0),
     sign := of_bool (subr AND 0x80000000 \<noteq> 0)\<rparr>"

definition alu_cmp :: "xtc_cpu \<Rightarrow> opcode \<Rightarrow> sim_error + xtc_cpu" where
  "alu_cmp cpu opcode =
     rbind (get_reg cpu (r1 opcode)) (\<lambda>a.
     rbind (get_reg cpu (r2 opcode)) (\<lambda>b.
       Inr (set_cmp_flags (ucast a - ucast b) cpu)))"

subsection \<open>Immediate operations\<close>

definition reg_addi :: "xtc_cpu \<Rightarrow> opcode \<Rightarrow> sim_error + xtc_cpu" where
  "reg_addi cpu opcode =
     rbind (get_reg cpu (r1 opcode)) (\<lambda>a. set_reg cpu (r1 opcode) (a + immed opcode))"

definition reg_imm :: "xtc_cpu \<Rightarrow> opcode \<Rightarrow> sim_error + xtc_cpu" where
  "reg_imm cpu opcode = Inr (cpu\<lparr>resetImmed := 0\<rparr>)"

definition reg_limr :: "xtc_cpu \<Rightarrow> opcode \<Rightarrow> sim_error + xtc_cpu" where
  "reg_limr cpu opcode = set_reg cpu (r1 opcode) (immed opcode)"

text \<open>Here the register is zero-extended to 64 bits and the immediate sign-extended.\<close>

definition reg_cmpi :: "xtc_cpu \<Rightarrow> opcode \<Rightarrow> sim_error + xtc_cpu" where
  "reg_cmpi cpu opcode =
     rbind (get_reg cpu (r1 opcode)) (\<lambda>a.
       Inr (set_cmp_flags (ucast a - scast (immed opcode)) cpu))"

subsection \<open>Control flow\<close>

definition cflow_calli :: "xtc_cpu \<Rightarrow> opcode \<Rightarrow> sim_error + xtc_cpu" where
  "cflow_calli cpu opcode = Inr (set_spr_br (npc cpu + 2) (take_branch cpu opcode))"

definition cflow_ret :: "xtc_cpu \<Rightarrow> opcode \<Rightarrow> sim_error + xtc_cpu" where
  "cflow_ret cpu opcode = Inr (cpu\<lparr>branchNext := spr_br cpu\<rparr>)"

definition cflow_bri :: "xtc_cpu \<Rightarrow> opcode \<Rightarrow> sim_error + xtc_cpu" where
  "cflow_bri cpu opcode = Inr (take_branch cpu opcode)"

definition cflow_brie :: "xtc_cpu \<Rightarrow> opcode \<Rightarrow> sim_error + xtc_cpu" where
  "cflow_brie cpu opcode = Inr (if zero cpu \<noteq> 0 then take_branch cpu opcode else cpu)"

definition cflow_brine :: "xtc_cpu \<Rightarrow> opcode \<Rightarrow> sim_error + xtc_cpu" where
  "cflow_brine cpu opcode = Inr (if zero cpu = 0 then take_branch cpu opcode else cpu)"

definition cflow_brilt :: "xtc_cpu \<Rightarrow> opcode \<Rightarrow> sim_error + xtc_cpu" where
  "cflow_brilt cpu opcode = Inr (if sign cpu \<noteq> 0 then take_branch cpu opcode else cpu)"

definition cflow_brile :: "xtc_cpu \<Rightarrow> opcode \<Rightarrow> sim_error + xtc_cpu" where
  "cflow_brile cpu opcode =
     Inr (if sign cpu \<noteq> 0 \<or> zero cpu \<noteq> 0 then take_branch cpu opcode else cpu)"

definition cflow_brigt :: "xtc_cpu \<Rightarrow> opcode \<Rightarrow> sim_error + xtc_cpu" where
  "cflow_brigt cpu opcode =
     Inr (if sign cpu = 0 \<and> zero cpu = 0 then take_branch cpu opcode else cpu)"

definition cflow_brige :: "xtc_cpu \<Rightarrow> opcode \<Rightarrow> sim_error + xtc_cpu" where
  "cflow_brige cpu opcode = Inr (if sign cpu = 0 then take_branch cpu opcode else cpu)"

definition cflow_briugt :: "xtc_cpu \<Rightarrow> opcode \<Rightarrow> sim_error + xtc_cpu" where
  "cflow_briugt cpu opcode = Inr (if carry cpu = 0 then take_branch cpu opcode else cpu)"

definition cflow_briuge :: "xtc_cpu \<Rightarrow> opcode \<Rightarrow> sim_error + xtc_cpu" where
  "cflow_briuge cpu opcode =
     Inr (if carry cpu = 0 \<or> zero cpu \<noteq> 0 then take_branch cpu opcode else cpu)"

definition cflow_briult :: "xtc_cpu \<Rightarrow> opcode \<Rightarrow> sim_error + xtc_cpu" where
  "cflow_briult cpu opcode = Inr (if carry cpu \<noteq> 0 then take_branch cpu opcode else cpu)"

definition cflow_briule :: "xtc_cpu \<Rightarrow> opcode \<Rightarrow> sim_error + xtc_cpu" where
  "cflow_briule cpu opcode =
     Inr (if carry cpu \<noteq> 0 \<or> zero cpu \<noteq> 0 then take_branch cpu opcode else cpu)"

subsection \<open>Loads and stores\<close>

definition mem_stw :: "xtc_cpu \<Rightarrow> opcode \<Rightarrow> sim_error + xtc_cpu" where
  "mem_stw cpu opcode = handle_store cpu (r1 opcode) (r2 opcode) (immed opcode)"

definition mem_sts :: "xtc_cpu \<Rightarrow> opcode \<Rightarrow> sim_error + xtc_cpu" where
  "mem_sts cpu opcode = handle_store_short cpu (r1 opcode) (r2 opcode) (immed opcode)"

definition mem_stb :: "xtc_cpu \<Rightarrow> opcode \<Rightarrow> sim_error + xtc_cpu" where
  "mem_stb cpu opcode = handle_store_byte cpu (r1 opcode) (r2 opcode) (immed opcode)"

definition mem_stspr :: "xtc_cpu \<Rightarrow> opcode \<Rightarrow> sim_error + xtc_cpu" where
  "mem_stspr cpu opcode =
     (let val = xtc_get_spr cpu (r2 opcode)
      in handle_store_val cpu (r1 opcode) val (immed opcode))"

definition mem_stwp :: "xtc_cpu \<Rightarrow> opcode \<Rightarrow> sim_error + xtc_cpu" where
  "mem_stwp cpu opcode = UNHANDLED_OP ''stwp'' cpu opcode"

definition mem_stsp :: "xtc_cpu \<Rightarrow> opcode \<Rightarrow> sim_error + xtc_cpu" where
  "mem_stsp cpu opcode = UNHANDLED_OP ''stsp'' cpu opcode"

definition mem_stbp :: "xtc_cpu \<Rightarrow> opcode \<Rightarrow> sim_error + xtc_cpu" where
  "mem_stbp cpu opcode = UNHANDLED_OP ''stbp'' cpu opcode"

definition mem_stsprp :: "xtc_cpu \<Rightarrow> opcode \<Rightarrow> sim_error + xtc_cpu" where
  "mem_stsprp cpu opcode = UNHANDLED_OP ''stsprp'' cpu opcode"

definition mem_ldw :: "xtc_cpu \<Rightarrow> opcode \<Rightarrow> sim_error + xtc_cpu" where
  "mem_ldw cpu opcode =
     rbind (handle_read cpu (r1 opcode) (immed opcode)) (\<lambda>v. set_reg cpu (r2 opcode) v)"

definition mem_ldwp :: "xtc_cpu \<Rightarrow> opcode \<Rightarrow> sim_error + xtc_cpu" where
  "mem_ldwp cpu opcode = UNHANDLED_OP ''ldwp'' cpu opcode"

definition mem_lds :: "xtc_cpu \<Rightarrow> opcode \<Rightarrow> sim_error + xtc_cpu" where
  "mem_lds cpu opcode =
     rbind (handle_read_short cpu (r1 opcode) (immed opcode)) (\<lambda>v. set_reg cpu (r2 opcode) v)"

definition mem_ldsp :: "xtc_cpu \<Rightarrow> opcode \<Rightarrow> sim_error + xtc_cpu" where
  "mem_ldsp cpu opcode = UNHANDLED_OP ''ldsp'' cpu opcode"

definition mem_ldb :: "xtc_cpu \<Rightarrow> opcode \<Rightarrow> sim_error + xtc_cpu" where
  "mem_ldb cpu opcode =
     rbind (handle_read_byte cpu (r1 opcode) (immed opcode)) (\<lambda>v. set_reg cpu (r2 opcode) v)"

definition mem_ldbp :: "xtc_cpu \<Rightarrow> opcode \<Rightarrow> sim_error + xtc_cpu" where
  "mem_ldbp cpu opcode =
     rbind (handle_read_byte cpu (r1 opcode) (immed opcode)) (\<lambda>v.
     rbind (set_reg cpu (r2 opcode) v) (\<lambda>cpu.
     rbind (get_reg cpu (r1 opcode)) (\<lambda>a. set_reg cpu (r1 opcode) (a + 1))))"

definition mem_ldspr :: "xtc_cpu \<Rightarrow> opcode \<Rightarrow> sim_error + xtc_cpu" where
  "mem_ldspr cpu opcode =
     rbind (handle_read cpu (r1 opcode) (immed opcode)) (\<lambda>val.
       Inr (xtc_set_spr cpu (r2 opcode) val))"

definition mem_ldsprp :: "xtc_cpu \<Rightarrow> opcode \<Rightarrow> sim_error + xtc_cpu" where
  "mem_ldsprp cpu opcode = UNHANDLED_OP ''ldsprp'' cpu opcode"

lemmas [sim_defs] =
  alu_operand_def take_branch_def set_cmp_flags_def UNHANDLED_OP_def
  alu_add_def alu_addc_def alu_sub_def alu_subb_def alu_and_def alu_or_def alu_copy_def
  alu_xor_def alu_sra_def alu_srl_def alu_shl_def alu_mul_def alu_cmp_def
  reg_addi_def reg_imm_def reg_limr_def reg_cmpi_def
  cflow_calli_def cflow_ret_def cflow_bri_def cflow_brie_def cflow_brine_def cflow_brilt_def
  cflow_brile_def cflow_brigt_def cflow_brige_def cflow_briugt_def cflow_briuge_def
  cflow_briult_def cflow_briule_def
  mem_stw_def mem_sts_def mem_stb_def mem_stspr_def mem_stwp_def mem_stsp_def mem_stbp_def
  mem_stsprp_def mem_ldw_def mem_ldwp_def mem_lds_def mem_ldsp_def mem_ldb_def mem_ldbp_def
  mem_ldspr_def mem_ldsprp_def

end
