(* ===== verification/Sim_Decode.thy ===== *)
theory Sim_Decode
  imports Sim_Cpu
begin

text \<open>
  The instruction decoder, \<^verbatim>\<open>softsim/decode.c\<close>.  The decoder fills a structure
  the caller left uninitialised, so the model takes that structure as an argument; fields
  the decoder does not assign keep the caller's value.  The lemmas say which words are
  rejected and that the assigned fields do not depend on what was there before.
\<close>

subsection \<open>Immediates\<close>

definition get_imm8 :: "xtc_cpu \<Rightarrow> u32 \<Rightarrow> u32" where
  "get_imm8 cpu op =
     (if imflag cpu \<noteq> 0 then push_bit 8 (imm cpu) OR (drop_bit 4 op AND 0xFF)
      else if op AND 0x800 \<noteq> 0 then 0xFFFFFF00 OR (drop_bit 4 op AND 0xFF)
      else drop_bit 4 op AND 0xFF)"

definition get_imm12 :: "xtc_cpu \<Rightarrow> u32 \<Rightarrow> u32" where
  "get_imm12 cpu op =
     (if imflag cpu \<noteq> 0 then push_bit 12 (imm cpu) OR (op AND 0xFFF)
      else if op AND 0x800 \<noteq> 0 then 0xFFFFF000 OR (op AND 0xFFF)
      else op AND 0xFFF)"

subsection \<open>The instruction groups\<close>

definition decode_alu :: "xtc_cpu \<Rightarrow> u32 \<Rightarrow> opcode \<Rightarrow> sim_error + opcode" where
  "decode_alu cpu op opcode =
     (let k = drop_bit 8 op AND 0xF in
      if k = 0x0 then Inr (opcode\<lparr>opv := OP_ADD\<rparr>)
      else if k = 0x1 then Inr (opcode\<lparr>opv := OP_ADDC\<rparr>)
      else if k = 0x2 then Inr (opcode\<lparr>opv := OP_SUB\<rparr>)
      else if k = 0x3 then Inr (opcode\<lparr>opv := OP_SUBB\<rparr>)
      else if k = 0x4 then Inr (opcode\<lparr>opv := OP_AND\<rparr>)
      else if k = 0x5 then Inr (opcode\<lparr>opv := OP_OR\<rparr>)
      else if k = 0x6 then Inr (opcode\<lparr>opv := OP_CMP\<rparr>)
      else if k = 0x7 then Inr (opcode\<lparr>opv := OP_XOR\<rparr>)
      else if k = 0x8 \<or> k = 0xC then Inr (opcode\<lparr>opv := OP_SHL\<rparr>)
      else if k = 0x9 \<or> k = 0xD then Inr (opcode\<lparr>opv := OP_SRL\<rparr>)
      else if k = 0xA \<or> k = 0xE then Inr (opcode\<lparr>opv := OP_SRA\<rparr>)
      else if k = 0xB \<or> k = 0xF then Inr (opcode\<lparr>opv := OP_MUL\<rparr>)
      else Inl (UnknownOp op (spr_pc cpu)))"

definition decode_store :: "xtc_cpu \<Rightarrow> u32 \<Rightarrow> opcode \<Rightarrow> sim_error + opcode" where
  "decode_store cpu op opcode =
     (let k = drop_bit 8 op AND 0x7 in
      if k = 0 then Inr (opcode\<lparr>opv := OP_STW, immed := imm cpu\<rparr>)
      else if k = 1 then Inr (opcode\<lparr>opv := OP_STS, immed := imm cpu\<rparr>)
      else if k = 2 then Inr (opcode\<lparr>opv := OP_STB, immed := imm cpu\<rparr>)
      else if k = 3 then Inr (opcode\<lparr>opv := OP_STSPR, immed := imm cpu\<rparr>)
      else if k = 4 then Inr (opcode\<lparr>opv := OP_STWp, immed := imm cpu\<rparr>)
      else if k = 5 then Inr (opcode\<lparr>opv := OP_STSp, immed := imm cpu\<rparr>)
      else if k = 6 then Inr (opcode\<lparr>opv := OP_STBp, immed := imm cpu\<rparr>)
      else if k = 7 then Inr (opcode\<lparr>opv := OP_STSPRp, immed := imm cpu\<rparr>)
      else Inl (UnknownOp op (spr_pc cpu)))"

definition decode_load :: "xtc_cpu \<Rightarrow> u32 \<Rightarrow> opcode \<Rightarrow> sim_error + opcode" where
  "decode_load cpu op opcode =
     (let opcode = opcode\<lparr>immed := imm cpu\<rparr>; k = drop_bit 8 op AND 0x7 in
      if k = 0 then Inr (opcode\<lparr>opv := OP_LDW\<rparr>)
      else if k = 1 then Inr (opcode\<lparr>opv := OP_LDS\<rparr>)
      else if k = 2 then Inr (opcode\<lparr>opv := OP_LDB\<rparr>)
      else if k = 3 then Inr (opcode\<lparr>opv := OP_LDSPR\<rparr>)
      else if k = 4 then Inr (opcode\<lparr>opv := OP_LDWp\<rparr>)
      else if k = 5 then Inr (opcode\<lparr>opv := OP_LDSp\<rparr>)
      else if k = 6 then Inr (opcode\<lparr>opv := OP_LDBp\<rparr>)
      else if k = 7 then Inr (opcode\<lparr>opv := OP_LDSPRp\<rparr>)
      else Inl (UnknownOp op (spr_pc cpu)))"

definition decode_branch :: "xtc_cpu \<Rightarrow> u32 \<Rightarrow> opcode \<Rightarrow> sim_error + opcode" where
  "decode_branch cpu op opcode =
     (let opcode = opcode\<lparr>immed := get_imm8 cpu op\<rparr>; k = op AND 0xF in
      if k = 0x0 then Inr (opcode\<lparr>opv := OP_BRI\<rparr>)
      else if k = 0x8 then Inr (opcode\<lparr>opv := OP_BRIE\<rparr>)
      else if k = 0x9 then Inr (opcode\<lparr>opv := OP_BRINE\<rparr>)
      else if k = 0xA then Inr (opcode\<lparr>opv := OP_BRIGT\<rparr>)
      else if k = 0xB then Inr (opcode\<lparr>opv := OP_BRIGE\<rparr>)
      else if k = 0xC then Inr (opcode\<lparr>opv := OP_BRILT\<rparr>)
      else if k = 0xD then Inr (opcode\<lparr>opv := OP_BRILE\<rparr>)
      else if k = 0xE then Inr (opcode\<lparr>opv := OP_BRIUGT\<rparr>)
      else if k = 0xF then Inr (opcode\<lparr>opv := OP_BRIUGE\<rparr>)
      else if k = 0x1 then Inr (opcode\<lparr>opv := OP_BRIULT\<rparr>)
      else if k = 0x2 then Inr (opcode\<lparr>opv := OP_BRIULE\<rparr>)
      else Inl (UnknownOp op (spr_pc cpu)))"

subsection \<open>The decoder\<close>

definition decode_fields :: "u32 \<Rightarrow> opcode \<Rightarrow> opcode" where
  "decode_fields op opcode = opcode\<lparr>
     op_word := op,
     r1 := op AND 0xF,
     r2 := drop_bit 4 op AND 0xF,
     hasImmed := 0,
     alu_op_immed := 0\<rparr>"

definition decode_single_opcode :: "xtc_cpu \<Rightarrow> u32 \<Rightarrow> opcode \<Rightarrow> sim_error + opcode" where
  "decode_single_opcode cpu op opcode =
     (let opcode = decode_fields op opcode; k = drop_bit 12 op in
      if k = 0x0 then Inr (opcode\<lparr>opv := OP_NOP\<rparr>)
      else if k = 0x5 then decode_alu cpu op (opcode\<lparr>immed := imm cpu, alu_op_immed := 1\<rparr>)
      else if k = 0x1 then decode_alu cpu op opcode
      else if k = 0x2 then decode_store cpu op opcode
      else if k = 0x3 then Inl (UnknownOp op (spr_pc cpu))
      else if k = 0x4 then decode_load cpu op opcode
      else if k = 0x6 then Inr (opcode\<lparr>opv := OP_ADDI, immed := get_imm8 cpu op\<rparr>)
      else if k = 0x7 then Inr (opcode\<lparr>opv := OP_CMPI, immed := get_imm8 cpu op\<rparr>)
      else if k = 0x8 then Inr (opcode\<lparr>opv := OP_IMM, immed := get_imm12 cpu op\<rparr>)
      else if k = 0x9 then Inr (opcode\<lparr>immed := get_imm8 cpu op, opv := OP_BRI\<rparr>)
      else if k = 0xA then decode_branch cpu op opcode
      else if k = 0xB \<or> k = 0xC then Inl (UnknownOp op (spr_pc cpu))
      else if k = 0xD then Inr (opcode\<lparr>immed := get_imm8 cpu op, opv := OP_CALLI\<rparr>)
      else if k = 0xE then Inr (opcode\<lparr>opv := OP_LIMR, immed := get_imm8 cpu op\<rparr>)
      else if k = 0xF then Inr (opcode\<lparr>opv := OP_RET\<rparr>)
      else Inl (UnknownOp op (spr_pc cpu)))"

lemmas decode_defs =
  decode_single_opcode_def decode_alu_def decode_store_def decode_load_def decode_branch_def
  decode_fields_def

subsection \<open>What the groups decode to\<close>

definition opcode_ok :: "opcode \<Rightarrow> bool" where
  "opcode_ok opcode \<longleftrightarrow> unat (r1 opcode) < 16 \<and> unat (r2 opcode) < 16"

definition alu_opv :: "opcode_type \<Rightarrow> bool" where
  "alu_opv v \<longleftrightarrow> v \<in> {OP_ADD, OP_ADDC, OP_SUB, OP_SUBB, OP_AND, OP_OR, OP_CMP, OP_XOR,
     OP_SHL, OP_SRL, OP_SRA, OP_MUL}"

text \<open>The instructions whose handlers never look at the immediate.\<close>

definition no_immed :: "opcode \<Rightarrow> bool" where
  "no_immed opcode \<longleftrightarrow>
     opv opcode \<in> {OP_NOP, OP_RET} \<or> alu_opv (opv opcode) \<and> alu_op_immed opcode = 0"

text \<open>The inner switches are look-ups in a table.\<close>

definition alu_table :: "opcode_type list" where
  "alu_table = [OP_ADD, OP_ADDC, OP_SUB, OP_SUBB, OP_AND, OP_OR, OP_CMP, OP_XOR,
     OP_SHL, OP_SRL, OP_SRA, OP_MUL, OP_SHL, OP_SRL, OP_SRA, OP_MUL]"

definition store_table :: "opcode_type list" where
  "store_table = [OP_STW, OP_STS, OP_STB, OP_STSPR, OP_STWp, OP_STSp, OP_STBp, OP_STSPRp]"

definition load_table :: "opcode_type list" where
  "load_table = [OP_LDW, OP_LDS, OP_LDB, OP_LDSPR, OP_LDWp, OP_LDSp, OP_LDBp, OP_LDSPRp]"

definition branch_table :: "opcode_type option list" where
  "branch_table = [Some OP_BRI, Some OP_BRIULT, Some OP_BRIULE, None, None, None, None, None,
     Some OP_BRIE, Some OP_BRINE, Some OP_BRIGT, Some OP_BRIGE, Some OP_BRILT, Some OP_BRILE,
     Some OP_BRIUGT, Some OP_BRIUGE]"

lemma alu_by_table:
  "decode_alu cpu op opcode = Inr (opcode\<lparr>opv := alu_table ! unat (drop_bit 8 op AND 0xF)\<rparr>)"
  using nibble_cases [of "drop_bit 8 op"]
  by (simp, elim disjE) (simp_all add: decode_alu_def alu_table_def)

lemma store_by_table:
  "decode_store cpu op opcode =
     Inr (opcode\<lparr>opv := store_table ! unat (drop_bit 8 op AND 0x7), immed := imm cpu\<rparr>)"
  using octal_cases [of "drop_bit 8 op"]
  by (simp, elim disjE) (simp_all add: decode_store_def store_table_def)

lemma load_by_table:
  "decode_load cpu op opcode =
     Inr (opcode\<lparr>immed := imm cpu, opv := load_table ! unat (drop_bit 8 op AND 0x7)\<rparr>)"
  using octal_cases [of "drop_bit 8 op"]
  by (simp, elim disjE) (simp_all add: decode_load_def load_table_def)

lemma branch_by_table:
  "decode_branch cpu op opcode =
     (case branch_table ! unat (op AND 0xF) of
        None \<Rightarrow> Inl (UnknownOp op (spr_pc cpu))
      | Some v \<Rightarrow> Inr (opcode\<lparr>immed := get_imm8 cpu op, opv := v\<rparr>))"
  using nibble_cases [of op]
  by (simp, elim disjE) (simp_all add: decode_branch_def branch_table_def)

lemma branch_table_None: "branch_table ! unat (op AND 0xF) = None \<longleftrightarrow> op AND 0xF \<in> {3, 4, 5, 6, 7}"
  for op :: u32
  using nibble_cases [of op]
  by (simp, elim disjE) (simp_all add: branch_table_def)

lemma alu_table_opv: "alu_opv (alu_table ! unat (op AND 0xF))" for op :: u32
  using nibble_cases [of op]
  by (simp, elim disjE) (simp_all add: alu_table_def alu_opv_def)

lemmas by_table = alu_by_table store_by_table load_by_table branch_by_table

subsection \<open>What a word decodes to\<close>

lemma fields_ok: "opcode_ok (decode_fields op opcode)"
  by (simp add: opcode_ok_def decode_fields_def unat_take_bit_lts)

lemma opcode_ok_upd [simp]:
  "opcode_ok (opcode\<lparr>opv := v\<rparr>) = opcode_ok opcode"
  "opcode_ok (opcode\<lparr>immed := i\<rparr>) = opcode_ok opcode"
  "opcode_ok (opcode\<lparr>alu_op_immed := i\<rparr>) = opcode_ok opcode"
  by (simp_all add: opcode_ok_def)

text \<open>Register numbers fit the register file, whatever the word.\<close>

lemma decode_ok: "decode_single_opcode cpu op junk = Inr opcode \<Longrightarrow> opcode_ok opcode"
  unfolding decode_single_opcode_def Let_def by_table
  by (auto simp: fields_ok split: if_splits option.splits)

text \<open>The words the decoder takes for instructions.\<close>

definition valid_inst :: "u32 \<Rightarrow> bool" where
  "valid_inst op \<longleftrightarrow>
     drop_bit 12 op \<notin> {0x3, 0xB, 0xC} \<and> \<not> (drop_bit 12 op = 0xA \<and> op AND 0xF \<in> {3, 4, 5, 6, 7})"

lemma decode_error:
  "decode_single_opcode cpu op junk = Inl e \<Longrightarrow> e = UnknownOp op (spr_pc cpu)"
  unfolding decode_single_opcode_def Let_def by_table
  by (auto split: if_splits option.splits)

lemma decode_succeeds:
  "(\<exists>opcode. decode_single_opcode cpu (ucast (w :: inst_t)) junk = Inr opcode) \<longleftrightarrow>
     valid_inst (ucast w)"
  using top_nibble_cases [of w] branch_table_None [of "ucast w"]
  unfolding insert_iff empty_iff decode_single_opcode_def Let_def by_table valid_inst_def
  by (elim disjE) (auto simp del: and_15 split: option.splits)

text \<open>Two decodings of one word differ at most in an immediate nobody reads.\<close>

lemma decode_junk:
  assumes "decode_single_opcode cpu op junk = Inr o1" and "decode_single_opcode cpu op junk' = Inr o2"
  shows "o2 = o1\<lparr>immed := immed o2\<rparr> \<and> (immed o2 = immed o1 \<or> no_immed o1)"
  using assms alu_table_opv [of "drop_bit 8 op"]
  unfolding decode_single_opcode_def Let_def by_table
  by (auto simp: no_immed_def decode_fields_def split: if_splits option.splits)

end
