(* ===== verification/Sim_Executor.thy ===== *)
theory Sim_Executor
  imports Sim_Ops Sim_Decode
begin

text \<open>
  The simulator's executor, \<^verbatim>\<open>softsim/executor.c\<close>, and its driver,
  \<^verbatim>\<open>softsim/softsim.c\<close>: the table of handlers and its start-up check, the
  instruction cycle with its delay slot and its immediate extension, the fetch loop, and
  the older switch-based executor that is still in the file.  The loop never ends in the
  source; the model runs it for a given number of instructions.
\<close>

subsection \<open>The handler table\<close>

type_synonym inst_handler_t = "xtc_cpu \<Rightarrow> opcode \<Rightarrow> sim_error + xtc_cpu"

record inst_handling =
  ih_opcode :: opcode_type
  ih_opcode_name :: string
  ih_handler :: "inst_handler_t option"

text \<open>The value of an enumerator: its position in the declaration.\<close>

definition opcode_enum :: "opcode_type list" where
  "opcode_enum =
    [OP_NOP, OP_ADD, OP_ADDC, OP_SUB, OP_SUBB, OP_AND, OP_OR, OP_COPY, OP_XOR,
     OP_SRA, OP_SRL, OP_SHL, OP_MUL, OP_CMP, OP_ADDI, OP_IMM, OP_LIMR, OP_CALLI,
     OP_RET, OP_STW, OP_STS, OP_STB, OP_STSPR, OP_STWp, OP_STSp, OP_STBp, OP_STSPRp,
     OP_LDW, OP_LDS, OP_LDB, OP_LDSPR, OP_LDWp, OP_LDSp, OP_LDBp, OP_LDSPRp,
     OP_BRI, OP_BRIE, OP_BRINE, OP_BRILT, OP_BRILE, OP_BRIGT, OP_BRIGE, OP_BRIUGT,
     OP_BRIULT, OP_BRIUGE, OP_BRIULE, OP_CMPI]"

definition MAX_OPCODES :: nat where
  "MAX_OPCODES = length opcode_enum"

definition enum_val :: "opcode_type \<Rightarrow> nat" where
  "enum_val v = the (first_index ((=) v) opcode_enum)"

definition opc_handling :: "inst_handling list" where
  "opc_handling = map (\<lambda>(v, name, h). \<lparr>ih_opcode = v, ih_opcode_name = name, ih_handler = h\<rparr>)
    [(OP_NOP,    ''nop'',    None),
     (OP_ADD,    ''add'',    Some alu_add),
     (OP_ADDC,   ''addc'',   Some alu_addc),
     (OP_SUB,    ''sub'',    Some alu_sub),
     (OP_SUBB,   ''subb'',   Some alu_subb),
     (OP_AND,    ''and'',    Some alu_and),
     (OP_OR,     ''or'',     Some alu_or),
     (OP_COPY,   ''copy'',   Some alu_copy),
     (OP_XOR,    ''xor'',    Some alu_xor),
     (OP_SRA,    ''sra'',    Some alu_sra),
     (OP_SRL,    ''srl'',    Some alu_srl),
     (OP_SHL,    ''shl'',    Some alu_shl),
     (OP_MUL,    ''mul'',    Some alu_mul),
     (OP_CMP,    ''cmp'',    Some alu_cmp),
     (OP_ADDI,   ''addi'',   Some reg_addi),
     (OP_IMM,    ''imm'',    Some reg_imm),
     (OP_LIMR,   ''limr'',   Some reg_limr),
     (OP_CALLI,  ''calli'',  Some cflow_calli),
     (OP_RET,    ''ret'',    Some cflow_ret),
     (OP_STW,    ''stw'',    Some mem_stw),
     (OP_STS,    ''sts'',    Some mem_sts),
     (OP_STB,    ''stb'',    Some mem_stb),
     (OP_STSPR,  ''stspr'',  Some mem_stspr),
     (OP_STWp,   ''stw+'',   Some mem_stwp),
     (OP_STSp,   ''sts+'',   Some mem_stsp),
     (OP_STBp,   ''stb+'',   Some mem_stbp),
     (OP_STSPRp, ''stspr+'', Some mem_stsprp),
     (OP_LDW,    ''ldw'',    Some mem_ldw),
     (OP_LDS,    ''lds'',    Some mem_lds),
     (OP_LDB,    ''ldb'',    Some mem_ldb),
     (OP_LDSPR,  ''ldspr'',  Some mem_ldspr),
     (OP_LDWp,   ''ldw+'',   Some mem_ldwp),
     (OP_LDSp,   ''lds+'',   Some mem_ldsp),
     (OP_LDBp,   ''ldb+'',   Some mem_ldbp),
     (OP_LDSPRp, ''ldspr+'', Some mem_ldsprp),
     (OP_BRI,    ''bri'',    Some cflow_bri),
     (OP_BRIE,   ''brieq'',  Some cflow_brie),
     (OP_BRINE,  ''brine'',  Some cflow_brine),
     (OP_BRILT,  ''brilt'',  Some cflow_brilt),
     (OP_BRILE,  ''brile'',  Some cflow_brile),
     (OP_BRIGT,  ''brigt'',  Some cflow_brigt),
     (OP_BRIGE,  ''brige'',  Some cflow_brige),
     (OP_BRIUGT, ''briugt'', Some cflow_briugt),
     (OP_BRIULT, ''briult'', Some cflow_briult),
     (OP_BRIUGE, ''briuge'', Some cflow_briuge),
     (OP_BRIULE, ''briule'', Some cflow_briule),
     (OP_CMPI,   ''cmpi'',   Some reg_cmpi)]"

fun validate_from :: "nat \<Rightarrow> inst_handling list \<Rightarrow> sim_error + unit" where
  "validate_from i [] = Inr ()"
| "validate_from i (e # es) =
     (if enum_val (ih_opcode e) \<noteq> i then Inl (InvalidTable i) else validate_from (Suc i) es)"

definition validateOpcodes :: "sim_error + unit" where
  "validateOpcodes = validate_from 0 opc_handling"

definition printOpcode :: "opcode \<Rightarrow> string" where
  "printOpcode opcode = ih_opcode_name (opc_handling ! enum_val (opv opcode))"

text \<open>The call through the table, for every opcode but \<open>OP_NOP\<close>.\<close>

definition dispatch :: "xtc_cpu \<Rightarrow> opcode \<Rightarrow> sim_error + xtc_cpu" where
  "dispatch cpu opcode =
     (let v = enum_val (opv opcode) in
      if v = enum_val OP_NOP then Inr cpu
      else if enum_val OP_NOP < v \<and> v \<le> enum_val OP_CMPI
      then (case ih_handler (opc_handling ! v) of
              None \<Rightarrow> Inl NullHandler
            | Some handler \<Rightarrow> handler cpu opcode)
      else Inl (UnknownOp (op_word opcode) (spr_pc cpu)))"

subsection \<open>The instruction cycle\<close>

definition delay_slot :: "xtc_cpu \<Rightarrow> xtc_cpu" where
  "delay_slot cpu = cpu\<lparr>
     npc := (if branchNext cpu \<noteq> NO_BRANCH then branchNext cpu else spr_pc cpu + 2),
     branchNext := NO_BRANCH,
     resetImmed := 1\<rparr>"

definition finish_opcode :: "opcode \<Rightarrow> xtc_cpu \<Rightarrow> xtc_cpu" where
  "finish_opcode opcode cpu =
     set_spr_pc (npc cpu)
       (if resetImmed cpu \<noteq> 0 then cpu\<lparr>imm := 0, imflag := 0\<rparr>
        else cpu\<lparr>imm := immed opcode, imflag := 1\<rparr>)"

definition execute_single_opcode_fjp :: "xtc_cpu \<Rightarrow> opcode \<Rightarrow> sim_error + xtc_cpu" where
  "execute_single_opcode_fjp cpu opcode =
     rbind (dispatch (delay_slot cpu) opcode) (\<lambda>cpu. Inr (finish_opcode opcode cpu))"

subsection \<open>The fetch loop\<close>

definition fetch :: "xtc_cpu \<Rightarrow> sim_error + inst_t" where
  "fetch cpu =
     rbind (arr_get OutOfBounds (memory cpu) (unat (spr_pc cpu))) (\<lambda>hi.
     rbind (arr_get OutOfBounds (memory cpu) (unat (spr_pc cpu + 1))) (\<lambda>lo.
       Inr (push_bit 8 (ucast hi) OR ucast lo)))"

text \<open>One turn of the loop; \<open>junk\<close> is the uninitialised \<^verbatim>\<open>opcode\<close> of its body.\<close>

definition sim_step :: "opcode \<Rightarrow> xtc_cpu \<Rightarrow> sim_error + xtc_cpu" where
  "sim_step junk cpu =
     rbind (fetch cpu) (\<lambda>inst.
     rbind (decode_single_opcode cpu (ucast inst) junk) (\<lambda>opcode.
       execute_single_opcode_fjp cpu opcode))"

datatype exec_result = Returned int | Running xtc_cpu

definition execute :: "bool \<Rightarrow> opcode \<Rightarrow> nat \<Rightarrow> xtc_cpu \<Rightarrow> sim_error + exec_result" where
  "execute trace_opened junk n cpu =
     rbind validateOpcodes (\<lambda>_.
     if \<not> trace_opened then Inr (Returned (- 1))
     else rbind (run_steps (sim_step junk) n cpu) (\<lambda>cpu. Inr (Running cpu)))"

subsection \<open>The driver\<close>

text \<open>
  What the operating system gives: no file, a failed read, or the bytes that one
  \<^verbatim>\<open>read\<close> of at most \<^verbatim>\<open>memsize\<close> bytes returned.
\<close>

datatype mem_file = OpenFailed | ReadFailed | Bytes "u8 list"

definition load_image :: "u8 list \<Rightarrow> xtc_cpu \<Rightarrow> xtc_cpu" where
  "load_image bs cpu =
     (let got = take (unat (memsize cpu)) bs
      in cpu\<lparr>memory := got @ drop (length got) (memory cpu)\<rparr>)"

definition run :: "mem_file \<Rightarrow> bool \<Rightarrow> xtc_cpu \<Rightarrow> opcode \<Rightarrow> nat \<Rightarrow> sim_error + exec_result" where
  "run memfile trace_opened fresh junk n =
     (let cpu = initialize fresh in
      case memfile of
        OpenFailed \<Rightarrow> Inr (Returned (- 1))
      | ReadFailed \<Rightarrow> Inr (Returned (- 1))
      | Bytes bs \<Rightarrow>
          rbind (execute trace_opened junk n (load_image bs cpu)) (\<lambda>r.
            case r of Returned _ \<Rightarrow> Inr (Returned 0) | Running cpu \<Rightarrow> Inr (Running cpu)))"

subsection \<open>The older executor\<close>

text \<open>
  The switch of \<^verbatim>\<open>execute_single_opcode\<close>, which the loop no longer calls.  It keeps
  \<^verbatim>\<open>npc\<close> and \<^verbatim>\<open>resetImmed\<close> in local variables: \<open>npc'\<close> is an argument and the
  boolean of the result is \<^verbatim>\<open>resetImmed\<close>.
\<close>

definition legacy_alu :: "(u32 \<Rightarrow> u32 \<Rightarrow> u32) \<Rightarrow> xtc_cpu \<Rightarrow> opcode \<Rightarrow> sim_error + xtc_cpu" where
  "legacy_alu f cpu opcode =
     rbind (get_reg cpu (r1 opcode)) (\<lambda>a.
     rbind (get_reg cpu (r2 opcode)) (\<lambda>b. set_reg cpu (r1 opcode) (f a b)))"

definition legacy_shift :: "(nat \<Rightarrow> u32 \<Rightarrow> u32) \<Rightarrow> xtc_cpu \<Rightarrow> opcode \<Rightarrow> sim_error + xtc_cpu" where
  "legacy_shift f cpu opcode =
     rbind (get_reg cpu (r1 opcode)) (\<lambda>a.
     rbind (get_reg cpu (r2 opcode)) (\<lambda>b.
     rbind (ensure (b < 32) BadShift) (\<lambda>_. set_reg cpu (r1 opcode) (f (unat b) a))))"

definition legacy_logic_flags :: "opcode \<Rightarrow> xtc_cpu \<Rightarrow> sim_error + xtc_cpu" where
  "legacy_logic_flags opcode cpu =
     rbind (get_reg cpu (r1 opcode)) (\<lambda>a. Inr (cpu\<lparr>zero := of_bool (a = 0), carry := 0\<rparr>))"

definition legacy_cmp_flags :: "opcode \<Rightarrow> xtc_cpu \<Rightarrow> sim_error + xtc_cpu" where
  "legacy_cmp_flags opcode cpu =
     rbind (get_reg cpu (r1 opcode)) (\<lambda>a.
     rbind (get_reg cpu (r2 opcode)) (\<lambda>b.
       Inr (cpu\<lparr>zero := of_bool (a = b), carry := of_bool (a > b)\<rparr>)))"

definition legacy_branch :: "bool \<Rightarrow> u32 \<Rightarrow> xtc_cpu \<Rightarrow> opcode \<Rightarrow> sim_error + xtc_cpu" where
  "legacy_branch taken npc' cpu opcode =
     Inr (if taken then cpu\<lparr>branchNext := npc' + immed opcode\<rparr> else cpu)"

definition legacy_switch :: "u32 \<Rightarrow> xtc_cpu \<Rightarrow> opcode \<Rightarrow> sim_error + xtc_cpu \<times> bool" where
  "legacy_switch npc' cpu opcode =
     (let reset = (\<lambda>m. rbind m (\<lambda>cpu. Inr (cpu, True))) in
      case opv opcode of
        OP_STW \<Rightarrow> reset (handle_store cpu (r1 opcode) (r2 opcode) (immed opcode))
      | OP_STS \<Rightarrow> reset (handle_store_short cpu (r1 opcode) (r2 opcode) (immed opcode))
      | OP_STB \<Rightarrow> reset (handle_store_byte cpu (r1 opcode) (r2 opcode) (immed opcode))
      | OP_LDW \<Rightarrow> reset (rbind (handle_read cpu (r1 opcode) (immed opcode)) (set_reg cpu (r2 opcode)))
      | OP_LDBp \<Rightarrow> reset (
          rbind (handle_read_byte cpu (r1 opcode) (immed opcode)) (\<lambda>v.
          rbind (set_reg cpu (r2 opcode) v) (\<lambda>cpu.
          rbind (get_reg cpu (r1 opcode)) (\<lambda>a. set_reg cpu (r1 opcode) (a + 1)))))
      | OP_LDB \<Rightarrow> reset (rbind (handle_read_byte cpu (r1 opcode) (immed opcode)) (set_reg cpu (r2 opcode)))
      | OP_RET \<Rightarrow> reset (Inr (cpu\<lparr>branchNext := spr_br cpu\<rparr>))
      | OP_IMM \<Rightarrow> Inr (cpu, False)
      | OP_CALLI \<Rightarrow> reset (Inr (set_spr_br (npc' + 2) (cpu\<lparr>branchNext := npc' + immed opcode\<rparr>)))
      | OP_BRI \<Rightarrow> reset (legacy_branch True npc' cpu opcode)
      | OP_BRIE \<Rightarrow> reset (legacy_branch (zero cpu \<noteq> 0) npc' cpu opcode)
      | OP_BRINE \<Rightarrow> reset (legacy_branch (zero cpu = 0) npc' cpu opcode)
      | OP_BRILT \<Rightarrow> reset (legacy_branch (carry cpu = 0 \<and> zero cpu = 0) npc' cpu opcode)
      | OP_BRIGT \<Rightarrow> reset (legacy_branch (carry cpu \<noteq> 0) npc' cpu opcode)
      | OP_BRIUGT \<Rightarrow> reset (legacy_branch (carry cpu \<noteq> 0) npc' cpu opcode)
      | OP_LIMR \<Rightarrow> reset (set_reg cpu (r1 opcode) (immed opcode))
      | OP_ADDI \<Rightarrow> reset (rbind (get_reg cpu (r1 opcode)) (\<lambda>a. set_reg cpu (r1 opcode) (a + immed opcode)))
      | OP_COPY \<Rightarrow> reset (rbind (get_reg cpu (r2 opcode)) (set_reg cpu (r1 opcode)))
      | OP_ADD \<Rightarrow> reset (legacy_alu (+) cpu opcode)
      | OP_SRL \<Rightarrow> reset (legacy_shift drop_bit cpu opcode)
      | OP_SHL \<Rightarrow> reset (legacy_shift push_bit cpu opcode)
      | OP_SRA \<Rightarrow> reset (legacy_shift signed_drop_bit cpu opcode)
      | OP_AND \<Rightarrow> reset (rbind (legacy_alu (AND) cpu opcode) (legacy_logic_flags opcode))
      | OP_OR \<Rightarrow> reset (rbind (legacy_alu (OR) cpu opcode) (legacy_logic_flags opcode))
      | OP_CMP \<Rightarrow> reset (legacy_cmp_flags opcode cpu)
      | OP_SUB \<Rightarrow> reset (rbind (legacy_alu (-) cpu opcode) (legacy_cmp_flags opcode))
      | OP_CMPI \<Rightarrow> reset (rbind (get_reg cpu (r1 opcode)) (\<lambda>a.
          Inr (cpu\<lparr>zero := of_bool (a = immed opcode), carry := of_bool (a > immed opcode)\<rparr>)))
      | OP_NOP \<Rightarrow> reset (Inr cpu)
      | _ \<Rightarrow> Inl (UnhandledOp (printOpcode opcode) (op_word opcode) (spr_pc cpu)))"

definition execute_single_opcode :: "xtc_cpu \<Rightarrow> opcode \<Rightarrow> sim_error + xtc_cpu" where
  "execute_single_opcode cpu opcode =
     (let npc' = (if branchNext cpu \<noteq> NO_BRANCH then branchNext cpu else spr_pc cpu + 2);
          cpu = cpu\<lparr>branchNext := NO_BRANCH\<rparr>
      in rbind (legacy_switch npc' cpu opcode) (\<lambda>(cpu, reset).
           Inr (set_spr_pc npc'
             (if reset then cpu\<lparr>imm := 0, imflag := 0\<rparr>
              else cpu\<lparr>imm := immed opcode, imflag := 1\<rparr>))))"

subsection \<open>The table is in enumeration order\<close>

lemma enum_val_simps [simp]:
  "enum_val OP_NOP = 0" "enum_val OP_ADD = 1" "enum_val OP_ADDC = 2" "enum_val OP_SUB = 3"
  "enum_val OP_SUBB = 4" "enum_val OP_AND = 5" "enum_val OP_OR = 6" "enum_val OP_COPY = 7"
  "enum_val OP_XOR = 8" "enum_val OP_SRA = 9" "enum_val OP_SRL = 10" "enum_val OP_SHL = 11"
  "enum_val OP_MUL = 12" "enum_val OP_CMP = 13" "enum_val OP_ADDI = 14" "enum_val OP_IMM = 15"
  "enum_val OP_LIMR = 16" "enum_val OP_CALLI = 17" "enum_val OP_RET = 18" "enum_val OP_STW = 19"
  "enum_val OP_STS = 20" "enum_val OP_STB = 21" "enum_val OP_STSPR = 22" "enum_val OP_STWp = 23"
  "enum_val OP_STSp = 24" "enum_val OP_STBp = 25" "enum_val OP_STSPRp = 26" "enum_val OP_LDW = 27"
  "enum_val OP_LDS = 28" "enum_val OP_LDB = 29" "enum_val OP_LDSPR = 30" "enum_val OP_LDWp = 31"
  "enum_val OP_LDSp = 32" "enum_val OP_LDBp = 33" "enum_val OP_LDSPRp = 34" "enum_val OP_BRI = 35"
  "enum_val OP_BRIE = 36" "enum_val OP_BRINE = 37" "enum_val OP_BRILT = 38" "enum_val OP_BRILE = 39"
  "enum_val OP_BRIGT = 40" "enum_val OP_BRIGE = 41" "enum_val OP_BRIUGT = 42" "enum_val OP_BRIULT = 43"
  "enum_val OP_BRIUGE = 44" "enum_val OP_BRIULE = 45" "enum_val OP_CMPI = 46"
  by (simp_all add: enum_val_def opcode_enum_def)

lemma validate_ok: "validateOpcodes = Inr ()"
  by (simp add: validateOpcodes_def opc_handling_def)

lemma dispatch_eq:
  "dispatch cpu opcode = (case opv opcode of
       OP_NOP \<Rightarrow> Inr cpu | OP_ADD \<Rightarrow> alu_add cpu opcode | OP_ADDC \<Rightarrow> alu_addc cpu opcode
     | OP_SUB \<Rightarrow> alu_sub cpu opcode | OP_SUBB \<Rightarrow> alu_subb cpu opcode
     | OP_AND \<Rightarrow> alu_and cpu opcode | OP_OR \<Rightarrow> alu_or cpu opcode
     | OP_COPY \<Rightarrow> alu_copy cpu opcode | OP_XOR \<Rightarrow> alu_xor cpu opcode
     | OP_SRA \<Rightarrow> alu_sra cpu opcode | OP_SRL \<Rightarrow> alu_srl cpu opcode
     | OP_SHL \<Rightarrow> alu_shl cpu opcode | OP_MUL \<Rightarrow> alu_mul cpu opcode
     | OP_CMP \<Rightarrow> alu_cmp cpu opcode | OP_ADDI \<Rightarrow> reg_addi cpu opcode
     | OP_IMM \<Rightarrow> reg_imm cpu opcode | OP_LIMR \<Rightarrow> reg_limr cpu opcode
     | OP_CALLI \<Rightarrow> cflow_calli cpu opcode | OP_RET \<Rightarrow> cflow_ret cpu opcode
     | OP_STW \<Rightarrow> mem_stw cpu opcode | OP_STS \<Rightarrow> mem_sts cpu opcode
     | OP_STB \<Rightarrow> mem_stb cpu opcode | OP_STSPR \<Rightarrow> mem_stspr cpu opcode
     | OP_STWp \<Rightarrow> mem_stwp cpu opcode | OP_STSp \<Rightarrow> mem_stsp cpu opcode
     | OP_STBp \<Rightarrow> mem_stbp cpu opcode | OP_STSPRp \<Rightarrow> mem_stsprp cpu opcode
     | OP_LDW \<Rightarrow> mem_ldw cpu opcode | OP_LDS \<Rightarrow> mem_lds cpu opcode
     | OP_LDB \<Rightarrow> mem_ldb cpu opcode | OP_LDSPR \<Rightarrow> mem_ldspr cpu opcode
     | OP_LDWp \<Rightarrow> mem_ldwp cpu opcode | OP_LDSp \<Rightarrow> mem_ldsp cpu opcode
     | OP_LDBp \<Rightarrow> mem_ldbp cpu opcode | OP_LDSPRp \<Rightarrow> mem_ldsprp cpu opcode
     | OP_BRI \<Rightarrow> cflow_bri cpu opcode | OP_BRIE \<Rightarrow> cflow_brie cpu opcode
     | OP_BRINE \<Rightarrow> cflow_brine cpu opcode | OP_BRILT \<Rightarrow> cflow_brilt cpu opcode
     | OP_BRILE \<Rightarrow> cflow_brile cpu opcode | OP_BRIGT \<Rightarrow> cflow_brigt cpu opcode
     | OP_BRIGE \<Rightarrow> cflow_brige cpu opcode | OP_BRIUGT \<Rightarrow> cflow_briugt cpu opcode
     | OP_BRIULT \<Rightarrow> cflow_briult cpu opcode | OP_BRIUGE \<Rightarrow> cflow_briuge cpu opcode
     | OP_BRIULE \<Rightarrow> cflow_briule cpu opcode | OP_CMPI \<Rightarrow> reg_cmpi cpu opcode)"
  by (cases "opv opcode") (simp_all add: dispatch_def opc_handling_def)

end
