(* ===== verification/Sim_Machine.thy ===== *)
theory Sim_Machine
  imports Sim_Executor
begin

text \<open>
  The simulator as a machine.  A locale states what the instruction cycle relies on in the
  code that performs one instruction; it is interpreted on the table of handlers and on the
  switch of the older executor.  From it follow the type invariant of a run, the reasons a
  run can stop, the delay slot, the immediate prefixes, and how far the two executors agree.
\<close>

subsection \<open>The contract of an instruction's code\<close>

definition memory_safe :: "sim_error \<Rightarrow> bool" where
  "memory_safe e \<longleftrightarrow> e \<noteq> OutOfBounds \<and> e \<noteq> NullHandler \<and> (\<forall>i. e \<noteq> InvalidTable i)"

definition cycle :: "inst_handler_t \<Rightarrow> inst_handler_t" where
  "cycle h cpu opcode = rbind (h (delay_slot cpu) opcode) (\<lambda>cpu. Inr (finish_opcode opcode cpu))"

locale inst_handler =
  fixes h :: inst_handler_t
  assumes keeps_wf: "cpu_wf cpu \<Longrightarrow> h cpu opcode = Inr cpu' \<Longrightarrow> cpu_wf cpu'"
    and keeps_size: "h cpu opcode = Inr cpu' \<Longrightarrow> memsize cpu' = memsize cpu"
    and keeps_npc: "h cpu opcode = Inr cpu' \<Longrightarrow> npc cpu' = npc cpu"
    and resets: "h cpu opcode = Inr cpu' \<Longrightarrow>
      resetImmed cpu' = (if opv opcode = OP_IMM then 0 else resetImmed cpu)"
    and stops: "cpu_wf cpu \<Longrightarrow> opcode_ok opcode \<Longrightarrow> h cpu opcode = Inl e \<Longrightarrow> memory_safe e"
begin

lemma cycle_wf: "cpu_wf cpu \<Longrightarrow> cycle h cpu opcode = Inr cpu' \<Longrightarrow> cpu_wf cpu'"
  by (auto simp: cycle_def delay_slot_def finish_opcode_def dest!: keeps_wf [rotated])

lemma cycle_size: "cycle h cpu opcode = Inr cpu' \<Longrightarrow> memsize cpu' = memsize cpu"
  by (auto simp: cycle_def delay_slot_def finish_opcode_def set_spr_pc_def dest!: keeps_size)

lemma cycle_stops: "cpu_wf cpu \<Longrightarrow> opcode_ok opcode \<Longrightarrow> cycle h cpu opcode = Inl e \<Longrightarrow> memory_safe e"
  by (auto simp: cycle_def delay_slot_def dest!: stops [rotated 2])

text \<open>The next instruction is the pending branch target if there is one.\<close>

lemma cycle_pc:
  assumes "cpu_wf cpu" and "cycle h cpu opcode = Inr cpu'"
  shows "spr_pc cpu' = (if branchNext cpu \<noteq> NO_BRANCH then branchNext cpu else spr_pc cpu + 2)"
proof -
  from assms(2) obtain c where c: "h (delay_slot cpu) opcode = Inr c" "cpu' = finish_opcode opcode c"
    by (auto simp: cycle_def)
  have "cpu_wf c" using keeps_wf [OF _ c(1)] assms(1) by (simp add: delay_slot_def)
  then have "spr c \<noteq> []" by (auto simp: cpu_wf_def)
  with c keeps_npc [OF c(1)] show ?thesis
    by (auto simp: finish_opcode_def delay_slot_def)
qed

text \<open>Only \<open>OP_IMM\<close> leaves an immediate for the next instruction.\<close>

lemma cycle_imm:
  "cycle h cpu opcode = Inr cpu' \<Longrightarrow>
     (if opv opcode = OP_IMM then imm cpu' = immed opcode \<and> imflag cpu' = 1
      else imm cpu' = 0 \<and> imflag cpu' = 0)"
  by (auto simp: cycle_def finish_opcode_def delay_slot_def set_spr_pc_def dest!: resets)

end

lemma fjp_is_cycle: "execute_single_opcode_fjp = cycle dispatch"
  by (intro ext) (simp add: execute_single_opcode_fjp_def cycle_def)

subsection \<open>The handler table satisfies it\<close>

lemma mem_frame_fields:
  "mem_frame cpu cpu' \<Longrightarrow>
     memsize cpu' = memsize cpu \<and> npc cpu' = npc cpu \<and> resetImmed cpu' = resetImmed cpu"
  unfolding mem_frame_def by (metis xtc_cpu.ext_inject xtc_cpu.surjective xtc_cpu.update_convs(2,13))

lemma access_error_safe: "access_error e \<Longrightarrow> memory_safe e"
  by (auto simp: access_error_def memory_safe_def)

text \<open>What every handler but that of \<open>OP_IMM\<close> keeps.\<close>

definition handler_keeps :: "xtc_cpu \<Rightarrow> xtc_cpu \<Rightarrow> bool" where
  "handler_keeps cpu cpu' \<longleftrightarrow>
     (cpu_wf cpu \<longrightarrow> cpu_wf cpu') \<and> memsize cpu' = memsize cpu \<and> npc cpu' = npc cpu \<and>
     resetImmed cpu' = resetImmed cpu"

lemma keeps_frame: "mem_frame cpu cpu' \<Longrightarrow> handler_keeps cpu cpu'"
  using mem_frame_fields mem_frame_wf by (auto simp: handler_keeps_def)

lemma keeps_upd [simp]:
  "handler_keeps cpu cpu"
  "handler_keeps cpu (cpu\<lparr>regs := (regs cpu)[i := v]\<rparr>)"
  "handler_keeps cpu (cpu\<lparr>regs := (regs cpu)[i := v, j := w]\<rparr>)"
  "handler_keeps cpu (cpu\<lparr>branchNext := v\<rparr>)"
  "handler_keeps cpu (set_spr_br v cpu)"
  "handler_keeps cpu (set_spr_br v (cpu\<lparr>branchNext := w\<rparr>))"
  "handler_keeps cpu (xtc_set_spr cpu k v)"
  "handler_keeps cpu (set_cmp_flags d cpu)"
  "handler_keeps cpu (cpu\<lparr>regs := (regs cpu)[i := v], zero := z, carry := c\<rparr>)"
  by (simp_all add: handler_keeps_def cpu_wf_def set_spr_br_def xtc_set_spr_def set_cmp_flags_def)

lemma mem_handlers_keep:
  "mem_stw cpu opcode = Inr cpu' \<Longrightarrow> handler_keeps cpu cpu'"
  "mem_sts cpu opcode = Inr cpu' \<Longrightarrow> handler_keeps cpu cpu'"
  "mem_stb cpu opcode = Inr cpu' \<Longrightarrow> handler_keeps cpu cpu'"
  "mem_stspr cpu opcode = Inr cpu' \<Longrightarrow> handler_keeps cpu cpu'"
  "mem_ldw cpu opcode = Inr cpu' \<Longrightarrow> handler_keeps cpu cpu'"
  "mem_lds cpu opcode = Inr cpu' \<Longrightarrow> handler_keeps cpu cpu'"
  "mem_ldb cpu opcode = Inr cpu' \<Longrightarrow> handler_keeps cpu cpu'"
  "mem_ldbp cpu opcode = Inr cpu' \<Longrightarrow> handler_keeps cpu cpu'"
  "mem_ldspr cpu opcode = Inr cpu' \<Longrightarrow> handler_keeps cpu cpu'"
  by (auto simp: mem_stw_def mem_sts_def mem_stb_def mem_stspr_def mem_ldw_def mem_lds_def
      mem_ldb_def mem_ldbp_def mem_ldspr_def intro: keeps_frame dest: store_frames)

lemma alu_handlers_keep:
  "alu_add cpu opcode = Inr cpu' \<Longrightarrow> handler_keeps cpu cpu'"
  "alu_sub cpu opcode = Inr cpu' \<Longrightarrow> handler_keeps cpu cpu'"
  "alu_and cpu opcode = Inr cpu' \<Longrightarrow> handler_keeps cpu cpu'"
  "alu_or cpu opcode = Inr cpu' \<Longrightarrow> handler_keeps cpu cpu'"
  "alu_copy cpu opcode = Inr cpu' \<Longrightarrow> handler_keeps cpu cpu'"
  "alu_xor cpu opcode = Inr cpu' \<Longrightarrow> handler_keeps cpu cpu'"
  "alu_sra cpu opcode = Inr cpu' \<Longrightarrow> handler_keeps cpu cpu'"
  "alu_srl cpu opcode = Inr cpu' \<Longrightarrow> handler_keeps cpu cpu'"
  "alu_shl cpu opcode = Inr cpu' \<Longrightarrow> handler_keeps cpu cpu'"
  "alu_mul cpu opcode = Inr cpu' \<Longrightarrow> handler_keeps cpu cpu'"
  "alu_cmp cpu opcode = Inr cpu' \<Longrightarrow> handler_keeps cpu cpu'"
  "reg_addi cpu opcode = Inr cpu' \<Longrightarrow> handler_keeps cpu cpu'"
  "reg_limr cpu opcode = Inr cpu' \<Longrightarrow> handler_keeps cpu cpu'"
  "reg_cmpi cpu opcode = Inr cpu' \<Longrightarrow> handler_keeps cpu cpu'"
  by (auto simp: alu_add_def alu_sub_def alu_and_def alu_or_def alu_copy_def alu_xor_def
      alu_sra_def alu_srl_def alu_shl_def alu_mul_def alu_cmp_def reg_addi_def reg_limr_def
      reg_cmpi_def)

lemmas cflow_defs =
  cflow_calli_def cflow_ret_def cflow_bri_def cflow_brie_def cflow_brine_def cflow_brilt_def
  cflow_brile_def cflow_brigt_def cflow_brige_def cflow_briugt_def cflow_briuge_def
  cflow_briult_def cflow_briule_def take_branch_def

lemmas unhandled_defs =
  UNHANDLED_OP_def alu_addc_def alu_subb_def mem_stwp_def mem_stsp_def mem_stbp_def
  mem_stsprp_def mem_ldwp_def mem_ldsp_def mem_ldsprp_def

lemma dispatch_keeps:
  assumes "dispatch cpu opcode = Inr cpu'" and "opv opcode \<noteq> OP_IMM"
  shows "handler_keeps cpu cpu'"
  using assms unfolding dispatch_eq
  by (cases "opv opcode")
    (auto simp: cflow_defs unhandled_defs dest: mem_handlers_keep alu_handlers_keep)

lemma memory_safe_simps [simp]:
  "memory_safe BadShift" "memory_safe (UnhandledOp n w p)" "memory_safe (UnknownOp w p)"
  "\<not> memory_safe OutOfBounds"
  by (simp_all add: memory_safe_def)

lemma mem_handlers_stop:
  assumes "cpu_wf cpu" and "opcode_ok opcode"
  shows
    "mem_stw cpu opcode = Inl e \<Longrightarrow> memory_safe e"
    "mem_sts cpu opcode = Inl e \<Longrightarrow> memory_safe e"
    "mem_stb cpu opcode = Inl e \<Longrightarrow> memory_safe e"
    "mem_stspr cpu opcode = Inl e \<Longrightarrow> memory_safe e"
    "mem_ldw cpu opcode = Inl e \<Longrightarrow> memory_safe e"
    "mem_lds cpu opcode = Inl e \<Longrightarrow> memory_safe e"
    "mem_ldb cpu opcode = Inl e \<Longrightarrow> memory_safe e"
    "mem_ldbp cpu opcode = Inl e \<Longrightarrow> memory_safe e"
    "mem_ldspr cpu opcode = Inl e \<Longrightarrow> memory_safe e"
proof -
  from assms have "unat (r1 opcode) < length (regs cpu)" "unat (r2 opcode) < length (regs cpu)"
      "unat (r1 opcode) < 32" "unat (r2 opcode) < 32"
    by (auto simp: cpu_wf_def opcode_ok_def)
  then show
    "mem_stw cpu opcode = Inl e \<Longrightarrow> memory_safe e"
    "mem_sts cpu opcode = Inl e \<Longrightarrow> memory_safe e"
    "mem_stb cpu opcode = Inl e \<Longrightarrow> memory_safe e"
    "mem_stspr cpu opcode = Inl e \<Longrightarrow> memory_safe e"
    "mem_ldw cpu opcode = Inl e \<Longrightarrow> memory_safe e"
    "mem_lds cpu opcode = Inl e \<Longrightarrow> memory_safe e"
    "mem_ldb cpu opcode = Inl e \<Longrightarrow> memory_safe e"
    "mem_ldbp cpu opcode = Inl e \<Longrightarrow> memory_safe e"
    "mem_ldspr cpu opcode = Inl e \<Longrightarrow> memory_safe e"
    by (auto simp: mem_stw_def mem_sts_def mem_stb_def mem_stspr_def mem_ldw_def mem_lds_def
      mem_ldb_def mem_ldbp_def mem_ldspr_def intro!: access_error_safe
      intro: mem_errors [OF assms(1)])
qed

lemma dispatch_stops:
  assumes "cpu_wf cpu" and "opcode_ok opcode" and "dispatch cpu opcode = Inl e"
  shows "memory_safe e"
proof -
  from assms(1,2) have "unat (r1 opcode) < length (regs cpu)" "unat (r2 opcode) < length (regs cpu)"
    by (auto simp: cpu_wf_def opcode_ok_def)
  with assms(3) show ?thesis
    unfolding dispatch_eq
    by (cases "opv opcode")
      (auto simp: cflow_defs unhandled_defs alu_operand_def
      alu_add_def alu_sub_def alu_and_def alu_or_def alu_copy_def alu_xor_def
      alu_sra_def alu_srl_def alu_shl_def alu_mul_def alu_cmp_def reg_addi_def reg_limr_def
      reg_cmpi_def reg_imm_def dest: mem_handlers_stop [OF assms(1,2)] split: if_splits)
qed

interpretation tab: inst_handler dispatch
proof
  fix cpu opcode cpu' e
  show "cpu_wf cpu \<Longrightarrow> dispatch cpu opcode = Inr cpu' \<Longrightarrow> cpu_wf cpu'"
    "dispatch cpu opcode = Inr cpu' \<Longrightarrow> memsize cpu' = memsize cpu"
    "dispatch cpu opcode = Inr cpu' \<Longrightarrow> npc cpu' = npc cpu"
    "dispatch cpu opcode = Inr cpu' \<Longrightarrow>
       resetImmed cpu' = (if opv opcode = OP_IMM then 0 else resetImmed cpu)"
    using dispatch_keeps [of cpu opcode cpu']
    by (cases "opv opcode = OP_IMM"; auto simp: handler_keeps_def dispatch_eq reg_imm_def)+
  show "cpu_wf cpu \<Longrightarrow> opcode_ok opcode \<Longrightarrow> dispatch cpu opcode = Inl e \<Longrightarrow> memory_safe e"
    by (rule dispatch_stops)
qed

subsection \<open>The older executor satisfies it too\<close>

text \<open>The switch as a handler that reads \<open>npc\<close> and writes \<open>resetImmed\<close> in the processor.\<close>

definition legacy_handler :: inst_handler_t where
  "legacy_handler cpu opcode =
     rbind (legacy_switch (npc cpu) cpu opcode) (\<lambda>(c, reset).
       Inr (if reset then c else c\<lparr>resetImmed := 0\<rparr>))"

lemmas legacy_defs =
  legacy_switch_def legacy_alu_def legacy_shift_def legacy_logic_flags_def legacy_cmp_flags_def
  legacy_branch_def

lemma keeps_flags [simp]: "handler_keeps cpu (cpu\<lparr>zero := z, carry := c\<rparr>)"
  by (simp add: handler_keeps_def)

lemma legacy_keeps:
  "legacy_switch n cpu opcode = Inr (cpu', reset) \<Longrightarrow>
     handler_keeps cpu cpu' \<and> (reset \<longleftrightarrow> opv opcode \<noteq> OP_IMM)"
  by (cases "opv opcode")
    (auto simp: legacy_defs intro: keeps_frame dest: store_frames split: if_splits)

lemma legacy_stops:
  assumes "cpu_wf cpu" and "opcode_ok opcode" and "legacy_switch n cpu opcode = Inl e"
  shows "memory_safe e"
proof -
  from assms(1,2) have len: "unat (r1 opcode) < length (regs cpu)" "unat (r2 opcode) < length (regs cpu)"
      and r: "unat (r1 opcode) < 32" "unat (r2 opcode) < 32"
    by (auto simp: cpu_wf_def opcode_ok_def)
  note mem_stop = access_error_safe [OF store_error [OF assms(1) r]]
    access_error_safe [OF store_short_error [OF assms(1) r]]
    access_error_safe [OF store_byte_error [OF assms(1) r]]
    access_error_safe [OF read_error [OF assms(1) r(1)]]
    access_error_safe [OF read_byte_error [OF assms(1) r(1)]]
  from assms(3) len show ?thesis
    by (cases "opv opcode")
      (auto simp: legacy_defs dest: mem_stop)
qed

interpretation leg: inst_handler legacy_handler
proof
  fix cpu opcode cpu' e
  assume "legacy_handler cpu opcode = Inr cpu'"
  then obtain c r where "legacy_switch (npc cpu) cpu opcode = Inr (c, r)"
      "cpu' = (if r then c else c\<lparr>resetImmed := 0\<rparr>)"
    by (auto simp: legacy_handler_def)
  with legacy_keeps show "cpu_wf cpu \<Longrightarrow> cpu_wf cpu'" "memsize cpu' = memsize cpu"
    "npc cpu' = npc cpu"
    "resetImmed cpu' = (if opv opcode = OP_IMM then 0 else resetImmed cpu)"
    by (fastforce simp: handler_keeps_def)+
next
  fix cpu opcode e
  assume "cpu_wf cpu" "opcode_ok opcode" "legacy_handler cpu opcode = Inl e"
  then show "memory_safe e"
    by (auto simp: legacy_handler_def dest: legacy_stops split: if_splits)
qed

text \<open>Where the switch and the table do the same.\<close>

definition same_semantics :: "opcode \<Rightarrow> bool" where
  "same_semantics opcode \<longleftrightarrow> alu_op_immed opcode = 0 \<and>
     opv opcode \<in> {OP_NOP, OP_ADD, OP_ADDC, OP_SUB, OP_SUBB, OP_AND, OP_OR, OP_COPY, OP_SRA,
       OP_SRL, OP_SHL, OP_ADDI, OP_IMM, OP_LIMR, OP_CALLI, OP_RET, OP_STW, OP_STS, OP_STB,
       OP_LDW, OP_LDB, OP_LDBp, OP_BRI, OP_BRIE, OP_BRINE}"

lemma get_reg_swap:
  "rbind (get_reg cpu a) (\<lambda>x. rbind (get_reg cpu b) (f x)) =
   rbind (get_reg cpu b) (\<lambda>y. rbind (get_reg cpu a) (\<lambda>x. f x y))"
  by (simp add: get_reg_def arr_get_def)

lemma legacy_handler_same: "same_semantics opcode \<Longrightarrow> legacy_handler cpu opcode = dispatch cpu opcode"
  unfolding same_semantics_def dispatch_eq legacy_handler_def
  by (cases "opv opcode")
    (simp_all add: legacy_defs sim_defs rbind_assoc printOpcode_def opc_handling_def
      get_reg_swap [of cpu "r1 opcode" "r2 opcode"] add.commute and.commute or.commute)

text \<open>
  The switch neither reads nor writes the two fields the older code keeps in local
  variables, so the two executors can be compared up to them.
\<close>

definition scratch_upd :: "u32 \<Rightarrow> u32 \<Rightarrow> xtc_cpu \<Rightarrow> xtc_cpu" where
  "scratch_upd a b cpu = cpu\<lparr>npc := a, resetImmed := b\<rparr>"

lemma scratch_sel [simp]:
  "get_reg (scratch_upd a b cpu) r = get_reg cpu r"
  "memory (scratch_upd a b cpu) = memory cpu" "memsize (scratch_upd a b cpu) = memsize cpu"
  "zero (scratch_upd a b cpu) = zero cpu" "carry (scratch_upd a b cpu) = carry cpu"
  "spr_br (scratch_upd a b cpu) = spr_br cpu" "spr_pc (scratch_upd a b cpu) = spr_pc cpu"
  "uart_out (scratch_upd a b cpu) = uart_out cpu"
  "set_reg (scratch_upd a b cpu) r v = map_sum id (scratch_upd a b) (set_reg cpu r v)"
  "set_spr_br v (scratch_upd a b cpu) = scratch_upd a b (set_spr_br v cpu)"
  by (simp_all add: scratch_upd_def get_reg_def set_reg_def arr_put_def spr_br_def spr_pc_def
      set_spr_br_def)

lemma scratch_fields [simp]:
  "(scratch_upd a b cpu)\<lparr>memory := m\<rparr> = scratch_upd a b (cpu\<lparr>memory := m\<rparr>)"
  "(scratch_upd a b cpu)\<lparr>uart_out := out\<rparr> = scratch_upd a b (cpu\<lparr>uart_out := out\<rparr>)"
  "(scratch_upd a b cpu)\<lparr>branchNext := v\<rparr> = scratch_upd a b (cpu\<lparr>branchNext := v\<rparr>)"
  "(scratch_upd a b cpu)\<lparr>zero := z, carry := c\<rparr> = scratch_upd a b (cpu\<lparr>zero := z, carry := c\<rparr>)"
  by (simp_all add: scratch_upd_def)

lemma map_sum_rbind [simp]: "map_sum id f (rbind m g) = rbind m (\<lambda>x. map_sum id f (g x))"
  by (cases m) simp_all

lemma rbind_map_sum [simp]: "rbind (map_sum id f m) g = rbind m (\<lambda>x. g (f x))"
  by (cases m) simp_all

lemma scratch_mem [simp]:
  "handle_store (scratch_upd a b cpu) r rv off = map_sum id (scratch_upd a b) (handle_store cpu r rv off)"
  "handle_store_short (scratch_upd a b cpu) r rv off =
     map_sum id (scratch_upd a b) (handle_store_short cpu r rv off)"
  "handle_store_byte (scratch_upd a b cpu) r rv off =
     map_sum id (scratch_upd a b) (handle_store_byte cpu r rv off)"
  "handle_read (scratch_upd a b cpu) r off = handle_read cpu r off"
  "handle_read_byte (scratch_upd a b cpu) r off = handle_read_byte cpu r off"
  by (simp_all add: mem_access_defs Let_def
      if_distrib [where f = "map_sum id (scratch_upd a b)"] cong: if_cong)

lemma legacy_scratch:
  "legacy_switch n (scratch_upd a b cpu) opcode =
     map_sum id (apfst (scratch_upd a b)) (legacy_switch n cpu opcode)"
  by (cases "opv opcode") (simp_all add: legacy_defs rbind_assoc printOpcode_def)

definition visible :: "xtc_cpu \<Rightarrow> xtc_cpu" where
  "visible cpu = scratch_upd 0 0 cpu"

lemma legacy_is_cycle:
  "map_sum id visible (execute_single_opcode cpu opcode) =
   map_sum id visible (cycle legacy_handler cpu opcode)"
proof -
  let ?n = "if branchNext cpu \<noteq> NO_BRANCH then branchNext cpu else spr_pc cpu + 2"
  have d: "delay_slot cpu = scratch_upd ?n 1 (cpu\<lparr>branchNext := NO_BRANCH\<rparr>)"
    by (simp add: delay_slot_def scratch_upd_def)
  have n: "npc (delay_slot cpu) = ?n" by (simp add: delay_slot_def)
  show ?thesis
    unfolding cycle_def legacy_handler_def n unfolding d legacy_scratch execute_single_opcode_def
    by (cases "legacy_switch ?n (cpu\<lparr>branchNext := NO_BRANCH\<rparr>) opcode")
      (auto simp: Let_def visible_def scratch_upd_def finish_opcode_def set_spr_pc_def)
qed

subsection \<open>The uninitialised structure does not matter\<close>

lemma dispatch_no_immed: "no_immed opcode \<Longrightarrow> dispatch cpu (opcode\<lparr>immed := i\<rparr>) = dispatch cpu opcode"
  unfolding dispatch_eq no_immed_def alu_opv_def
  by (elim disjE conjE; simp; elim disjE)
    (simp_all add: alu_operand_def unhandled_defs alu_add_def alu_sub_def alu_and_def alu_or_def
      alu_xor_def alu_sra_def alu_srl_def alu_shl_def alu_mul_def alu_cmp_def cflow_ret_def)

lemma execute_no_immed:
  assumes "no_immed opcode"
  shows "execute_single_opcode_fjp cpu (opcode\<lparr>immed := i\<rparr>) = execute_single_opcode_fjp cpu opcode"
proof -
  have "opv opcode \<noteq> OP_IMM" using assms by (auto simp: no_immed_def alu_opv_def)
  then have "finish_opcode (opcode\<lparr>immed := i\<rparr>) c = finish_opcode opcode c"
    if "dispatch (delay_slot cpu) opcode = Inr c" for c
    using tab.resets [OF that] by (simp add: finish_opcode_def delay_slot_def)
  then show ?thesis
    unfolding execute_single_opcode_fjp_def dispatch_no_immed [OF assms] by (auto intro: rbind_cong)
qed

lemma step_junk: "sim_step junk cpu = sim_step junk' cpu"
proof (cases "fetch cpu")
  case (Inr w)
  show ?thesis
  proof (cases "valid_inst (ucast w)")
    case True
    then obtain o1 o2 where o: "decode_single_opcode cpu (ucast w) junk = Inr o1"
        "decode_single_opcode cpu (ucast w) junk' = Inr o2"
      using decode_succeeds by blast
    with decode_junk [OF o] have "execute_single_opcode_fjp cpu o2 = execute_single_opcode_fjp cpu o1"
      by (metis execute_no_immed opcode.surjective opcode.update_convs(5))
    with o Inr show ?thesis by (simp add: sim_step_def)
  next
    case False
    then have "decode_single_opcode cpu (ucast w) j = Inl (UnknownOp (ucast w) (spr_pc cpu))" for j
      using decode_succeeds [of cpu w j] decode_error [of cpu "ucast w" j]
      by (cases "decode_single_opcode cpu (ucast w) j") auto
    with Inr show ?thesis by (simp add: sim_step_def)
  qed
qed (simp add: sim_step_def)

subsection \<open>A run of the simulator\<close>

text \<open>
  The invariant of the loop: the processor is well formed, and an immediate is pending only
  while \<^verbatim>\<open>imflag\<close> says so.
\<close>

definition sim_inv :: "xtc_cpu \<Rightarrow> bool" where
  "sim_inv cpu \<longleftrightarrow> cpu_wf cpu \<and> (imflag cpu = 1 \<or> imflag cpu = 0 \<and> imm cpu = 0)"

definition sim_stop :: "sim_error \<Rightarrow> bool" where
  "sim_stop e \<longleftrightarrow> e = OutOfBounds \<or> memory_safe e"

lemma fetch_error: "fetch cpu = Inl e \<Longrightarrow> e = OutOfBounds"
  by (auto simp: fetch_def)

lemma step_cases:
  assumes "sim_step junk cpu = r"
  obtains (no_fetch) "fetch cpu = Inl OutOfBounds" "r = Inl OutOfBounds"
  | (bad_word) w where "fetch cpu = Inr w" "\<not> valid_inst (ucast w)"
      "r = Inl (UnknownOp (ucast w) (spr_pc cpu))"
  | (exec) w opcode where "fetch cpu = Inr w" "valid_inst (ucast w)"
      "decode_single_opcode cpu (ucast w) junk = Inr opcode" "opcode_ok opcode"
      "r = cycle dispatch cpu opcode"
proof (cases "fetch cpu")
  case (Inl e)
  with fetch_error [OF Inl] assms show thesis by (intro no_fetch) (auto simp: sim_step_def)
next
  case (Inr w)
  show thesis
  proof (cases "decode_single_opcode cpu (ucast w) junk")
    case (Inl e)
    with Inr assms decode_succeeds [of cpu w junk] decode_error [OF Inl] show thesis
      by (intro bad_word [of w]) (auto simp: sim_step_def)
  next
    case opc: (Inr opcode)
    with Inr assms decode_succeeds [of cpu w junk] decode_ok [OF opc] show thesis
      by (intro exec [of w opcode]) (auto simp: sim_step_def fjp_is_cycle)
  qed
qed

interpretation sim: machine "sim_step junk" sim_inv sim_stop
  for junk
proof
  fix cpu cpu' e
  assume inv: "sim_inv cpu"
  have keep: "cycle dispatch cpu opcode = Inr cpu' \<Longrightarrow> sim_inv cpu'" for opcode
    using inv tab.cycle_wf [of cpu opcode cpu'] tab.cycle_imm [of cpu opcode cpu']
    by (auto simp: sim_inv_def split: if_splits)
  show "sim_step junk cpu = Inr cpu' \<Longrightarrow> sim_inv cpu'"
    by (elim step_cases) (auto intro: keep)
  show "sim_step junk cpu = Inl e \<Longrightarrow> sim_stop e"
    using inv tab.cycle_stops
    by (elim step_cases) (auto simp: sim_inv_def sim_stop_def)
qed

lemma inv_initialize: "sim_inv (load_image bs (initialize fresh))"
  by (auto simp: sim_inv_def cpu_wf_def load_image_def initialize_def Let_def)

text \<open>
  The loop as a relation: each turn may find anything in the uninitialised structure.
\<close>

inductive sim_reach :: "xtc_cpu \<Rightarrow> xtc_cpu \<Rightarrow> bool" for start where
  sim_start: "sim_reach start start"
| sim_next: "sim_reach start cpu \<Longrightarrow> sim_step junk cpu = Inr cpu' \<Longrightarrow> sim_reach start cpu'"

inductive_cases sim_reach_cases: "sim_reach start cpu"

lemma reach_inv: "sim_reach start cpu \<Longrightarrow> sim_inv start \<Longrightarrow> sim_inv cpu"
  by (induction rule: sim_reach.induct) (auto intro: sim.step_inv)

lemma reach_run: "sim_reach start cpu \<longleftrightarrow> (\<exists>n. run_steps (sim_step junk) n start = Inr cpu)"
proof
  assume "sim_reach start cpu"
  then show "\<exists>n. run_steps (sim_step junk) n start = Inr cpu"
  proof (induction rule: sim_reach.induct)
    case sim_start
    show ?case by (rule exI [of _ 0]) simp
  next
    case (sim_next cpu junk' cpu')
    then obtain n where "run_steps (sim_step junk) n start = Inr cpu" by blast
    with sim_next.hyps(2) step_junk [of junk' cpu junk] show ?case
      by (intro exI [of _ "Suc n"]) (simp only: run_steps_snoc rbind_simps)
  qed
next
  assume "\<exists>n. run_steps (sim_step junk) n start = Inr cpu"
  then obtain n where "run_steps (sim_step junk) n start = Inr cpu" by blast
  then show "sim_reach start cpu"
    by (induction n arbitrary: cpu)
      (auto simp: run_steps_snoc simp del: run_steps.simps(2) intro: sim_reach.intros)
qed

end
