(* ===== verification/Sim_Props.thy ===== *)
theory Sim_Props
  imports Sim_Machine
begin

text \<open>
  What the simulator guarantees: the properties of its runs, of its decoder, of its memory
  system and of its instructions, and the places where its instructions do not do what
  their names say.
\<close>

subsection \<open>Runs\<close>

lemma run_bytes:
  "run (Bytes bs) True fresh junk n =
     rbind (run_steps (sim_step junk) n (load_image bs (initialize fresh))) (\<lambda>cpu. Inr (Running cpu))"
  by (simp add: run_def execute_def validate_ok rbind_assoc)

lemma fetch_fails_iff:
  "fetch cpu = Inl OutOfBounds \<longleftrightarrow>
     \<not> (unat (spr_pc cpu) < length (memory cpu) \<and> unat (spr_pc cpu + 1) < length (memory cpu))"
  by (auto simp: fetch_def)

lemma step_fails_fetch:
  assumes "sim_inv cpu" and "sim_step junk cpu = Inl e"
  shows "(e = OutOfBounds \<longleftrightarrow> fetch cpu = Inl OutOfBounds) \<and> (e \<noteq> OutOfBounds \<longrightarrow> memory_safe e)"
  using assms(2)
proof (cases rule: step_cases)
  case (exec w opcode)
  with tab.cycle_stops [of cpu opcode e] assms(1) show ?thesis by (auto simp: sim_inv_def)
qed auto

text \<open>
  C1. When a run of the simulator on a program image stops, the state before the last
  instruction is well formed and reachable, and the simulator leaves an array exactly when
  the program counter has left the memory block: no instruction, whatever its operands,
  makes the simulator access memory or registers outside their arrays, call through a null
  handler or reject its own table.
\<close>

theorem run_stops:
  assumes "run (Bytes bs) True fresh junk n = Inl e"
  shows "\<exists>m cpu. m < n \<and> run (Bytes bs) True fresh junk m = Inr (Running cpu) \<and> sim_inv cpu \<and>
    (e = OutOfBounds \<longleftrightarrow>
       \<not> (unat (spr_pc cpu) < length (memory cpu) \<and> unat (spr_pc cpu + 1) < length (memory cpu))) \<and>
    (e \<noteq> OutOfBounds \<longrightarrow> memory_safe e)"
proof -
  from assms have "run_steps (sim_step junk) n (load_image bs (initialize fresh)) = Inl e"
    by (simp add: run_bytes)
  then obtain m cpu where "m < n" and
      m: "run_steps (sim_step junk) m (load_image bs (initialize fresh)) = Inr cpu"
      and inv: "sim_inv cpu" and step: "sim_step junk cpu = Inl e"
    using sim.run_fail_last [OF inv_initialize] by blast
  moreover from m have "run (Bytes bs) True fresh junk m = Inr (Running cpu)"
    by (simp add: run_bytes)
  ultimately show ?thesis
    using step_fails_fetch [OF inv step] unfolding fetch_fails_iff by blast
qed

theorem run_stops_witness:
  "run (Bytes [0x30, 0x00]) True zero_cpu zero_opcode 1 = Inl (UnknownOp 0x3000 0) \<and>
   (\<exists>m cpu. m < 1 \<and> run (Bytes [0x30, 0x00]) True zero_cpu zero_opcode m = Inr (Running cpu) \<and>
      sim_inv cpu \<and> memory_safe (UnknownOp 0x3000 0))"
proof -
  have *: "run (Bytes [0x30, 0x00]) True zero_cpu zero_opcode 1 = Inl (UnknownOp 0x3000 0)"
    by (simp add: run_bytes load_image_def initialize_def zero_cpu_def sim_step_def fetch_def
        spr_pc_def decode_single_opcode_def One_nat_def del: replicate.simps)
  with run_stops [OF this] show ?thesis by auto
qed

text \<open>
  C2. The decoder is handed a structure the loop never initialises.  Whatever each turn
  finds there, the states the simulator can reach are exactly those of the deterministic
  run, and all of them satisfy the invariant.
\<close>

theorem reach_deterministic:
  "sim_reach (load_image bs (initialize fresh)) cpu \<longleftrightarrow>
     (\<exists>n. run (Bytes bs) True fresh junk n = Inr (Running cpu) \<and> sim_inv cpu)"
proof -
  have "sim_reach (load_image bs (initialize fresh)) cpu \<Longrightarrow> sim_inv cpu"
    using reach_inv inv_initialize by blast
  then show ?thesis
    unfolding run_bytes using reach_run [of "load_image bs (initialize fresh)" cpu junk] by auto
qed

subsection \<open>The decoder\<close>

text \<open>
  C3. The decoder accepts exactly the sixteen-bit words outside groups 3, B and C and
  outside five conditions of group A; it rejects every other word with the abort that names
  it; and what it accepts names two registers of the first sixteen.
\<close>

theorem decode_accepts:
  "case decode_single_opcode cpu (ucast (w :: inst_t)) junk of
     Inl e \<Rightarrow> \<not> valid_inst (ucast w) \<and> e = UnknownOp (ucast w) (spr_pc cpu)
   | Inr opcode \<Rightarrow> valid_inst (ucast w) \<and> unat (r1 opcode) < 16 \<and> unat (r2 opcode) < 16"
  using decode_succeeds [of cpu w junk] decode_error [of cpu "ucast w" junk]
    decode_ok [of cpu "ucast w" junk]
  by (auto simp: opcode_ok_def split: sum.splits)

subsection \<open>The memory system\<close>

lemma store_ram:
  assumes "cpu_wf cpu" and "unat r < 32" and "unat rv < 32"
    and "(regs cpu ! unat r + off) AND 3 = 0" and "regs cpu ! unat r + off < memsize cpu"
  shows "\<exists>m. xtc_store_mem_u32 (memory cpu) (unat (regs cpu ! unat r + off)) (regs cpu ! unat rv) = Inr m \<and>
    handle_store cpu r rv off = Inr (cpu\<lparr>memory := m\<rparr>)"
proof -
  from assms(1-3) have r: "unat r < length (regs cpu)" "unat rv < length (regs cpu)"
    by (auto simp: cpu_wf_def)
  have "unat (regs cpu ! unat r + off) + 3 < length (memory cpu)"
    by (rule aligned_below4 [OF assms(4,5,1)])
  with r assms(4,5) show ?thesis
    by (simp add: handle_store_def handle_store_val_def aligned_clears store_mem_u32_in Let_def)
qed

lemma read_ram:
  assumes "cpu_wf cpu" and "unat r < 32"
    and "(regs cpu ! unat r + off) AND 3 = 0" and "regs cpu ! unat r + off < memsize cpu"
  shows "handle_read cpu r off = xtc_read_mem_u32 (memory cpu) (unat (regs cpu ! unat r + off))"
  using assms by (simp add: handle_read_def cpu_wf_def aligned_clears)

text \<open>
  C4. A word stored at an aligned address of the RAM is what a load of that address
  returns, a load of any other aligned RAM address returns what it returned before, and
  neither access can fail.
\<close>

theorem store_then_read:
  assumes "cpu_wf cpu" and "unat r < 32" and "unat rv < 32" and "unat q < 32"
    and "(regs cpu ! unat r + off) AND 3 = 0" and "regs cpu ! unat r + off < memsize cpu"
    and "(regs cpu ! unat q + off') AND 3 = 0" and "regs cpu ! unat q + off' < memsize cpu"
  shows "\<exists>cpu'. handle_store cpu r rv off = Inr cpu' \<and>
    handle_read cpu' q off' =
      (if regs cpu ! unat q + off' = regs cpu ! unat r + off then Inr (regs cpu ! unat rv)
       else handle_read cpu q off')"
proof -
  let ?a = "regs cpu ! unat r + off" and ?b = "regs cpu ! unat q + off'"
  obtain m where m: "xtc_store_mem_u32 (memory cpu) (unat ?a) (regs cpu ! unat rv) = Inr m"
      and st: "handle_store cpu r rv off = Inr (cpu\<lparr>memory := m\<rparr>)"
    using store_ram assms by blast
  have wf: "cpu_wf (cpu\<lparr>memory := m\<rparr>)"
    using assms(1) mem32.store_size [OF m] by (simp add: cpu_wf_def)
  have rd: "handle_read (cpu\<lparr>memory := m\<rparr>) q off' = xtc_read_mem_u32 m (unat ?b)"
    using read_ram [OF wf] assms by simp
  show ?thesis
  proof (cases "?b = ?a")
    case True
    with st rd mem32.load_store_same [OF m] show ?thesis by simp
  next
    case False
    then have "unat ?b \<noteq> unat ?a" by (simp add: word_unat_eq_iff)
    with assms(5,7) have "unat ?b + 4 \<le> unat ?a \<or> unat ?a + 4 \<le> unat ?b"
      unfolding aligned4 by presburger
    with st rd False mem32.load_store_other [OF m] read_ram [OF assms(1,4,7,8)] show ?thesis by simp
  qed
qed

theorem store_then_read_witness:
  "\<exists>cpu'. handle_store (initialize zero_cpu) 1 2 64 = Inr cpu' \<and> handle_read cpu' 3 64 = Inr 0 \<and>
     handle_read cpu' 3 8 = Inr 0"
proof -
  let ?c = "initialize zero_cpu"
  have wf: "cpu_wf ?c" by (rule cpu_wf_initialize)
  have rg: "regs ?c = replicate 32 0" "memsize ?c = 16384" by (simp_all add: initialize_def)
  obtain cpu' where 1: "handle_store ?c 1 2 64 = Inr cpu'" "handle_read cpu' 3 64 = Inr 0"
    using store_then_read [OF wf, of 1 2 3 64 64] by (auto simp: rg)
  obtain cpu'' where 2: "handle_store ?c 1 2 64 = Inr cpu''" "handle_read cpu'' 3 8 = handle_read ?c 3 8"
    using store_then_read [OF wf, of 1 2 3 64 8] by (auto simp: rg)
  have "handle_read ?c 3 8 = Inr 0"
    by (subst read_ram [OF wf]) (simp_all add: rg initialize_def xtc_read_mem_u32_def arr_get_def)
  with 1 2 show ?thesis by auto
qed



subsection \<open>Immediates\<close>












subsection \<open>Control flow\<close>

text \<open>The instruction after a taken branch executes; then control is at the target.\<close>

lemma exec_branch:
  assumes "cpu_wf cpu" and "branchNext cpu = NO_BRANCH"
  shows "opv opcode = OP_BRI \<Longrightarrow> \<exists>c1. execute_single_opcode_fjp cpu opcode = Inr c1 \<and> cpu_wf c1 \<and>
      spr_pc c1 = spr_pc cpu + 2 \<and> branchNext c1 = spr_pc cpu + 2 + immed opcode \<and> spr_br c1 = spr_br cpu"
    and "opv opcode = OP_CALLI \<Longrightarrow> \<exists>c1. execute_single_opcode_fjp cpu opcode = Inr c1 \<and> cpu_wf c1 \<and>
      spr_pc c1 = spr_pc cpu + 2 \<and> branchNext c1 = spr_pc cpu + 2 + immed opcode \<and>
      spr_br c1 = spr_pc cpu + 4"
    and "opv opcode = OP_RET \<Longrightarrow> \<exists>c1. execute_single_opcode_fjp cpu opcode = Inr c1 \<and> cpu_wf c1 \<and>
      spr_pc c1 = spr_pc cpu + 2 \<and> branchNext c1 = spr_br cpu \<and> spr_br c1 = spr_br cpu"
  using assms
  by (simp_all add: fjp_is_cycle cycle_def dispatch_eq cflow_defs delay_slot_def finish_opcode_def
      set_spr_pc_def set_spr_br_def spr_pc_def spr_br_def cpu_wf_def)

lemma exec_next_pc:
  "cpu_wf cpu \<Longrightarrow> execute_single_opcode_fjp cpu opcode = Inr cpu' \<Longrightarrow>
     spr_pc cpu' = (if branchNext cpu \<noteq> NO_BRANCH then branchNext cpu else spr_pc cpu + 2)"
  unfolding fjp_is_cycle by (rule tab.cycle_pc)

text \<open>
  C7. A branch has one delay slot: the instruction at the next address executes, whatever it
  is, and the one after it is the branch target, which is relative to the delay slot.  Only
  the target \<open>0xFFFFFFFF\<close>, the mark for no branch, is lost and execution continues in line.
\<close>

theorem branch_delay_slot:
  assumes "cpu_wf cpu" and "branchNext cpu = NO_BRANCH" and "opv bri = OP_BRI"
    and "execute_single_opcode_fjp cpu bri = Inr c1" and "execute_single_opcode_fjp c1 slot = Inr c2"
  shows "spr_pc c1 = spr_pc cpu + 2 \<and>
    spr_pc c2 = (if spr_pc cpu + 2 + immed bri = 0xFFFFFFFF then spr_pc cpu + 4
                 else spr_pc cpu + 2 + immed bri)"
  using exec_branch(1) [OF assms(1-3)] assms(4) exec_next_pc [OF _ assms(5)] by auto

theorem branch_delay_slot_witness:
  "\<exists>c1 c2. execute_single_opcode_fjp (initialize zero_cpu) (zero_opcode\<lparr>opv := OP_BRI, immed := 0x40\<rparr>) = Inr c1 \<and>
     execute_single_opcode_fjp c1 zero_opcode = Inr c2 \<and> spr_pc c2 = 0x42"
proof -
  let ?b = "zero_opcode\<lparr>opv := OP_BRI, immed := 0x40\<rparr>"
  have b: "branchNext (initialize zero_cpu) = NO_BRANCH" "opv ?b = OP_BRI" "spr_pc (initialize zero_cpu) = 0"
      "opv zero_opcode = OP_NOP"
    by (simp_all add: initialize_def spr_pc_def zero_opcode_def)
  obtain c1 where c1: "execute_single_opcode_fjp (initialize zero_cpu) ?b = Inr c1"
    using exec_branch(1) [OF cpu_wf_initialize b(1,2)] by blast
  obtain c2 where c2: "execute_single_opcode_fjp c1 zero_opcode = Inr c2"
    by (simp add: fjp_is_cycle cycle_def dispatch_eq b(4))
  from branch_delay_slot [OF cpu_wf_initialize b(1,2) c1 c2] c1 c2 b(3) show ?thesis by simp
qed



subsection \<open>Comparisons\<close>

lemma and_bit_32: "x AND 0x100000000 \<noteq> 0 \<longleftrightarrow> bit (x :: u64) 32"
  unfolding bit_iff_and_push_bit_not_eq_0 by simp

lemma and_bit_31: "x AND 0x80000000 \<noteq> 0 \<longleftrightarrow> bit (x :: u64) 31"
  unfolding bit_iff_and_push_bit_not_eq_0 by simp

lemma uint32_bounds: "0 \<le> uint (a :: u32)" "uint (a :: u32) < 4294967296"
  using unsigned_less [of a] by simp_all

lemma uint_ucast64: "uint (ucast (a :: u32) :: u64) = uint a"
  using uint32_bounds [of a] by (simp add: unsigned_ucast_eq take_bit_int_eq_self)

text \<open>Bit 32 of a 64-bit difference of numbers below \<open>2 ^ 32\<close> is the borrow.\<close>

lemma borrow_int:
  fixes x :: int
  assumes "- 4294967296 \<le> x" and "x < 4294967296"
  shows "odd (x mod 2 ^ 64 div 2 ^ 32) \<longleftrightarrow> x < 0"
proof (cases "x < 0")
  case True
  have "x mod 2 ^ 64 = (x + 2 ^ 64) mod 2 ^ 64" by simp
  also have "\<dots> = x + 2 ^ 64" using True assms by (intro mod_pos_pos_trivial) simp_all
  finally have "x mod 2 ^ 64 div 2 ^ 32 = 4294967295" using True assms by simp
  with True show ?thesis by simp
next
  case False
  with assms have "x mod 2 ^ 64 = x" by (intro mod_pos_pos_trivial) simp_all
  with False assms show ?thesis by simp
qed

lemma bit_32_diff: "bit (v - w :: u64) 32 \<longleftrightarrow> odd ((uint v - uint w) mod 2 ^ 64 div 2 ^ 32)"
proof -
  have "bit (v - w) 32 = bit (uint (v - w)) 32" by (simp add: bit_uint_iff)
  also have "\<dots> \<longleftrightarrow> odd ((uint v - uint w) mod 2 ^ 64 div 2 ^ 32)"
    by (simp add: bit_iff_odd uint_word_ariths)
  finally show ?thesis .
qed

lemma borrow_bit: "bit (ucast (a :: u32) - ucast (b :: u32) :: u64) 32 \<longleftrightarrow> a < b"
  unfolding bit_32_diff uint_ucast64 word_less_def
  using uint32_bounds [of a] uint32_bounds [of b] by (subst borrow_int) (linarith | simp)+

lemma sign_bit:
  fixes a b :: u32
  shows "bit (ucast a - ucast b :: u64) 31 \<longleftrightarrow> sint (a - b) < 0"
proof -
  have "ucast (ucast a - ucast b :: u64) = a - b"
    by (simp add: word_uint_eq_iff unsigned_ucast_eq take_bit_eq_mod uint_word_ariths mod_mod_cancel
        mod_diff_eq)
  moreover have "bit (ucast x :: u32) 31 = bit x 31" for x :: u64
    by (simp add: bit_simps)
  ultimately show ?thesis
    using bit_last_iff [of "a - b"] by simp metis
qed

lemma ucast64_eq: "ucast (a :: u32) = (ucast b :: u64) \<longleftrightarrow> a = b"
  by (metis uint_ucast64 word_uint_eq_iff)

lemma cmp_flags:
  assumes "cpu_wf cpu" and "opcode_ok opcode" and "alu_cmp cpu opcode = Inr c"
  shows "zero c = of_bool (regs cpu ! unat (r1 opcode) = regs cpu ! unat (r2 opcode))"
    and "carry c = of_bool (regs cpu ! unat (r1 opcode) < regs cpu ! unat (r2 opcode))"
    and "sign c = of_bool (sint (regs cpu ! unat (r1 opcode) - regs cpu ! unat (r2 opcode)) < 0)"
  using assms
  by (auto simp: alu_cmp_def set_cmp_flags_def ucast64_eq and_bit_32 and_bit_31 borrow_bit sign_bit)

text \<open>
  C9. After a compare of \<open>a\<close> with \<open>b\<close>, the equality branches and the unsigned branches
  \<open>briult\<close>, \<open>briule\<close> and \<open>briuge\<close> are taken exactly when the relation they name holds of
  \<open>a\<close> and \<open>b\<close>; \<open>briugt\<close> is taken when \<open>a\<close> is greater or equal, so it also branches on
  equal operands.
\<close>

theorem unsigned_branches:
  assumes "cpu_wf cpu" and "opcode_ok cmp" and "alu_cmp cpu cmp = Inr c"
    and "a = regs cpu ! unat (r1 cmp)" and "b = regs cpu ! unat (r2 cmp)"
  shows "cflow_brie c br = Inr (if a = b then take_branch c br else c) \<and>
    cflow_brine c br = Inr (if a \<noteq> b then take_branch c br else c) \<and>
    cflow_briult c br = Inr (if a < b then take_branch c br else c) \<and>
    cflow_briule c br = Inr (if a \<le> b then take_branch c br else c) \<and>
    cflow_briuge c br = Inr (if b \<le> a then take_branch c br else c) \<and>
    cflow_briugt c br = Inr (if b \<le> a then take_branch c br else c)"
  using assms(4,5)
  by (auto simp: cflow_brie_def cflow_brine_def cflow_briult_def cflow_briule_def cflow_briuge_def
      cflow_briugt_def cmp_flags [OF assms(1-3)])

theorem unsigned_branches_witness:
  "\<exists>c. alu_cmp (initialize zero_cpu) (zero_opcode\<lparr>r1 := 1, r2 := 2\<rparr>) = Inr c \<and>
     cflow_briugt c zero_opcode = Inr (take_branch c zero_opcode) \<and>
     cflow_briult c zero_opcode = Inr c"
proof -
  let ?o = "zero_opcode\<lparr>r1 := 1, r2 := 2\<rparr>"
  have o: "opcode_ok ?o" by (simp add: opcode_ok_def)
  obtain c where c: "alu_cmp (initialize zero_cpu) ?o = Inr c"
    by (simp add: alu_cmp_def initialize_def)
  with unsigned_branches [OF cpu_wf_initialize o c refl refl, of zero_opcode] show ?thesis
    by (simp add: initialize_def)
qed

text \<open>
  C10. After a compare whose signed difference fits 32 bits, \<open>brilt\<close>, \<open>brile\<close>, \<open>brigt\<close> and
  \<open>brige\<close> are taken exactly when the signed relation they name holds.
\<close>

theorem signed_branches:
  assumes "cpu_wf cpu" and "opcode_ok cmp" and "alu_cmp cpu cmp = Inr c"
    and "a = regs cpu ! unat (r1 cmp)" and "b = regs cpu ! unat (r2 cmp)"
    and "- (2 ^ 31) \<le> sint a - sint b" and "sint a - sint b < 2 ^ 31"
  shows "cflow_brilt c br = Inr (if sint a < sint b then take_branch c br else c) \<and>
    cflow_brile c br = Inr (if sint a \<le> sint b then take_branch c br else c) \<and>
    cflow_brigt c br = Inr (if sint a > sint b then take_branch c br else c) \<and>
    cflow_brige c br = Inr (if sint a \<ge> sint b then take_branch c br else c)"
proof -
  have "sint (a - b) = sint a - sint b"
    using assms(6,7) by (simp add: sint_word_ariths signed_take_bit_int_eq_self)
  moreover have "a = b \<longleftrightarrow> sint a = sint b" by (auto intro: signed_word_eqI)
  ultimately show ?thesis
    using assms(4,5)
    by (auto simp: cflow_brilt_def cflow_brile_def cflow_brigt_def cflow_brige_def
        cmp_flags [OF assms(1-3)])
qed

theorem signed_branches_witness:
  "\<exists>c. alu_cmp ((initialize zero_cpu)\<lparr>regs := (replicate 32 0)[1 := 0xFFFFFFFF]\<rparr>) (zero_opcode\<lparr>r1 := 1, r2 := 2\<rparr>) = Inr c \<and>
     cflow_brilt c zero_opcode = Inr (take_branch c zero_opcode)"
proof -
  let ?o = "zero_opcode\<lparr>r1 := 1, r2 := 2\<rparr>"
  let ?p = "(initialize zero_cpu)\<lparr>regs := (replicate 32 0)[1 := 0xFFFFFFFF]\<rparr>"
  have o: "opcode_ok ?o" by (simp add: opcode_ok_def)
  have wf: "cpu_wf ?p" using cpu_wf_initialize [of zero_cpu] by (simp add: cpu_wf_def)
  obtain c where c: "alu_cmp ?p ?o = Inr c" by (simp add: alu_cmp_def)
  with signed_branches [OF wf o c refl refl, of zero_opcode] show ?thesis by simp
qed

lemma uint_scast64_neg:
  fixes i :: u32
  assumes "sint i < 0"
  shows "uint (scast i :: u64) = sint i + 2 ^ 64"
proof -
  have lo: "- (2 ^ 31) \<le> sint i" using sint_greater_eq [of i] by simp
  have "uint (scast i :: u64) = sint i mod 2 ^ 64"
    unfolding scast_eq uint_word_of_int by simp
  also have "\<dots> = (sint i + 2 ^ 64) mod 2 ^ 64" by simp
  also have "\<dots> = sint i + 2 ^ 64" using lo assms by (intro mod_pos_pos_trivial) simp_all
  finally show ?thesis .
qed

text \<open>
  A compare with a negative immediate never finds its operands equal: the register is
  zero-extended and the immediate sign-extended to 64 bits, so the zero flag stays clear even
  when the register holds that very immediate.
\<close>

lemma cmpi_negative:
  assumes "cpu_wf cpu" and "opcode_ok opcode" and "sint (immed opcode) < 0"
  shows "\<exists>c. reg_cmpi cpu opcode = Inr c \<and> zero c = 0"
proof -
  let ?a = "regs cpu ! unat (r1 opcode)"
  have "uint (ucast ?a :: u64) \<noteq> uint (scast (immed opcode) :: u64)"
    unfolding uint_ucast64 uint_scast64_neg [OF assms(3)]
    using uint32_bounds [of ?a] sint_greater_eq [of "immed opcode"] by simp
  then have "(ucast ?a :: u64) \<noteq> scast (immed opcode)" by auto
  then show ?thesis
    using assms(1,2) by (simp add: reg_cmpi_def set_cmp_flags_def cpu_wf_def opcode_ok_def)
qed

text \<open>
  The flags of a register subtraction compare the difference, not the minuend, with the
  subtrahend: with distinct registers the zero flag is set exactly when the minuend is twice
  the subtrahend.
\<close>

lemma sub_flags:
  assumes "cpu_wf cpu" and "opcode_ok opcode" and "alu_op_immed opcode = 0" and "r1 opcode \<noteq> r2 opcode"
    and "a = regs cpu ! unat (r1 opcode)" and "b = regs cpu ! unat (r2 opcode)"
  shows "\<exists>c. alu_sub cpu opcode = Inr c \<and> regs c = (regs cpu)[unat (r1 opcode) := a - b] \<and>
    zero c = of_bool (a = b + b) \<and> carry c = of_bool (a - b > b)"
proof -
  have "unat (r1 opcode) \<noteq> unat (r2 opcode)" using assms(4) by (simp add: word_unat_eq_iff)
  moreover have "a - b = b \<longleftrightarrow> a = b + b" by (metis add_diff_cancel diff_add_cancel)
  ultimately show ?thesis
    using assms by (simp add: alu_sub_def alu_operand_def cpu_wf_def opcode_ok_def)
qed

subsection \<open>The two executors and the start-up\<close>

text \<open>
  C13. On every register-form instruction of \<open>same_semantics\<close> the executor with the table
  of handlers and the older executor with its switch do the same: they stop for the same
  reason or reach states that agree in everything but the two fields the older one keeps in
  local variables.
\<close>

theorem executors_agree:
  assumes "same_semantics opcode"
  shows "map_sum id visible (execute_single_opcode cpu opcode) =
    map_sum id visible (execute_single_opcode_fjp cpu opcode)"
  unfolding legacy_is_cycle fjp_is_cycle cycle_def legacy_handler_same [OF assms] ..

theorem executors_agree_witness:
  "same_semantics (zero_opcode\<lparr>opv := OP_BRIE, immed := 6\<rparr>) \<and>
   map_sum id visible (execute_single_opcode (initialize zero_cpu) (zero_opcode\<lparr>opv := OP_BRIE, immed := 6\<rparr>)) =
   map_sum id visible (execute_single_opcode_fjp (initialize zero_cpu) (zero_opcode\<lparr>opv := OP_BRIE, immed := 6\<rparr>))"
proof -
  have "same_semantics (zero_opcode\<lparr>opv := OP_BRIE, immed := 6\<rparr>)"
    by (simp add: same_semantics_def zero_opcode_def)
  with executors_agree [OF this] show ?thesis by blast
qed


end
