(* ===== verification/Xtc_Opc.thy ===== *)
theory Xtc_Opc
  imports Xtc_Prelude
begin

text \<open>
  The instruction table shared by the assembler and the disassembler:
  \<^verbatim>\<open>opcodes/xtc-opc.h\<close> and \<^verbatim>\<open>opcodes/xtc-opcm.h\<close>.  The C type
  \<^verbatim>\<open>unsigned long\<close> is 64 bits wide, as on the hosts the tools run on.
\<close>

subsection \<open>Data\<close>

datatype (plugins only: code size) xtc_instr =
    insn_nop | insn_add | insn_addc | insn_sub | insn_subb | insn_and | insn_or
  | insn_copy | insn_cmp | insn_xor | insn_shl | insn_shr | insn_srl | insn_sra
  | insn_mul | insn_not | insn_cadd | insn_csub | insn_sextb | insn_sexts | insn_bri
  | insn_imm | insn_limr | insn_stw | insn_sts | insn_stb | insn_stspr | insn_stwpostinc
  | insn_stspostinc | insn_stbpostinc | insn_stsprpostinc | insn_ldw | insn_lds | insn_ldb | insn_ldspr
  | insn_ldwpostinc | insn_ldspostinc | insn_ldbpostinc | insn_ldsprpostinc | insn_addi | insn_addri | insn_cmpi
  | insn_call | insn_callr | insn_brr | insn_lsr | insn_ssr | insn_jmp | insn_jmpe
  | insn_copr | insn_copw | insn_rspr | insn_wspr | insn_rusr | insn_wusr | insn_invalid_inst

datatype inst_type =
    INST_TYPE_R1_R2 | INST_TYPE_IMM | INST_TYPE_IMM8 | INST_TYPE_IMM8_FLAGS | INST_TYPE_IMM8_R
  | INST_TYPE_MEM_LOAD | INST_TYPE_NOARGS | INST_TYPE_MEM_INDIRECT | INST_TYPE_MEM_IMM8_R
  | INST_TYPE_R | INST_TYPE_MEM_LOAD_S | INST_TYPE_R1_R2_IMM | INST_TYPE_MEM_STORE
  | INST_TYPE_MEM_STORE_S | INST_TYPE_COP | INST_TYPE_RSPR | INST_TYPE_WSPR

datatype inst_offset = INST_PC_OFFSET | INST_NO_OFFSET

datatype xtc_ext_ability = NO_EXT | IS_EXT | CAN_EXT_DREG | CAN_EXT_IMMED | CAN_EXT_ALL

datatype xtc_imm_type = NO_IMM | IMM8 | IMM_CHANGES_MEANING

record op_code_struct =
  op_name :: string
  op_ext :: xtc_ext_ability
  op_imm :: xtc_imm_type
  op_inst_type :: inst_type
  bit_sequence :: u64
  opcode_mask :: u64
  inst_offset_type :: inst_offset
  op_instr :: xtc_instr

abbreviation OPCODE_MASK_H :: u64 where "OPCODE_MASK_H \<equiv> 0x7000"
abbreviation OPCODE_MASK_EXT :: u64 where "OPCODE_MASK_EXT \<equiv> 0x7F00"
abbreviation OPCODE_MASK_MEM :: u64 where "OPCODE_MASK_MEM \<equiv> 0x7F00"
abbreviation OPCODE_MASK_ARITH :: u64 where "OPCODE_MASK_ARITH \<equiv> 0x7F00"
abbreviation OPCODE_MASK_COP :: u64 where "OPCODE_MASK_COP \<equiv> 0x7C00"
abbreviation OPCODE_MASK_IMM :: u64 where "OPCODE_MASK_IMM \<equiv> 0x60008000"

text \<open>The table, without the null entry that ends it.\<close>

definition opcodes :: "op_code_struct list" where
  "opcodes = map (\<lambda>(n, e, im, t, b, m, off, i).
     \<lparr>op_name = n, op_ext = e, op_imm = im, op_inst_type = t, bit_sequence = b, opcode_mask = m,
      inst_offset_type = off, op_instr = i\<rparr>)
    [(''imm'', IS_EXT, IMM8, INST_TYPE_IMM, 0x60008000, OPCODE_MASK_IMM, INST_NO_OFFSET, insn_imm),
     (''add'', CAN_EXT_ALL, NO_IMM, INST_TYPE_R1_R2, 0x0000, OPCODE_MASK_ARITH, INST_NO_OFFSET, insn_add),
     (''addc'', CAN_EXT_ALL, NO_IMM, INST_TYPE_R1_R2, 0x0100, OPCODE_MASK_ARITH, INST_NO_OFFSET, insn_addc),
     (''sub'', CAN_EXT_ALL, NO_IMM, INST_TYPE_R1_R2, 0x0200, OPCODE_MASK_ARITH, INST_NO_OFFSET, insn_sub),
     (''subb'', CAN_EXT_ALL, NO_IMM, INST_TYPE_R1_R2, 0x0300, OPCODE_MASK_ARITH, INST_NO_OFFSET, insn_subb),
     (''and'', CAN_EXT_ALL, NO_IMM, INST_TYPE_R1_R2, 0x0400, OPCODE_MASK_ARITH, INST_NO_OFFSET, insn_and),
     (''or'', CAN_EXT_ALL, NO_IMM, INST_TYPE_R1_R2, 0x0500, OPCODE_MASK_ARITH, INST_NO_OFFSET, insn_or),
     (''xor'', CAN_EXT_ALL, NO_IMM, INST_TYPE_R1_R2, 0x0600, OPCODE_MASK_ARITH, INST_NO_OFFSET, insn_cmp),
     (''cmp'', CAN_EXT_ALL, NO_IMM, INST_TYPE_R1_R2, 0x0700, OPCODE_MASK_ARITH, INST_NO_OFFSET, insn_xor),
     (''shl'', CAN_EXT_ALL, NO_IMM, INST_TYPE_R1_R2, 0x0800, OPCODE_MASK_ARITH, INST_NO_OFFSET, insn_shl),
     (''srl'', CAN_EXT_ALL, NO_IMM, INST_TYPE_R1_R2, 0x0900, OPCODE_MASK_ARITH, INST_NO_OFFSET, insn_srl),
     (''sra'', CAN_EXT_ALL, NO_IMM, INST_TYPE_R1_R2, 0x0A00, OPCODE_MASK_ARITH, INST_NO_OFFSET, insn_sra),
     (''mul'', CAN_EXT_ALL, NO_IMM, INST_TYPE_R1_R2, 0x0B00, OPCODE_MASK_ARITH, INST_NO_OFFSET, insn_mul),
     (''addr'', CAN_EXT_ALL, NO_IMM, INST_TYPE_R1_R2, 0x0C00, OPCODE_MASK_ARITH, INST_NO_OFFSET, insn_addri),
     (''not'', CAN_EXT_ALL, NO_IMM, INST_TYPE_R1_R2, 0x0D00, OPCODE_MASK_ARITH, INST_NO_OFFSET, insn_not),
     (''cadd'', CAN_EXT_ALL, NO_IMM, INST_TYPE_R1_R2, 0x0E00, OPCODE_MASK_ARITH, INST_NO_OFFSET, insn_cadd),
     (''csub'', CAN_EXT_ALL, NO_IMM, INST_TYPE_R1_R2, 0x0F00, OPCODE_MASK_ARITH, INST_NO_OFFSET, insn_csub),
     (''stw'', CAN_EXT_IMMED, NO_IMM, INST_TYPE_MEM_STORE, 0x1000, OPCODE_MASK_MEM, INST_NO_OFFSET, insn_stw),
     (''sts'', CAN_EXT_IMMED, NO_IMM, INST_TYPE_MEM_STORE, 0x1100, OPCODE_MASK_MEM, INST_NO_OFFSET, insn_sts),
     (''stb'', CAN_EXT_IMMED, NO_IMM, INST_TYPE_MEM_STORE, 0x1200, OPCODE_MASK_MEM, INST_NO_OFFSET, insn_stb),
     (''stw+'', CAN_EXT_IMMED, NO_IMM, INST_TYPE_MEM_STORE, 0x1400, OPCODE_MASK_MEM, INST_NO_OFFSET, insn_stwpostinc),
     (''sts+'', CAN_EXT_IMMED, NO_IMM, INST_TYPE_MEM_STORE, 0x1500, OPCODE_MASK_MEM, INST_NO_OFFSET, insn_stspostinc),
     (''stb+'', CAN_EXT_IMMED, NO_IMM, INST_TYPE_MEM_STORE, 0x1600, OPCODE_MASK_MEM, INST_NO_OFFSET, insn_stbpostinc),
     (''ldw'', CAN_EXT_IMMED, NO_IMM, INST_TYPE_MEM_LOAD, 0x1800, OPCODE_MASK_MEM, INST_NO_OFFSET, insn_ldw),
     (''lds'', CAN_EXT_IMMED, NO_IMM, INST_TYPE_MEM_LOAD, 0x1900, OPCODE_MASK_MEM, INST_NO_OFFSET, insn_lds),
     (''ldb'', CAN_EXT_IMMED, NO_IMM, INST_TYPE_MEM_LOAD, 0x1A00, OPCODE_MASK_MEM, INST_NO_OFFSET, insn_ldb),
     (''ldw+'', CAN_EXT_IMMED, NO_IMM, INST_TYPE_MEM_LOAD, 0x1C00, OPCODE_MASK_MEM, INST_NO_OFFSET, insn_ldwpostinc),
     (''lds+'', CAN_EXT_IMMED, NO_IMM, INST_TYPE_MEM_LOAD, 0x1D00, OPCODE_MASK_MEM, INST_NO_OFFSET, insn_ldspostinc),
     (''ldb+'', CAN_EXT_IMMED, NO_IMM, INST_TYPE_MEM_LOAD, 0x1E00, OPCODE_MASK_MEM, INST_NO_OFFSET, insn_ldbpostinc),
     (''copr'', NO_EXT, NO_IMM, INST_TYPE_COP, 0x2000, OPCODE_MASK_COP, INST_NO_OFFSET, insn_copr),
     (''copw'', NO_EXT, NO_IMM, INST_TYPE_COP, 0x2400, OPCODE_MASK_COP, INST_NO_OFFSET, insn_copw),
     (''br'', CAN_EXT_IMMED, IMM8, INST_TYPE_IMM8_R, 0x4000, OPCODE_MASK_H, INST_PC_OFFSET, insn_bri),
     (''addi'', CAN_EXT_ALL, IMM8, INST_TYPE_IMM8_R, 0x5000, OPCODE_MASK_H, INST_NO_OFFSET, insn_addi),
     (''cmpi'', CAN_EXT_IMMED, IMM8, INST_TYPE_IMM8_R, 0x6000, OPCODE_MASK_H, INST_NO_OFFSET, insn_cmpi),
     (''limr'', CAN_EXT_IMMED, IMM8, INST_TYPE_IMM8_R, 0x7000, OPCODE_MASK_H, INST_NO_OFFSET, insn_limr),
     (''jmp'', NO_EXT, NO_IMM, INST_TYPE_R1_R2, 0x3000, OPCODE_MASK_ARITH, INST_NO_OFFSET, insn_jmp),
     (''jmpe'', NO_EXT, NO_IMM, INST_TYPE_R1_R2, 0x3400, OPCODE_MASK_ARITH, INST_NO_OFFSET, insn_jmpe),
     (''sextb'', CAN_EXT_ALL, NO_IMM, INST_TYPE_R1_R2, 0x3800, OPCODE_MASK_ARITH, INST_NO_OFFSET, insn_sextb),
     (''sexts'', CAN_EXT_ALL, NO_IMM, INST_TYPE_R1_R2, 0x3A00, OPCODE_MASK_ARITH, INST_NO_OFFSET, insn_sexts),
     (''rspr'', NO_EXT, NO_IMM, INST_TYPE_RSPR, 0x3C00, OPCODE_MASK_ARITH, INST_NO_OFFSET, insn_rspr),
     (''wspr'', NO_EXT, NO_IMM, INST_TYPE_WSPR, 0x3E00, OPCODE_MASK_ARITH, INST_NO_OFFSET, insn_wspr),
     (''rusr'', NO_EXT, NO_IMM, INST_TYPE_R1_R2, 0x3D00, OPCODE_MASK_ARITH, INST_NO_OFFSET, insn_rusr),
     (''wusr'', NO_EXT, NO_IMM, INST_TYPE_R1_R2, 0x3F00, OPCODE_MASK_ARITH, INST_NO_OFFSET, insn_wusr),
     (''swi'', NO_EXT, NO_IMM, INST_TYPE_NOARGS, 0x2800, OPCODE_MASK_ARITH, INST_NO_OFFSET, insn_nop),
     (''nop'', NO_EXT, NO_IMM, INST_TYPE_NOARGS, 0x3800, 0x7FFF, INST_NO_OFFSET, insn_nop)]"

definition condition_codes :: "(string \<times> u64) list" where
  "condition_codes =
    [(''ne'', 1), (''eq'', 2), (''gt'', 3), (''ge'', 4), (''lt'', 5), (''le'', 6), (''ugt'', 7),
     (''uge'', 8), (''ult'', 9), (''ule'', 10), (''s'', 11), (''ns'', 12)]"

text \<open>The linear search every user of the table repeats.\<close>

definition op_matches :: "u64 \<Rightarrow> op_code_struct \<Rightarrow> bool" where
  "op_matches inst op \<longleftrightarrow> bit_sequence op = inst AND opcode_mask op"

definition find_op :: "u64 \<Rightarrow> op_code_struct option" where
  "find_op inst = find (op_matches inst) opcodes"

subsection \<open>The search is unambiguous\<close>

text \<open>
  Two entries exclude each other when they fix some common bit differently: then no word
  matches both.  The prefix entry \<open>imm\<close> comes first and looks at bits the others ignore.
\<close>

definition op_key :: "op_code_struct \<Rightarrow> u64 \<times> u64" where
  "op_key op = (bit_sequence op, opcode_mask op)"

definition excludes :: "u64 \<times> u64 \<Rightarrow> u64 \<times> u64 \<Rightarrow> bool" where
  "excludes p q \<longleftrightarrow> fst p AND snd q \<noteq> fst q AND snd p"

lemma excludes_no_match:
  assumes "excludes (op_key p) (op_key q)" and "op_matches w p"
  shows "\<not> op_matches w q"
  using assms by (auto simp: op_matches_def excludes_def op_key_def and.assoc and.commute and.left_commute)

fun all_exclude :: "(u64 \<times> u64) list \<Rightarrow> bool" where
  "all_exclude [] \<longleftrightarrow> True"
| "all_exclude (p # ps) \<longleftrightarrow> (\<forall>q \<in> set ps. excludes p q) \<and> all_exclude ps"

lemma find_unique:
  "all_exclude (map op_key ps) \<Longrightarrow> p \<in> set ps \<Longrightarrow> op_matches w p \<Longrightarrow>
     find (op_matches w) ps = Some p"
  by (induction ps) (auto dest: excludes_no_match)

definition nop_entry :: op_code_struct where
  "nop_entry = last opcodes"

definition imm_entry :: op_code_struct where
  "imm_entry = hd opcodes"

text \<open>The entries between the prefix and \<open>nop\<close> exclude each other.\<close>

lemma table_split: "opcodes = imm_entry # tl (butlast opcodes) @ [nop_entry]"
  by (simp add: opcodes_def imm_entry_def nop_entry_def)

lemma table_keys: "map op_key (tl (butlast opcodes)) =
   map (\<lambda>k. (k, 0x7F00)) [0x0000, 0x0100, 0x0200, 0x0300, 0x0400, 0x0500, 0x0600, 0x0700, 0x0800,
     0x0900, 0x0A00, 0x0B00, 0x0C00, 0x0D00, 0x0E00, 0x0F00, 0x1000, 0x1100, 0x1200, 0x1400, 0x1500,
     0x1600, 0x1800, 0x1900, 0x1A00, 0x1C00, 0x1D00, 0x1E00] @
   [(0x2000, 0x7C00), (0x2400, 0x7C00), (0x4000, 0x7000), (0x5000, 0x7000), (0x6000, 0x7000),
    (0x7000, 0x7000)] @
   map (\<lambda>k. (k, 0x7F00)) [0x3000, 0x3400, 0x3800, 0x3A00, 0x3C00, 0x3E00, 0x3D00, 0x3F00, 0x2800]"
  by (simp add: opcodes_def op_key_def)

lemma table_excludes: "all_exclude (map op_key (tl (butlast opcodes)))"
  unfolding table_keys by (simp add: excludes_def)

end
