(* ===== verification/Elf_Howto.thy ===== *)
theory Elf_Howto
  imports Xtc_Prelude
begin

text \<open>
  The relocation tables of the object format: the generic relocation codes of
  \<^verbatim>\<open>bfd/bfd-in2.h\<close> the port uses, the relocation numbers of
  \<^verbatim>\<open>include/elf/xtc.h\<close>, and the table of relocation descriptions of
  \<^verbatim>\<open>bfd/elf32-xtc.c\<close> with its lazily filled index and its look-up functions.  The index
  is a state that every function takes and returns.
\<close>

subsection \<open>Relocation codes and numbers\<close>

text \<open>The last constructor stands for the codes of other processors.\<close>

datatype (plugins only: code size) bfd_reloc =
    BFD_RELOC_NONE | BFD_RELOC_8 | BFD_RELOC_16 | BFD_RELOC_32 | BFD_RELOC_64 | BFD_RELOC_RVA
  | BFD_RELOC_16_PCREL | BFD_RELOC_32_PCREL | BFD_RELOC_64_PCREL
  | BFD_RELOC_XTC_NONE | BFD_RELOC_XTC_32 | BFD_RELOC_XTC_32_PCREL
  | BFD_RELOC_XTC_I8 | BFD_RELOC_XTC_E8 | BFD_RELOC_XTC_E8_NR | BFD_RELOC_XTC_E8_I8
  | BFD_RELOC_XTC_E24 | BFD_RELOC_XTC_E24_I8 | BFD_RELOC_XTC_E24_E8 | BFD_RELOC_XTC_E24_E8_NR
  | BFD_RELOC_XTC_E24_E8_I8
  | BFD_RELOC_XTC_I8_PCREL | BFD_RELOC_XTC_E8_PCREL | BFD_RELOC_XTC_E8_NR_PCREL
  | BFD_RELOC_XTC_E8_I8_PCREL | BFD_RELOC_XTC_E24_PCREL | BFD_RELOC_XTC_E24_I8_PCREL
  | BFD_RELOC_XTC_E24_E8_PCREL | BFD_RELOC_XTC_E24_E8_NR_PCREL | BFD_RELOC_XTC_E24_E8_I8_PCREL
  | BFD_RELOC_other nat

text \<open>A number an object file may hold that the port does not define is \<open>R_XTC_other\<close>.\<close>

datatype (plugins only: code size) elf_xtc_reloc_type =
    R_XTC_NONE | R_XTC_32 | R_XTC_32_PCREL
  | R_XTC_32_I8 | R_XTC_32_E8 | R_XTC_32_E8_I8 | R_XTC_32_E24 | R_XTC_32_E24_I8 | R_XTC_32_E24_E8
  | R_XTC_32_I8_R | R_XTC_32_E8_R | R_XTC_32_E8_I8_R | R_XTC_32_E24_R | R_XTC_32_E24_I8_R
  | R_XTC_32_E24_E8_R
  | R_XTC_32_E8_NR | R_XTC_32_E24_E8_NR | R_XTC_32_E8_NR_R | R_XTC_32_E24_E8_NR_R
  | R_XTC_other nat

abbreviation R_XTC_max :: nat where "R_XTC_max \<equiv> 19"

fun reloc_number :: "elf_xtc_reloc_type \<Rightarrow> nat" where
  "reloc_number R_XTC_NONE = 0"
| "reloc_number R_XTC_32 = 1"
| "reloc_number R_XTC_32_PCREL = 2"
| "reloc_number R_XTC_32_I8 = 3"
| "reloc_number R_XTC_32_E8 = 4"
| "reloc_number R_XTC_32_E8_I8 = 5"
| "reloc_number R_XTC_32_E24 = 6"
| "reloc_number R_XTC_32_E24_I8 = 7"
| "reloc_number R_XTC_32_E24_E8 = 8"
| "reloc_number R_XTC_32_I8_R = 9"
| "reloc_number R_XTC_32_E8_R = 10"
| "reloc_number R_XTC_32_E8_I8_R = 11"
| "reloc_number R_XTC_32_E24_R = 12"
| "reloc_number R_XTC_32_E24_I8_R = 13"
| "reloc_number R_XTC_32_E24_E8_R = 14"
| "reloc_number R_XTC_32_E8_NR = 15"
| "reloc_number R_XTC_32_E24_E8_NR = 16"
| "reloc_number R_XTC_32_E8_NR_R = 17"
| "reloc_number R_XTC_32_E24_E8_NR_R = 18"
| "reloc_number (R_XTC_other n) = R_XTC_max + n"

subsection \<open>The table\<close>

datatype ld_error = LdOutOfBounds | LdAbort | LdNull

datatype complain_overflow = complain_overflow_bitfield

datatype special_function = no_function | bfd_elf_generic_reloc | xtc_elf_ignore_reloc

record reloc_howto =
  howto_type :: elf_xtc_reloc_type
  rightshift :: nat
  howto_size :: nat
  bitsize :: nat
  pc_relative :: bool
  bitpos :: nat
  complain_on_overflow :: complain_overflow
  special_fn :: special_function
  howto_name :: string
  partial_inplace :: bool
  src_mask :: u64
  dst_mask :: u64
  pcrel_offset :: bool

definition HOWTO :: "elf_xtc_reloc_type \<Rightarrow> nat \<Rightarrow> nat \<Rightarrow> nat \<Rightarrow> bool \<Rightarrow> nat \<Rightarrow> complain_overflow \<Rightarrow>
    special_function \<Rightarrow> string \<Rightarrow> bool \<Rightarrow> u64 \<Rightarrow> u64 \<Rightarrow> bool \<Rightarrow> reloc_howto" where
  "HOWTO C R S B P BI Ov SF NAME INPLACE MASKSRC MASKDST PC =
     \<lparr>howto_type = C, rightshift = R, howto_size = S, bitsize = B, pc_relative = P, bitpos = BI,
      complain_on_overflow = Ov, special_fn = SF, howto_name = NAME, partial_inplace = INPLACE,
      src_mask = MASKSRC, dst_mask = MASKDST, pcrel_offset = PC\<rparr>"

text \<open>The table in the order of the source, the absolute relocations and the relative ones.\<close>

definition howto_raw_abs :: "reloc_howto list" where
  "howto_raw_abs = [
    HOWTO R_XTC_NONE 0 2 32 False 0 complain_overflow_bitfield
      no_function ''R_XTC_NONE'' False 0 0 False,
    HOWTO R_XTC_32 0 2 32 False 0 complain_overflow_bitfield
      bfd_elf_generic_reloc ''R_XTC_32'' False 0 0xffffffff False,
    HOWTO R_XTC_32_PCREL 0 2 32 True 0 complain_overflow_bitfield
      bfd_elf_generic_reloc ''R_XTC_32_PCREL'' True 0 0xffffffff True,
    HOWTO R_XTC_32_I8 0 2 8 False 0 complain_overflow_bitfield
      xtc_elf_ignore_reloc ''R_XTC_32_I8'' True 0 0 False,
    HOWTO R_XTC_32_E8 0 2 8 False 0 complain_overflow_bitfield
      xtc_elf_ignore_reloc ''R_XTC_32_E8'' True 0 0 False,
    HOWTO R_XTC_32_E8_NR 0 2 8 False 0 complain_overflow_bitfield
      xtc_elf_ignore_reloc ''R_XTC_32_E8_NR'' True 0 0 False,
    HOWTO R_XTC_32_E8_I8 0 2 16 False 0 complain_overflow_bitfield
      xtc_elf_ignore_reloc ''R_XTC_32_E8_I8'' True 0 0 False,
    HOWTO R_XTC_32_E24 0 2 24 False 0 complain_overflow_bitfield
      xtc_elf_ignore_reloc ''R_XTC_32_E24'' True 0 0 False,
    HOWTO R_XTC_32_E24_I8 0 2 32 False 0 complain_overflow_bitfield
      xtc_elf_ignore_reloc ''R_XTC_32_E24_I8'' True 0 0 False,
    HOWTO R_XTC_32_E24_E8 0 2 32 False 0 complain_overflow_bitfield
      xtc_elf_ignore_reloc ''R_XTC_32_E24_E8'' True 0 0 False,
    HOWTO R_XTC_32_E24_E8_NR 0 2 32 False 0 complain_overflow_bitfield
      xtc_elf_ignore_reloc ''R_XTC_32_E24_E8_NR'' True 0 0 False
  ]"

definition howto_raw_rel :: "reloc_howto list" where
  "howto_raw_rel = [
    HOWTO R_XTC_32_I8_R 0 2 8 True 0 complain_overflow_bitfield
      xtc_elf_ignore_reloc ''R_XTC_32_I8_R'' True 0 0xffffffff True,
    HOWTO R_XTC_32_E8_R 0 2 8 True 0 complain_overflow_bitfield
      xtc_elf_ignore_reloc ''R_XTC_32_E8_R'' True 0 0xffffffff True,
    HOWTO R_XTC_32_E8_NR_R 0 2 8 True 0 complain_overflow_bitfield
      xtc_elf_ignore_reloc ''R_XTC_32_E8_NR_R'' True 0 0xffffffff True,
    HOWTO R_XTC_32_E8_I8_R 0 2 16 True 4 complain_overflow_bitfield
      xtc_elf_ignore_reloc ''R_XTC_32_E8_I8_R'' True 0 0x0 True,
    HOWTO R_XTC_32_E24_R 0 2 24 True 4 complain_overflow_bitfield
      xtc_elf_ignore_reloc ''R_XTC_32_E24_R'' True 0 0x0 True,
    HOWTO R_XTC_32_E24_I8_R 0 2 32 True 4 complain_overflow_bitfield
      xtc_elf_ignore_reloc ''R_XTC_32_E24_I8_R'' True 0 0x0 True,
    HOWTO R_XTC_32_E24_E8_R 0 2 32 True 4 complain_overflow_bitfield
      xtc_elf_ignore_reloc ''R_XTC_32_E24_E8_R'' True 0 0x0 True,
    HOWTO R_XTC_32_E24_E8_NR_R 0 2 32 True 4 complain_overflow_bitfield
      xtc_elf_ignore_reloc ''R_XTC_32_E24_E8_NR_R'' True 0 0x0 True
  ]"

definition xtc_elf_howto_raw :: "reloc_howto list" where
  "xtc_elf_howto_raw = howto_raw_abs @ howto_raw_rel"

subsection \<open>The index and the look-ups\<close>

type_synonym howto_table = "reloc_howto option list"

text \<open>The static array before anything is looked up.\<close>

definition empty_howto_table :: howto_table where
  "empty_howto_table = replicate R_XTC_max None"

text \<open>
  The loop runs from the last entry to the first.  The assertion only prints a message, so
  a number beyond the array would be stored outside it.
\<close>

fun howto_init_loop :: "reloc_howto list \<Rightarrow> howto_table \<Rightarrow> ld_error + howto_table" where
  "howto_init_loop [] tab = Inr tab"
| "howto_init_loop (h # hs) tab =
     rbind (arr_put LdOutOfBounds tab (reloc_number (howto_type h)) (Some h)) (howto_init_loop hs)"

definition xtc_elf_howto_init :: "howto_table \<Rightarrow> ld_error + howto_table" where
  "xtc_elf_howto_init tab = howto_init_loop (rev xtc_elf_howto_raw) tab"

definition init_if_needed :: "elf_xtc_reloc_type \<Rightarrow> howto_table \<Rightarrow> ld_error + howto_table" where
  "init_if_needed t tab =
     rbind (arr_get LdOutOfBounds tab (reloc_number t)) (\<lambda>h.
       if h = None then xtc_elf_howto_init tab else Inr tab)"

fun code_reloc :: "bfd_reloc \<Rightarrow> elf_xtc_reloc_type option" where
  "code_reloc BFD_RELOC_NONE = Some R_XTC_NONE"
| "code_reloc BFD_RELOC_32 = Some R_XTC_32"
| "code_reloc BFD_RELOC_RVA = Some R_XTC_32"
| "code_reloc BFD_RELOC_32_PCREL = Some R_XTC_32_PCREL"
| "code_reloc BFD_RELOC_XTC_32 = Some R_XTC_32"
| "code_reloc BFD_RELOC_XTC_32_PCREL = Some R_XTC_32_PCREL"
| "code_reloc BFD_RELOC_XTC_I8 = Some R_XTC_32_I8"
| "code_reloc BFD_RELOC_XTC_E8 = Some R_XTC_32_E8"
| "code_reloc BFD_RELOC_XTC_E8_NR = Some R_XTC_32_E8_NR"
| "code_reloc BFD_RELOC_XTC_E8_I8 = Some R_XTC_32_E8_I8"
| "code_reloc BFD_RELOC_XTC_E24 = Some R_XTC_32_E24"
| "code_reloc BFD_RELOC_XTC_E24_I8 = Some R_XTC_32_E24_I8"
| "code_reloc BFD_RELOC_XTC_E24_E8 = Some R_XTC_32_E24_E8"
| "code_reloc BFD_RELOC_XTC_E24_E8_NR = Some R_XTC_32_E24_E8_NR"
| "code_reloc BFD_RELOC_XTC_I8_PCREL = Some R_XTC_32_I8_R"
| "code_reloc BFD_RELOC_XTC_E8_PCREL = Some R_XTC_32_E8_R"
| "code_reloc BFD_RELOC_XTC_E8_NR_PCREL = Some R_XTC_32_E8_NR_R"
| "code_reloc BFD_RELOC_XTC_E8_I8_PCREL = Some R_XTC_32_E8_I8_R"
| "code_reloc BFD_RELOC_XTC_E24_PCREL = Some R_XTC_32_E24_R"
| "code_reloc BFD_RELOC_XTC_E24_I8_PCREL = Some R_XTC_32_E24_I8_R"
| "code_reloc BFD_RELOC_XTC_E24_E8_PCREL = Some R_XTC_32_E24_E8_R"
| "code_reloc BFD_RELOC_XTC_E24_E8_NR_PCREL = Some R_XTC_32_E24_E8_NR_R"
| "code_reloc _ = None"

definition xtc_elf_reloc_type_lookup ::
    "howto_table \<Rightarrow> bfd_reloc \<Rightarrow> ld_error + (howto_table \<times> reloc_howto option)" where
  "xtc_elf_reloc_type_lookup tab code =
     (case code_reloc code of
        None \<Rightarrow> Inl LdAbort
      | Some xtc_reloc \<Rightarrow>
          rbind (init_if_needed R_XTC_32 tab) (\<lambda>tab.
          rbind (arr_get LdOutOfBounds tab (reloc_number xtc_reloc)) (\<lambda>h. Inr (tab, h))))"

definition xtc_elf_reloc_name_lookup :: "string \<Rightarrow> reloc_howto option" where
  "xtc_elf_reloc_name_lookup r_name =
     find (\<lambda>h. map to_lower (howto_name h) = map to_lower r_name) xtc_elf_howto_raw"

text \<open>Here too the assertion on the number only prints a message.\<close>

definition xtc_elf_info_to_howto ::
    "howto_table \<Rightarrow> elf_xtc_reloc_type \<Rightarrow> ld_error + (howto_table \<times> reloc_howto option)" where
  "xtc_elf_info_to_howto tab r_type =
     rbind (init_if_needed R_XTC_32 tab) (\<lambda>tab.
     rbind (arr_get LdOutOfBounds tab (reloc_number r_type)) (\<lambda>h. Inr (tab, h)))"

subsection \<open>The index caches the table\<close>

lemmas howto_raw_defs = xtc_elf_howto_raw_def howto_raw_abs_def howto_raw_rel_def HOWTO_def

definition full_howto_table :: howto_table where
  "full_howto_table =
     map (\<lambda>n. find (\<lambda>h. reloc_number (howto_type h) = n) xtc_elf_howto_raw) [0..<R_XTC_max]"

text \<open>The array is either untouched or completely filled.\<close>

definition howto_table_ok :: "howto_table \<Rightarrow> bool" where
  "howto_table_ok tab \<longleftrightarrow> tab = empty_howto_table \<or> tab = full_howto_table"

lemma upt_max: "[0..<R_XTC_max] = [0, 1, 2, 3, 4, 5, 6, 7, 8, 9, 10, 11, 12, 13, 14, 15, 16, 17, 18]"
  by code_simp

lemma init_empty: "xtc_elf_howto_init empty_howto_table = Inr full_howto_table"
  unfolding full_howto_table_def upt_max xtc_elf_howto_init_def empty_howto_table_def
  by (simp add: howto_raw_defs numeral_eq_Suc arr_put_def)

lemma reloc_number_lt [simp]: "reloc_number t < R_XTC_max \<longleftrightarrow> (\<forall>n. t \<noteq> R_XTC_other n)"
  by (cases t) auto

lemma reloc_number_inj: "reloc_number s = reloc_number t \<Longrightarrow> s = t"
  by (cases s; cases t) simp_all

text \<open>The description of a relocation, without the index.\<close>

definition howto_of :: "elf_xtc_reloc_type \<Rightarrow> reloc_howto option" where
  "howto_of t = find (\<lambda>h. howto_type h = t) xtc_elf_howto_raw"

lemma howto_of_Some: "howto_of t = Some h \<Longrightarrow> howto_type h = t \<and> h \<in> set xtc_elf_howto_raw"
  unfolding howto_of_def using find_in by fastforce

lemma howto_of_complete: "howto_of t \<noteq> None \<longleftrightarrow> (\<forall>n. t \<noteq> R_XTC_other n)"
  by (cases t) (simp_all add: howto_of_def howto_raw_defs)

lemma full_length [simp]: "length full_howto_table = R_XTC_max" "length empty_howto_table = R_XTC_max"
  by (simp_all add: full_howto_table_def empty_howto_table_def)

lemma full_nth: "(\<And>n. t \<noteq> R_XTC_other n) \<Longrightarrow> full_howto_table ! reloc_number t = howto_of t"
proof -
  assume "\<And>n. t \<noteq> R_XTC_other n"
  then have "reloc_number t < R_XTC_max" by simp
  moreover have "reloc_number (howto_type h) = reloc_number t \<longleftrightarrow> howto_type h = t" for h :: reloc_howto
    using reloc_number_inj by blast
  ultimately show ?thesis
    unfolding full_howto_table_def howto_of_def by (simp del: reloc_number_lt)
qed

lemma init_if_needed_ok:
  assumes "howto_table_ok tab" and "\<And>n. t \<noteq> R_XTC_other n"
  shows "init_if_needed t tab = Inr full_howto_table"
  using assms(1) unfolding howto_table_ok_def
proof
  assume "tab = empty_howto_table"
  moreover have "empty_howto_table ! reloc_number t = None"
    using assms(2) by (simp add: empty_howto_table_def)
  ultimately show ?thesis
    using assms(2) by (simp add: init_if_needed_def init_empty)
next
  assume "tab = full_howto_table"
  with assms(2) full_nth [OF assms(2)] howto_of_complete [of t] show ?thesis
    by (auto simp: init_if_needed_def)
qed

lemma full_table_get:
  "arr_get LdOutOfBounds full_howto_table (reloc_number t) =
     (case t of R_XTC_other _ \<Rightarrow> Inl LdOutOfBounds | _ \<Rightarrow> Inr (howto_of t))"
proof (cases "\<exists>n. t = R_XTC_other n")
  case True
  then show ?thesis by (auto simp: arr_get_def)
next
  case False
  then have "arr_get LdOutOfBounds full_howto_table (reloc_number t) = Inr (howto_of t)"
    using full_nth [of t] by simp
  with False show ?thesis by (cases t) simp_all
qed

lemma lookup_code:
  assumes "howto_table_ok tab" and "code_reloc code = Some t"
  shows "xtc_elf_reloc_type_lookup tab code = Inr (full_howto_table, howto_of t)"
proof -
  from assms(2) have "t \<noteq> R_XTC_other n" for n
    by (cases code rule: code_reloc.cases) auto
  then have "arr_get LdOutOfBounds full_howto_table (reloc_number t) = Inr (howto_of t)"
    unfolding full_table_get by (cases t) auto
  with assms show ?thesis
    by (simp add: xtc_elf_reloc_type_lookup_def init_if_needed_ok)
qed

end
