(* ===== verification/Gas_Xtc.thy ===== *)
theory Gas_Xtc
  imports Xtc_Opc Elf_Howto
begin

text \<open>
  The machine-dependent part of the assembler that turns one statement into bytes and
  fixups: the parsers, the encoders and \<^verbatim>\<open>md_assemble\<close> of
  \<^verbatim>\<open>gas/config/tc-xtc.c\<close>.  The general expression parser
  \<^verbatim>\<open>expression\<close> is an argument.  A statement that makes the assembler call
  \<^verbatim>\<open>as_fatal\<close> or \<^verbatim>\<open>abort\<close>, or that makes it read or write outside its strings,
  is an error value; calls of \<^verbatim>\<open>as_bad\<close>, after which the source often continues,
  are counted.
\<close>

subsection \<open>Data\<close>

datatype gas_error = Fatal | Abort | OverRead | OverWrite | NullRead | NullWrite

text \<open>The last operator stands for all that no code here tells apart; symbols go by name.\<close>

datatype operatorT =
  O_absent | O_constant | O_symbol | O_symbol_rva | O_register | O_uminus | O_add | O_subtract | O_other

record expressionS =
  X_op :: operatorT
  X_add_symbol :: "string option"
  X_op_symbol :: "string option"
  X_add_number :: u64

text \<open>A fixup, its position relative to the first byte of the statement.\<close>

record fixup =
  fx_where :: nat
  fx_size :: nat
  fx_exp :: expressionS
  fx_pcrel :: bool
  fx_r_type :: bfd_reloc

datatype ext_flags = EXT_FLAG_NONE | EXT_FLAG_IMMED | EXT_FLAG_DREG | EXT_FLAG_IMM24

record ext_struct =
  condition :: u64
  flags :: ext_flags

text \<open>What a statement adds to the current fragment.\<close>

record asm_out =
  out_bytes :: "u8 list"
  out_fixes :: "fixup list"
  out_bads :: nat

type_synonym expr_parser = "string \<Rightarrow> expressionS \<times> string"

subsection \<open>Characters and strings\<close>

definition ISSPACE :: "char \<Rightarrow> bool" where
  "ISSPACE c \<longleftrightarrow> c = CHR '' '' \<or> (9 \<le> (of_char c :: nat) \<and> (of_char c :: nat) \<le> 13)"

definition ISDIGIT :: "char \<Rightarrow> bool" where
  "ISDIGIT c \<longleftrightarrow> 48 \<le> (of_char c :: nat) \<and> (of_char c :: nat) \<le> 57"

definition digit_val :: "char \<Rightarrow> nat" where
  "digit_val c = of_char c - 48"

definition skip_space :: "string \<Rightarrow> string" where
  "skip_space s = dropWhile ISSPACE s"

definition strncase_eq :: "string \<Rightarrow> string \<Rightarrow> nat \<Rightarrow> bool" where
  "strncase_eq s t n \<longleftrightarrow> map to_lower (take n s) = map to_lower (take n t)"

definition is_end_of_line :: "char \<Rightarrow> bool" where
  "is_end_of_line c \<longleftrightarrow> c = CHR 0x0A \<or> c = CHR '';''"

text \<open>The pointer arithmetic \<^verbatim>\<open>s + n\<close>: past the terminating null it leaves the string.\<close>

definition advance :: "nat \<Rightarrow> string \<Rightarrow> gas_error + string" where
  "advance n s = (if n \<le> length s then Inr (drop n s) else Inl OverRead)"

subsection \<open>Operand parsers\<close>

definition check_gpr_reg :: "u32 \<Rightarrow> bool" where
  "check_gpr_reg r \<longleftrightarrow> r < 16"

text \<open>\<open>parse_reg s\<close>: the register, the rest of the string, and the errors reported.\<close>

definition parse_reg :: "string \<Rightarrow> gas_error + (u32 \<times> string \<times> nat)" where
  "parse_reg s0 =
     (let s = skip_space s0 in
      if strncase_eq s ''y'' 1 then rbind (advance 1 s) (\<lambda>t. Inr (16, t, 0))
      else if strncase_eq s ''psr'' 2 then rbind (advance 3 s) (\<lambda>t. Inr (17, t, 0))
      else if strncase_eq s ''spsr'' 2 then rbind (advance 4 s) (\<lambda>t. Inr (18, t, 0))
      else if strncase_eq s ''tr'' 2 then rbind (advance 2 s) (\<lambda>t. Inr (19, t, 0))
      else if strncase_eq s ''tpc'' 3 then rbind (advance 3 s) (\<lambda>t. Inr (20, t, 0))
      else if strncase_eq s ''sr0'' 3 then rbind (advance 3 s) (\<lambda>t. Inr (21, t, 0))
      else case s of
        [] \<Rightarrow> Inr (0, s, 1)
      | c # cs \<Rightarrow>
          if to_lower c = CHR ''r'' then
            (case cs of
               d1 # d2 # rest \<Rightarrow>
                 if ISDIGIT d1 \<and> ISDIGIT d2
                 then let n = digit_val d1 * 10 + digit_val d2
                      in if n \<le> 31 then Inr (word_of_nat n, rest, 0) else Inr (0, rest, 1)
                 else if ISDIGIT d1 then Inr (word_of_nat (digit_val d1), d2 # rest, 0)
                 else Inr (0, s, 1)
             | [d1] \<Rightarrow>
                 if ISDIGIT d1 then Inr (word_of_nat (digit_val d1), [], 0) else Inr (0, s, 1)
             | [] \<Rightarrow> Inr (0, s, 1))
          else Inr (0, s, 1))"

definition parse_exp :: "expr_parser \<Rightarrow> string \<Rightarrow> gas_error + (expressionS \<times> string)" where
  "parse_exp expression s =
     (case expression (skip_space s) of
        (e, rest) \<Rightarrow> if X_op e = O_absent then Inl Fatal else Inr (e, rest))"

text \<open>The text from the first \<open>@\<close> of the statement, if there is one.\<close>

fun find_at :: "string \<Rightarrow> string option" where
  "find_at [] = None"
| "find_at (c # cs) = (if c = CHR ''@'' then Some (c # cs) else if is_end_of_line c then None else find_at cs)"

definition parse_imm :: "expr_parser \<Rightarrow> string \<Rightarrow> int \<Rightarrow> int \<Rightarrow> gas_error + (expressionS \<times> string)" where
  "parse_imm expression s lo hi =
     (case find_at s of
        Some atp \<Rightarrow>
          if take 5 (tl atp) = ''GOTOF'' \<or> take 3 (tl atp) = ''GOT'' \<or> take 3 (tl atp) = ''PLT''
          then Inl Fatal else Inl NullWrite
      | None \<Rightarrow>
          rbind (parse_exp expression s) (\<lambda>(e, rest).
            let v = sint (ucast (X_add_number e) :: u32) in
            if X_op e \<noteq> O_constant \<and> X_op e \<noteq> O_symbol then Inl Fatal
            else if X_op e = O_constant \<and> (v < lo \<or> v > hi) then Inl Fatal
            else Inr (e, rest)))"

abbreviation MIN_IMM :: int where "MIN_IMM \<equiv> - 2147483648"
abbreviation MAX_IMM :: int where "MAX_IMM \<equiv> 2147483647"

text \<open>\<open>parse_memory\<close>: the base register, the displacement if there is one, the rest, the errors.\<close>

definition parse_memory ::
    "expr_parser \<Rightarrow> string \<Rightarrow> gas_error + (u32 \<times> expressionS option \<times> string \<times> nat)" where
  "parse_memory expression s0 =
     (case skip_space s0 of
        [] \<Rightarrow> Inl Fatal
      | c # s \<Rightarrow>
          if c \<noteq> CHR ''('' then Inl Fatal
          else rbind (parse_reg s) (\<lambda>(reg, s, b).
               if \<not> check_gpr_reg reg then Inl Fatal
               else let s = skip_space s in
               if take 1 s = '')'' then Inr (reg, None, drop 1 s, b)
               else rbind (parse_imm expression s MIN_IMM MAX_IMM) (\<lambda>(e, s).
                    let s = skip_space s in
                    if take 1 s = '')'' then Inr (reg, Some e, drop 1 s, b) else Inl Fatal)))"

subsection \<open>Encoders\<close>

definition INST_BYTE0 :: "u64 \<Rightarrow> u8" where
  "INST_BYTE0 x = ucast (drop_bit 8 x AND 0xFF)"

definition INST_BYTE1 :: "u64 \<Rightarrow> u8" where
  "INST_BYTE1 x = ucast (x AND 0xFF)"

text \<open>The loop of \<^verbatim>\<open>xtc_count_bits\<close>; its counter starts at 31 and only decreases.\<close>

fun count_bits_loop :: "bool \<Rightarrow> nat \<Rightarrow> u32 \<Rightarrow> nat" where
  "count_bits_loop sg 0 immed = 0"
| "count_bits_loop sg (Suc count) immed =
     (let immed = push_bit 1 immed; bsign = (immed AND 0x80000000 \<noteq> 0) in
      if bsign \<noteq> sg then Suc count else count_bits_loop sg count immed)"

definition xtc_count_bits :: "u32 \<Rightarrow> nat" where
  "xtc_count_bits immed =
     (if immed = 0 then 0 else count_bits_loop (immed AND 0x80000000 \<noteq> 0) 31 immed + 1)"

definition xtc_can_represent_as_imm8 :: "u32 \<Rightarrow> bool" where
  "xtc_can_represent_as_imm8 immed \<longleftrightarrow> sint immed \<le> 127 \<and> - 128 \<le> sint immed"

definition e24_word :: "u64 \<Rightarrow> u64 \<Rightarrow> u64" where
  "e24_word value cc =
     (let inst = 0x80006000 OR push_bit 16 (value AND 0x7FFF);
          value = signed_drop_bit 15 value;
          inst = inst OR push_bit 8 cc;
          inst = inst OR (value AND 0xFF);
          value = signed_drop_bit 8 value
      in inst OR push_bit 12 (value AND 1))"

definition xtc_emit_e24 :: "u64 \<Rightarrow> u64 \<Rightarrow> u8 list" where
  "xtc_emit_e24 value cc =
     (let inst = e24_word value cc
      in [ucast (drop_bit 24 inst), ucast (drop_bit 16 inst), ucast (drop_bit 8 inst), ucast inst])"

definition make_extended :: "u64 \<Rightarrow> ext_struct \<Rightarrow> u64 \<Rightarrow> u64" where
  "make_extended inst extension immed_dreg =
     (let i = push_bit 16 inst OR 0x80000000;
          i = i OR push_bit 12 (condition extension AND 0xF)
      in if flags extension = EXT_FLAG_IMMED then i OR (immed_dreg AND 0xFF) OR 0x4000
         else if flags extension = EXT_FLAG_DREG then i OR (immed_dreg AND 0xFF) OR 0x2000
         else i)"

definition xtc_apply_imm8 :: "u64 \<Rightarrow> u64 \<Rightarrow> u64" where
  "xtc_apply_imm8 inst immed = (inst AND NOT 0x0FF0) OR (push_bit 8 immed AND 0x0FF0)"

definition xtc_build_extension :: "ext_struct \<Rightarrow> u8" where
  "xtc_build_extension ext =
     (case flags ext of
        EXT_FLAG_IMM24 \<Rightarrow> 0x60
      | EXT_FLAG_IMMED \<Rightarrow> ucast (0x40 + condition ext)
      | EXT_FLAG_DREG \<Rightarrow> ucast (0x20 + condition ext)
      | EXT_FLAG_NONE \<Rightarrow> ucast (condition ext))"

text \<open>
  \<open>xtc_emit_immed_and_frag\<close>: the bytes in front of the instruction word, the word, and the
  bytes after it.
\<close>

definition xtc_emit_immed_and_frag ::
    "op_code_struct \<Rightarrow> ext_struct \<Rightarrow> u64 \<Rightarrow> u64 \<Rightarrow> u8 list \<times> u64 \<times> u8 list" where
  "xtc_emit_immed_and_frag opcode extension inst immed =
     (let bits = xtc_count_bits (ucast immed);
          force_extension = (condition extension \<noteq> 0 \<or> flags extension \<noteq> EXT_FLAG_NONE);
          e8 = extension\<lparr>flags := EXT_FLAG_IMMED\<rparr>
      in if op_imm opcode = IMM8 then
           let inst = xtc_apply_imm8 inst immed; immed = signed_drop_bit 8 immed in
           if bits \<le> 8 \<and> \<not> force_extension then ([], inst, [])
           else if bits \<le> 16 \<or> force_extension
           then ([], inst OR 0x8000, [xtc_build_extension e8, ucast (immed AND 0xFF)])
           else (xtc_emit_e24 immed 0, inst, [])
         else if bits \<le> 8
         then ([], inst OR 0x8000, [xtc_build_extension e8, ucast (immed AND 0xFF)])
         else (xtc_emit_e24 immed 0, inst, []))"

subsection \<open>Mnemonic suffixes\<close>

text \<open>The first condition name that is a prefix of the text, with its length.\<close>

definition parse_condition :: "string \<Rightarrow> (u64 \<times> nat) option" where
  "parse_condition condstr =
     map_option (\<lambda>(n, enc). (enc, length n))
       (find (\<lambda>(n, enc). take (length n) condstr = n) condition_codes)"

text \<open>One turn of the loop of \<^verbatim>\<open>parse_extension\<close>.\<close>

definition ext_turn :: "ext_struct \<Rightarrow> string \<Rightarrow> (ext_struct \<times> string) option" where
  "ext_turn e s =
     (case s of
        [] \<Rightarrow> None
      | c # cs \<Rightarrow>
          if c = CHR ''i'' then
            (if flags e \<noteq> EXT_FLAG_NONE then None else Some (e\<lparr>flags := EXT_FLAG_IMMED\<rparr>, cs))
          else if c = CHR ''d'' then
            (if flags e \<noteq> EXT_FLAG_NONE then None else Some (e\<lparr>flags := EXT_FLAG_DREG\<rparr>, cs))
          else if c = CHR ''c'' then
            (if flags e = EXT_FLAG_IMMED \<or> flags e = EXT_FLAG_DREG then None
             else case parse_condition cs of
                    None \<Rightarrow> Some (e, cs)
                  | Some (enc, r) \<Rightarrow> Some (e\<lparr>condition := enc\<rparr>, drop r cs))
          else None)"

lemma ext_turn_shorter: "ext_turn e s = Some (e', s') \<Longrightarrow> length s' < length s"
  by (auto simp: ext_turn_def split: list.splits if_splits option.splits)

function parse_ext_loop :: "ext_struct \<Rightarrow> string \<Rightarrow> ext_struct option" where
  "parse_ext_loop e s =
     (case ext_turn e s of
        None \<Rightarrow> None
      | Some (e, s) \<Rightarrow> if s = [] then Some e else parse_ext_loop e s)"
  by pat_completeness auto
termination
  by (relation "measure (length \<circ> snd)") (auto dest: ext_turn_shorter)

declare parse_ext_loop.simps [simp del]

definition parse_extension :: "string \<Rightarrow> ext_struct option" where
  "parse_extension extstr = parse_ext_loop \<lparr>condition = 0, flags = EXT_FLAG_NONE\<rparr> extstr"

subsection \<open>Statements\<close>

text \<open>
  The switch of \<^verbatim>\<open>md_assemble\<close> either returns (\<open>Done\<close>), or breaks with the
  rest of the statement, the bytes already placed around the instruction, the word and its
  size (\<open>Break\<close>).
\<close>

datatype stmt = Done asm_out | Break string "u8 list" u64 nat "u8 list" nat

definition bad_out :: "nat \<Rightarrow> asm_out" where
  "bad_out n = \<lparr>out_bytes = [], out_fixes = [], out_bads = n\<rparr>"

text \<open>Every operand is reached by stepping over one character of a non-empty rest.\<close>

definition next_arg :: "string \<Rightarrow> gas_error + string" where
  "next_arg op_end = (if op_end = [] then Inl Fatal else Inr (tl op_end))"

definition next_reg :: "string \<Rightarrow> gas_error + (u32 \<times> string \<times> nat)" where
  "next_reg op_end = rbind (next_arg op_end) parse_reg"

definition next_imm ::
    "expr_parser \<Rightarrow> string \<Rightarrow> int \<Rightarrow> int \<Rightarrow> gas_error + (expressionS \<times> string)" where
  "next_imm expression op_end lo hi = rbind (next_arg op_end) (\<lambda>s. parse_imm expression s lo hi)"

definition set_ra :: "u32 \<Rightarrow> u64 \<Rightarrow> u64" where
  "set_ra reg inst = inst OR (ucast reg AND 0x000F)"

definition set_rb :: "u32 \<Rightarrow> u64 \<Rightarrow> u64" where
  "set_rb reg inst = inst OR (push_bit 4 (ucast reg) AND 0x00F0)"

definition asm_spr :: "bool \<Rightarrow> u64 \<Rightarrow> string \<Rightarrow> nat \<Rightarrow> gas_error + stmt" where
  "asm_spr isLoad inst op_end b =
     rbind (next_reg op_end) (\<lambda>(ra, op_end, b1).
     rbind (next_reg op_end) (\<lambda>(rb, op_end, b2).
       let reg1 = (if isLoad then rb else ra); reg2 = (if isLoad then ra else rb) in
       if \<not> check_gpr_reg reg1 then Inl Fatal
       else if check_gpr_reg reg2 then Inl Fatal
       else Inr (Break op_end [] (set_ra reg1 inst OR (push_bit 4 (ucast (reg2 - 16)) AND 0x0070)) 2 []
                   (b + b1 + b2))))"

definition asm_r :: "u64 \<Rightarrow> string \<Rightarrow> nat \<Rightarrow> gas_error + stmt" where
  "asm_r inst op_end b =
     rbind (next_reg op_end) (\<lambda>(reg1, op_end, b1).
       if \<not> check_gpr_reg reg1 then Inl Fatal
       else Inr (Break op_end [] (set_ra reg1 inst) 2 [] (b + b1)))"

text \<open>Loads and stores; a displacement becomes an empty 24-bit extension and a fixup.\<close>

definition mem_operands ::
    "expr_parser \<Rightarrow> bool \<Rightarrow> string \<Rightarrow> gas_error + (u32 \<times> u32 \<times> expressionS option \<times> string \<times> nat)" where
  "mem_operands expression isLoad op_end =
     (if isLoad
      then rbind (advance 1 op_end) (\<lambda>s.
           rbind (parse_memory expression s) (\<lambda>(reg1, im, op_end, b1).
           rbind (next_reg op_end) (\<lambda>(reg2, op_end, b2). Inr (reg1, reg2, im, op_end, b1 + b2))))
      else rbind (next_reg op_end) (\<lambda>(reg2, op_end, b1).
           rbind (advance 1 op_end) (\<lambda>s.
           rbind (parse_memory expression s) (\<lambda>(reg1, im, op_end, b2).
             Inr (reg1, reg2, im, op_end, b1 + b2)))))"

definition asm_mem ::
    "expr_parser \<Rightarrow> bool \<Rightarrow> bool \<Rightarrow> bool \<Rightarrow> ext_struct \<Rightarrow> u64 \<Rightarrow> string \<Rightarrow> nat \<Rightarrow> gas_error + stmt" where
  "asm_mem expression isSpecialReg isLoad is_extended extension inst op_end b =
     rbind (mem_operands expression isLoad op_end) (\<lambda>(reg1, reg2, im, op_end, b1).
       if im \<noteq> None \<and> (\<not> is_extended \<or> flags extension \<noteq> EXT_FLAG_IMMED)
       then Inr (Done (bad_out (b + b1 + 1)))
       else let inst = set_rb reg2 (set_ra reg1 inst) in
       if \<not> isSpecialReg \<and> \<not> check_gpr_reg reg2 then Inl Fatal
       else if isSpecialReg \<and> check_gpr_reg reg2 then Inl Fatal
       else case im of
         Some e \<Rightarrow> Inr (Done
           \<lparr>out_bytes = xtc_emit_e24 0 0 @ [INST_BYTE0 inst OR 0x80, INST_BYTE1 inst, 0x40, 0x00],
            out_fixes = [\<lparr>fx_where = 0, fx_size = 8, fx_exp = e, fx_pcrel = False,
                          fx_r_type = BFD_RELOC_XTC_E24_E8\<rparr>],
            out_bads = b + b1\<rparr>)
       | None \<Rightarrow> Inr (Break op_end [] inst 2 [] (b + b1)))"

definition asm_r1_r2 ::
    "expr_parser \<Rightarrow> op_code_struct \<Rightarrow> bool \<Rightarrow> ext_struct \<Rightarrow> u64 \<Rightarrow> string \<Rightarrow> nat \<Rightarrow> gas_error + stmt" where
  "asm_r1_r2 expression opcode is_extended extension inst op_end b =
     rbind (next_reg op_end) (\<lambda>(reg2, op_end, b1).
     rbind (next_reg op_end) (\<lambda>(reg1, op_end, b2).
       if \<not> check_gpr_reg reg1 \<or> \<not> check_gpr_reg reg2 then Inl Fatal
       else let inst = set_rb reg2 (set_ra reg1 inst); b = b + b1 + b2 in
       if is_extended \<and> flags extension = EXT_FLAG_DREG
       then rbind (next_reg op_end) (\<lambda>(reg3, op_end, b3).
              Inr (Break op_end [] (make_extended inst extension (ucast reg3)) 4 [] (b + b3)))
       else if is_extended \<and> flags extension = EXT_FLAG_IMMED
       then rbind (next_imm expression op_end MIN_IMM MAX_IMM) (\<lambda>(e, op_end).
              case xtc_emit_immed_and_frag opcode extension inst (X_add_number e) of
                (pre, inst, post) \<Rightarrow> Inr (Break op_end pre inst 2 post b))
       else Inr (Break op_end [] inst 2 [] b)))"

definition asm_r1_r2_imm :: "expr_parser \<Rightarrow> u64 \<Rightarrow> string \<Rightarrow> nat \<Rightarrow> gas_error + stmt" where
  "asm_r1_r2_imm expression inst op_end b =
     rbind (next_reg op_end) (\<lambda>(reg2, op_end, b1).
     rbind (next_imm expression op_end MIN_IMM MAX_IMM) (\<lambda>(e, op_end).
     rbind (next_reg op_end) (\<lambda>(reg1, op_end, b2).
       if \<not> check_gpr_reg reg1 \<or> \<not> check_gpr_reg reg2 then Inl Fatal
       else if X_add_number e \<noteq> 0 then Inl Fatal
       else Inr (Break op_end [] (set_rb reg2 (set_ra reg1 inst)) 2 [] (b + b1 + b2)))))"

definition i8_reloc :: "op_code_struct \<Rightarrow> bfd_reloc" where
  "i8_reloc opcode =
     (if inst_offset_type opcode = INST_PC_OFFSET then BFD_RELOC_XTC_E24_I8_PCREL
      else BFD_RELOC_XTC_E24_I8)"

definition asm_imm8 ::
    "expr_parser \<Rightarrow> op_code_struct \<Rightarrow> ext_struct \<Rightarrow> u64 \<Rightarrow> string \<Rightarrow> nat \<Rightarrow> gas_error + stmt" where
  "asm_imm8 expression opcode extension inst op_end b =
     rbind (next_imm expression op_end MIN_IMM MAX_IMM) (\<lambda>(e, op_end).
       if X_op e \<noteq> O_constant
       then Inr (Done
         \<lparr>out_bytes = [0x80, 0x00, xtc_build_extension extension, 0x00, INST_BYTE0 inst, INST_BYTE1 inst],
          out_fixes = [\<lparr>fx_where = 0, fx_size = 4, fx_exp = e, fx_pcrel = True,
                        fx_r_type = i8_reloc opcode\<rparr>],
          out_bads = b\<rparr>)
       else Inl Abort)"

definition asm_imm :: "expr_parser \<Rightarrow> string \<Rightarrow> gas_error + stmt" where
  "asm_imm expression op_end = rbind (next_imm expression op_end MIN_IMM MAX_IMM) (\<lambda>_. Inl Fatal)"

text \<open>An immediate and a register; the immediate is always left to the linker.\<close>

definition asm_imm8_r ::
    "expr_parser \<Rightarrow> op_code_struct \<Rightarrow> ext_struct \<Rightarrow> u64 \<Rightarrow> string \<Rightarrow> nat \<Rightarrow> gas_error + stmt" where
  "asm_imm8_r expression opcode extension inst op_end b =
     rbind (next_imm expression op_end MIN_IMM MAX_IMM) (\<lambda>(e, op_end).
     rbind (next_reg op_end) (\<lambda>(reg1, op_end, b1).
       if \<not> check_gpr_reg reg1 then Inl Fatal
       else let inst = set_ra reg1 inst in
       Inr (Done
         \<lparr>out_bytes = xtc_emit_e24 0 (if condition extension \<noteq> 0 then condition extension else 0) @
            [INST_BYTE0 inst, INST_BYTE1 inst],
          out_fixes = [\<lparr>fx_where = 0, fx_size = 6, fx_exp = e, fx_pcrel = True,
                        fx_r_type = i8_reloc opcode\<rparr>],
          out_bads = b + b1\<rparr>)))"

definition asm_cop :: "expr_parser \<Rightarrow> u64 \<Rightarrow> string \<Rightarrow> nat \<Rightarrow> gas_error + stmt" where
  "asm_cop expression inst op_end b =
     rbind (next_imm expression op_end 0 3) (\<lambda>(e1, op_end).
     if X_op e1 \<noteq> O_constant then Inl Fatal
     else rbind (next_imm expression op_end 0 15) (\<lambda>(e2, op_end).
     if X_op e2 \<noteq> O_constant then Inl Fatal
     else rbind (next_reg op_end) (\<lambda>(reg1, op_end, b1).
       let copid = ucast (X_add_number e1) :: u32; copreg = ucast (X_add_number e2) :: u32 in
       Inr (Break op_end []
         (inst OR scast (push_bit 9 copid) OR scast (push_bit 4 copreg) OR ucast reg1) 2 [] (b + b1)))))"

text \<open>
  The mnemonic and the rest of the statement; at most 19 characters fit the buffer, and the
  loop that stops there has not stepped over the last one.
\<close>

definition split_name :: "string \<Rightarrow> string \<times> string" where
  "split_name str =
     (let name = takeWhile (\<lambda>c. \<not> is_end_of_line c \<and> c \<noteq> CHR '' '') str in
      if 19 \<le> length name then (take 19 name, drop 18 str)
      else (name, drop (length name) str))"

definition split_dot :: "string \<Rightarrow> string \<times> string option" where
  "split_dot name =
     (let n = takeWhile (\<lambda>c. c \<noteq> CHR ''.'') name in
      if n = name then (name, None) else (n, Some (drop (length n + 1) name)))"

definition find_opcode :: "string \<Rightarrow> op_code_struct option" where
  "find_opcode name = find (\<lambda>op. op_name op = name) opcodes"

text \<open>The errors reported for a suffix the opcode does not take; \<open>None\<close> is the early return.\<close>

definition check_extension :: "op_code_struct \<Rightarrow> ext_struct \<Rightarrow> nat option" where
  "check_extension opcode extension =
     (case op_ext opcode of
        IS_EXT \<Rightarrow> None
      | NO_EXT \<Rightarrow> Some 1
      | CAN_EXT_DREG \<Rightarrow> Some (if flags extension = EXT_FLAG_IMMED then 1 else 0)
      | CAN_EXT_IMMED \<Rightarrow> Some (if flags extension = EXT_FLAG_DREG then 1 else 0)
      | CAN_EXT_ALL \<Rightarrow> Some 0)"

definition asm_operands ::
    "expr_parser \<Rightarrow> op_code_struct \<Rightarrow> bool \<Rightarrow> ext_struct \<Rightarrow> string \<Rightarrow> nat \<Rightarrow> gas_error + stmt" where
  "asm_operands expression opcode is_extended extension op_end b =
     (let inst = bit_sequence opcode in
      case op_inst_type opcode of
        INST_TYPE_RSPR \<Rightarrow> asm_spr True inst op_end b
      | INST_TYPE_WSPR \<Rightarrow> asm_spr False inst op_end b
      | INST_TYPE_R \<Rightarrow> asm_r inst op_end b
      | INST_TYPE_MEM_LOAD_S \<Rightarrow> asm_mem expression True True is_extended extension inst op_end b
      | INST_TYPE_MEM_STORE_S \<Rightarrow> asm_mem expression True False is_extended extension inst op_end b
      | INST_TYPE_MEM_LOAD \<Rightarrow> asm_mem expression False True is_extended extension inst op_end b
      | INST_TYPE_MEM_STORE \<Rightarrow> asm_mem expression False False is_extended extension inst op_end b
      | INST_TYPE_R1_R2 \<Rightarrow> asm_r1_r2 expression opcode is_extended extension inst op_end b
      | INST_TYPE_R1_R2_IMM \<Rightarrow> asm_r1_r2_imm expression inst op_end b
      | INST_TYPE_IMM8 \<Rightarrow> asm_imm8 expression opcode extension inst op_end b
      | INST_TYPE_IMM \<Rightarrow> asm_imm expression op_end
      | INST_TYPE_IMM8_R \<Rightarrow> asm_imm8_r expression opcode extension inst op_end b
      | INST_TYPE_COP \<Rightarrow> asm_cop expression inst op_end b
      | INST_TYPE_NOARGS \<Rightarrow> Inr (Break op_end [] inst 2 [] b)
      | INST_TYPE_IMM8_FLAGS \<Rightarrow> Inl Fatal
      | INST_TYPE_MEM_INDIRECT \<Rightarrow> Inl Fatal
      | INST_TYPE_MEM_IMM8_R \<Rightarrow> Inl Fatal)"

text \<open>The end of \<^verbatim>\<open>md_assemble\<close>: no operand may be left, then the word is written.\<close>

definition asm_finish :: "op_code_struct \<Rightarrow> stmt \<Rightarrow> asm_out" where
  "asm_finish opcode st =
     (case st of
        Done r \<Rightarrow> r
      | Break op_end pre inst isize post b \<Rightarrow>
          let op_end = skip_space op_end in
          if op_end \<noteq> op_name opcode \<and> op_end \<noteq> [] then bad_out (b + 1)
          else \<lparr>out_bytes = pre @
                  (if 2 < isize then [INST_BYTE0 (drop_bit 16 inst), INST_BYTE1 (drop_bit 16 inst)] else []) @
                  [INST_BYTE0 inst, INST_BYTE1 inst] @ post,
                out_fixes = [], out_bads = b\<rparr>)"

definition md_assemble :: "expr_parser \<Rightarrow> string \<Rightarrow> gas_error + asm_out" where
  "md_assemble expression str =
     (case split_name (skip_space str) of (full, op_end) \<Rightarrow>
      if full = [] then Inr (bad_out 1)
      else case split_dot full of (name, extstr) \<Rightarrow>
      case find_opcode name of
        None \<Rightarrow> Inr (bad_out 1)
      | Some opcode \<Rightarrow>
          (case extstr of
             None \<Rightarrow>
               rbind (asm_operands expression opcode False \<lparr>condition = 0, flags = EXT_FLAG_NONE\<rparr> op_end 0)
                 (\<lambda>st. Inr (asm_finish opcode st))
           | Some ext \<Rightarrow>
               (case parse_extension ext of
                  None \<Rightarrow> Inr (bad_out 2)
                | Some extension \<Rightarrow>
                    (case check_extension opcode extension of
                       None \<Rightarrow> Inr (bad_out 1)
                     | Some b \<Rightarrow>
                         rbind (asm_operands expression opcode True extension op_end b)
                           (\<lambda>st. Inr (asm_finish opcode st))))))"

end
