(* ===== verification/Gas_Fix.thy ===== *)
theory Gas_Fix
  imports Gas_Xtc
begin

text \<open>
  What happens to a fixup after the statement that made it: \<^verbatim>\<open>fix_new_exp\<close> and
  \<^verbatim>\<open>fixup_segment\<close> of \<^verbatim>\<open>gas/write.c\<close>, and the functions of
  \<^verbatim>\<open>gas/config/tc-xtc.c\<close> they call: \<^verbatim>\<open>md_pcrel_from_section\<close>,
  \<^verbatim>\<open>md_apply_fix\<close>, \<^verbatim>\<open>tc_gen_reloc\<close> and the two predicates on fixups, and
  the functions that store numbers.  Symbols are known by their names, fragments by their
  place in a list; \<^verbatim>\<open>make_expr_symbol\<close> and \<^verbatim>\<open>atof_ieee\<close> are arguments.
\<close>

subsection \<open>Data\<close>

datatype seg_kind = normal_section | absolute_section | undefined_section | common_section
  | reg_section | expr_section

record segT =
  seg_id :: nat
  seg_kind :: seg_kind
  segment_name :: string
  SEC_CODE :: bool
  SEC_LINK_ONCE :: bool

record symbolS =
  S_GET_SEGMENT :: segT
  S_GET_VALUE :: u64
  BSF_WEAK :: bool
  BSF_GLOBAL :: bool
  BSF_GNU_INDIRECT_FUNCTION :: bool
  used_in_reloc :: bool

record fragS =
  fr_address :: u64
  fr_literal :: "u8 list"
  fr_fix :: nat
  fr_var :: nat
  fr_subtype :: nat
  fr_symbol :: "string option"
  fr_offset :: u64

text \<open>A fixup once it has been entered in the list of its segment.\<close>

record fixS = fixup +
  fx_frag :: nat
  fx_addsy :: "string option"
  fx_subsy :: "string option"
  fx_offset :: u64
  fx_dot_value :: u64
  fx_done :: bool

record gas_state =
  frags :: "fragS list"
  symtab :: "string \<Rightarrow> symbolS"
  abs_section_sym :: string
  bads :: nat

abbreviation INST_WORD_SIZE :: nat where "INST_WORD_SIZE \<equiv> 2"

definition S_IS_DEFINED :: "symbolS \<Rightarrow> bool" where
  "S_IS_DEFINED s \<longleftrightarrow> seg_kind (S_GET_SEGMENT s) \<noteq> undefined_section"

definition bfd_is_com_section :: "segT \<Rightarrow> bool" where
  "bfd_is_com_section seg \<longleftrightarrow> seg_kind seg = common_section"

definition S_FORCE_RELOC :: "symbolS \<Rightarrow> bool \<Rightarrow> bool" where
  "S_FORCE_RELOC s strict \<longleftrightarrow>
     strict \<and> (BSF_WEAK s \<or> BSF_GLOBAL s) \<or> BSF_GNU_INDIRECT_FUNCTION s \<or>
     seg_kind (S_GET_SEGMENT s) = undefined_section \<or> bfd_is_com_section (S_GET_SEGMENT s)"

definition SEG_NORMAL :: "segT \<Rightarrow> bool" where
  "SEG_NORMAL seg \<longleftrightarrow>
     seg_kind seg \<notin> {absolute_section, undefined_section, reg_section, expr_section}"

subsection \<open>Entering a fixup\<close>

text \<open>A size that does not fit a byte is reported and aborts.\<close>

definition fix_new_internal :: "nat \<Rightarrow> u64 \<Rightarrow> fixup \<Rightarrow> string option \<Rightarrow> string option \<Rightarrow> u64 \<Rightarrow>
    bfd_reloc \<Rightarrow> gas_error + fixS" where
  "fix_new_internal frag dot f add sub off r_type =
     (if 256 \<le> fx_size f then Inl Abort
      else Inr \<lparr>fx_where = fx_where f, fx_size = fx_size f, fx_exp = fx_exp f, fx_pcrel = fx_pcrel f,
                fx_r_type = r_type, fx_frag = frag, fx_addsy = add, fx_subsy = sub, fx_offset = off,
                fx_dot_value = dot, fx_done = False\<rparr>)"

text \<open>The second result counts the errors reported.\<close>

definition fix_new_exp :: "(expressionS \<Rightarrow> string) \<Rightarrow> nat \<Rightarrow> u64 \<Rightarrow> fixup \<Rightarrow> gas_error + (fixS \<times> nat)" where
  "fix_new_exp make_expr_symbol frag dot f =
     (let e = fx_exp f;
          new = (\<lambda>add sub off r n. rbind (fix_new_internal frag dot f add sub off r) (\<lambda>x. Inr (x, n)))
      in case X_op e of
        O_absent \<Rightarrow> new None None 0 (fx_r_type f) 0
      | O_register \<Rightarrow> new None None 0 (fx_r_type f) 1
      | O_add \<Rightarrow> new (Some (make_expr_symbol e)) None 0 (fx_r_type f) 0
      | O_symbol_rva \<Rightarrow> new (X_add_symbol e) None (X_add_number e) BFD_RELOC_RVA 0
      | O_uminus \<Rightarrow> new None (X_add_symbol e) (X_add_number e) (fx_r_type f) 0
      | O_subtract \<Rightarrow> new (X_add_symbol e) (X_op_symbol e) (X_add_number e) (fx_r_type f) 0
      | O_symbol \<Rightarrow> new (X_add_symbol e) None (X_add_number e) (fx_r_type f) 0
      | O_constant \<Rightarrow> new None None (X_add_number e) (fx_r_type f) 0
      | O_other \<Rightarrow> new (Some (make_expr_symbol e)) None 0 (fx_r_type f) 0)"

text \<open>The fixup of a data directive.\<close>

definition cons_reloc :: "nat \<Rightarrow> bfd_reloc \<times> nat" where
  "cons_reloc nbytes =
     (if nbytes = 1 then (BFD_RELOC_8, 0) else if nbytes = 2 then (BFD_RELOC_16, 0)
      else if nbytes = 4 then (BFD_RELOC_32, 0) else if nbytes = 8 then (BFD_RELOC_64, 0)
      else (BFD_RELOC_32, 1))"

definition cons_fix_new_xtc :: "(expressionS \<Rightarrow> string) \<Rightarrow> nat \<Rightarrow> u64 \<Rightarrow> nat \<Rightarrow> nat \<Rightarrow> expressionS \<Rightarrow>
    gas_error + (fixS \<times> nat)" where
  "cons_fix_new_xtc make_expr_symbol frag dot place nbytes exp =
     (case cons_reloc nbytes of (r, n) \<Rightarrow>
        rbind (fix_new_exp make_expr_symbol frag dot
                 \<lparr>fx_where = place, fx_size = nbytes, fx_exp = exp, fx_pcrel = False, fx_r_type = r\<rparr>)
          (\<lambda>(x, m). Inr (x, n + m)))"

subsection \<open>Predicates on fixups\<close>

text \<open>The relocation codes for the immediates of instructions, named in three places.\<close>

fun insn_reloc :: "bfd_reloc \<Rightarrow> bool" where
  "insn_reloc BFD_RELOC_XTC_E8 = True"
| "insn_reloc BFD_RELOC_XTC_I8 = True"
| "insn_reloc BFD_RELOC_XTC_E8_I8 = True"
| "insn_reloc BFD_RELOC_XTC_E24 = True"
| "insn_reloc BFD_RELOC_XTC_E24_E8 = True"
| "insn_reloc BFD_RELOC_XTC_E24_I8 = True"
| "insn_reloc BFD_RELOC_XTC_E8_PCREL = True"
| "insn_reloc BFD_RELOC_XTC_I8_PCREL = True"
| "insn_reloc BFD_RELOC_XTC_E8_I8_PCREL = True"
| "insn_reloc BFD_RELOC_XTC_E24_PCREL = True"
| "insn_reloc BFD_RELOC_XTC_E24_E8_PCREL = True"
| "insn_reloc BFD_RELOC_XTC_E24_I8_PCREL = True"
| "insn_reloc _ = False"

text \<open>The codes for C++ virtual tables are among \<^const>\<open>BFD_RELOC_other\<close>, under the given test.\<close>

definition generic_force_reloc :: "(bfd_reloc \<Rightarrow> bool) \<Rightarrow> gas_state \<Rightarrow> fixS \<Rightarrow> bool" where
  "generic_force_reloc vtable st fix =
     (if vtable (fx_r_type fix) then True
      else case fx_addsy fix of
             None \<Rightarrow> False
           | Some s \<Rightarrow> S_FORCE_RELOC (symtab st s) (fx_subsy fix = None))"

definition tc_xtc_force_relocation :: "(bfd_reloc \<Rightarrow> bool) \<Rightarrow> gas_state \<Rightarrow> fixS \<Rightarrow> bool" where
  "tc_xtc_force_relocation vtable st fix =
     (if insn_reloc (fx_r_type fix) then True else generic_force_reloc vtable st fix)"

definition tc_xtc_fix_adjustable :: "fixS \<Rightarrow> bool" where
  "tc_xtc_fix_adjustable fix \<longleftrightarrow>
     \<not> (fx_r_type fix = BFD_RELOC_16 \<or> fx_r_type fix = BFD_RELOC_32 \<or> insn_reloc (fx_r_type fix))"

definition TC_FORCE_RELOCATION_LOCAL :: "(bfd_reloc \<Rightarrow> bool) \<Rightarrow> gas_state \<Rightarrow> fixS \<Rightarrow> bool" where
  "TC_FORCE_RELOCATION_LOCAL vtable st fix \<longleftrightarrow> \<not> fx_pcrel fix \<or> tc_xtc_force_relocation vtable st fix"

definition md_pcrel_from_section :: "gas_state \<Rightarrow> fixS \<Rightarrow> segT \<Rightarrow> gas_error + u64" where
  "md_pcrel_from_section st fix sec =
     (let here = rbind (arr_get OverRead (frags st) (fx_frag fix)) (\<lambda>frag.
                   Inr (of_nat (fx_where fix) + fr_address frag + of_nat (INST_WORD_SIZE * 3)))
      in case fx_addsy fix of
           None \<Rightarrow> here
         | Some s \<Rightarrow>
             if \<not> S_IS_DEFINED (symtab st s) \<or> S_GET_SEGMENT (symtab st s) \<noteq> sec then Inr 0 else here)"

subsection \<open>Applying a fixup\<close>

fun or_bytes :: "nat \<Rightarrow> u8 list \<Rightarrow> u8 list \<Rightarrow> gas_error + u8 list" where
  "or_bytes p [] buf = Inr buf"
| "or_bytes p (b # bs) buf =
     rbind (arr_get OverWrite buf p) (\<lambda>old. or_bytes (Suc p) bs (buf[p := old OR b]))"

text \<open>The byte of a value that starts at a bit.\<close>

definition val_byte :: "nat \<Rightarrow> u64 \<Rightarrow> u8" where
  "val_byte k val = ucast (drop_bit k val)"

text \<open>
  The 64-bit case moves the instruction word up and puts the first half of an \<open>imm\<close>
  instruction in front of it; the target is big-endian.
\<close>

definition apply_64 :: "bool \<Rightarrow> u64 \<Rightarrow> nat \<Rightarrow> u8 list \<Rightarrow> gas_error + (u8 list \<times> nat \<times> bool)" where
  "apply_64 has_value val p buf =
     rbind (arr_get OverWrite buf p) (\<lambda>b0.
     rbind (arr_put OverWrite buf (p + 2) b0) (\<lambda>buf.
     rbind (arr_get OverWrite buf (p + 1)) (\<lambda>b1.
     rbind (arr_put OverWrite buf (p + 3) b1) (\<lambda>buf.
     case find_opcode ''imm'' of
       None \<Rightarrow> Inr (buf, 1, True)
     | Some opcode1 \<Rightarrow>
         let inst1 = bit_sequence opcode1 OR
               (if has_value then drop_bit 16 (val AND 0xFFFF0000) AND 0x0FFF else 0) in
         rbind (arr_put OverWrite buf p (INST_BYTE0 inst1)) (\<lambda>buf.
         rbind (arr_put OverWrite buf (p + 1) (INST_BYTE1 inst1)) (\<lambda>buf.
         rbind (if has_value then or_bytes (p + 6) [val_byte 8 val, val_byte 0 val] buf else Inr buf) (\<lambda>buf.
           Inr (buf, 0, False))))))))"

text \<open>The switch on the type: the fragment's bytes, the errors reported, an early return.\<close>

definition apply_bytes :: "bfd_reloc \<Rightarrow> bool \<Rightarrow> u64 \<Rightarrow> nat \<Rightarrow> u8 list \<Rightarrow> gas_error + (u8 list \<times> nat \<times> bool)" where
  "apply_bytes r_type has_value val p buf =
     (if r_type = BFD_RELOC_XTC_32_PCREL \<or> r_type = BFD_RELOC_XTC_32 then Inl Abort
      else if r_type = BFD_RELOC_32 \<or> r_type = BFD_RELOC_RVA \<or> r_type = BFD_RELOC_32_PCREL
      then rbind (if has_value
                  then or_bytes p [val_byte 24 val, val_byte 16 val, val_byte 8 val, val_byte 0 val] buf
                  else Inr buf) (\<lambda>buf. Inr (buf, 0, False))
      else if r_type = BFD_RELOC_16 \<or> r_type = BFD_RELOC_16_PCREL
      then rbind (if has_value then or_bytes p [val_byte 8 val, val_byte 0 val] buf else Inr buf)
             (\<lambda>buf. Inr (buf, 0, False))
      else if r_type = BFD_RELOC_64_PCREL \<or> r_type = BFD_RELOC_64 then apply_64 has_value val p buf
      else if insn_reloc r_type then Inr (buf, 0, False)
      else Inl Abort)"

text \<open>What a weak symbol, or one used by a relocation in a link-once section, takes off the value.\<close>

definition linkonce_segment :: "segT \<Rightarrow> bool" where
  "linkonce_segment seg \<longleftrightarrow> SEC_LINK_ONCE seg \<or> take 13 (segment_name seg) = ''.gnu.linkonce''"

definition adjusted_val :: "gas_state \<Rightarrow> fixS \<Rightarrow> u64 \<Rightarrow> u64" where
  "adjusted_val st fix val =
     (case fx_addsy fix of
        None \<Rightarrow> val
      | Some s \<Rightarrow>
          let sy = symtab st s in
          if BSF_WEAK sy \<or> used_in_reloc sy \<and> linkonce_segment (S_GET_SEGMENT sy)
          then let val = val - S_GET_VALUE sy in
               if val \<noteq> 0 \<and> \<not> fx_pcrel fix then val - S_GET_VALUE sy else val
          else val)"

definition fix_resolved :: "gas_state \<Rightarrow> fixS \<Rightarrow> segT \<Rightarrow> bool" where
  "fix_resolved st fix segment =
     (if (case fx_addsy fix of
            None \<Rightarrow> False
          | Some s \<Rightarrow> \<not> S_IS_DEFINED (symtab st s) \<or> S_GET_SEGMENT (symtab st s) \<noteq> segment) then False
      else if SEC_CODE segment then False
      else if \<not> fx_pcrel fix \<and> fx_addsy fix \<noteq> None then False
      else True)"

definition md_apply_fix :: "fixS \<Rightarrow> u64 \<Rightarrow> segT \<Rightarrow> gas_state \<Rightarrow> gas_error + (fixS \<times> gas_state)" where
  "md_apply_fix fix valp segment st =
     (let offset = (if fx_addsy fix = None \<and> \<not> fx_pcrel fix then valp else fx_offset fix);
          val = adjusted_val st fix valp;
          has_value = (case fx_addsy fix of None \<Rightarrow> True | Some s \<Rightarrow> S_IS_DEFINED (symtab st s))
      in rbind (arr_get OverWrite (frags st) (fx_frag fix)) (\<lambda>frag.
         rbind (apply_bytes (fx_r_type fix) has_value val (fx_where fix) (fr_literal frag)) (\<lambda>(buf, n, early).
           if \<not> early \<and> fx_addsy fix = None \<and> fx_r_type fix = BFD_RELOC_64_PCREL then Inl Fatal
           else Inr (fix\<lparr>fx_offset := offset, fx_done := fix_resolved st fix segment\<rparr>,
                     st\<lparr>frags := (frags st)[fx_frag fix := frag\<lparr>fr_literal := buf\<rparr>],
                        bads := bads st + n\<rparr>))))"

subsection \<open>Fixing up a segment\<close>

text \<open>
  A fixup with a symbol to subtract.  The port allows such differences, and no segment is
  special to it, so the test \<^verbatim>\<open>TC_VALIDATE_FIX_SUB\<close> always succeeds.
\<close>

definition fixup_sub :: "segT \<Rightarrow> gas_state \<Rightarrow> fixS \<times> u64 \<Rightarrow> gas_error + (fixS \<times> u64)" where
  "fixup_sub this_segment st = (\<lambda>(fix, n).
     case fx_subsy fix of
       None \<Rightarrow> Inr (fix, n)
     | Some sub \<Rightarrow>
         let sy = symtab st sub; sub_seg = S_GET_SEGMENT sy; n1 = n - S_GET_VALUE sy in
         if (case fx_addsy fix of
               None \<Rightarrow> False
             | Some add \<Rightarrow> sub_seg = S_GET_SEGMENT (symtab st add) \<and> \<not> S_FORCE_RELOC (symtab st add) False \<and>
                          \<not> S_FORCE_RELOC sy False \<and> SEG_NORMAL (S_GET_SEGMENT (symtab st add)))
         then let n2 = n + S_GET_VALUE (symtab st (the (fx_addsy fix))) - S_GET_VALUE sy
              in Inr (fix\<lparr>fx_offset := n2, fx_addsy := None, fx_subsy := None\<rparr>, n2)
         else if seg_kind sub_seg = absolute_section \<and> \<not> S_FORCE_RELOC sy False
         then Inr (fix\<lparr>fx_offset := n1, fx_subsy := None\<rparr>, n1)
         else if sub_seg = this_segment \<and> \<not> S_FORCE_RELOC sy False
         then rbind (arr_get OverRead (frags st) (fx_frag fix)) (\<lambda>frag.
              rbind (if fx_pcrel fix then Inr 0
                     else md_pcrel_from_section st
                            (fix\<lparr>fx_offset := n1 + fx_dot_value fix + fr_address frag\<rparr>) this_segment) (\<lambda>from.
                Inr (fix\<lparr>fx_offset := n1 + fx_dot_value fix + fr_address frag, fx_subsy := None,
                         fx_pcrel := True\<rparr>, n1 + from)))
         else if seg_kind sub_seg \<noteq> undefined_section \<and> \<not> bfd_is_com_section sub_seg
         then Inr (fix, n1)
         else Inr (fix, n))"

text \<open>The symbol to add.\<close>

definition fixup_add :: "(bfd_reloc \<Rightarrow> bool) \<Rightarrow> segT \<Rightarrow> gas_state \<Rightarrow> fixS \<times> u64 \<Rightarrow> gas_error + (fixS \<times> u64)" where
  "fixup_add vtable this_segment st = (\<lambda>(fix, n).
     case fx_addsy fix of
       None \<Rightarrow> Inr (fix, n)
     | Some add \<Rightarrow>
         let sy = symtab st add; seg = S_GET_SEGMENT sy; n1 = n + S_GET_VALUE sy in
         if seg = this_segment \<and> \<not> S_FORCE_RELOC sy False \<and> \<not> TC_FORCE_RELOCATION_LOCAL vtable st fix
         then rbind (if fx_pcrel fix then md_pcrel_from_section st (fix\<lparr>fx_offset := n1\<rparr>) this_segment
                     else Inr 0) (\<lambda>from.
                Inr (fix\<lparr>fx_offset := n1, fx_addsy := None, fx_pcrel := False\<rparr>, n1 - from))
         else if seg_kind seg = absolute_section \<and> \<not> S_FORCE_RELOC sy False \<and>
                 \<not> tc_xtc_force_relocation vtable st fix
         then Inr (fix\<lparr>fx_offset := n1, fx_addsy := None\<rparr>, n1)
         else if seg_kind seg \<noteq> undefined_section \<and> \<not> bfd_is_com_section seg
         then Inr (fix, n1)
         else Inr (fix, n))"

definition mark_used :: "string option \<Rightarrow> gas_state \<Rightarrow> gas_state" where
  "mark_used so st =
     (case so of
        None \<Rightarrow> st
      | Some s \<Rightarrow> st\<lparr>symtab := (symtab st)(s := (symtab st s)\<lparr>used_in_reloc := True\<rparr>)\<rparr>)"

text \<open>A value must fit its field as a signed or as an unsigned number.\<close>

definition field_overflow :: "fixS \<Rightarrow> u64 \<Rightarrow> bool" where
  "field_overflow fix n \<longleftrightarrow>
     fx_size fix \<noteq> 0 \<and> fx_size fix < 8 \<and>
     (let mask = push_bit (fx_size fix * 8) (- 1) in n AND mask \<noteq> 0 \<and> n AND mask \<noteq> mask)"

text \<open>One turn of the loop of \<^verbatim>\<open>fixup_segment\<close>; the flag says whether a relocation is left.\<close>

definition fixup_pcrel :: "segT \<Rightarrow> gas_state \<Rightarrow> fixS \<times> u64 \<Rightarrow> gas_error + (fixS \<times> u64)" where
  "fixup_pcrel this_segment st = (\<lambda>(fix, n).
     if fx_pcrel fix
     then rbind (md_pcrel_from_section st fix this_segment) (\<lambda>from.
            Inr (if \<not> fx_done fix \<and> fx_addsy fix = None
                 then fix\<lparr>fx_addsy := Some (abs_section_sym st)\<rparr> else fix, n - from))
     else Inr (fix, n))"

definition fixup_one :: "(bfd_reloc \<Rightarrow> bool) \<Rightarrow> segT \<Rightarrow> fixS \<Rightarrow> gas_state \<Rightarrow> gas_error + (fixS \<times> gas_state)" where
  "fixup_one vtable this_segment fix st =
     rbind (fixup_sub this_segment st (fix, fx_offset fix)) (\<lambda>r.
     rbind (fixup_add vtable this_segment st r) (\<lambda>r.
     rbind (fixup_pcrel this_segment st r) (\<lambda>(fix, n).
     rbind (if fx_done fix then Inr (fix, st) else md_apply_fix fix n this_segment st) (\<lambda>(fix, st).
       let fix = (if \<not> fx_done fix \<and> fx_addsy fix = None then fix\<lparr>fx_addsy := Some (abs_section_sym st)\<rparr>
                  else fix);
           st = (if fx_done fix then st else mark_used (fx_subsy fix) (mark_used (fx_addsy fix) st))
       in Inr (fix, if field_overflow fix n then st\<lparr>bads := bads st + 1\<rparr> else st)))))"

text \<open>The port leaves relaxing to the linker but does not set \<^verbatim>\<open>linkrelax\<close>, so every fixup is applied.\<close>

fun fixup_segment :: "(bfd_reloc \<Rightarrow> bool) \<Rightarrow> segT \<Rightarrow> fixS list \<Rightarrow> gas_state \<Rightarrow>
    gas_error + (fixS list \<times> gas_state)" where
  "fixup_segment vtable this_segment [] st = Inr ([], st)"
| "fixup_segment vtable this_segment (fix # fixes) st =
     rbind (fixup_one vtable this_segment fix st) (\<lambda>(fix, st).
     rbind (fixup_segment vtable this_segment fixes st) (\<lambda>(fixes, st). Inr (fix # fixes, st)))"

subsection \<open>Generating relocations\<close>

record arelent =
  rel_sym :: string
  rel_address :: u64
  rel_addend :: u64
  rel_howto :: reloc_howto

text \<open>The codes that are passed on; any other one aborts.\<close>

definition gen_code :: "bfd_reloc \<Rightarrow> bool" where
  "gen_code code \<longleftrightarrow>
     code = BFD_RELOC_NONE \<or> code = BFD_RELOC_32 \<or> code = BFD_RELOC_64 \<or> code = BFD_RELOC_64_PCREL \<or>
     code = BFD_RELOC_XTC_32 \<or> code = BFD_RELOC_XTC_32_PCREL \<or> insn_reloc code"

definition tc_gen_reloc ::
    "gas_state \<Rightarrow> howto_table \<Rightarrow> fixS \<Rightarrow> gas_error + (howto_table \<times> arelent)" where
  "tc_gen_reloc st tab fix =
     (if \<not> gen_code (fx_r_type fix) then Inl Abort
      else case fx_addsy fix of
        None \<Rightarrow> Inl NullRead
      | Some s \<Rightarrow>
          rbind (arr_get OverRead (frags st) (fx_frag fix)) (\<lambda>frag.
          case xtc_elf_reloc_type_lookup tab (fx_r_type fix) of
            Inl LdAbort \<Rightarrow> Inl Abort
          | Inl _ \<Rightarrow> Inl OverRead
          | Inr (tab, None) \<Rightarrow> Inl Abort
          | Inr (tab, Some h) \<Rightarrow>
              Inr (tab, \<lparr>rel_sym = s, rel_address = fr_address frag + of_nat (fx_where fix),
                         rel_addend = fx_offset fix, rel_howto = h\<rparr>)))"

text \<open>
  The loop of \<^verbatim>\<open>write_relocs\<close> over the fixups that are not done; relocations made by the
  \<^verbatim>\<open>.reloc\<close> directive are not there.  A fixup beyond its fragment is reported.
\<close>

fun write_relocs :: "fixS list \<Rightarrow> gas_state \<Rightarrow> howto_table \<Rightarrow>
    gas_error + (arelent list \<times> gas_state \<times> howto_table)" where
  "write_relocs [] st tab = Inr ([], st, tab)"
| "write_relocs (fix # fixes) st tab =
     (if fx_done fix then write_relocs fixes st tab
      else rbind (arr_get OverRead (frags st) (fx_frag fix)) (\<lambda>frag.
           rbind (tc_gen_reloc st tab fix) (\<lambda>(tab, rel).
           rbind (write_relocs fixes
                    (if fr_fix frag < fx_where fix + fx_size fix then st\<lparr>bads := bads st + 1\<rparr> else st) tab)
             (\<lambda>(rels, st, tab). Inr (rel # rels, st, tab)))))"

subsection \<open>Fragments and numbers\<close>

definition fix_new :: "nat \<Rightarrow> u64 \<Rightarrow> nat \<Rightarrow> nat \<Rightarrow> string option \<Rightarrow> u64 \<Rightarrow> bool \<Rightarrow> bfd_reloc \<Rightarrow>
    gas_error + fixS" where
  "fix_new frag dot place nbytes add_symbol offset pcrel r_type =
     fix_new_internal frag dot
       \<lparr>fx_where = place, fx_size = nbytes,
        fx_exp = \<lparr>X_op = O_symbol, X_add_symbol = add_symbol, X_op_symbol = None, X_add_number = offset\<rparr>,
        fx_pcrel = pcrel, fx_r_type = r_type\<rparr> add_symbol None offset r_type"

abbreviation (input) UNDEFINED_PC_OFFSET :: nat where "UNDEFINED_PC_OFFSET \<equiv> 2"
abbreviation (input) DEFINED_ABS_SEGMENT :: nat where "DEFINED_ABS_SEGMENT \<equiv> 3"
abbreviation (input) DEFINED_PC_OFFSET :: nat where "DEFINED_PC_OFFSET \<equiv> 4"

definition md_convert_frag :: "nat \<Rightarrow> u64 \<Rightarrow> fragS \<Rightarrow> gas_error + (fixS \<times> fragS)" where
  "md_convert_frag i dot frag =
     (if fr_subtype frag = UNDEFINED_PC_OFFSET
      then rbind (fix_new i dot (fr_fix frag) (INST_WORD_SIZE * 3) (fr_symbol frag) (fr_offset frag) True
                    BFD_RELOC_XTC_E24_E8) (\<lambda>fix.
             Inr (fix, frag\<lparr>fr_fix := fr_fix frag + INST_WORD_SIZE * 2, fr_var := 0\<rparr>))
      else if fr_subtype frag = DEFINED_ABS_SEGMENT
      then rbind (fix_new i dot (fr_fix frag) INST_WORD_SIZE (fr_symbol frag) (fr_offset frag) False
                    BFD_RELOC_XTC_E24_E8) (\<lambda>fix.
             Inr (fix, frag\<lparr>fr_fix := fr_fix frag + INST_WORD_SIZE * 2, fr_var := 0\<rparr>))
      else if fr_subtype frag = DEFINED_PC_OFFSET then Inl Abort
      else Inl Fatal)"

fun chars_bigendian :: "nat \<Rightarrow> u64 \<Rightarrow> u8 list \<Rightarrow> u8 list" where
  "chars_bigendian 0 val buf = buf"
| "chars_bigendian (Suc n) val buf = chars_bigendian n (drop_bit 8 val) (ucast val # buf)"

definition number_to_chars_bigendian :: "u64 \<Rightarrow> nat \<Rightarrow> gas_error + u8 list" where
  "number_to_chars_bigendian val n = (if n = 0 then Inl Abort else Inr (chars_bigendian n val []))"

fun chars_littleendian :: "nat \<Rightarrow> u64 \<Rightarrow> u8 list" where
  "chars_littleendian 0 val = []"
| "chars_littleendian (Suc n) val = ucast val # chars_littleendian n (drop_bit 8 val)"

definition number_to_chars_littleendian :: "u64 \<Rightarrow> nat \<Rightarrow> gas_error + u8 list" where
  "number_to_chars_littleendian val n = (if n = 0 then Inl Abort else Inr (chars_littleendian n val))"

definition md_number_to_chars :: "bool \<Rightarrow> u64 \<Rightarrow> nat \<Rightarrow> gas_error + u8 list" where
  "md_number_to_chars target_big_endian use nbytes =
     (if target_big_endian then number_to_chars_bigendian use nbytes
      else number_to_chars_littleendian use nbytes)"

text \<open>How many 16-bit units a floating-point constant of a type has.\<close>

definition atof_prec :: "char \<Rightarrow> nat option" where
  "atof_prec type =
     (if type \<in> set ''fFsS'' then Some 2 else if type \<in> set ''dDrR'' then Some 4
      else if type \<in> set ''xXpP'' then Some 6 else None)"

fun atof_store :: "bool \<Rightarrow> u16 list \<Rightarrow> nat list \<Rightarrow> gas_error + u8 list" where
  "atof_store big words [] = Inr []"
| "atof_store big words (i # is) =
     rbind (arr_get OverRead words i) (\<lambda>w.
     rbind (md_number_to_chars big (ucast w) 2) (\<lambda>bs.
     rbind (atof_store big words is) (\<lambda>rest. Inr (bs @ rest))))"

text \<open>
  \<open>None\<close> is the message about a bad type.  The parser gives the units and, on success, the
  rest of the line.
\<close>

definition md_atof :: "(string \<Rightarrow> char \<Rightarrow> u16 list \<times> string option) \<Rightarrow> bool \<Rightarrow> char \<Rightarrow> string \<Rightarrow>
    gas_error + (u8 list \<times> string) option" where
  "md_atof atof_ieee target_big_endian type line =
     (case atof_prec type of
        None \<Rightarrow> Inr None
      | Some prec \<Rightarrow>
          (case atof_ieee line type of (words, t) \<Rightarrow>
             rbind (atof_store target_big_endian words
                      (if target_big_endian then [0..<prec] else rev [0..<prec])) (\<lambda>litP.
               Inr (Some (litP, case t of None \<Rightarrow> line | Some rest \<Rightarrow> rest)))))"

end
