(* ===== verification/Elf_Xtc.thy ===== *)
theory Elf_Xtc
  imports Elf_Howto
begin

text \<open>
  How the linker stores a relocated value and how it shortens an instruction: the byte
  accessors, \<^verbatim>\<open>xtc_emit_relocation\<close> and \<^verbatim>\<open>xtc_relax_relocation\<close> of
  \<^verbatim>\<open>bfd/elf32-xtc.c\<close>.  A section's contents are a list of bytes and a pointer into them is
  an index; an access outside the list is \<open>LdOutOfBounds\<close>.  \<^verbatim>\<open>long\<close> and
  \<^verbatim>\<open>unsigned long\<close> have 64 bits, and a right shift of a \<^verbatim>\<open>long\<close> keeps its sign.
\<close>

subsection \<open>Classification\<close>

fun xtc_reloc_pcrel :: "elf_xtc_reloc_type \<Rightarrow> bool" where
  "xtc_reloc_pcrel R_XTC_32_E8_R = True"
| "xtc_reloc_pcrel R_XTC_32_I8_R = True"
| "xtc_reloc_pcrel R_XTC_32_E8_I8_R = True"
| "xtc_reloc_pcrel R_XTC_32_E24_R = True"
| "xtc_reloc_pcrel R_XTC_32_E24_I8_R = True"
| "xtc_reloc_pcrel R_XTC_32_E24_E8_R = True"
| "xtc_reloc_pcrel _ = False"

fun xtc_reloc_pcrel_offset :: "elf_xtc_reloc_type \<Rightarrow> ld_error + u64" where
  "xtc_reloc_pcrel_offset R_XTC_32_E8_R = Inr 2"
| "xtc_reloc_pcrel_offset R_XTC_32_I8_R = Inr 2"
| "xtc_reloc_pcrel_offset R_XTC_32_E8_I8_R = Inr 4"
| "xtc_reloc_pcrel_offset R_XTC_32_E24_R = Inr 4"
| "xtc_reloc_pcrel_offset R_XTC_32_E24_I8_R = Inr 6"
| "xtc_reloc_pcrel_offset R_XTC_32_E24_E8_R = Inr 6"
| "xtc_reloc_pcrel_offset _ = Inl LdAbort"

definition xtc_fits_imm :: "u64 \<Rightarrow> nat \<Rightarrow> bool" where
  "xtc_fits_imm im bits =
     (if bits = 0 then im = 0
      else - (2 ^ (bits - 1)) \<le> sint im \<and> sint im < 2 ^ (bits - 1))"

definition xtc_adjusted_rel :: "u64 \<Rightarrow> u64 \<Rightarrow> u64" where
  "xtc_adjusted_rel value adjust = (if sint value < 0 then value + adjust else value)"

subsection \<open>Bytes\<close>

definition xtc_get16 :: "u8 list \<Rightarrow> nat \<Rightarrow> ld_error + u64" where
  "xtc_get16 buf src =
     rbind (arr_get LdOutOfBounds buf (src + 1)) (\<lambda>lo.
     rbind (arr_get LdOutOfBounds buf src) (\<lambda>hi.
       Inr (ucast lo + push_bit 8 (ucast hi))))"

definition xtc_get32 :: "u8 list \<Rightarrow> nat \<Rightarrow> ld_error + u64" where
  "xtc_get32 buf src =
     rbind (xtc_get16 buf src) (\<lambda>hi.
     rbind (xtc_get16 buf (src + 2)) (\<lambda>lo. Inr (push_bit 16 hi OR lo)))"

definition xtc_put16 :: "u64 \<Rightarrow> nat \<Rightarrow> u8 list \<Rightarrow> ld_error + u8 list" where
  "xtc_put16 value dest buf =
     rbind (arr_put LdOutOfBounds buf dest (ucast (drop_bit 8 value))) (\<lambda>buf.
       arr_put LdOutOfBounds buf (dest + 1) (ucast value))"

subsection \<open>Storing a value\<close>

text \<open>
  The constant of the source, an \<^verbatim>\<open>int\<close>, is complemented and then extended to 64 bits.
  It clears twelve of the fifteen bits of the first field and not bit 12.
\<close>

definition e24_insert :: "u64 \<Rightarrow> u64 \<Rightarrow> u64" where
  "e24_insert inst value =
     (let inst = inst AND NOT 0x0FFF00FF;
          inst = inst OR push_bit 16 (value AND 0x7FFF);
          value = signed_drop_bit 15 value;
          inst = inst OR (value AND 0xFF);
          value = signed_drop_bit 8 value
      in inst OR push_bit 12 (value AND 1))"

definition xtc_emit_e24 :: "nat \<Rightarrow> u64 \<Rightarrow> u8 list \<Rightarrow> ld_error + u8 list" where
  "xtc_emit_e24 dest value buf =
     rbind (xtc_get32 buf dest) (\<lambda>inst.
     let inst = e24_insert inst value in
     rbind (arr_put LdOutOfBounds buf dest (ucast (drop_bit 24 inst))) (\<lambda>buf.
     rbind (arr_put LdOutOfBounds buf (dest + 1) (ucast (drop_bit 16 inst))) (\<lambda>buf.
     rbind (arr_put LdOutOfBounds buf (dest + 2) (ucast (drop_bit 8 inst))) (\<lambda>buf.
       arr_put LdOutOfBounds buf (dest + 3) (ucast inst)))))"

text \<open>The two ways a field of a half-word is replaced.\<close>

definition put_ext8 :: "u64 \<Rightarrow> nat \<Rightarrow> u8 list \<Rightarrow> ld_error + u8 list" where
  "put_ext8 value dest buf =
     rbind (xtc_get16 buf dest) (\<lambda>w. xtc_put16 ((w AND 0xFF00) OR (value AND 0xFF)) dest buf)"

definition put_imm8 :: "u64 \<Rightarrow> nat \<Rightarrow> u8 list \<Rightarrow> ld_error + u8 list" where
  "put_imm8 value dest buf =
     rbind (xtc_get16 buf dest) (\<lambda>w.
       xtc_put16 ((w AND 0xF00F) OR (push_bit 4 value AND 0xFF0)) dest buf)"

text \<open>The result says whether the value was in range; out of range nothing is stored.\<close>

definition emit_if :: "bool \<Rightarrow> (u8 list \<Rightarrow> ld_error + u8 list) \<Rightarrow> u8 list \<Rightarrow> ld_error + (bool \<times> u8 list)" where
  "emit_if ok f buf = (if ok then rbind (f buf) (\<lambda>buf. Inr (True, buf)) else Inr (False, buf))"

definition emit_e24_e8 :: "u64 \<Rightarrow> nat \<Rightarrow> u8 list \<Rightarrow> ld_error + u8 list" where
  "emit_e24_e8 value dest buf =
     rbind (xtc_emit_e24 dest (signed_drop_bit 8 value) buf) (put_ext8 value (dest + 6))"

definition emit_e24_i8 :: "u64 \<Rightarrow> nat \<Rightarrow> u8 list \<Rightarrow> ld_error + u8 list" where
  "emit_e24_i8 value dest buf =
     rbind (xtc_emit_e24 dest (signed_drop_bit 8 value) buf) (put_imm8 value (dest + 4))"

definition emit_e8_i8 :: "u64 \<Rightarrow> nat \<Rightarrow> u8 list \<Rightarrow> ld_error + u8 list" where
  "emit_e8_i8 value dest buf =
     rbind (put_imm8 value dest buf) (put_ext8 (signed_drop_bit 8 value) (dest + 2))"

fun xtc_emit_relocation ::
    "elf_xtc_reloc_type \<Rightarrow> u64 \<Rightarrow> nat \<Rightarrow> u8 list \<Rightarrow> ld_error + (bool \<times> u8 list)" where
  "xtc_emit_relocation R_XTC_32_E24_E8_R value dest buf =
     emit_if (xtc_fits_imm value 32) (emit_e24_e8 value dest) buf"
| "xtc_emit_relocation R_XTC_32_E24_E8 value dest buf =
     emit_if (xtc_fits_imm value 32) (emit_e24_e8 value dest) buf"
| "xtc_emit_relocation R_XTC_32_E24_I8_R value dest buf = emit_if True (emit_e24_i8 value dest) buf"
| "xtc_emit_relocation R_XTC_32_E24_I8 value dest buf = emit_if True (emit_e24_i8 value dest) buf"
| "xtc_emit_relocation R_XTC_32_E24_R value dest buf =
     emit_if (xtc_fits_imm value 24) (xtc_emit_e24 dest value) buf"
| "xtc_emit_relocation R_XTC_32_E24 value dest buf =
     emit_if (xtc_fits_imm value 24) (xtc_emit_e24 dest value) buf"
| "xtc_emit_relocation R_XTC_32_E8_R value dest buf =
     emit_if (xtc_fits_imm value 8) (put_ext8 value (dest + 2)) buf"
| "xtc_emit_relocation R_XTC_32_E8 value dest buf =
     emit_if (xtc_fits_imm value 8) (put_ext8 value (dest + 2)) buf"
| "xtc_emit_relocation R_XTC_32_E8_I8_R value dest buf =
     emit_if (xtc_fits_imm value 16) (emit_e8_i8 value dest) buf"
| "xtc_emit_relocation R_XTC_32_E8_I8 value dest buf =
     emit_if (xtc_fits_imm value 16) (emit_e8_i8 value dest) buf"
| "xtc_emit_relocation R_XTC_32_I8_R value dest buf =
     emit_if (xtc_fits_imm value 8) (put_imm8 value dest) buf"
| "xtc_emit_relocation R_XTC_32_I8 value dest buf =
     emit_if (xtc_fits_imm value 8) (put_imm8 value dest) buf"
| "xtc_emit_relocation _ value dest buf = Inr (True, buf)"

subsection \<open>Shortening an instruction\<close>

text \<open>
  Each step rewrites the bytes so that the shorter instruction ends where the longer one
  ended; the bytes in front of it are deleted afterwards.  The pointer to the value is null
  unless the new relocation is relative.
\<close>

definition adjust_ptr :: "u64 option \<Rightarrow> u64 \<Rightarrow> u64 option" where
  "adjust_ptr value k = map_option (\<lambda>v. xtc_adjusted_rel v k) value"

definition xtc_relax_e24_i8_to_e8_i8 ::
    "nat \<Rightarrow> u64 option \<Rightarrow> u8 list \<Rightarrow> ld_error + (u8 list \<times> u64 option)" where
  "xtc_relax_e24_i8_to_e8_i8 location value buf =
     rbind (arr_get LdOutOfBounds buf (location + 2)) (\<lambda>savecond.
     rbind (arr_get LdOutOfBounds buf (location + 4)) (\<lambda>b4.
     rbind (arr_put LdOutOfBounds buf (location + 2) (b4 OR 0x80)) (\<lambda>buf.
     rbind (arr_get LdOutOfBounds buf (location + 5)) (\<lambda>b5.
     rbind (arr_put LdOutOfBounds buf (location + 3) b5) (\<lambda>buf.
     rbind (arr_put LdOutOfBounds buf (location + 4) ((savecond AND 0xF) OR 0x40)) (\<lambda>buf.
     rbind (arr_put LdOutOfBounds buf (location + 5) 0) (\<lambda>buf.
       Inr (buf, adjust_ptr value 2))))))))"

definition xtc_relax_e24_to_e8 ::
    "nat \<Rightarrow> u64 option \<Rightarrow> u8 list \<Rightarrow> ld_error + (u8 list \<times> u64 option)" where
  "xtc_relax_e24_to_e8 location value buf = Inl LdAbort"

definition xtc_relax_e8_i8_to_i8 ::
    "nat \<Rightarrow> u64 option \<Rightarrow> u8 list \<Rightarrow> ld_error + (u8 list \<times> u64 option)" where
  "xtc_relax_e8_i8_to_i8 location value buf =
     rbind (arr_get LdOutOfBounds buf location) (\<lambda>b0.
     rbind (arr_put LdOutOfBounds buf (location + 2) (b0 AND 0x7F)) (\<lambda>buf.
     rbind (arr_get LdOutOfBounds buf (location + 1)) (\<lambda>b1.
     rbind (arr_put LdOutOfBounds buf (location + 3) b1) (\<lambda>buf.
       Inr (buf, adjust_ptr value 2)))))"

definition xtc_relax_e8_to_none ::
    "nat \<Rightarrow> u64 option \<Rightarrow> u8 list \<Rightarrow> ld_error + (u8 list \<times> u64 option)" where
  "xtc_relax_e8_to_none location value buf =
     rbind (arr_put LdOutOfBounds buf location 0xDE) (\<lambda>buf.
     rbind (arr_put LdOutOfBounds buf (location + 1) 0xAD) (\<lambda>buf. Inr (buf, value)))"

definition xtc_relax_e24_e8_to_e8 ::
    "nat \<Rightarrow> u64 option \<Rightarrow> u8 list \<Rightarrow> ld_error + (u8 list \<times> u64 option)" where
  "xtc_relax_e24_e8_to_e8 location value buf = Inr (buf, adjust_ptr value 4)"

definition xtc_can_remove_extension :: "u8 list \<Rightarrow> nat \<Rightarrow> ld_error + bool" where
  "xtc_can_remove_extension buf loc =
     rbind (xtc_get16 buf (loc + 2)) (\<lambda>insn. Inr (insn AND 0x2F00 = 0))"

subsection \<open>The relaxation of one relocation\<close>

text \<open>The state of the loop: relocation, value, bytes removed so far, contents.\<close>

type_synonym relax_state = "elf_xtc_reloc_type \<times> u64 \<times> nat \<times> u8 list"

definition NEW_RELOC_IF :: "nat \<Rightarrow> elf_xtc_reloc_type \<Rightarrow> nat \<Rightarrow> u64 \<Rightarrow>
    (nat \<Rightarrow> u64 option \<Rightarrow> u8 list \<Rightarrow> ld_error + (u8 list \<times> u64 option)) \<Rightarrow>
    nat \<Rightarrow> u64 \<Rightarrow> nat \<Rightarrow> u8 list \<Rightarrow> ld_error + relax_state option" where
  "NEW_RELOC_IF bits newrel removedbytes adjust algo location value bytes buf =
     (if xtc_fits_imm (xtc_adjusted_rel value adjust) bits
      then rbind (algo (location + bytes) (if xtc_reloc_pcrel newrel then Some value else None) buf)
             (\<lambda>(buf, v). Inr (Some (newrel, (case v of Some v \<Rightarrow> v | None \<Rightarrow> value),
                                    bytes + removedbytes, buf)))
      else Inr None)"

text \<open>One turn of the loop; \<open>None\<close> when the relocation stays as it is.\<close>

definition relax_turn ::
    "elf_xtc_reloc_type \<Rightarrow> nat \<Rightarrow> u64 \<Rightarrow> nat \<Rightarrow> u8 list \<Rightarrow> ld_error + relax_state option" where
  "relax_turn rel location value bytes buf =
     (let ispcrel = xtc_reloc_pcrel rel; adj = (\<lambda>k. if ispcrel then k else 0);
          e24_e8 = NEW_RELOC_IF 8 (if ispcrel then R_XTC_32_E8_R else R_XTC_32_E8) 4 (adj 4)
                     xtc_relax_e24_e8_to_e8 location value bytes buf;
          e24_i8 = NEW_RELOC_IF 16 (if ispcrel then R_XTC_32_E8_I8_R else R_XTC_32_E8_I8) 2 (adj 2)
                     xtc_relax_e24_i8_to_e8_i8 location value bytes buf;
          e24 = NEW_RELOC_IF 8 (if ispcrel then R_XTC_32_E8_R else R_XTC_32_E8) 2 (adj 2)
                     xtc_relax_e24_to_e8 location value bytes buf;
          e8 = rbind (xtc_can_remove_extension buf (location + bytes)) (\<lambda>ok.
                 if ok then NEW_RELOC_IF 0 R_XTC_NONE 2 (adj 2)
                     xtc_relax_e8_to_none location value bytes buf else Inr None);
          e8_i8 = rbind (xtc_can_remove_extension buf (location + bytes)) (\<lambda>ok.
                 if ok then NEW_RELOC_IF 8 (if ispcrel then R_XTC_32_I8_R else R_XTC_32_I8) 2 (adj 2)
                     xtc_relax_e8_i8_to_i8 location value bytes buf else Inr None)
      in case rel of
           R_XTC_32_E24_E8_R \<Rightarrow> e24_e8 | R_XTC_32_E24_E8 \<Rightarrow> e24_e8
         | R_XTC_32_E24_I8_R \<Rightarrow> e24_i8 | R_XTC_32_E24_I8 \<Rightarrow> e24_i8
         | R_XTC_32_E24_R \<Rightarrow> e24 | R_XTC_32_E24 \<Rightarrow> e24
         | R_XTC_32_E8_R \<Rightarrow> e8 | R_XTC_32_E8 \<Rightarrow> e8
         | R_XTC_32_E8_I8_R \<Rightarrow> e8_i8 | R_XTC_32_E8_I8 \<Rightarrow> e8_i8
         | _ \<Rightarrow> Inr None)"

text \<open>Every turn that changes the relocation makes it simpler, so the loop ends.\<close>

fun reloc_rank :: "elf_xtc_reloc_type \<Rightarrow> nat" where
  "reloc_rank R_XTC_32_E24_E8_R = 2"
| "reloc_rank R_XTC_32_E24_E8 = 2"
| "reloc_rank R_XTC_32_E24_I8_R = 2"
| "reloc_rank R_XTC_32_E24_I8 = 2"
| "reloc_rank R_XTC_32_E24_R = 2"
| "reloc_rank R_XTC_32_E24 = 2"
| "reloc_rank R_XTC_32_E8_R = 1"
| "reloc_rank R_XTC_32_E8 = 1"
| "reloc_rank R_XTC_32_E8_I8_R = 1"
| "reloc_rank R_XTC_32_E8_I8 = 1"
| "reloc_rank _ = 0"

lemma relax_turn_rank:
  "relax_turn rel location value bytes buf = Inr (Some (rel', value', bytes', buf')) \<Longrightarrow>
     reloc_rank rel' < reloc_rank rel"
  by (cases rel) (auto simp: relax_turn_def NEW_RELOC_IF_def split: if_splits)

function relax_loop ::
    "elf_xtc_reloc_type \<Rightarrow> nat \<Rightarrow> u64 \<Rightarrow> nat \<Rightarrow> u8 list \<Rightarrow> ld_error + relax_state" where
  "relax_loop rel location value bytes buf =
     rbind (relax_turn rel location value bytes buf) (\<lambda>r.
       case r of
         None \<Rightarrow> Inr (rel, value, bytes, buf)
       | Some (rel', value', bytes', buf') \<Rightarrow> relax_loop rel' location value' bytes' buf')"
  by pat_completeness auto

termination relax_loop
  by (relation "measure (\<lambda>(rel, _). reloc_rank rel)") (auto dest: relax_turn_rank)

declare relax_loop.simps [simp del]

text \<open>
  The new relocation, the number of bytes to delete, and the contents.  A value that does not
  fit only makes the linker print a message.
\<close>

definition xtc_relax_relocation ::
    "elf_xtc_reloc_type \<Rightarrow> u64 \<Rightarrow> nat \<Rightarrow> u8 list \<Rightarrow> ld_error + (elf_xtc_reloc_type \<times> nat \<times> u8 list)" where
  "xtc_relax_relocation rel value location buf =
     rbind (relax_loop rel location value 0 buf) (\<lambda>(rel, value, bytes, buf).
     rbind (xtc_emit_relocation rel value (location + bytes) buf) (\<lambda>(_, buf).
       Inr (rel, bytes, buf)))"

end
