(* ===== verification/Elf_Emit.thy ===== *)
theory Elf_Emit
  imports Elf_Xtc
begin

text \<open>
  What the linker's stores leave in a section: closed forms of the stores inside the
  section, the value each relocation type can be read back as, and the effect of the bits
  that \<^verbatim>\<open>xtc_emit_e24\<close> fails to clear.
\<close>

subsection \<open>Half-words and words\<close>

definition word16 :: "u8 \<Rightarrow> u8 \<Rightarrow> u64" where
  "word16 hi lo = ucast lo + push_bit 8 (ucast hi)"

lemma bit_word16: "bit (word16 hi lo) n \<longleftrightarrow> (if n < 8 then bit lo n else n < 16 \<and> bit hi (n - 8))"
proof -
  have "word16 hi lo = ucast lo OR push_bit 8 (ucast hi)"
    unfolding word16_def
    by (rule disjunctive_add) (auto simp: bit_simps dest: bit_imp_le_length)
  then show ?thesis
    by (auto simp: bit_simps dest: bit_imp_le_length)
qed

lemma get16_in: "p + 1 < length buf \<Longrightarrow> xtc_get16 buf p = Inr (word16 (buf ! p) (buf ! (p + 1)))"
  by (simp add: xtc_get16_def word16_def)

lemma get32_in:
  "p + 3 < length buf \<Longrightarrow> xtc_get32 buf p =
     Inr (push_bit 16 (word16 (buf ! p) (buf ! (p + 1))) OR word16 (buf ! (p + 2)) (buf ! (p + 3)))"
  by (simp add: xtc_get32_def get16_in numeral_3_eq_3)

lemma put16_in:
  "p + 1 < length buf \<Longrightarrow>
     xtc_put16 v p buf = Inr (buf[p := ucast (drop_bit 8 v), p + 1 := ucast v])"
  by (simp add: xtc_put16_def)

lemma word16_bytes [simp]:
  "ucast (drop_bit 8 (word16 hi lo)) = hi" "ucast (word16 hi lo) = lo"
  by (rule bit_word_eqI; simp add: bit_word16 bit_simps)+

lemma word16_of_bytes: "word16 (ucast (drop_bit 8 v)) (ucast v) = take_bit 16 v"
  by (rule bit_word_eqI) (auto simp: bit_word16 bit_simps)

text \<open>The half-word accessors are a memory of 16-bit cells.\<close>

definition load16 :: "u8 list \<Rightarrow> nat \<Rightarrow> ld_error + u16" where
  "load16 buf p = rbind (xtc_get16 buf p) (\<lambda>w. Inr (ucast w))"

definition store16 :: "u8 list \<Rightarrow> nat \<Rightarrow> u16 \<Rightarrow> ld_error + u8 list" where
  "store16 buf p v = xtc_put16 (ucast v) p buf"

lemma store16_eq:
  "store16 buf p v = Inr buf' \<longleftrightarrow>
     p + 1 < length buf \<and> buf' = buf[p := ucast (drop_bit 8 v), p + 1 := ucast v]"
proof -
  have "ucast (drop_bit 8 (ucast v :: u64)) = (ucast (drop_bit 8 v) :: u8)"
    by (rule bit_word_eqI) (simp add: bit_simps)
  moreover have "ucast (ucast v :: u64) = (ucast v :: u8)"
    by (rule bit_word_eqI) (simp add: bit_simps)
  ultimately show ?thesis
    by (auto simp: store16_def xtc_put16_def)
qed

lemma load16_eq:
  "p + 1 < length buf \<Longrightarrow> load16 buf p = Inr (ucast (word16 (buf ! p) (buf ! (p + 1))))"
  by (simp add: load16_def get16_in)

interpretation ld16: mem_cell load16 store16 2 length
proof
  fix buf :: "u8 list" and p :: nat and v :: u16
  assume "p + 2 \<le> length buf"
  then show "\<exists>w. load16 buf p = Inr w" "\<exists>buf'. store16 buf p v = Inr buf'"
    by (simp_all add: load16_eq store16_eq)
next
  fix buf buf' :: "u8 list" and p q :: nat and v :: u16
  assume s: "store16 buf p v = Inr buf'"
  then show "length buf' = length buf" by (auto simp: store16_eq)
  have "(ucast (word16 (ucast (drop_bit 8 v)) (ucast v)) :: u16) = v"
    by (rule bit_word_eqI) (auto simp: bit_word16 bit_simps)
  with s show "load16 buf' p = Inr v"
    by (auto simp: store16_eq load16_eq)
  assume "q + 2 \<le> p \<or> p + 2 \<le> q"
  with s show "load16 buf' q = load16 buf q"
    by (auto simp: store16_eq load16_def xtc_get16_def arr_get_def nth_list_update)
qed

subsection \<open>The fields\<close>

lemma field_numeral_bits:
  "bit (0xFF00 :: int) n \<longleftrightarrow> 8 \<le> n \<and> n < 16" "bit (0xF00F :: int) n \<longleftrightarrow> n < 4 \<or> 12 \<le> n \<and> n < 16"
  "bit (0xFF0 :: int) n \<longleftrightarrow> 4 \<le> n \<and> n < 12" "bit (0x0FFF00FF :: int) n \<longleftrightarrow> n < 8 \<or> 16 \<le> n \<and> n < 28"
  "bit (0x7FFF :: int) n \<longleftrightarrow> n < 15" "bit (0x807000 :: int) n \<longleftrightarrow> n = 23 \<or> 12 \<le> n \<and> n < 15"
  "bit (0xF0 :: int) n \<longleftrightarrow> 4 \<le> n \<and> n < 8" "bit (0x7FFF0000 :: int) n \<longleftrightarrow> 16 \<le> n \<and> n < 31"
proof -
  have e: "(0xFF00 :: int) = push_bit 8 (mask 8)" "(0xF00F :: int) = mask 4 OR push_bit 12 (mask 4)"
    "(0xFF0 :: int) = push_bit 4 (mask 8)" "(0x0FFF00FF :: int) = mask 8 OR push_bit 16 (mask 12)"
    "(0x7FFF :: int) = mask 15" "(0x807000 :: int) = push_bit 23 (mask 1) OR push_bit 12 (mask 3)"
    "(0xF0 :: int) = push_bit 4 (mask 4)" "(0x7FFF0000 :: int) = push_bit 16 (mask 15)"
    by (simp_all add: mask_eq_exp_minus_1)
  show "bit (0xFF00 :: int) n \<longleftrightarrow> 8 \<le> n \<and> n < 16"
    "bit (0xF00F :: int) n \<longleftrightarrow> n < 4 \<or> 12 \<le> n \<and> n < 16"
    "bit (0xFF0 :: int) n \<longleftrightarrow> 4 \<le> n \<and> n < 12"
    "bit (0x0FFF00FF :: int) n \<longleftrightarrow> n < 8 \<or> 16 \<le> n \<and> n < 28"
    "bit (0x7FFF :: int) n \<longleftrightarrow> n < 15" "bit (0x807000 :: int) n \<longleftrightarrow> n = 23 \<or> 12 \<le> n \<and> n < 15"
    "bit (0xF0 :: int) n \<longleftrightarrow> 4 \<le> n \<and> n < 8" "bit (0x7FFF0000 :: int) n \<longleftrightarrow> 16 \<le> n \<and> n < 31"
    unfolding e bit_or_iff bit_push_bit_iff bit_mask_iff by auto
qed

lemma put_ext8_in:
  assumes "p + 1 < length buf"
  shows "put_ext8 v p buf = Inr (buf[p + 1 := ucast v])"
proof -
  have "ucast (drop_bit 8 ((word16 hi lo AND 0xFF00) OR (v AND 0xFF))) = hi" for hi lo
    by (rule bit_word_eqI) (auto simp: bit_simps bit_word16 field_numeral_bits)
  moreover have "ucast ((word16 hi lo AND 0xFF00) OR (v AND 0xFF)) = (ucast v :: u8)" for hi lo
    by (rule bit_word_eqI) (auto simp: bit_simps bit_word16 field_numeral_bits)
  ultimately show ?thesis
    using assms by (simp add: put_ext8_def get16_in put16_in del: and_255)
qed

text \<open>The two bytes of an instruction whose immediate is replaced.\<close>

definition imm8_hi :: "u64 \<Rightarrow> u8 \<Rightarrow> u8" where
  "imm8_hi v hi = (hi AND 0xF0) OR take_bit 4 (ucast (drop_bit 4 v))"

definition imm8_lo :: "u64 \<Rightarrow> u8 \<Rightarrow> u8" where
  "imm8_lo v lo = take_bit 4 lo OR push_bit 4 (ucast v)"

lemma put_imm8_in:
  assumes "p + 1 < length buf"
  shows "put_imm8 v p buf = Inr (buf[p := imm8_hi v (buf ! p), p + 1 := imm8_lo v (buf ! (p + 1))])"
proof -
  have "ucast (drop_bit 8 ((word16 hi lo AND 0xF00F) OR (push_bit 4 v AND 0xFF0))) = imm8_hi v hi" for hi lo
    unfolding imm8_hi_def by (rule bit_word_eqI) (auto simp: bit_simps bit_word16 field_numeral_bits)
  moreover have "ucast ((word16 hi lo AND 0xF00F) OR (push_bit 4 v AND 0xFF0)) = imm8_lo v lo" for hi lo
    unfolding imm8_lo_def by (rule bit_word_eqI) (auto simp: bit_simps bit_word16 field_numeral_bits)
  ultimately show ?thesis
    using assms by (simp add: put_imm8_def get16_in put16_in)
qed

lemma imm8_value_put: "imm8_value (word16 (imm8_hi v hi) (imm8_lo v lo)) = take_bit 8 v"
  by (rule bit_word_eqI)
    (auto simp: imm8_value_def imm8_hi_def imm8_lo_def bit_simps bit_word16 field_numeral_bits)

text \<open>Every other bit of the instruction stays.\<close>

lemma insn_rest_put: "word16 (imm8_hi v hi) (imm8_lo v lo) AND 0xF00F = word16 hi lo AND 0xF00F"
  by (rule bit_word_eqI)
    (auto simp: imm8_hi_def imm8_lo_def bit_simps bit_word16 field_numeral_bits)

subsection \<open>The 24-bit extension\<close>

lemma bit_e24_insert:
  assumes "n < 64"
  shows "bit (e24_insert w v) n \<longleftrightarrow>
    (if n < 8 then bit v (n + 15) else if n < 16 then bit w n \<or> n = 12 \<and> bit v 23
     else if n < 28 then bit v (n - 16) else bit w n \<or> n < 31 \<and> bit v (n - 16))"
proof -
  have a: "take_bit 8 (signed_drop_bit 15 v) = take_bit 8 (drop_bit 15 v)"
    by (rule bit_word_eqI) (auto simp: bit_simps)
  have b: "signed_drop_bit 8 (signed_drop_bit 15 v) AND 1 = of_bool (bit v 23)"
    by (rule bit_word_eqI) (auto simp: bit_simps)
  have "bit (push_bit 12 (of_bool (bit v 23) :: u64)) n \<longleftrightarrow> n = 12 \<and> bit v 23"
    by (auto simp: bit_simps)
  then show ?thesis
    using assms unfolding e24_insert_def Let_def and_255 a b bit_or_iff
    by (auto simp: bit_simps field_numeral_bits add.commute)
qed

text \<open>The value read back holds the bits that were not cleared as well.\<close>

lemma bit_e24_value:
  "bit (e24_value w) n \<longleftrightarrow>
     (if n < 15 then bit w (n + 16) else if n < 23 then bit w (n - 15) else n = 23 \<and> bit w 12)"
proof -
  have "bit (push_bit 23 (take_bit 1 (drop_bit 12 w))) n \<longleftrightarrow> n = 23 \<and> bit w 12"
    by (auto simp: bit_simps bit_iff_odd_drop_bit [of w 12])
  then show ?thesis
    unfolding e24_value_def bit_or_iff by (auto simp: bit_simps add.commute)
qed

lemma e24_value_insert:
  "e24_value (e24_insert w v) = take_bit 24 v OR (e24_value w AND 0x807000)"
proof (rule bit_word_eqI)
  fix n :: nat
  assume "n < LENGTH(64)"
  consider "n < 12" | "12 \<le> n \<and> n < 15" | "15 \<le> n \<and> n < 23" | "n = 23" | "23 < n" by linarith
  then show "bit (e24_value (e24_insert w v)) n = bit (take_bit 24 v OR (e24_value w AND 0x807000)) n"
    by cases (auto split: if_splits simp: bit_e24_value bit_e24_insert bit_or_iff bit_and_iff bit_take_bit_iff
      bit_numeral_word_iff field_numeral_bits)
qed

lemma e24_cond_insert: "e24_cond (e24_insert w v) = e24_cond w"
  by (rule bit_word_eqI)
    (auto simp: e24_cond_def bit_e24_insert bit_take_bit_iff bit_drop_bit_eq)

definition word32 :: "u8 list \<Rightarrow> nat \<Rightarrow> u64" where
  "word32 buf p = push_bit 16 (word16 (buf ! p) (buf ! (p + 1))) OR word16 (buf ! (p + 2)) (buf ! (p + 3))"

lemma bit_word32:
  "bit (word32 buf p) n \<longleftrightarrow>
     (if n < 8 then bit (buf ! (p + 3)) n else if n < 16 then bit (buf ! (p + 2)) (n - 8)
      else if n < 24 then bit (buf ! (p + 1)) (n - 16) else n < 32 \<and> bit (buf ! p) (n - 24))"
  unfolding word32_def bit_or_iff bit_push_bit_iff bit_word16 by auto

lemma word32_small: "take_bit 32 (word32 buf p) = word32 buf p"
  by (rule bit_word_eqI) (auto simp: bit_take_bit_iff bit_word32)

definition put_word32 :: "nat \<Rightarrow> u64 \<Rightarrow> u8 list \<Rightarrow> u8 list" where
  "put_word32 p w buf = buf[p := ucast (drop_bit 24 w), p + 1 := ucast (drop_bit 16 w),
     p + 2 := ucast (drop_bit 8 w), p + 3 := ucast w]"

lemma put_word32_length [simp]: "length (put_word32 p w buf) = length buf"
  by (simp add: put_word32_def)

lemma put_word32_nth: "i < p \<or> p + 4 \<le> i \<Longrightarrow> put_word32 p w buf ! i = buf ! i"
  by (auto simp: put_word32_def)

lemma word32_put:
  assumes "p + 3 < length buf"
  shows "word32 (put_word32 p w buf) p = take_bit 32 w"
proof -
  have b: "put_word32 p w buf ! p = ucast (drop_bit 24 w)" "put_word32 p w buf ! (p + 1) = ucast (drop_bit 16 w)"
    "put_word32 p w buf ! (p + 2) = ucast (drop_bit 8 w)" "put_word32 p w buf ! (p + 3) = ucast w"
    using assms by (simp_all add: put_word32_def)
  show ?thesis
    by (rule bit_word_eqI) (simp only: bit_word32 b, auto simp: bit_simps)
qed

lemma emit_e24_in:
  assumes "p + 3 < length buf"
  shows "xtc_emit_e24 p v buf = Inr (put_word32 p (e24_insert (word32 buf p) v) buf)"
  using assms by (simp add: xtc_emit_e24_def get32_in word32_def put_word32_def Let_def)

lemma word32_emit:
  assumes "p + 3 < length buf"
  shows "word32 (put_word32 p (e24_insert (word32 buf p) v) buf) p = e24_insert (word32 buf p) v"
proof -
  have "take_bit 32 (e24_insert (word32 buf p) v) = e24_insert (word32 buf p) v"
    by (rule bit_word_eqI) (auto simp: bit_take_bit_iff bit_e24_insert bit_word32)
  with assms show ?thesis by (simp add: word32_put)
qed

subsection \<open>Signed fields\<close>

lemma bit_sint_min64: "bit (sint (v :: u64)) n = bit v (min 63 n)"
  by (cases "n = 63") (auto simp: bit_sint_iff min_def not_less dest: bit_imp_le_length)

lemma signed_take_bit_sint:
  fixes v :: u64
  assumes "m < 64"
  shows "signed_take_bit m v = v \<longleftrightarrow> signed_take_bit m (sint v) = sint v"
proof
  assume eq: "signed_take_bit m v = v"
  have v: "bit v (min m i) = bit v i" if "i < 64" for i
    using bit_signed_take_bit_iff [of m v i] that unfolding eq by simp
  have "bit (signed_take_bit m (sint v)) n = bit (sint v) n" for n
    using v [of "min 63 n"] assms
    by (simp add: bit_signed_take_bit_iff bit_sint_min64 min.left_commute)
  then show "signed_take_bit m (sint v) = sint v"
    by (intro bit_eqI)
next
  assume eq: "signed_take_bit m (sint v) = sint v"
  have v: "bit v (min m i) = bit v i" if "i < 64" for i
    using bit_signed_take_bit_iff [of m "sint v" i] that assms unfolding eq
    by (simp add: bit_sint_min64 min.absorb2)
  then show "signed_take_bit m v = v"
    by (intro bit_word_eqI) (simp add: bit_signed_take_bit_iff)
qed

lemma fits_signed:
  assumes "0 < n" and "n \<le> 64"
  shows "xtc_fits_imm v n \<longleftrightarrow> signed_take_bit (n - 1) v = v"
  using assms signed_take_bit_sint [of "n - 1" v]
  by (simp add: xtc_fits_imm_def signed_take_bit_int_eq_self_iff)

subsection \<open>Instruction shapes\<close>

text \<open>
  The absolute and the relative relocation types come in pairs that share one layout: an
  instruction with an 8-bit immediate, an 8-bit extension behind the instruction, or a
  24-bit extension in front of it.
\<close>

datatype shape = Sh_I8 | Sh_E8 | Sh_E8_I8 | Sh_E24 | Sh_E24_I8 | Sh_E24_E8

fun reloc_shape :: "elf_xtc_reloc_type \<Rightarrow> shape option" where
  "reloc_shape R_XTC_32_I8 = Some Sh_I8"
| "reloc_shape R_XTC_32_I8_R = Some Sh_I8"
| "reloc_shape R_XTC_32_E8 = Some Sh_E8"
| "reloc_shape R_XTC_32_E8_R = Some Sh_E8"
| "reloc_shape R_XTC_32_E8_I8 = Some Sh_E8_I8"
| "reloc_shape R_XTC_32_E8_I8_R = Some Sh_E8_I8"
| "reloc_shape R_XTC_32_E24 = Some Sh_E24"
| "reloc_shape R_XTC_32_E24_R = Some Sh_E24"
| "reloc_shape R_XTC_32_E24_I8 = Some Sh_E24_I8"
| "reloc_shape R_XTC_32_E24_I8_R = Some Sh_E24_I8"
| "reloc_shape R_XTC_32_E24_E8 = Some Sh_E24_E8"
| "reloc_shape R_XTC_32_E24_E8_R = Some Sh_E24_E8"
| "reloc_shape _ = None"

fun shape_size :: "shape \<Rightarrow> nat" where
  "shape_size Sh_I8 = 2" | "shape_size Sh_E8 = 4" | "shape_size Sh_E8_I8 = 4"
| "shape_size Sh_E24 = 4" | "shape_size Sh_E24_I8 = 6" | "shape_size Sh_E24_E8 = 8"

fun shape_bits :: "shape \<Rightarrow> nat" where
  "shape_bits Sh_I8 = 8" | "shape_bits Sh_E8 = 8" | "shape_bits Sh_E8_I8 = 16"
| "shape_bits Sh_E24 = 24" | "shape_bits Sh_E24_I8 = 32" | "shape_bits Sh_E24_E8 = 32"

text \<open>The bits of the immediate an instruction holds, before sign extension.\<close>

fun shape_field :: "shape \<Rightarrow> u8 list \<Rightarrow> nat \<Rightarrow> u64" where
  "shape_field Sh_I8 buf p = imm8_value (word16 (buf ! p) (buf ! (p + 1)))"
| "shape_field Sh_E8 buf p = ucast (buf ! (p + 3))"
| "shape_field Sh_E8_I8 buf p =
     push_bit 8 (ucast (buf ! (p + 3))) OR imm8_value (word16 (buf ! p) (buf ! (p + 1)))"
| "shape_field Sh_E24 buf p = e24_value (word32 buf p)"
| "shape_field Sh_E24_I8 buf p =
     push_bit 8 (e24_value (word32 buf p)) OR imm8_value (word16 (buf ! (p + 4)) (buf ! (p + 5)))"
| "shape_field Sh_E24_E8 buf p = push_bit 8 (e24_value (word32 buf p)) OR ucast (buf ! (p + 7))"

definition shape_value :: "shape \<Rightarrow> u8 list \<Rightarrow> nat \<Rightarrow> u64" where
  "shape_value s buf p = signed_take_bit (shape_bits s - 1) (shape_field s buf p)"

text \<open>The bits of the old immediate that survive a store.\<close>

fun stale_bits :: "shape \<Rightarrow> u8 list \<Rightarrow> nat \<Rightarrow> u64" where
  "stale_bits Sh_E24 buf p = e24_value (word32 buf p) AND 0x807000"
| "stale_bits Sh_E24_I8 buf p = push_bit 8 (e24_value (word32 buf p) AND 0x807000)"
| "stale_bits Sh_E24_E8 buf p = push_bit 8 (e24_value (word32 buf p) AND 0x807000)"
| "stale_bits _ buf p = 0"

text \<open>The contents after a store.\<close>

fun put_shape :: "shape \<Rightarrow> u64 \<Rightarrow> nat \<Rightarrow> u8 list \<Rightarrow> u8 list" where
  "put_shape Sh_I8 v p buf = buf[p := imm8_hi v (buf ! p), p + 1 := imm8_lo v (buf ! (p + 1))]"
| "put_shape Sh_E8 v p buf = buf[p + 3 := ucast v]"
| "put_shape Sh_E8_I8 v p buf =
     buf[p := imm8_hi v (buf ! p), p + 1 := imm8_lo v (buf ! (p + 1)), p + 3 := ucast (drop_bit 8 v)]"
| "put_shape Sh_E24 v p buf = put_word32 p (e24_insert (word32 buf p) v) buf"
| "put_shape Sh_E24_I8 v p buf =
     (put_word32 p (e24_insert (word32 buf p) (signed_drop_bit 8 v)) buf)
       [p + 4 := imm8_hi v (buf ! (p + 4)), p + 5 := imm8_lo v (buf ! (p + 5))]"
| "put_shape Sh_E24_E8 v p buf =
     (put_word32 p (e24_insert (word32 buf p) (signed_drop_bit 8 v)) buf)[p + 7 := ucast v]"

lemma put_shape_length [simp]: "length (put_shape s v p buf) = length buf"
  by (cases s) simp_all

lemma put_shape_nth: "i < p \<or> p + shape_size s \<le> i \<Longrightarrow> put_shape s v p buf ! i = buf ! i"
  by (cases s) (auto simp: put_word32_nth)

lemma low_signed_drop: "(ucast (signed_drop_bit 8 v) :: u8) = ucast (drop_bit 8 (v :: u64))"
  by (rule bit_word_eqI) (auto simp: bit_simps)

text \<open>Inside the section a store succeeds and leaves exactly \<open>put_shape\<close>.\<close>

lemma emit_in:
  assumes "reloc_shape t = Some s" and "p + shape_size s \<le> length buf"
    and "xtc_fits_imm v (shape_bits s)"
  shows "xtc_emit_relocation t v p buf = Inr (True, put_shape s v p buf)"
  using assms
  by (cases t) (auto simp: emit_if_def put_imm8_in put_ext8_in emit_e24_in emit_e8_i8_def
    emit_e24_e8_def emit_e24_i8_def put_word32_nth low_signed_drop numeral_3_eq_3
    add.commute [of 5 p] add.commute [of 7 p])

lemma word32_cong:
  "(\<And>i. p \<le> i \<Longrightarrow> i < p + 4 \<Longrightarrow> xs ! i = ys ! i) \<Longrightarrow> word32 xs p = word32 ys p"
  by (simp add: word32_def)

lemma join_imm8: "(push_bit 8 (take_bit 24 (signed_drop_bit 8 v)) OR c) OR take_bit 8 v = take_bit 32 v OR (c :: u64)"
  by (rule bit_word_eqI) (auto simp: bit_simps)

lemma field_put:
  assumes "p + shape_size s \<le> length buf"
  shows "shape_field s (put_shape s v p buf) p = take_bit (shape_bits s) v OR stale_bits s buf p"
proof (cases s)
  case Sh_I8
  with assms show ?thesis by (simp add: imm8_value_put)
next
  case Sh_E8
  with assms show ?thesis
    by (simp, intro bit_word_eqI) (auto simp: bit_simps)
next
  case Sh_E8_I8
  have "push_bit 8 (ucast (ucast (drop_bit 8 v) :: u8)) OR take_bit 8 v = take_bit 16 v"
    by (rule bit_word_eqI) (auto simp: bit_simps)
  with assms Sh_E8_I8 show ?thesis by (simp add: imm8_value_put)
next
  case Sh_E24
  with assms show ?thesis by (simp add: word32_emit e24_value_insert)
next
  case Sh_E24_I8
  let ?w = "put_word32 p (e24_insert (word32 buf p) (signed_drop_bit 8 v)) buf"
  have "word32 (put_shape s v p buf) p = word32 ?w p"
    using Sh_E24_I8 by (intro word32_cong) simp
  with assms Sh_E24_I8 show ?thesis
    by (simp add: word32_emit e24_value_insert imm8_value_put join_imm8)
next
  case Sh_E24_E8
  let ?w = "put_word32 p (e24_insert (word32 buf p) (signed_drop_bit 8 v)) buf"
  have "word32 (put_shape s v p buf) p = word32 ?w p"
    using Sh_E24_E8 by (intro word32_cong) simp
  moreover have "ucast (ucast v :: u8) = take_bit 8 v"
    by (rule bit_word_eqI) (auto simp: bit_simps)
  ultimately show ?thesis
    using assms Sh_E24_E8 by (simp add: word32_emit e24_value_insert join_imm8)
qed

lemma shape_bits_range: "0 < shape_bits s" "shape_bits s \<le> 64"
  by (cases s; simp)+

lemma stale_in_field: "take_bit (shape_bits s) (stale_bits s buf p) = stale_bits s buf p"
proof (cases s)
  case Sh_E24
  then show ?thesis
    by (simp, intro bit_word_eqI) (auto simp: bit_simps field_numeral_bits)
next
  case Sh_E24_I8
  then show ?thesis
    by (simp, intro bit_word_eqI) (auto simp: bit_simps bit_e24_value field_numeral_bits)
next
  case Sh_E24_E8
  then show ?thesis
    by (simp, intro bit_word_eqI) (auto simp: bit_simps bit_e24_value field_numeral_bits)
qed simp_all

lemma signed_field_or:
  fixes v c :: u64
  assumes "0 < n" and "signed_take_bit (n - 1) v = v" and "take_bit n c = c"
  shows "signed_take_bit (n - 1) (take_bit n v OR c) = v \<longleftrightarrow> c AND NOT v = 0"
proof -
  have "signed_take_bit (n - 1) (take_bit n v OR c) = v \<longleftrightarrow>
      signed_take_bit (n - 1) (take_bit n v OR c) = signed_take_bit (n - 1) v"
    unfolding assms(2) ..
  also have "\<dots> \<longleftrightarrow> take_bit n (take_bit n v OR c) = take_bit n v"
    using assms(1) by (simp add: signed_take_bit_eq_iff_take_bit_eq)
  also have "\<dots> \<longleftrightarrow> take_bit n v OR c = take_bit n v"
    by (simp add: take_bit_or assms(3))
  also have "\<dots> \<longleftrightarrow> c AND NOT v = 0"
  proof
    assume "take_bit n v OR c = take_bit n v"
    then have "bit c i \<Longrightarrow> bit v i" for i
      by (metis bit_or_iff bit_take_bit_iff)
    then show "c AND NOT v = 0"
      by (intro bit_word_eqI) (auto simp: bit_simps)
  next
    assume *: "c AND NOT v = 0"
    have cv: "bit v i" if "bit c i" for i
    proof (rule ccontr)
      assume "\<not> bit v i"
      with that have "bit (c AND NOT v) i"
        by (auto simp: bit_and_iff bit_not_iff dest: bit_imp_le_length)
      with * show False by simp
    qed
    moreover have "i < n" if "bit c i" for i
      using that bit_take_bit_iff [of n c i] unfolding assms(3) by blast
    ultimately show "take_bit n v OR c = take_bit n v"
      by (intro bit_word_eqI) (auto simp: bit_or_iff bit_take_bit_iff)
  qed
  finally show ?thesis .
qed

lemma value_put:
  assumes "p + shape_size s \<le> length buf" and "xtc_fits_imm v (shape_bits s)"
  shows "shape_value s (put_shape s v p buf) p = v \<longleftrightarrow> stale_bits s buf p AND NOT v = 0"
  unfolding shape_value_def field_put [OF assms(1)]
  using assms(2) by (intro signed_field_or shape_bits_range stale_in_field)
    (simp add: fits_signed shape_bits_range)

end
