(* ===== verification/Elf_Relax.thy ===== *)
theory Elf_Relax
  imports Elf_Emit
begin

text \<open>
  What the relaxation of one relocation does: every turn of the loop keeps the instruction,
  its condition and the value its immediate has to hold, and the instruction it leaves ends
  where the original one ended.
\<close>

subsection \<open>What an instruction says\<close>

text \<open>Where the instruction word and the extension word lie.\<close>

fun insn_offset :: "shape \<Rightarrow> nat" where
  "insn_offset Sh_E24_I8 = 4" | "insn_offset Sh_E24_E8 = 4" | "insn_offset _ = 0"

definition insn_rest :: "shape \<Rightarrow> u8 list \<Rightarrow> nat \<Rightarrow> u64" where
  "insn_rest s buf p =
     word16 (buf ! (p + insn_offset s)) (buf ! (p + insn_offset s + 1)) AND 0x700F"

fun insn_cond :: "shape \<Rightarrow> u8 list \<Rightarrow> nat \<Rightarrow> u8" where
  "insn_cond Sh_I8 buf p = 0"
| "insn_cond Sh_E8 buf p = take_bit 4 (buf ! (p + 2))"
| "insn_cond Sh_E8_I8 buf p = take_bit 4 (buf ! (p + 2))"
| "insn_cond Sh_E24 buf p = take_bit 4 (buf ! (p + 2))"
| "insn_cond Sh_E24_I8 buf p = take_bit 4 (buf ! (p + 2))"
| "insn_cond Sh_E24_E8 buf p = take_bit 4 (buf ! (p + 6))"

text \<open>An extension that selects a condition or a register, so that it cannot be dropped.\<close>

fun needs_ext :: "shape \<Rightarrow> u8 list \<Rightarrow> nat \<Rightarrow> bool" where
  "needs_ext Sh_E8 buf p \<longleftrightarrow> word16 (buf ! (p + 2)) (buf ! (p + 3)) AND 0x2F00 \<noteq> 0"
| "needs_ext Sh_E24_E8 buf p \<longleftrightarrow> word16 (buf ! (p + 6)) (buf ! (p + 7)) AND 0x2F00 \<noteq> 0"
| "needs_ext s buf p \<longleftrightarrow> s \<noteq> Sh_E24"

text \<open>The extension of an instruction without an immediate stays if it is needed or not zero.\<close>

definition ext_kept :: "shape \<Rightarrow> u8 list \<Rightarrow> nat \<Rightarrow> u64 \<Rightarrow> bool" where
  "ext_kept s buf p v \<longleftrightarrow> needs_ext s buf p \<or> s \<noteq> Sh_E24 \<and> v \<noteq> 0"

subsection \<open>The loop's invariant\<close>

definition relax_inv :: "shape \<Rightarrow> elf_xtc_reloc_type \<Rightarrow> u64 \<Rightarrow> nat \<Rightarrow> u8 list \<Rightarrow> bool" where
  "relax_inv s t v p buf \<longleftrightarrow>
     reloc_shape t = Some s \<and> p + shape_size s \<le> length buf \<and>
     xtc_fits_imm v (shape_bits s) \<and> stale_bits s buf p AND NOT v = 0 \<and> ext_kept s buf p v \<and>
     (xtc_reloc_pcrel t \<longrightarrow> 0 \<le> sint v \<or> sint v \<le> - int (shape_size s))"

text \<open>What a relative value becomes when \<open>k\<close> bytes go.\<close>

definition moved_value :: "elf_xtc_reloc_type \<Rightarrow> u64 \<Rightarrow> nat \<Rightarrow> u64" where
  "moved_value t v k = (if xtc_reloc_pcrel t then xtc_adjusted_rel v (of_nat k) else v)"

text \<open>How two states of the loop are related.\<close>

definition relax_rel :: "shape \<Rightarrow> elf_xtc_reloc_type \<Rightarrow> u64 \<Rightarrow> nat \<Rightarrow> u8 list \<Rightarrow>
    shape \<Rightarrow> elf_xtc_reloc_type \<Rightarrow> u64 \<Rightarrow> nat \<Rightarrow> u8 list \<Rightarrow> bool" where
  "relax_rel s t v p buf s' t' v' p' buf' \<longleftrightarrow>
     xtc_reloc_pcrel t' = xtc_reloc_pcrel t \<and> p \<le> p' \<and> p' + shape_size s' = p + shape_size s \<and>
     v' = moved_value t v (p' - p) \<and> length buf' = length buf \<and>
     insn_rest s' buf' p' = insn_rest s buf p \<and> insn_cond s' buf' p' = insn_cond s buf p \<and>
     (\<forall>i. i < p \<or> p + shape_size s \<le> i \<longrightarrow> buf' ! i = buf ! i)"

lemma sint_plus_small:
  assumes "sint v < 0" and "k < 2 ^ 62"
  shows "sint (v + of_nat k :: u64) = sint v + int k"
proof -
  have k: "sint (of_nat k :: u64) = int k"
    using assms(2) by (simp add: signed_of_nat signed_take_bit_int_eq_self)
  have "- (2 ^ 63) \<le> sint v"
    using sint_ge [of v] by simp
  then have "signed_take_bit 63 (sint v + int k) = sint v + int k"
    using assms by (intro signed_take_bit_int_eq_self) auto
  then show ?thesis
    unfolding sint_word_ariths(1) k by simp
qed

lemma adjusted_zero [simp]: "xtc_adjusted_rel v 0 = v"
  by (simp add: xtc_adjusted_rel_def)

text \<open>Moving a value twice is moving it once, for a target outside the instruction.\<close>

lemma moved_value_add:
  assumes "xtc_reloc_pcrel t' = xtc_reloc_pcrel t" and "j + k < 2 ^ 62"
    and "xtc_reloc_pcrel t \<longrightarrow> 0 \<le> sint v \<or> sint v < - int j"
  shows "moved_value t' (moved_value t v j) k = moved_value t v (j + k)"
proof -
  have "sint (v + of_nat j) < 0" if "sint v < 0" and "sint v < - int j"
    using sint_plus_small [OF that(1), of j] that(2) assms(2) by simp
  with assms(1,3) show ?thesis
    by (auto simp: moved_value_def xtc_adjusted_rel_def)
qed

subsection \<open>One turn\<close>

lemma e24_i8_to_e8_i8_in:
  "p + 6 \<le> length buf \<Longrightarrow> xtc_relax_e24_i8_to_e8_i8 p v buf =
     Inr (buf[p + 2 := buf ! (p + 4) OR 0x80, p + 3 := buf ! (p + 5),
              p + 4 := (buf ! (p + 2) AND 0xF) OR 0x40, p + 5 := 0], adjust_ptr v 2)"
  by (simp add: xtc_relax_e24_i8_to_e8_i8_def)

lemma e8_i8_to_i8_in:
  "p + 4 \<le> length buf \<Longrightarrow> xtc_relax_e8_i8_to_i8 p v buf =
     Inr (buf[p + 2 := buf ! p AND 0x7F, p + 3 := buf ! (p + 1)], adjust_ptr v 2)"
  by (simp add: xtc_relax_e8_i8_to_i8_def)

lemma relax_numeral_bits:
  "bit (0x700F :: int) n \<longleftrightarrow> n < 4 \<or> 12 \<le> n \<and> n < 15" "bit (0x80 :: int) n \<longleftrightarrow> n = 7"
  "bit (0x7F :: int) n \<longleftrightarrow> n < 7" "bit (0x40 :: int) n \<longleftrightarrow> n = 6"
  "bit (0x2F00 :: int) n \<longleftrightarrow> n = 13 \<or> 8 \<le> n \<and> n < 12"
proof -
  have e: "(0x700F :: int) = mask 4 OR push_bit 12 (mask 3)" "(0x80 :: int) = push_bit 7 (mask 1)"
    "(0x7F :: int) = mask 7" "(0x40 :: int) = push_bit 6 (mask 1)"
    "(0x2F00 :: int) = push_bit 13 (mask 1) OR push_bit 8 (mask 4)"
    by (simp_all add: mask_eq_exp_minus_1)
  show "bit (0x700F :: int) n \<longleftrightarrow> n < 4 \<or> 12 \<le> n \<and> n < 15" "bit (0x80 :: int) n \<longleftrightarrow> n = 7"
    "bit (0x7F :: int) n \<longleftrightarrow> n < 7" "bit (0x40 :: int) n \<longleftrightarrow> n = 6"
    "bit (0x2F00 :: int) n \<longleftrightarrow> n = 13 \<or> 8 \<le> n \<and> n < 12"
    unfolding e bit_or_iff bit_push_bit_iff bit_mask_iff by auto
qed

lemma rest_extended: "word16 (hi OR 0x80) lo AND 0x700F = word16 hi lo AND 0x700F"
  by (rule bit_word_eqI) (auto simp: bit_simps bit_word16 relax_numeral_bits)

lemma rest_plain: "word16 (hi AND 0x7F) lo AND 0x700F = word16 hi lo AND 0x700F"
  by (rule bit_word_eqI) (auto simp: bit_simps bit_word16 relax_numeral_bits)

lemma cond_moved: "take_bit 4 (take_bit 4 b OR 0x40) = take_bit 4 (b :: u8)"
  by (rule bit_word_eqI) (auto simp: bit_simps relax_numeral_bits)

lemma no_cond:
  assumes "word16 hi lo AND 0x2F00 = 0"
  shows "take_bit 4 hi = 0"
proof (rule bit_word_eqI)
  fix n :: nat
  have "\<not> bit (word16 hi lo AND 0x2F00) (n + 8)"
    using assms by simp
  then show "bit (take_bit 4 hi) n = bit 0 n"
    by (auto simp: bit_simps bit_word16 relax_numeral_bits)
qed

lemma can_remove_in:
  "p + 4 \<le> length buf \<Longrightarrow> xtc_can_remove_extension buf p =
     Inr (word16 (buf ! (p + 2)) (buf ! (p + 3)) AND 0x2F00 = 0)"
  by (simp add: xtc_can_remove_extension_def get16_in numeral_3_eq_3)

text \<open>What a turn may return.\<close>

definition turn_ok :: "shape \<Rightarrow> elf_xtc_reloc_type \<Rightarrow> u64 \<Rightarrow> nat \<Rightarrow> nat \<Rightarrow> u8 list \<Rightarrow>
    ld_error + relax_state option \<Rightarrow> bool" where
  "turn_ok s t v loc b buf r \<longleftrightarrow> r = Inr None \<or>
     (\<exists>s' t' v' b' buf'. r = Inr (Some (t', v', b', buf')) \<and> b \<le> b' \<and>
        relax_inv s' t' v' (loc + b') buf' \<and>
        relax_rel s t v (loc + b) buf s' t' v' (loc + b') buf')"

lemma turn_ok_if:
  assumes "P \<Longrightarrow> relax_inv s' t' v' (loc + b') buf'"
    and "P \<Longrightarrow> relax_rel s t v (loc + b) buf s' t' v' (loc + b') buf'" and "b \<le> b'"
  shows "turn_ok s t v loc b buf (if P then Inr (Some (t', v', b', buf')) else Inr None)"
  using assms unfolding turn_ok_def by auto

lemma moved_outside:
  assumes "xtc_reloc_pcrel t \<longrightarrow> 0 \<le> sint v \<or> sint v \<le> - int n" and "k + m = n" and "n < 100"
    and "xtc_reloc_pcrel t' = xtc_reloc_pcrel t"
  shows "xtc_reloc_pcrel t' \<longrightarrow> 0 \<le> sint (moved_value t v k) \<or> sint (moved_value t v k) \<le> - int m"
  using assms sint_plus_small [of v k] by (auto simp: moved_value_def xtc_adjusted_rel_def)

lemma moved_nonzero:
  assumes "xtc_reloc_pcrel t \<longrightarrow> 0 \<le> sint v \<or> sint v \<le> - int n" and "k < n" and "n < 100" and "v \<noteq> 0"
  shows "moved_value t v k \<noteq> 0"
proof (cases "xtc_reloc_pcrel t \<and> sint v < 0")
  case True
  then have "sint (moved_value t v k) = sint v + int k"
    using assms(2,3) sint_plus_small [of v k] by (simp add: moved_value_def xtc_adjusted_rel_def)
  with True assms(1,2) have "sint (moved_value t v k) < 0" by linarith
  then show ?thesis by auto
next
  case False
  with assms(4) show ?thesis
    by (auto simp: moved_value_def xtc_adjusted_rel_def)
qed

lemma fits_imm_zero: "xtc_fits_imm v 0 \<longleftrightarrow> v = 0"
  by (simp add: xtc_fits_imm_def)

lemma adjust_moved:
  "(case (if xtc_reloc_pcrel t then adjust_ptr (Some v) (of_nat k) else adjust_ptr None (of_nat k)) of
      None \<Rightarrow> v | Some w \<Rightarrow> w) = moved_value t v k"
  by (simp add: adjust_ptr_def moved_value_def)

text \<open>The turns in closed form.\<close>

lemma turn_e24_i8:
  assumes "reloc_shape t = Some Sh_E24_I8" and "loc + b + 6 \<le> length buf"
  shows "relax_turn t loc v b buf =
    (if xtc_fits_imm (moved_value t v 2) 16
     then Inr (Some (if xtc_reloc_pcrel t then R_XTC_32_E8_I8_R else R_XTC_32_E8_I8, moved_value t v 2, b + 2,
       buf[loc + b + 2 := buf ! (loc + b + 4) OR 0x80, loc + b + 3 := buf ! (loc + b + 5),
           loc + b + 4 := (buf ! (loc + b + 2) AND 0xF) OR 0x40, loc + b + 5 := 0]))
     else Inr None)"
  using assms by (cases t)
    (auto simp: relax_turn_def NEW_RELOC_IF_def e24_i8_to_e8_i8_in adjust_ptr_def moved_value_def)

lemma turn_e8_i8:
  assumes "reloc_shape t = Some Sh_E8_I8" and "loc + b + 4 \<le> length buf"
  shows "relax_turn t loc v b buf =
    (if word16 (buf ! (loc + b + 2)) (buf ! (loc + b + 3)) AND 0x2F00 = 0 \<and>
        xtc_fits_imm (moved_value t v 2) 8
     then Inr (Some (if xtc_reloc_pcrel t then R_XTC_32_I8_R else R_XTC_32_I8, moved_value t v 2, b + 2,
       buf[loc + b + 2 := buf ! (loc + b) AND 0x7F, loc + b + 3 := buf ! (loc + b + 1)]))
     else Inr None)"
  using assms by (cases t)
    (auto simp: relax_turn_def NEW_RELOC_IF_def e8_i8_to_i8_in can_remove_in adjust_ptr_def moved_value_def)

lemma turn_e24_e8:
  assumes "reloc_shape t = Some Sh_E24_E8"
  shows "relax_turn t loc v b buf =
    (if xtc_fits_imm (moved_value t v 4) 8
     then Inr (Some (if xtc_reloc_pcrel t then R_XTC_32_E8_R else R_XTC_32_E8, moved_value t v 4, b + 4, buf))
     else Inr None)"
  using assms by (cases t)
    (auto simp: relax_turn_def NEW_RELOC_IF_def xtc_relax_e24_e8_to_e8_def adjust_ptr_def moved_value_def)

lemma turn_e8:
  assumes "reloc_shape t = Some Sh_E8" and "loc + b + 4 \<le> length buf"
  shows "relax_turn t loc v b buf =
    (if word16 (buf ! (loc + b + 2)) (buf ! (loc + b + 3)) AND 0x2F00 = 0 \<and>
        xtc_fits_imm (moved_value t v 2) 0
     then Inr (Some (R_XTC_NONE, v, b + 2, buf[loc + b := 0xDE, loc + b + 1 := 0xAD]))
     else Inr None)"
  using assms by (cases t)
    (auto simp: relax_turn_def NEW_RELOC_IF_def xtc_relax_e8_to_none_def can_remove_in moved_value_def)

lemma turn_i8: "reloc_shape t = Some Sh_I8 \<Longrightarrow> relax_turn t loc v b buf = Inr None"
  by (cases t) (auto simp: relax_turn_def)

lemma keeps_e8_i8:
  assumes "relax_inv Sh_E8_I8 t v (loc + b) buf"
  shows "turn_ok Sh_E8_I8 t v loc b buf (relax_turn t loc v b buf)"
proof -
  from assms have t: "reloc_shape t = Some Sh_E8_I8" and len: "loc + b + 4 \<le> length buf"
    and out: "xtc_reloc_pcrel t \<longrightarrow> 0 \<le> sint v \<or> sint v \<le> - int 4"
    by (simp_all add: relax_inv_def)
  show ?thesis
    unfolding turn_e8_i8 [OF t len]
  proof (rule turn_ok_if [where s' = Sh_I8], goal_cases)
    case 1
    then show ?case
      using len moved_outside [OF out, of 2 2] by (simp add: relax_inv_def ext_kept_def)
  next
    case 2
    then show ?case
      using len no_cond by (auto simp: relax_rel_def insn_rest_def rest_plain numeral_3_eq_3)
  qed simp
qed

lemma keeps_e24_e8:
  assumes "relax_inv Sh_E24_E8 t v (loc + b) buf"
  shows "turn_ok Sh_E24_E8 t v loc b buf (relax_turn t loc v b buf)"
proof -
  from assms have t: "reloc_shape t = Some Sh_E24_E8" and len: "loc + b + 8 \<le> length buf"
    and ext: "ext_kept Sh_E24_E8 buf (loc + b) v"
    and out: "xtc_reloc_pcrel t \<longrightarrow> 0 \<le> sint v \<or> sint v \<le> - int 8"
    by (simp_all add: relax_inv_def)
  have idx: "loc + (b + 4) + 2 = loc + b + 6" "loc + (b + 4) + 3 = loc + b + 7" by simp_all
  have "ext_kept Sh_E8 buf (loc + (b + 4)) (moved_value t v 4)"
    using ext moved_nonzero [OF out, of 4] unfolding ext_kept_def needs_ext.simps idx by auto
  then show ?thesis
    unfolding turn_e24_e8 [OF t]
    using len moved_outside [OF out, of 4 4]
    by (intro turn_ok_if [where s' = Sh_E8])
      (auto simp: relax_inv_def relax_rel_def insn_rest_def idx ac_simps simp del: needs_ext.simps)
qed

lemma keeps_e24_i8:
  assumes "relax_inv Sh_E24_I8 t v (loc + b) buf"
  shows "turn_ok Sh_E24_I8 t v loc b buf (relax_turn t loc v b buf)"
proof -
  from assms have t: "reloc_shape t = Some Sh_E24_I8" and len: "loc + b + 6 \<le> length buf"
    and out: "xtc_reloc_pcrel t \<longrightarrow> 0 \<le> sint v \<or> sint v \<le> - int 6"
    by (simp_all add: relax_inv_def)
  have idx: "Suc (Suc (Suc (loc + b))) = loc + b + 3" "Suc (Suc (Suc (Suc (loc + b)))) = loc + b + 4"
    "5 + (loc + b) = loc + b + 5" "4 + (loc + b) = loc + b + 4" by simp_all
  show ?thesis
    unfolding turn_e24_i8 [OF t len]
  proof (rule turn_ok_if [where s' = Sh_E8_I8], goal_cases)
    case 1
    then show ?case
      using len moved_outside [OF out, of 2 4] by (simp add: relax_inv_def ext_kept_def)
  next
    case 2
    then show ?case
      using len by (simp add: relax_rel_def insn_rest_def rest_extended cond_moved idx)
  qed simp
qed

lemma keeps_e8:
  assumes "relax_inv Sh_E8 t v (loc + b) buf"
  shows "relax_turn t loc v b buf = Inr None"
proof -
  from assms have t: "reloc_shape t = Some Sh_E8" and len: "loc + b + 4 \<le> length buf"
    and ext: "ext_kept Sh_E8 buf (loc + b) v"
    and out: "xtc_reloc_pcrel t \<longrightarrow> 0 \<le> sint v \<or> sint v \<le> - int 4"
    by (simp_all add: relax_inv_def)
  with moved_nonzero [OF out, of 2] show ?thesis
    by (auto simp: turn_e8 [OF t len] ext_kept_def fits_imm_zero)
qed

lemma turn_keeps:
  assumes "relax_inv s t v (loc + b) buf"
  shows "turn_ok s t v loc b buf (relax_turn t loc v b buf)"
proof (cases s)
  case Sh_I8
  with assms show ?thesis by (simp add: turn_i8 turn_ok_def relax_inv_def)
next
  case Sh_E8
  with assms show ?thesis by (simp add: keeps_e8 turn_ok_def)
qed (use assms keeps_e8_i8 keeps_e24_e8 keeps_e24_i8 in \<open>simp_all add: relax_inv_def ext_kept_def\<close>)

subsection \<open>The whole loop\<close>

lemma relax_rel_refl: "relax_rel s t v p buf s t v p buf"
  by (simp add: relax_rel_def moved_value_def)

lemma relax_rel_trans:
  assumes "relax_rel s t v p buf s1 t1 v1 p1 buf1" and "relax_rel s1 t1 v1 p1 buf1 s2 t2 v2 p2 buf2"
    and "relax_inv s t v p buf" and "relax_inv s2 t2 v2 p2 buf2"
  shows "relax_rel s t v p buf s2 t2 v2 p2 buf2"
proof -
  have "0 < shape_size s1" "shape_size s \<le> 8" by (cases s1; simp) (cases s; simp)
  moreover have "p1 + shape_size s1 = p + shape_size s" "p \<le> p1" "p2 + shape_size s2 = p1 + shape_size s1" "p1 \<le> p2"
    using assms(1,2) by (simp_all add: relax_rel_def)
  ultimately have "p1 - p < shape_size s" "p1 - p + (p2 - p1) \<le> 8"
    by linarith+
  then have "moved_value t1 (moved_value t v (p1 - p)) (p2 - p1) = moved_value t v (p1 - p + (p2 - p1))"
    using assms(1,3) by (intro moved_value_add) (auto simp: relax_rel_def relax_inv_def
      intro: le_less_trans [of _ 8])
  with assms(1,2) show ?thesis
    by (auto simp: relax_rel_def)
qed

lemma loop_keeps:
  "relax_inv s t v (loc + b) buf \<Longrightarrow>
     \<exists>s' t' v' b' buf'. relax_loop t loc v b buf = Inr (t', v', b', buf') \<and> b \<le> b' \<and>
       relax_inv s' t' v' (loc + b') buf' \<and>
       relax_rel s t v (loc + b) buf s' t' v' (loc + b') buf' \<and>
       relax_turn t' loc v' b' buf' = Inr None"
proof (induction t loc v b buf arbitrary: s rule: relax_loop.induct)
  case (1 t loc v b buf)
  note IH = 1(1) and prem = 1(2)
  from turn_keeps [OF prem] show ?case
    unfolding turn_ok_def
  proof (elim disjE exE conjE)
    assume "relax_turn t loc v b buf = Inr None"
    with prem show ?thesis
      by (subst relax_loop.simps) (auto intro!: exI [of _ s] simp: relax_rel_refl)
  next
    fix s1 t1 v1 b1 buf1
    assume turn: "relax_turn t loc v b buf = Inr (Some (t1, v1, b1, buf1))" and "b \<le> b1"
      and inv: "relax_inv s1 t1 v1 (loc + b1) buf1"
      and rel: "relax_rel s t v (loc + b) buf s1 t1 v1 (loc + b1) buf1"
    from IH [OF turn refl refl refl refl inv] obtain s2 t2 v2 b2 buf2 where
      "relax_loop t1 loc v1 b1 buf1 = Inr (t2, v2, b2, buf2)" "b1 \<le> b2"
      "relax_inv s2 t2 v2 (loc + b2) buf2" "relax_rel s1 t1 v1 (loc + b1) buf1 s2 t2 v2 (loc + b2) buf2"
      "relax_turn t2 loc v2 b2 buf2 = Inr None"
      by blast
    with turn \<open>b \<le> b1\<close> relax_rel_trans [OF rel _ prem] show ?thesis
      by (subst relax_loop.simps) auto
  qed
qed

text \<open>What a store keeps besides the immediate.\<close>

lemma insn_rest_store:
  assumes "p + shape_size s \<le> length buf" and "s \<noteq> Sh_E24"
  shows "insn_rest s (put_shape s v p buf) p = insn_rest s buf p"
proof -
  have "word16 (imm8_hi v hi) (imm8_lo v lo) AND 0x700F = word16 hi lo AND 0x700F" for hi lo
    by (rule bit_word_eqI)
      (auto simp: imm8_hi_def imm8_lo_def bit_simps bit_word16 field_numeral_bits relax_numeral_bits)
  with assms show ?thesis
    by (cases s) (auto simp: insn_rest_def put_word32_nth add.commute [of 5 p])
qed

lemma insn_cond_store:
  assumes "p + shape_size s \<le> length buf"
  shows "insn_cond s (put_shape s v p buf) p = insn_cond s buf p"
proof -
  have "take_bit 4 (ucast (drop_bit 8 (e24_insert (word32 buf p) w))) = take_bit 4 (buf ! (p + 2))" for w
    by (rule bit_word_eqI) (auto simp: bit_simps bit_e24_insert bit_word32)
  then have "take_bit 4 (put_word32 p (e24_insert (word32 buf p) w) buf ! (p + 2)) = take_bit 4 (buf ! (p + 2))"
    if "p + 4 \<le> length buf" for w
    using that by (simp add: put_word32_def)
  with assms show ?thesis
    by (cases s) (simp_all add: put_word32_nth)
qed

end
