(* ===== verification/Elf_Link.thy ===== *)
theory Elf_Link
  imports Elf_Relax
begin

text \<open>
  The section level of the linker back end: \<^verbatim>\<open>xtc_elf_relax_delete_bytes\<close>,
  \<^verbatim>\<open>xtc_elf_relax_section\<close>, \<^verbatim>\<open>xtc_get_relocation_value\<close> and
  \<^verbatim>\<open>xtc_elf_relocate_section\<close> of \<^verbatim>\<open>bfd/elf32-xtc.c\<close>.  The section's contents
  and relocations and the symbol table are in memory; where sections end up, merged sections,
  the value of a global symbol at the final link and \<^verbatim>\<open>_bfd_final_link_relocate\<close>
  are the business of the generic linker and enter as arguments.
\<close>

subsection \<open>Data\<close>

record elf_rela =
  r_offset :: u64
  r_sym :: nat
  r_type :: elf_xtc_reloc_type
  r_addend :: u64

record elf_sym =
  st_value :: u64
  st_shndx :: nat
  st_is_section :: bool

datatype link_hash_type =
  bfd_link_hash_defined | bfd_link_hash_defweak | bfd_link_hash_undefined | bfd_link_hash_undefweak
| bfd_link_hash_other

record link_hash =
  hash_type :: link_hash_type
  def_section :: nat
  def_value :: u64

text \<open>
  What relaxation changes.  Several entries of the symbol table may share one hash entry, so
  the table is a list of references into a store.
\<close>

record link_state =
  contents :: "u8 list"
  sec_size :: u64
  relocs :: "elf_rela list"
  isyms :: "elf_sym list"
  sym_hashes :: "nat list"
  hash_store :: "nat \<Rightarrow> link_hash"

text \<open>What stays the same: the section itself and the layout of the output.\<close>

record link_env =
  relocatable :: bool
  sec_flag_reloc :: bool
  sec_flag_code :: bool
  rawsize :: u64
  sec_shndx :: nat
  this_sec :: nat
  und_section :: nat
  abs_section :: nat
  com_section :: nat
  section_from_elf_index :: "nat \<Rightarrow> nat option"
  output_vma :: "nat \<Rightarrow> u64"
  output_offset :: "nat \<Rightarrow> u64"
  merged_offset :: "nat \<Rightarrow> (u64 \<Rightarrow> nat \<times> u64) option"

abbreviation (input) SHN_UNDEF :: nat where "SHN_UNDEF \<equiv> 0"
abbreviation (input) SHN_ABS :: nat where "SHN_ABS \<equiv> 0xFFF1"
abbreviation (input) SHN_COMMON :: nat where "SHN_COMMON \<equiv> 0xFFF2"

definition hash_defined :: "link_hash \<Rightarrow> bool" where
  "hash_defined h \<longleftrightarrow> hash_type h = bfd_link_hash_defined \<or> hash_type h = bfd_link_hash_defweak"

definition memmove :: "nat \<Rightarrow> nat \<Rightarrow> nat \<Rightarrow> u8 list \<Rightarrow> ld_error + u8 list" where
  "memmove dst src n buf =
     (if dst + n \<le> length buf \<and> src + n \<le> length buf
      then Inr (take dst buf @ take n (drop src buf) @ drop (dst + n) buf)
      else Inl LdOutOfBounds)"

subsection \<open>Deleting bytes\<close>

definition shift_reloc :: "u64 \<Rightarrow> u64 \<Rightarrow> u64 \<Rightarrow> elf_rela \<Rightarrow> elf_rela" where
  "shift_reloc addr toaddr count irel =
     (if addr < r_offset irel \<and> r_offset irel < toaddr
      then irel\<lparr>r_offset := r_offset irel - count\<rparr> else irel)"

definition shift_local :: "nat \<Rightarrow> u64 \<Rightarrow> u64 \<Rightarrow> u64 \<Rightarrow> elf_sym \<Rightarrow> elf_sym" where
  "shift_local shndx addr toaddr count isym =
     (if st_shndx isym = shndx \<and> addr < st_value isym \<and> st_value isym \<le> toaddr
      then isym\<lparr>st_value := st_value isym - count\<rparr> else isym)"

definition shift_hash :: "nat \<Rightarrow> u64 \<Rightarrow> u64 \<Rightarrow> u64 \<Rightarrow> link_hash \<Rightarrow> link_hash" where
  "shift_hash sec addr toaddr count h =
     (if hash_defined h \<and> def_section h = sec \<and> addr < def_value h \<and> def_value h \<le> toaddr
      then h\<lparr>def_value := def_value h - count\<rparr> else h)"

fun shift_hashes :: "(link_hash \<Rightarrow> link_hash) \<Rightarrow> nat list \<Rightarrow> (nat \<Rightarrow> link_hash) \<Rightarrow> (nat \<Rightarrow> link_hash)" where
  "shift_hashes f [] store = store"
| "shift_hashes f (i # is) store = shift_hashes f is (store(i := f (store i)))"

definition xtc_elf_relax_delete_bytes ::
    "link_env \<Rightarrow> u64 \<Rightarrow> nat \<Rightarrow> link_state \<Rightarrow> ld_error + link_state" where
  "xtc_elf_relax_delete_bytes env addr count st =
     (let toaddr = sec_size st; n = of_nat count :: u64 in
      rbind (memmove (unat addr) (unat addr + count) (unat (toaddr - addr - n)) (contents st)) (\<lambda>buf.
      Inr (st\<lparr>contents := buf, sec_size := toaddr - n,
              relocs := map (shift_reloc addr toaddr n) (relocs st),
              isyms := map (shift_local (sec_shndx env) addr toaddr n) (isyms st),
              hash_store := shift_hashes (shift_hash (this_sec env) addr toaddr n)
                              (sym_hashes st) (hash_store st)\<rparr>)))"

subsection \<open>Relaxing a section\<close>

definition sec_address :: "link_env \<Rightarrow> nat \<Rightarrow> u64" where
  "sec_address env sec = output_vma env sec + output_offset env sec"

definition local_section :: "link_env \<Rightarrow> elf_sym \<Rightarrow> ld_error + nat" where
  "local_section env isym =
     (if st_shndx isym = SHN_UNDEF then Inr (und_section env)
      else if st_shndx isym = SHN_ABS then Inr (abs_section env)
      else if st_shndx isym = SHN_COMMON then Inr (com_section env)
      else (case section_from_elf_index env (st_shndx isym) of
              None \<Rightarrow> Inl LdNull | Some sec \<Rightarrow> Inr sec))"

text \<open>The value of a local symbol; the addend of a section symbol is added here already.\<close>

definition relax_local_symval :: "link_env \<Rightarrow> elf_rela \<Rightarrow> elf_sym \<Rightarrow> ld_error + u64" where
  "relax_local_symval env irel isym =
     rbind (local_section env isym) (\<lambda>sec.
     let symval = st_value isym + (if st_is_section isym then r_addend irel else 0);
         (sec, symval) = (case merged_offset env sec of None \<Rightarrow> (sec, symval) | Some f \<Rightarrow> f symval)
     in Inr (symval + sec_address env sec))"

text \<open>\<open>None\<close> for an undefined symbol, whose relocation is skipped.\<close>

definition relax_symval :: "link_env \<Rightarrow> link_state \<Rightarrow> elf_rela \<Rightarrow> ld_error + u64 option" where
  "relax_symval env st irel =
     (if r_sym irel < length (isyms st)
      then rbind (relax_local_symval env irel (isyms st ! r_sym irel)) (\<lambda>v. Inr (Some v))
      else rbind (arr_get LdOutOfBounds (sym_hashes st) (r_sym irel - length (isyms st))) (\<lambda>i.
             let h = hash_store st i in
             Inr (if hash_defined h then Some (def_value h + sec_address env (def_section h)) else None)))"

definition relax_value :: "link_env \<Rightarrow> elf_rela \<Rightarrow> u64 \<Rightarrow> ld_error + u64" where
  "relax_value env irel symval =
     (if xtc_reloc_pcrel (r_type irel)
      then rbind (xtc_reloc_pcrel_offset (r_type irel)) (\<lambda>offset.
             Inr (symval + r_addend irel - (r_offset irel + offset + sec_address env (this_sec env))))
      else Inr (symval + r_addend irel))"

text \<open>One relocation; the flag says whether bytes were deleted.\<close>

definition relax_one :: "link_env \<Rightarrow> nat \<Rightarrow> link_state \<times> bool \<Rightarrow> ld_error + (link_state \<times> bool)" where
  "relax_one env i = (\<lambda>(st, again).
     rbind (arr_get LdOutOfBounds (relocs st) i) (\<lambda>irel.
     rbind (relax_symval env st irel) (\<lambda>sv.
     case sv of
       None \<Rightarrow> Inr (st, again)
     | Some symval \<Rightarrow>
         rbind (relax_value env irel symval) (\<lambda>value.
         rbind (xtc_relax_relocation (r_type irel) value (unat (r_offset irel)) (contents st))
           (\<lambda>(newReloc, deleteBytes, buf).
         if deleteBytes \<noteq> 0
         then rbind (xtc_elf_relax_delete_bytes env (r_offset irel) deleteBytes
                       (st\<lparr>contents := buf, relocs := (relocs st)[i := irel\<lparr>r_type := newReloc\<rparr>]\<rparr>)) (\<lambda>st.
                Inr (st, True))
         else Inr (st\<lparr>contents := buf\<rparr>, again))))))"

fun relax_relocs :: "link_env \<Rightarrow> nat list \<Rightarrow> link_state \<times> bool \<Rightarrow> ld_error + (link_state \<times> bool)" where
  "relax_relocs env [] s = Inr s"
| "relax_relocs env (i # is) s = rbind (relax_one env i s) (relax_relocs env is)"

definition xtc_elf_relax_section :: "link_env \<Rightarrow> link_state \<Rightarrow> ld_error + (link_state \<times> bool)" where
  "xtc_elf_relax_section env st =
     (if relocatable env \<or> \<not> sec_flag_reloc env \<or> \<not> sec_flag_code env \<or> relocs st = []
      then Inr (st, False)
      else let st = (if sec_size st = 0 then st\<lparr>sec_size := rawsize env\<rparr> else st)
           in relax_relocs env [0..<length (relocs st)] (st, False))"

subsection \<open>The final link\<close>

datatype bfd_reloc_status =
  bfd_reloc_ok | bfd_reloc_overflow | bfd_reloc_outofrange | bfd_reloc_continue
| bfd_reloc_notsupported | bfd_reloc_other | bfd_reloc_undefined | bfd_reloc_dangerous

text \<open>
  What the final link takes from the generic linker: the section of every local symbol, the
  value of a global symbol, the generic store, and the answers of the linker's call-backs.
\<close>

record final_env =
  local_sections :: "nat list"
  global_value :: "nat \<Rightarrow> u64"
  final_link_relocate :: "reloc_howto option \<Rightarrow> u8 list \<Rightarrow> u64 \<Rightarrow> u64 \<Rightarrow> u64 \<Rightarrow> bfd_reloc_status \<times> u8 list"
  cb_overflow :: bool
  cb_undefined :: bool
  cb_warning :: bool

definition xtc_get_relocation_value ::
    "link_env \<Rightarrow> final_env \<Rightarrow> link_state \<Rightarrow> elf_rela \<Rightarrow> ld_error + u64" where
  "xtc_get_relocation_value env fin st rel =
     (if r_sym rel < length (isyms st)
      then rbind (arr_get LdOutOfBounds (local_sections fin) (r_sym rel)) (\<lambda>sec.
             Inr (sec_address env sec + st_value (isyms st ! r_sym rel)))
      else Inr (global_value fin (r_sym rel)))"

text \<open>The addend of a relative relocation is added twice.\<close>

definition final_value :: "link_env \<Rightarrow> elf_rela \<Rightarrow> u64 \<Rightarrow> ld_error + u64" where
  "final_value env rel relocation =
     (if xtc_reloc_pcrel (r_type rel)
      then rbind (xtc_reloc_pcrel_offset (r_type rel)) (\<lambda>reserved.
             Inr (relocation + r_addend rel - sec_address env (this_sec env) - r_offset rel
                  + r_addend rel - reserved))
      else Inr (relocation + r_addend rel))"

definition report_status :: "final_env \<Rightarrow> bfd_reloc_status \<Rightarrow> bool" where
  "report_status fin r =
     (case r of
        bfd_reloc_ok \<Rightarrow> True
      | bfd_reloc_overflow \<Rightarrow> cb_overflow fin
      | bfd_reloc_undefined \<Rightarrow> cb_undefined fin
      | _ \<Rightarrow> cb_warning fin)"

definition relocatable_addend :: "link_env \<Rightarrow> final_env \<Rightarrow> link_state \<Rightarrow> elf_rela \<Rightarrow> ld_error + elf_rela" where
  "relocatable_addend env fin st rel =
     (if r_sym rel < length (isyms st) \<and> st_is_section (isyms st ! r_sym rel)
      then rbind (arr_get LdOutOfBounds (local_sections fin) (r_sym rel)) (\<lambda>sec.
             Inr (rel\<lparr>r_addend := r_addend rel + (output_offset env sec + st_value (isyms st ! r_sym rel))\<rparr>))
      else Inr rel)"

text \<open>The relocations the back end stores itself.\<close>

fun own_reloc :: "elf_xtc_reloc_type \<Rightarrow> bool" where
  "own_reloc R_XTC_32_I8_R = True"
| "own_reloc R_XTC_32_E8_R = True"
| "own_reloc R_XTC_32_E8_I8_R = True"
| "own_reloc R_XTC_32_E24_R = True"
| "own_reloc R_XTC_32_E24_I8_R = True"
| "own_reloc R_XTC_32_E24_E8_R = True"
| "own_reloc R_XTC_32_I8 = True"
| "own_reloc R_XTC_32_E8 = True"
| "own_reloc R_XTC_32_E8_I8 = True"
| "own_reloc R_XTC_32_E24 = True"
| "own_reloc R_XTC_32_E24_I8 = True"
| "own_reloc R_XTC_32_E24_E8 = True"
| "own_reloc _ = False"

text \<open>One relocation of the final link; \<open>False\<close> when the function returns \<^verbatim>\<open>FALSE\<close>.\<close>

definition relocate_final ::
    "link_env \<Rightarrow> final_env \<Rightarrow> howto_table \<Rightarrow> elf_rela \<Rightarrow> link_state \<Rightarrow> ld_error + (bool \<times> link_state)" where
  "relocate_final env fin tab rel st =
     rbind (arr_get LdOutOfBounds tab (reloc_number (r_type rel))) (\<lambda>howto.
     rbind (xtc_get_relocation_value env fin st rel) (\<lambda>relocation.
     if own_reloc (r_type rel)
     then rbind (final_value env rel relocation) (\<lambda>value.
          rbind (xtc_emit_relocation (r_type rel) value (unat (r_offset rel)) (contents st)) (\<lambda>(ok, buf).
            Inr (ok, st\<lparr>contents := buf\<rparr>)))
     else if r_type rel = R_XTC_NONE then Inr (True, st)
     else if r_type rel = R_XTC_32
     then (case final_link_relocate fin howto (contents st) (r_offset rel) relocation (r_addend rel) of
             (r, buf) \<Rightarrow> Inr (report_status fin r, st\<lparr>contents := buf\<rparr>))
     else Inr (False, st)))"

definition relocate_one ::
    "link_env \<Rightarrow> final_env \<Rightarrow> howto_table \<Rightarrow> nat \<Rightarrow> link_state \<Rightarrow> ld_error + (bool \<times> link_state)" where
  "relocate_one env fin tab i st =
     rbind (arr_get LdOutOfBounds (relocs st) i) (\<lambda>rel.
     if relocatable env
     then rbind (relocatable_addend env fin st rel) (\<lambda>rel.
            Inr (True, st\<lparr>relocs := (relocs st)[i := rel]\<rparr>))
     else relocate_final env fin tab rel st)"

fun relocate_relocs :: "link_env \<Rightarrow> final_env \<Rightarrow> howto_table \<Rightarrow> nat list \<Rightarrow> link_state \<Rightarrow>
    ld_error + (bool \<times> link_state)" where
  "relocate_relocs env fin tab [] st = Inr (True, st)"
| "relocate_relocs env fin tab (i # is) st =
     rbind (relocate_one env fin tab i st) (\<lambda>(ok, st).
       if ok then relocate_relocs env fin tab is st else Inr (False, st))"

definition xtc_elf_relocate_section ::
    "link_env \<Rightarrow> final_env \<Rightarrow> howto_table \<Rightarrow> link_state \<Rightarrow> ld_error + (bool \<times> link_state \<times> howto_table)" where
  "xtc_elf_relocate_section env fin tab st =
     rbind (init_if_needed R_XTC_32_E24_E8_NR_R tab) (\<lambda>tab.
     rbind (relocate_relocs env fin tab [0..<length (relocs st)] st) (\<lambda>(ok, st).
       Inr (ok, st, tab)))"

end
