(* ===== verification/Elf_Props.thy ===== *)
theory Elf_Props
  imports Elf_Link
begin

text \<open>
  The properties of the linker back end: what a relocation stores, that shortening an
  instruction keeps its meaning and where it does not, and that the passes over a section end.
\<close>

subsection \<open>Storing a value\<close>

text \<open>
  C22. Storing a relocated value that fits its field, inside the section, succeeds and changes
  no byte outside the instruction; the value can be read back from the instruction exactly
  when the old immediate had no bit in the positions the linker does not clear that the new
  value lacks.  Those positions exist only in the 24-bit extension, so the other forms are
  always read back.
\<close>

theorem emit_round_trip:
  assumes "reloc_shape t = Some s" and "p + shape_size s \<le> length buf"
    and "xtc_fits_imm v (shape_bits s)"
  shows "\<exists>buf'. xtc_emit_relocation t v p buf = Inr (True, buf') \<and> length buf' = length buf \<and>
    (\<forall>i. i < p \<or> p + shape_size s \<le> i \<longrightarrow> buf' ! i = buf ! i) \<and>
    (shape_value s buf' p = v \<longleftrightarrow> stale_bits s buf p AND NOT v = 0)"
  using emit_in [OF assms] value_put [OF assms(2,3)] put_shape_nth by auto

text \<open>Over an extension that held \<open>0x100000\<close> the value \<open>0xFFF00\<close> is stored as \<open>0x1FFF00\<close>.\<close>

theorem emit_round_trip_witness:
  "\<exists>buf'. xtc_emit_relocation R_XTC_32_E24_I8 0xFFF00 0 [0x90, 0, 0x60, 0, 0x60, 0] = Inr (True, buf') \<and>
     shape_value Sh_E24_I8 buf' 0 \<noteq> 0xFFF00"
proof -
  have "stale_bits Sh_E24_I8 [0x90, 0, 0x60, 0, 0x60, 0] 0 AND NOT 0xFFF00 \<noteq> 0"
    by code_simp
  moreover have "xtc_fits_imm 0xFFF00 32" by code_simp
  ultimately show ?thesis
    using emit_round_trip [of R_XTC_32_E24_I8 Sh_E24_I8 0 "[0x90, 0, 0x60, 0, 0x60, 0]" "0xFFF00"]
    by auto
qed

subsection \<open>Shortening an instruction\<close>



subsection \<open>Deleting bytes\<close>

lemma memmove_nth:
  assumes "memmove dst src n buf = Inr buf'"
  shows "length buf' = length buf" and "i < dst \<Longrightarrow> buf' ! i = buf ! i"
    and "dst \<le> i \<Longrightarrow> i < dst + n \<Longrightarrow> buf' ! i = buf ! (src + (i - dst))"
  using assms by (auto simp: memmove_def nth_append split: if_splits)

lemma delete_bytes_eq:
  assumes "xtc_elf_relax_delete_bytes env addr k st = Inr st'" and "length (contents st) < 2 ^ 63"
    and "k \<le> 8"
  shows "unat addr + k \<le> unat (sec_size st)" and "unat (sec_size st') + k = unat (sec_size st)"
    and "memmove (unat addr) (unat addr + k) (unat (sec_size st) - unat addr - k) (contents st) =
      Inr (contents st')"
proof -
  let ?n = "of_nat k :: u64"
  have k: "unat ?n = k" using assms(3) by (simp add: unat_of_nat take_bit_nat_eq_self)
  from assms(1) have mv: "memmove (unat addr) (unat addr + k) (unat (sec_size st - addr - ?n)) (contents st) =
      Inr (contents st')" and sz: "sec_size st' = sec_size st - ?n"
    by (auto simp: xtc_elf_relax_delete_bytes_def Let_def)
  then have bound: "unat addr + k + unat (sec_size st - addr - ?n) < 2 ^ 63"
    using assms(2) by (auto simp: memmove_def split: if_splits)
  have "unat (addr + ?n) = unat addr + k"
    using bound k by (simp add: unat_add_lem [THEN iffD1])
  moreover from this have "unat ((addr + ?n) + (sec_size st - addr - ?n)) =
      unat (addr + ?n) + unat (sec_size st - addr - ?n)"
    using bound by (intro unat_add_lem [THEN iffD1]) simp
  ultimately have *: "unat (sec_size st) = unat addr + k + unat (sec_size st - addr - ?n)"
    by (simp add: algebra_simps)
  then show 1: "unat addr + k \<le> unat (sec_size st)" by simp
  from * have "unat (sec_size st - addr - ?n) = unat (sec_size st) - unat addr - k" by simp
  with mv show "memmove (unat addr) (unat addr + k) (unat (sec_size st) - unat addr - k) (contents st) =
      Inr (contents st')" by simp
  have "?n \<le> sec_size st" using 1 k by (simp add: word_le_nat_alt)
  then show "unat (sec_size st') + k = unat (sec_size st)"
    using k unfolding sz by (simp add: unat_sub word_le_nat_alt)
qed

text \<open>
  Relaxing an 8-bit extension whose value is zero and that carries no condition and no
  register deletes the instruction and keeps the extension: the instruction's two bytes are
  overwritten with a marker, two bytes are deleted at its address, and what is left there is
  the extension word.
\<close>

lemma relax_e8_drops_instruction:
  assumes "reloc_shape t = Some Sh_E8" and "unat addr + 4 \<le> unat (sec_size st)"
    and "unat (sec_size st) \<le> length (contents st)" and "length (contents st) < 2 ^ 63"
    and "\<not> needs_ext Sh_E8 (contents st) (unat addr)" and "moved_value t v 2 = 0"
  shows "\<exists>buf. xtc_relax_relocation t v (unat addr) (contents st) = Inr (R_XTC_NONE, 2, buf) \<and>
    buf ! unat addr = 0xDE \<and> buf ! (unat addr + 1) = 0xAD \<and>
    (\<forall>st'. xtc_elf_relax_delete_bytes env addr 2 (st\<lparr>contents := buf\<rparr>) = Inr st' \<longrightarrow>
       contents st' ! unat addr = contents st ! (unat addr + 2) \<and>
       contents st' ! (unat addr + 1) = contents st ! (unat addr + 3))"
proof -
  let ?p = "unat addr" and ?buf = "contents st"
  let ?b = "?buf[?p := 0xDE, ?p + 1 := 0xAD]"
  have len: "?p + 0 + 4 \<le> length ?buf" using assms(2,3) by simp
  have none: "relax_turn R_XTC_NONE ?p v' b' b'' = Inr None" for v' b' b''
    by (simp add: relax_turn_def)
  have "relax_turn t ?p v 0 ?buf = Inr (Some (R_XTC_NONE, v, 2, ?b))"
    using turn_e8 [OF assms(1) len, of v] assms(5,6) by (simp add: xtc_fits_imm_def)
  then have "relax_loop t ?p v 0 ?buf = Inr (R_XTC_NONE, v, 2, ?b)"
    by (simp add: relax_loop.simps [of t] relax_loop.simps [of R_XTC_NONE] none)
  then have "xtc_relax_relocation t v ?p ?buf = Inr (R_XTC_NONE, 2, ?b)"
    by (simp add: xtc_relax_relocation_def)
  moreover have "contents st' ! ?p = ?buf ! (?p + 2) \<and> contents st' ! (?p + 1) = ?buf ! (?p + 3)"
    if "xtc_elf_relax_delete_bytes env addr 2 (st\<lparr>contents := ?b\<rparr>) = Inr st'" for st'
  proof -
    have "memmove ?p (?p + 2) (unat (sec_size st) - ?p - 2) ?b = Inr (contents st')"
      using delete_bytes_eq(3) [OF that] assms(4) by simp
    from memmove_nth(3) [OF this, of ?p] memmove_nth(3) [OF this, of "?p + 1"] show ?thesis
      using assms(2) by (simp add: numeral_3_eq_3)
  qed
  ultimately show ?thesis
    using len by (intro exI [of _ ?b]) auto
qed

text \<open>An unconditional instruction with a zero immediate, the only one of its section.\<close>

definition one_insn :: link_state where
  "one_insn = \<lparr>contents = [0x80, 0x12, 0x40, 0], sec_size = 4, relocs = [], isyms = [], sym_hashes = [],
     hash_store = (\<lambda>_. \<lparr>hash_type = bfd_link_hash_other, def_section = 0, def_value = 0\<rparr>)\<rparr>"








text \<open>A section with one backward branch at offset 8, whose target is the start of the section.\<close>

definition loop_env :: link_env where
  "loop_env = \<lparr>relocatable = False, sec_flag_reloc = True, sec_flag_code = True, rawsize = 14,
     sec_shndx = 1, this_sec = 1, und_section = 10, abs_section = 11, com_section = 12,
     section_from_elf_index = (\<lambda>i. Some i), output_vma = (\<lambda>_. 0x1000), output_offset = (\<lambda>_. 0),
     merged_offset = (\<lambda>_. None)\<rparr>"

definition loop_reloc :: elf_rela where
  "loop_reloc = \<lparr>r_offset = 8, r_sym = 0, r_type = R_XTC_32_E24_I8_R, r_addend = 0\<rparr>"

definition loop_state :: link_state where
  "loop_state = \<lparr>contents = [0, 0, 0, 0, 0, 0, 0, 0, 0x80, 0, 0x60, 0, 0x60, 0], sec_size = 14,
     relocs = [loop_reloc], isyms = [], sym_hashes = [0],
     hash_store = (\<lambda>_. \<lparr>hash_type = bfd_link_hash_defined, def_section = 1, def_value = 0\<rparr>)\<rparr>"

lemmas loop_defs = loop_env_def loop_reloc_def loop_state_def


subsection \<open>The passes over a section\<close>

text \<open>How many bytes one relocation can give.\<close>

lemma relax_turn_bytes:
  "relax_turn t loc v b buf = Inr (Some (t', v', b', buf')) \<Longrightarrow> b' \<in> {b + 2, b + 4} \<and> length buf' = length buf"
  by (cases t)
    (auto simp: relax_turn_def NEW_RELOC_IF_def xtc_relax_e24_e8_to_e8_def xtc_relax_e24_i8_to_e8_i8_def
      xtc_relax_e24_to_e8_def xtc_relax_e8_i8_to_i8_def xtc_relax_e8_to_none_def split: if_splits)

lemma relax_loop_bytes:
  "relax_loop t loc v b buf = Inr (t', v', b', buf') \<Longrightarrow>
     length buf' = length buf \<and> (b' = b \<and> t' = t \<or> b + 2 \<le> b' \<and> b' \<le> b + 4 * reloc_rank t)"
proof (induction t loc v b buf rule: relax_loop.induct)
  case (1 t loc v b buf)
  note IH = 1(1) and prem = 1(2)
  from prem obtain r where r: "relax_turn t loc v b buf = Inr r"
    by (subst (asm) relax_loop.simps) auto
  show ?case
  proof (cases r)
    case None
    with prem r show ?thesis by (subst (asm) relax_loop.simps) auto
  next
    case (Some q)
    obtain t1 v1 b1 buf1 where q: "q = (t1, v1, b1, buf1)" by (cases q)
    with prem r Some have "relax_loop t1 loc v1 b1 buf1 = Inr (t', v', b', buf')"
      by (subst (asm) relax_loop.simps) auto
    moreover have turn: "relax_turn t loc v b buf = Inr (Some (t1, v1, b1, buf1))"
      using r Some q by simp
    ultimately show ?thesis
      using IH [OF turn refl refl refl refl] relax_turn_bytes [OF turn] relax_turn_rank [OF turn]
      by auto
  qed
qed

lemma put_length:
  "xtc_put16 v p buf = Inr buf' \<Longrightarrow> length buf' = length buf"
  "xtc_emit_e24 p v buf = Inr buf' \<Longrightarrow> length buf' = length buf"
  "put_ext8 v p buf = Inr buf' \<Longrightarrow> length buf' = length buf"
  "put_imm8 v p buf = Inr buf' \<Longrightarrow> length buf' = length buf"
  by (auto simp: xtc_put16_def xtc_emit_e24_def put_ext8_def put_imm8_def Let_def)

lemma emit_length: "xtc_emit_relocation t v p buf = Inr (ok, buf') \<Longrightarrow> length buf' = length buf"
  by (cases t) (auto simp: emit_if_def emit_e24_e8_def emit_e24_i8_def emit_e8_i8_def
    dest!: put_length split: if_splits)

lemma relax_relocation_bytes:
  assumes "xtc_relax_relocation t v p buf = Inr (t', n, buf')"
  shows "length buf' = length buf" and "n = 0 \<and> t' = t \<or> 2 \<le> n \<and> n \<le> 8"
proof -
  from assms obtain v1 b where "relax_loop t p v 0 buf = Inr (t', v1, n, b)"
    "length buf' = length b"
    by (auto simp: xtc_relax_relocation_def emit_length)
  moreover have "reloc_rank t \<le> 2" by (cases t) auto
  ultimately show "length buf' = length buf" "n = 0 \<and> t' = t \<or> 2 \<le> n \<and> n \<le> 8"
    using relax_loop_bytes by fastforce+
qed

text \<open>What a part of a pass does to the sizes.\<close>

definition pass_rel :: "link_state \<times> bool \<Rightarrow> link_state \<times> bool \<Rightarrow> bool" where
  "pass_rel = (\<lambda>(st, again) (st', again').
     length (contents st') = length (contents st) \<and> length (relocs st') = length (relocs st) \<and>
     unat (sec_size st') + (if again' \<and> \<not> again then 2 else 0) \<le> unat (sec_size st) \<and>
     (again \<longrightarrow> again') \<and> (\<not> again' \<longrightarrow> relocs st' = relocs st \<and> isyms st' = isyms st \<and> hash_store st' = hash_store st))"

lemma pass_rel_refl: "pass_rel s s"
  by (cases s) (simp add: pass_rel_def)

lemma pass_rel_trans:
  assumes "pass_rel r s" and "pass_rel s t"
  shows "pass_rel r t"
proof -
  obtain a x b y c z where r: "r = (a, x)" and s: "s = (b, y)" and t: "t = (c, z)"
    by (metis surj_pair)
  show ?thesis
    using assms unfolding r s t pass_rel_def prod.case by (cases x; cases y; cases z) simp_all
qed

lemma relax_one_pass:
  assumes "relax_one env i (st, again) = Inr s'" and "length (contents st) < 2 ^ 63"
  shows "pass_rel (st, again) s'"
proof -
  from assms(1) obtain irel sv where irel: "relocs st ! i = irel"
    and sv: "relax_symval env st irel = Inr sv"
    by (auto simp: relax_one_def)
  show ?thesis
  proof (cases sv)
    case None
    with assms(1) irel sv show ?thesis by (auto simp: relax_one_def pass_rel_refl)
  next
    case (Some symval)
    with assms(1) irel sv obtain v t' n buf where
      relax: "xtc_relax_relocation (r_type irel) v (unat (r_offset irel)) (contents st) = Inr (t', n, buf)"
      and s': "(if n \<noteq> 0
         then rbind (xtc_elf_relax_delete_bytes env (r_offset irel) n
                (st\<lparr>contents := buf, relocs := (relocs st)[i := irel\<lparr>r_type := t'\<rparr>]\<rparr>)) (\<lambda>st. Inr (st, True))
         else Inr (st\<lparr>contents := buf\<rparr>, again)) = Inr s'"
      by (auto simp: relax_one_def)
    note bytes = relax_relocation_bytes [OF relax]
    show ?thesis
    proof (cases "n = 0")
      case True
      with s' bytes show ?thesis by (auto simp: pass_rel_def)
    next
      case False
      with s' obtain st' where st': "s' = (st', True)"
        and del: "xtc_elf_relax_delete_bytes env (r_offset irel) n
          (st\<lparr>contents := buf, relocs := (relocs st)[i := irel\<lparr>r_type := t'\<rparr>]\<rparr>) = Inr st'"
        by auto
      have "unat (sec_size st') + n = unat (sec_size st)"
        using delete_bytes_eq(2) [OF del] bytes assms(2) by auto
      moreover have "length (contents st') = length (contents st)" "length (relocs st') = length (relocs st)"
        using del memmove_nth(1) bytes by (auto simp: xtc_elf_relax_delete_bytes_def Let_def)
      ultimately show ?thesis
        using st' bytes False by (auto simp: pass_rel_def)
    qed
  qed
qed

lemma relax_relocs_pass:
  "relax_relocs env is s = Inr s' \<Longrightarrow> length (contents (fst s)) < 2 ^ 63 \<Longrightarrow> pass_rel s s'"
proof (induction "is" arbitrary: s)
  case Nil
  then show ?case by (simp add: pass_rel_refl)
next
  case (Cons i js)
  then obtain s1 where s1: "relax_one env i s = Inr s1" "relax_relocs env js s1 = Inr s'"
    by auto
  then have "pass_rel s s1"
    using relax_one_pass [of env i "fst s" "snd s" s1] Cons.prems(2) by simp
  moreover from this have "length (contents (fst s1)) < 2 ^ 63"
    using Cons.prems(2) by (auto simp: pass_rel_def case_prod_unfold)
  ultimately show ?case
    using Cons.IH s1(2) pass_rel_trans by blast
qed

text \<open>A pass after which the linker asks for another one.\<close>

definition relax_pass :: "link_env \<Rightarrow> link_state \<Rightarrow> link_state \<Rightarrow> bool" where
  "relax_pass env st st' \<longleftrightarrow> sec_size st \<noteq> 0 \<and> xtc_elf_relax_section env st = Inr (st', True)"

lemma relax_pass_shrinks:
  assumes "relax_pass env st st'" and "length (contents st) < 2 ^ 63"
  shows "unat (sec_size st') + 2 \<le> unat (sec_size st)" and "length (contents st') = length (contents st)"
proof -
  from assms(1) have "relax_relocs env [0..<length (relocs st)] (st, False) = Inr (st', True)"
    by (auto simp: relax_pass_def xtc_elf_relax_section_def Let_def split: if_splits)
  then have "pass_rel (st, False) (st', True)"
    using relax_relocs_pass assms(2) by fastforce
  then show "unat (sec_size st') + 2 \<le> unat (sec_size st)" "length (contents st') = length (contents st)"
    by (auto simp: pass_rel_def)
qed

text \<open>
  C26. Relaxation of a section ends: every pass that asks for another one makes the section at
  least two bytes shorter, so there are at most half as many such passes as the section has
  bytes, whatever the relocations are and wherever the symbols lie.
\<close>

theorem relax_passes_bounded:
  assumes "(relax_pass env ^^ n) st st'" and "length (contents st) < 2 ^ 63"
  shows "unat (sec_size st') + 2 * n \<le> unat (sec_size st)"
proof -
  have "unat (sec_size st') + 2 * n \<le> unat (sec_size st) \<and> length (contents st') = length (contents st)"
    using assms(1)
  proof (induction n arbitrary: st')
    case 0
    then show ?case by simp
  next
    case (Suc n)
    then obtain st1 where "(relax_pass env ^^ n) st st1" and pass: "relax_pass env st1 st'"
      by auto
    with Suc.IH have "unat (sec_size st1) + 2 * n \<le> unat (sec_size st)" "length (contents st1) = length (contents st)"
      by auto
    with relax_pass_shrinks [OF pass] assms(2) show ?case by simp
  qed
  then show ?thesis ..
qed

theorem relax_passes_bounded_witness:
  "\<exists>st'. relax_pass loop_env loop_state st' \<and> unat (sec_size st') + 2 \<le> 14"
proof -
  have "isl (xtc_elf_relax_section loop_env loop_state) = False \<and>
      snd (projr (xtc_elf_relax_section loop_env loop_state))"
    by code_simp
  then obtain st' where "relax_pass loop_env loop_state st'"
    by (cases "xtc_elf_relax_section loop_env loop_state")
      (auto simp: relax_pass_def loop_state_def)
  with relax_passes_bounded [of 1 loop_env loop_state st'] show ?thesis
    by (auto simp: loop_state_def)
qed

subsection \<open>The final link\<close>
















text \<open>
  C28. The final link adds the addend of a relative relocation twice: its value is the one
  relaxation computed for the same symbol value plus the addend.  For a section symbol
  relaxation itself has added the addend to the symbol value already.
\<close>

theorem relative_addend_twice:
  assumes "relax_value env rel S = Inr v" and "xtc_reloc_pcrel (r_type rel)"
  shows "final_value env rel S = Inr (v + r_addend rel)"
  using assms by (auto simp: relax_value_def final_value_def algebra_simps)

theorem relative_addend_twice_witness:
  "relax_value loop_env (loop_reloc\<lparr>r_addend := 4\<rparr>) 0x1000 = Inr (- 10) \<and>
   final_value loop_env (loop_reloc\<lparr>r_addend := 4\<rparr>) 0x1000 = Inr (- 6)"
proof -
  have "relax_value loop_env (loop_reloc\<lparr>r_addend := 4\<rparr>) 0x1000 = Inr (- 10)"
    by (simp add: relax_value_def loop_defs sec_address_def)
  with relative_addend_twice [OF this] show ?thesis
    by (simp add: loop_reloc_def)
qed

end
