(* ===== verification/Xtc_Dis.thy ===== *)
theory Xtc_Dis
  imports Xtc_Opc
begin

text \<open>
  The disassembler, \<^verbatim>\<open>opcodes/xtc-dis.c\<close>.  The reader of target memory and the
  symbol table belong to the caller and are fields of \<open>disassemble_info\<close>; the text the
  source prints is a string.
\<close>

subsection \<open>Printing\<close>

text \<open>The conversions \<^verbatim>\<open>%d\<close> of a non-negative value and \<^verbatim>\<open>%04x\<close>.\<close>

definition digit_char :: "nat \<Rightarrow> char" where
  "digit_char d = char_of (if d < 10 then 48 + d else 87 + d)"

fun show_base :: "nat \<Rightarrow> nat \<Rightarrow> string" where
  "show_base b n =
     (if n < b \<or> b < 2 then [digit_char n] else show_base b (n div b) @ [digit_char (n mod b)])"

declare show_base.simps [simp del]

definition show_dec :: "nat \<Rightarrow> string" where
  "show_dec = show_base 10"

definition show_x04 :: "nat \<Rightarrow> string" where
  "show_x04 n = (let s = show_base 16 n in replicate (4 - length s) (CHR ''0'') @ s)"

definition register_prefix :: string where
  "register_prefix = ''r''"

subsection \<open>Fields\<close>

definition get_field :: "u64 \<Rightarrow> u64 \<Rightarrow> nat \<Rightarrow> string" where
  "get_field instr msk low = register_prefix @ show_dec (unat (drop_bit low (instr AND msk)))"

definition get_field_r1 :: "u64 \<Rightarrow> string" where
  "get_field_r1 instr = get_field instr 0x000F 0"

definition get_field_r2 :: "u64 \<Rightarrow> string" where
  "get_field_r2 instr = get_field instr 0x00F0 4"

definition get_field_spr :: "u64 \<Rightarrow> string" where
  "get_field_spr instr =
     (let spr = drop_bit 4 (instr AND 0x0070) in
      if spr = 0 then ''y'' else if spr = 1 then ''psr'' else if spr = 2 then ''spsr''
      else if spr = 3 then ''tr'' else if spr = 4 then ''tpc'' else if spr = 5 then ''sr0''
      else ''<error>'')"

definition get_field_imm12 :: "u64 \<Rightarrow> string" where
  "get_field_imm12 instr = show_dec (unat (instr AND 0x0FFF))"

definition get_field_imm8 :: "u64 \<Rightarrow> string" where
  "get_field_imm8 instr = show_dec (unat (drop_bit 4 (instr AND 0x0FF0)))"

definition get_int_field_imm12 :: "u64 \<Rightarrow> u64" where
  "get_int_field_imm12 instr = drop_bit 4 (instr AND 0xFFF0)"

definition get_int_field_imm8 :: "u64 \<Rightarrow> u64" where
  "get_int_field_imm8 instr = drop_bit 4 (instr AND 0x0FF0)"

subsection \<open>Reading an instruction\<close>

record disassemble_info =
  read_memory_func :: "u64 \<Rightarrow> (u8 \<times> u8) option"
  symbol_at_address_func :: "(u32 \<Rightarrow> bool) option"
  print_address_func :: "(u32 \<Rightarrow> string) option"

text \<open>
  The bytes are promoted to \<^verbatim>\<open>int\<close>, so the extension word is a 32-bit value that is
  sign-extended when it is combined with the 64-bit instruction.  The third component says
  whether the memory error function was called.
\<close>

definition ext_bits :: "u8 \<Rightarrow> u8 \<Rightarrow> u64" where
  "ext_bits b2 b3 = scast (push_bit 24 (ucast b2) OR push_bit 16 (ucast b3) :: u32)"

definition read_insn_xtc ::
    "disassemble_info \<Rightarrow> u64 \<Rightarrow> u64 \<times> op_code_struct option \<times> bool" where
  "read_insn_xtc info memaddr =
     (case read_memory_func info memaddr of
        None \<Rightarrow> (0, None, True)
      | Some (b0, b1) \<Rightarrow>
          let inst = push_bit 8 (ucast b0) OR ucast b1 in
          if inst AND 0x8000 \<noteq> 0 then
            (case read_memory_func info (memaddr + 2) of
               None \<Rightarrow> (0, None, True)
             | Some (b2, b3) \<Rightarrow>
                 let inst = inst OR ext_bits b2 b3 in (inst, find_op inst, False))
          else (inst, find_op inst, False))"

definition getcc :: "u64 \<Rightarrow> string option" where
  "getcc val = map_option fst (find (\<lambda>c. snd c = val) condition_codes)"

subsection \<open>Printing an instruction\<close>

text \<open>The suffix of an extended instruction, its third register, and its immediate.\<close>

definition print_extension :: "u64 \<Rightarrow> string \<times> string option \<times> u32" where
  "print_extension inst =
     (let cc = (case getcc (drop_bit 24 inst AND 0xF) of Some n \<Rightarrow> ''c'' @ n | None \<Rightarrow> []);
          k = drop_bit 29 inst in
      if k = 1 then (''.'' @ cc @ ''d'', Some (get_field inst 0xF0000 16), 0)
      else if k = 2 then (''.'' @ cc @ ''i'', None, ucast (drop_bit 16 inst AND 0xFF))
      else (''.'' @ cc, None, 0))"

text \<open>The comment that names the symbol an \<open>imm\<close> prefix points at.\<close>

definition print_imm_symbol :: "disassemble_info \<Rightarrow> u64 \<Rightarrow> string" where
  "print_imm_symbol info inst =
     (case (print_address_func info, symbol_at_address_func info) of
        (Some print_address, Some symbol_at) \<Rightarrow>
          let i = ucast (get_int_field_imm12 inst) :: u32;
              immval = (if i AND 0x800 \<noteq> 0 then i OR 0xFFFFF000 else i)
          in if 0 < sint immval \<and> symbol_at immval
             then CHR 0x09 # ''// '' @ print_address immval else []
      | _ \<Rightarrow> [])"

definition print_operands ::
    "disassemble_info \<Rightarrow> op_code_struct \<Rightarrow> u64 \<Rightarrow> string option \<Rightarrow> u32 \<Rightarrow> string" where
  "print_operands info op inst dreg immval =
     (let tab = CHR 0x09; ra = get_field_r1 inst; rb = get_field_r2 inst;
          im = show_dec (unat immval) in
      case op_inst_type op of
        INST_TYPE_WSPR \<Rightarrow> tab # ra @ '', '' @ get_field_spr inst
      | INST_TYPE_RSPR \<Rightarrow> tab # get_field_spr inst @ '', '' @ ra
      | INST_TYPE_R1_R2 \<Rightarrow>
          (case dreg of Some d \<Rightarrow> tab # rb @ '', '' @ ra @ '', '' @ d
           | None \<Rightarrow> if immval \<noteq> 0 then tab # rb @ '', '' @ ra @ '', '' @ im
                     else tab # rb @ '', '' @ ra)
      | INST_TYPE_R1_R2_IMM \<Rightarrow>
          (case dreg of Some d \<Rightarrow> tab # rb @ '', '' @ ra @ '', '' @ d
           | None \<Rightarrow> if immval \<noteq> 0 then tab # rb @ '', '' @ ra @ '', '' @ im
                     else tab # rb @ '', '' @ ra)
      | INST_TYPE_MEM_LOAD \<Rightarrow>
          if immval \<noteq> 0 then tab # ''('' @ ra @ '' + '' @ im @ ''), '' @ rb
          else tab # ''('' @ ra @ ''), '' @ rb
      | INST_TYPE_MEM_LOAD_S \<Rightarrow>
          if immval \<noteq> 0 then tab # ''('' @ ra @ '' + '' @ im @ ''), '' @ rb
          else tab # ''('' @ ra @ ''), '' @ rb
      | INST_TYPE_MEM_STORE \<Rightarrow>
          if immval \<noteq> 0 then tab # rb @ '', ('' @ ra @ '' + '' @ im @ '')''
          else tab # rb @ '', ('' @ ra @ '')''
      | INST_TYPE_MEM_STORE_S \<Rightarrow>
          if immval \<noteq> 0 then tab # rb @ '', ('' @ ra @ '' + '' @ im @ '')''
          else tab # rb @ '', ('' @ ra @ '')''
      | INST_TYPE_IMM \<Rightarrow> tab # get_field_imm12 inst @ print_imm_symbol info inst
      | INST_TYPE_IMM8 \<Rightarrow> tab # get_field_imm8 inst
      | INST_TYPE_IMM8_FLAGS \<Rightarrow> tab # get_field_imm8 inst
      | INST_TYPE_IMM8_R \<Rightarrow> tab # get_field_imm8 inst @ '', '' @ ra
      | INST_TYPE_MEM_IMM8_R \<Rightarrow> tab # get_field_imm8 inst @ '' + '' @ ra
      | INST_TYPE_NOARGS \<Rightarrow> []
      | INST_TYPE_COP \<Rightarrow> tab # show_dec (unat (drop_bit 9 inst AND 0x3)) @ '', '' @
          show_dec (unat (drop_bit 7 inst AND 0x7)) @ '', '' @ ra
      | _ \<Rightarrow> tab # ''undecoded operands, inst is 0x'' @ show_x04 (unat (ucast inst :: u32)))"

text \<open>The text, and the number of bytes consumed.\<close>

definition print_insn_xtc :: "disassemble_info \<Rightarrow> u64 \<Rightarrow> string \<times> nat" where
  "print_insn_xtc info memaddr =
     (case read_insn_xtc info memaddr of (inst, opr, _) \<Rightarrow>
      let extended = inst AND 0x8000 \<noteq> 0; isize = (if extended then 4 else 2) in
      case opr of
        None \<Rightarrow> (''.short 0x'' @ show_x04 (unat (ucast inst :: u32)), isize)
      | Some op \<Rightarrow>
          if extended \<and> op_ext op \<noteq> IS_EXT
          then (case print_extension inst of (suffix, dreg, immval) \<Rightarrow>
                  (op_name op @ suffix @ print_operands info op inst dreg immval, isize))
          else (op_name op @ print_operands info op inst None 0, isize))"

subsection \<open>The interface for debuggers\<close>

definition get_insn_xtc :: "u64 \<Rightarrow> xtc_instr \<times> bool" where
  "get_insn_xtc inst =
     (case find_op inst of
        None \<Rightarrow> (insn_invalid_inst, False)
      | Some op \<Rightarrow> (op_instr op, op_inst_type op = INST_TYPE_IMM))"

definition xtc_decode_insn :: "u64 \<Rightarrow> xtc_instr \<times> u64 \<times> u64 \<times> u64" where
  "xtc_decode_insn insn =
     (fst (get_insn_xtc insn), insn AND 0x000F, drop_bit 4 (insn AND 0x00F0), insn AND 0x0FFF)"

definition target_offset :: "u64 \<Rightarrow> bool \<Rightarrow> u32 \<Rightarrow> u64" where
  "target_offset inst immfound immval =
     (if immfound then ucast (push_bit 8 immval AND 0xFFFFFF00) OR get_int_field_imm8 inst
      else let t = get_int_field_imm8 inst in if t AND 0x80 \<noteq> 0 then t OR 0xFFFFFF00 else t)"

text \<open>The address, whether it is valid, and whether the branch is unconditional.\<close>

definition xtc_get_target_address ::
    "u64 \<Rightarrow> bool \<Rightarrow> u32 \<Rightarrow> u64 \<Rightarrow> u64 \<Rightarrow> u64 \<times> bool \<times> bool" where
  "xtc_get_target_address inst immfound immval pcval r1val =
     (case find_op inst of
        None \<Rightarrow> (0, False, False)
      | Some op \<Rightarrow>
          let pc = (if inst_offset_type op = INST_PC_OFFSET then pcval else 0) in
          case op_inst_type op of
            INST_TYPE_IMM8 \<Rightarrow> (target_offset inst immfound immval + pc, True, True)
          | INST_TYPE_IMM8_FLAGS \<Rightarrow> (target_offset inst immfound immval + pc, True, False)
          | INST_TYPE_IMM8_R \<Rightarrow> (target_offset inst immfound immval + r1val + pc, True, False)
          | _ \<Rightarrow> (0, False, False))"

end
