(* ===== verification/Xtc_Props.thy ===== *)
theory Xtc_Props
  imports Xtc_Dis Gas_Xtc
begin

text \<open>
  The instruction table, the disassembler and the assembler together: the table search is
  unambiguous, what the assembler emits for a register instruction is what the disassembler
  prints, and the encodings of immediates and conditions.
\<close>

subsection \<open>The table\<close>

lemma nop_after_sextb:
  assumes "op_matches w nop_entry"
  shows "find (op_matches w) (tl (butlast opcodes)) \<noteq> None"
proof -
  let ?q = "opcodes ! 37"
  have q: "?q \<in> set (tl (butlast opcodes))" "bit_sequence ?q = 0x3800" "opcode_mask ?q = 0x7F00"
    by (simp_all add: opcodes_def)
  have "bit_sequence nop_entry = 0x3800" "opcode_mask nop_entry = 0x7FFF"
    by (simp_all add: nop_entry_def opcodes_def)
  with assms have w: "0x3800 = w AND 0x7FFF" by (simp add: op_matches_def)
  have "w AND 0x7F00 = (w AND 0x7FFF) AND 0x7F00" by (simp add: and.assoc)
  with w have "w AND 0x7F00 = 0x3800" by simp
  with q have "op_matches w ?q" by (simp add: op_matches_def)
  with q(1) show ?thesis by (auto simp: find_None_iff)
qed

text \<open>
  C15. The search of the instruction table is unambiguous: a word that matches an entry other
  than \<open>nop\<close> and is not an \<open>imm\<close> prefix finds that entry, a prefix finds \<open>imm\<close>, and the entry
  \<open>nop\<close> is never found because \<open>sextb\<close> comes before it and matches the same word.
\<close>

theorem table_lookup:
  assumes "op \<in> set opcodes" and "op_matches w op"
  shows "find_op w \<noteq> Some nop_entry \<and>
    (op_matches w imm_entry \<longrightarrow> find_op w = Some imm_entry) \<and>
    (\<not> op_matches w imm_entry \<and> op \<noteq> nop_entry \<longrightarrow> find_op w = Some op)"
proof -
  let ?mid = "tl (butlast opcodes)"
  have f: "find_op w = (if op_matches w imm_entry then Some imm_entry
      else case find (op_matches w) ?mid of Some q \<Rightarrow> Some q
           | None \<Rightarrow> if op_matches w nop_entry then Some nop_entry else None)"
    unfolding find_op_def by (subst table_split) (simp add: find_append split: option.split)
  have ne: "imm_entry \<noteq> nop_entry" "nop_entry \<notin> set ?mid"
    by (simp_all add: imm_entry_def nop_entry_def opcodes_def)
  have "op = imm_entry \<or> op \<in> set ?mid \<or> op = nop_entry"
    using assms(1) by (subst (asm) table_split) auto
  moreover have "op \<in> set ?mid \<Longrightarrow> find (op_matches w) ?mid = Some op"
    using find_unique [OF table_excludes _ assms(2)] by blast
  moreover have "find_op w \<noteq> Some nop_entry"
    using f ne nop_after_sextb [of w] find_in [of "op_matches w" ?mid nop_entry]
    by (auto split: option.splits if_splits)
  ultimately show ?thesis using f assms(2) by auto
qed

theorem table_lookup_witness:
  "find_op 0x3812 = Some (opcodes ! 37) \<and> op_name (opcodes ! 37) = ''sextb'' \<and>
   op_matches 0x3800 nop_entry \<and> find_op 0x3800 \<noteq> Some nop_entry"
proof -
  have e: "opcodes ! 37 \<in> set opcodes" "nop_entry \<in> set opcodes"
      "op_matches 0x3812 (opcodes ! 37)" "op_matches 0x3800 nop_entry"
      "\<not> op_matches 0x3812 imm_entry" "opcodes ! 37 \<noteq> nop_entry" "op_name (opcodes ! 37) = ''sextb''"
    by (simp_all add: opcodes_def imm_entry_def nop_entry_def op_matches_def)
  from table_lookup [OF e(1,3)] table_lookup [OF e(2,4)] e show ?thesis by blast
qed

subsection \<open>Immediate widths\<close>

text \<open>A 32-bit pattern is a signed number of \<open>n\<close> bits when its upper bits copy bit \<open>n - 1\<close>.\<close>

definition fits_signed :: "nat \<Rightarrow> u32 \<Rightarrow> bool" where
  "fits_signed n v \<longleftrightarrow> - (2 ^ (n - 1)) \<le> sint v \<and> sint v < 2 ^ (n - 1)"

lemma and_sign_bit: "v AND 0x80000000 \<noteq> 0 \<longleftrightarrow> bit (v :: u32) 31"
  unfolding bit_iff_and_push_bit_not_eq_0 by simp

lemma count_bits_loop_spec:
  assumes "c \<le> 31"
  shows "count_bits_loop sg c (push_bit (31 - c) v) \<le> n \<longleftrightarrow> (\<forall>i. n \<le> i \<and> i < c \<longrightarrow> bit v i = sg)"
  using assms
proof (induction c)
  case 0
  then show ?case by simp
next
  case (Suc c)
  have p: "push_bit 1 (push_bit (31 - Suc c) v) = push_bit (31 - c) v"
  proof -
    have "31 - c = 1 + (31 - Suc c)" using Suc.prems by arith
    then show ?thesis by (simp only: push_bit_push_bit)
  qed
  have b: "push_bit (31 - c) v AND 0x80000000 \<noteq> 0 \<longleftrightarrow> bit v c"
    using Suc.prems unfolding and_sign_bit by (simp add: bit_simps)
  show ?case
  proof (cases "bit v c = sg")
    case True
    then have "count_bits_loop sg (Suc c) (push_bit (31 - Suc c) v) = count_bits_loop sg c (push_bit (31 - c) v)"
      unfolding count_bits_loop.simps p Let_def b by simp
    then show ?thesis using Suc True by (auto simp: less_Suc_eq simp del: count_bits_loop.simps)
  next
    case False
    then have "count_bits_loop sg (Suc c) (push_bit (31 - Suc c) v) = Suc c"
      unfolding count_bits_loop.simps p Let_def b by simp
    then show ?thesis using False
      by (auto simp: not_le Suc_le_eq simp del: count_bits_loop.simps dest: spec [of _ c])
  qed
qed

lemma bit_sint_min: "bit (sint v) i = bit v (min 31 i)" for v :: u32
proof (cases "i < 32")
  case True
  then have "i < 31 \<or> i = 31" by arith
  then show ?thesis by (auto simp: bit_sint_iff min_def dest: bit_imp_le_length)
qed (auto simp: bit_sint_iff min_def dest: bit_imp_le_length)

lemma copies_sign_bit:
  "(\<forall>i. B (min 31 (min i m)) = B (min 31 i)) \<longleftrightarrow> (\<forall>i. m \<le> i \<and> i < 31 \<longrightarrow> B i = B (31 :: nat))"
  (is "?L \<longleftrightarrow> ?R")
proof
  assume L: ?L
  show ?R
  proof (intro allI impI)
    fix i
    assume i: "m \<le> i \<and> i < 31"
    then show "B i = B 31"
      using L [rule_format, of i] L [rule_format, of 31] by (auto simp: min_def split: if_splits)
  qed
next
  assume R: ?R
  show ?L
  proof
    fix i
    show "B (min 31 (min i m)) = B (min 31 i)"
      using R [rule_format, of i] R [rule_format, of m] by (auto simp: min_def)
  qed
qed

lemma fits_signed_bits:
  assumes "0 < n"
  shows "fits_signed n v \<longleftrightarrow> (\<forall>i. n - 1 \<le> i \<and> i < 31 \<longrightarrow> bit v i = bit v 31)"
proof -
  have "fits_signed n v \<longleftrightarrow> signed_take_bit (n - 1) (sint v) = sint v"
    unfolding fits_signed_def by (simp add: signed_take_bit_int_eq_self_iff)
  also have "\<dots> \<longleftrightarrow> (\<forall>i. bit (sint v) (min i (n - 1)) = bit (sint v) i)"
    unfolding bit_eq_iff bit_signed_take_bit_iff by (simp add: min.commute)
  finally show ?thesis unfolding bit_sint_min copies_sign_bit .
qed

text \<open>
  C16. The assembler's bit count is exact: a constant is counted as at most \<open>n\<close> bits exactly
  when it is a signed \<open>n\<close>-bit number, so the choice between the 8-bit, 16-bit and 32-bit
  encodings made from it never truncates and is never longer than necessary.
\<close>

theorem count_bits_minimal:
  assumes "0 < n"
  shows "xtc_count_bits v \<le> n \<longleftrightarrow> - (2 ^ (n - 1)) \<le> sint v \<and> sint v < 2 ^ (n - 1)"
proof (cases "v = 0")
  case False
  have "xtc_count_bits v \<le> n \<longleftrightarrow> count_bits_loop (bit v 31) 31 v \<le> n - 1"
    using assms False by (auto simp: xtc_count_bits_def and_sign_bit)
  also have "\<dots> \<longleftrightarrow> (\<forall>i. n - 1 \<le> i \<and> i < 31 \<longrightarrow> bit v i = bit v 31)"
    using count_bits_loop_spec [of 31 "bit v 31" v "n - 1"] by simp
  finally show ?thesis
    using fits_signed_bits [OF assms, of v] by (simp add: fits_signed_def)
qed (simp add: xtc_count_bits_def)

theorem count_bits_minimal_witness: "xtc_count_bits 0xFFFFFF80 \<le> 8 \<and> \<not> xtc_count_bits 0x80 \<le> 8"
  using count_bits_minimal [of 8 "0xFFFFFF80"] count_bits_minimal [of 8 "0x80"] by simp

subsection \<open>Assembling and disassembling register instructions\<close>

lemma table_names:
  "\<forall>op \<in> set opcodes. op_name op \<noteq> [] \<and> length (op_name op) < 19 \<and>
     list_all (\<lambda>c. \<not> is_end_of_line c \<and> c \<noteq> CHR '' '' \<and> c \<noteq> CHR ''.'' \<and> \<not> ISSPACE c) (op_name op)"
  by (simp add: opcodes_def is_end_of_line_def ISSPACE_def)

lemma table_names_distinct: "distinct (map op_name opcodes)"
  by (simp add: opcodes_def)

lemma find_by_key: "distinct (map f xs) \<Longrightarrow> x \<in> set xs \<Longrightarrow> find (\<lambda>y. f y = f x) xs = Some x"
  by (induction xs) auto

lemma find_opcode_name: "op \<in> set opcodes \<Longrightarrow> find_opcode (op_name op) = Some op"
  unfolding find_opcode_def by (rule find_by_key [OF table_names_distinct])

lemma takeWhile_all: "list_all P xs \<Longrightarrow> takeWhile P (xs @ ys) = xs @ takeWhile P ys"
  by (induction xs) auto

lemma md_assemble_plain:
  assumes "op \<in> set opcodes"
  shows "md_assemble expression (op_name op @ '' '' @ args) =
    rbind (asm_operands expression op False \<lparr>condition = 0, flags = EXT_FLAG_NONE\<rparr> ('' '' @ args) 0)
      (\<lambda>st. Inr (asm_finish op st))"
proof -
  let ?n = "op_name op"
  from table_names assms have n: "?n \<noteq> []" "length ?n < 19"
      "list_all (\<lambda>c. \<not> is_end_of_line c \<and> c \<noteq> CHR '' '' \<and> c \<noteq> CHR ''.'' \<and> \<not> ISSPACE c) ?n" by auto
  have "skip_space (?n @ '' '' @ args) = ?n @ '' '' @ args"
    using n(1,3) by (cases ?n) (auto simp: skip_space_def)
  moreover have "takeWhile (\<lambda>c. \<not> is_end_of_line c \<and> c \<noteq> CHR '' '') (?n @ '' '' @ args) = ?n"
    using n(3) by (subst takeWhile_all) (auto simp: list_all_iff)
  then have "split_name (?n @ '' '' @ args) = (?n, '' '' @ args)"
    using n(2) by (simp add: split_name_def)
  moreover have "takeWhile (\<lambda>c. c \<noteq> CHR ''.'') ?n = ?n"
    using n(3) by (auto simp: takeWhile_eq_all_conv list_all_iff)
  then have "split_dot ?n = (?n, None)" by (simp add: split_dot_def)
  ultimately show ?thesis
    using n(1) find_opcode_name [OF assms] by (simp add: md_assemble_def)
qed

text \<open>The numbers of the sixteen general registers print as one or two digits.\<close>

lemma below_16: "n < 16 \<Longrightarrow> n \<in> {0, 1, 2, 3, 4, 5, 6, 7, 8, 9, 10, 11, 12, 13, 14, 15 :: nat}"
  unfolding insert_iff empty_iff by presburger

lemma parse_reg_dec:
  assumes "n < 16" and "rest = [] \<or> \<not> ISDIGIT (hd rest)"
  shows "parse_reg (''r'' @ show_dec n @ rest) = Inr (word_of_nat n, rest, 0)"
  using below_16 [OF assms(1)] assms(2)
  by (elim insertE; cases rest)
    (auto simp: parse_reg_def skip_space_def ISSPACE_def strncase_eq_def to_lower_def ISDIGIT_def
      digit_val_def show_dec_def show_base.simps digit_char_def)

lemma parse_reg_space: "parse_reg (CHR '' '' # s) = parse_reg s"
  by (simp add: parse_reg_def skip_space_def ISSPACE_def)

text \<open>Where the fields of a register instruction lie.\<close>

lemma field_bits:
  "bit (0x7F00 :: int) n \<longleftrightarrow> 8 \<le> n \<and> n < 15" "bit (0xF0 :: int) n \<longleftrightarrow> 4 \<le> n \<and> n < 8"
  "bit (0xF :: int) n \<longleftrightarrow> n < 4" "bit (0x8000 :: int) n \<longleftrightarrow> n = 15"
proof -
  have e: "(0x7F00 :: int) = push_bit 8 (mask 7)" "(0xF0 :: int) = push_bit 4 (mask 4)"
      "(0xF :: int) = mask 4" "(0x8000 :: int) = push_bit 15 1"
    by (simp_all add: mask_eq_exp_minus_1)
  show "bit (0x7F00 :: int) n \<longleftrightarrow> 8 \<le> n \<and> n < 15" "bit (0xF0 :: int) n \<longleftrightarrow> 4 \<le> n \<and> n < 8"
    unfolding e(1,2) bit_push_bit_iff bit_mask_iff by auto
  show "bit (0xF :: int) n \<longleftrightarrow> n < 4" "bit (0x8000 :: int) n \<longleftrightarrow> n = 15"
    unfolding e(3,4) bit_push_bit_iff bit_mask_iff bit_1_iff by auto
qed

lemma reg_word:
  fixes ra rb :: u32 and k :: u64
  assumes k: "k AND 0x7F00 = k" and r: "ra < 16" "rb < 16"
  defines "w \<equiv> set_rb rb (set_ra ra k)"
  shows "w AND 0x7F00 = k" and "w AND 0x8000 = 0" and "w AND 0x000F = ucast ra"
    and "drop_bit 4 (w AND 0x00F0) = ucast rb"
    and "push_bit 8 (ucast (INST_BYTE0 w)) OR ucast (INST_BYTE1 w) = w"
proof -
  have kb: "bit k n \<Longrightarrow> 8 \<le> n \<and> n < 15" for n
    using k by (metis bit_and_iff bit_numeral_word_iff field_bits(1))
  have "take_bit 4 ra = ra" "take_bit 4 rb = rb"
    using r by (simp_all add: take_bit_small word_less_nat_alt)
  then have rb: "bit ra n \<Longrightarrow> n < 4" "bit rb n \<Longrightarrow> n < 4" for n
    by (metis bit_take_bit_iff)+
  note bs = bit_simps set_ra_def set_rb_def INST_BYTE0_def INST_BYTE1_def field_bits w_def
  show "w AND 0x7F00 = k" "w AND 0x8000 = 0" "w AND 0x000F = ucast ra"
      "drop_bit 4 (w AND 0x00F0) = ucast rb"
    by (rule bit_word_eqI; auto simp: bs simp del: and_15 dest: kb rb)+
  have lo: "bit w n \<Longrightarrow> n < 15" for n
    by (auto simp: bs dest: kb rb)
  show "push_bit 8 (ucast (INST_BYTE0 w)) OR ucast (INST_BYTE1 w) = w"
  proof (rule bit_word_eqI)
    fix n :: nat
    show "bit (push_bit 8 (ucast (INST_BYTE0 w)) OR ucast (INST_BYTE1 w) :: u64) n = bit w n"
      using lo [of n] by (cases "n < 8") (auto simp: INST_BYTE0_def INST_BYTE1_def bit_simps)
  qed
qed

lemma reg_ops_shape:
  "\<forall>op \<in> set opcodes. op_inst_type op = INST_TYPE_R1_R2 \<longrightarrow>
     opcode_mask op = 0x7F00 \<and> bit_sequence op AND 0x7F00 = bit_sequence op"
  by (simp add: opcodes_def)

lemma reg_op_found:
  assumes "op \<in> set opcodes" and "op_inst_type op = INST_TYPE_R1_R2"
    and "w AND 0x7F00 = bit_sequence op" and "w AND 0x8000 = 0"
  shows "find_op w = Some op"
proof -
  have i: "bit_sequence imm_entry = 0x60008000" "opcode_mask imm_entry = 0x60008000"
      "op_inst_type nop_entry = INST_TYPE_NOARGS"
    by (simp_all add: imm_entry_def nop_entry_def opcodes_def)
  have "op_matches w op"
    using reg_ops_shape assms(1-3) by (simp add: op_matches_def)
  moreover have "\<not> op_matches w imm_entry"
  proof
    assume "op_matches w imm_entry"
    then have "(w AND 0x60008000) AND 0x8000 = 0x60008000 AND 0x8000" by (simp add: op_matches_def i)
    with assms(4) show False by (simp add: and.assoc)
  qed
  moreover have "op \<noteq> nop_entry" using assms(2) i(3) by auto
  moreover have "op \<noteq> imm_entry" using assms(2) by (auto simp: imm_entry_def opcodes_def)
  ultimately have "op \<in> set (tl (butlast opcodes))"
    using assms(1) by (subst (asm) table_split) auto
  with find_unique [OF table_excludes this \<open>op_matches w op\<close>] \<open>\<not> op_matches w imm_entry\<close>
  show ?thesis unfolding find_op_def by (subst table_split) (simp add: find_append)
qed

lemma asm_reg_operands:
  assumes "op_inst_type op = INST_TYPE_R1_R2" and "a < 16" and "b < 16"
  shows "asm_operands expression op False ext ('' r'' @ show_dec b @ '', r'' @ show_dec a) 0 =
    Inr (Break [] [] (set_rb (word_of_nat b) (set_ra (word_of_nat a) (bit_sequence op))) 2 [] 0)"
proof -
  have "parse_reg (''r'' @ show_dec b @ '', r'' @ show_dec a) = Inr (word_of_nat b, '', r'' @ show_dec a, 0)"
    using parse_reg_dec [OF assms(3), of "'', r'' @ show_dec a"]
    by (simp add: ISDIGIT_def)
  moreover have "parse_reg ('' r'' @ show_dec a) = Inr (word_of_nat a, [], 0)"
    using parse_reg_dec [OF assms(2), of "[]"] by (simp add: parse_reg_space)
  moreover have "check_gpr_reg (word_of_nat a)" "check_gpr_reg (word_of_nat b)"
    using assms(2,3) by (simp_all add: check_gpr_reg_def word_less_nat_alt take_bit_nat_eq_self unsigned_of_nat)
  ultimately show ?thesis
    using assms(1) by (simp add: asm_operands_def asm_r1_r2_def next_reg_def next_arg_def)
qed

text \<open>
  C17. What the assembler emits for a two-register instruction is what the disassembler
  prints: for every such entry of the table and every pair of general registers the statement
  assembles without an error or a fixup into two bytes, and the disassembler, reading those
  bytes, prints the same mnemonic and operands and consumes two bytes.
\<close>

theorem register_round_trip:
  assumes "op \<in> set opcodes" and "op_inst_type op = INST_TYPE_R1_R2" and "a < 16" and "b < 16"
  shows "\<exists>x y. md_assemble expression (op_name op @ '' r'' @ show_dec b @ '', r'' @ show_dec a) =
      Inr \<lparr>out_bytes = [x, y], out_fixes = [], out_bads = 0\<rparr> \<and>
    (\<forall>info addr. read_memory_func info addr = Some (x, y) \<longrightarrow>
       print_insn_xtc info addr = (op_name op @ [CHR 0x09] @ ''r'' @ show_dec b @ '', r'' @ show_dec a, 2))"
proof -
  let ?w = "set_rb (word_of_nat b) (set_ra (word_of_nat a) (bit_sequence op))"
  have k: "bit_sequence op AND 0x7F00 = bit_sequence op" using reg_ops_shape assms(1,2) by blast
  have r: "(word_of_nat a :: u32) < 16" "(word_of_nat b :: u32) < 16"
      and u: "unat (word_of_nat a :: u64) = a" "unat (word_of_nat b :: u64) = b"
    using assms(3,4) by (simp_all add: word_less_nat_alt take_bit_nat_eq_self unsigned_of_nat)
  have uc: "ucast (word_of_nat a :: u32) = (word_of_nat a :: u64)" "ucast (word_of_nat b :: u32) = (word_of_nat b :: u64)"
    using assms(3,4) by (simp_all add: word_unat_eq_iff unsigned_of_nat unsigned_ucast_eq take_bit_nat_eq_self)
  note w = reg_word [OF k r]
  have "md_assemble expression (op_name op @ '' r'' @ show_dec b @ '', r'' @ show_dec a) =
      Inr \<lparr>out_bytes = [INST_BYTE0 ?w, INST_BYTE1 ?w], out_fixes = [], out_bads = 0\<rparr>"
    using md_assemble_plain [OF assms(1), of expression "''r'' @ show_dec b @ '', r'' @ show_dec a"]
      asm_reg_operands [OF assms(2,3,4), of expression "\<lparr>condition = 0, flags = EXT_FLAG_NONE\<rparr>"]
    by (simp add: asm_finish_def skip_space_def)
  moreover have "find_op ?w = Some op" by (rule reg_op_found [OF assms(1,2) w(1,2)])
  ultimately show ?thesis
    using w assms(2) u uc
    by (intro exI [of _ "INST_BYTE0 ?w"] exI [of _ "INST_BYTE1 ?w"])
      (simp add: print_insn_xtc_def read_insn_xtc_def Let_def print_operands_def get_field_r1_def
        get_field_r2_def get_field_def register_prefix_def)
qed

text \<open>An expression parser that finds nothing, for statements without immediates.\<close>

definition no_expression :: expr_parser where
  "no_expression s = (\<lparr>X_op = O_absent, X_add_symbol = None, X_op_symbol = None, X_add_number = 0\<rparr>, s)"

theorem register_round_trip_witness:
  "\<exists>x y. md_assemble no_expression (''add r2, r15'') = Inr \<lparr>out_bytes = [x, y], out_fixes = [], out_bads = 0\<rparr> \<and>
     (\<forall>info addr. read_memory_func info addr = Some (x, y) \<longrightarrow>
        print_insn_xtc info addr = (''add'' @ [CHR 0x09] @ ''r2, r15'', 2))"
proof -
  have "opcodes ! 1 \<in> set opcodes" "op_inst_type (opcodes ! 1) = INST_TYPE_R1_R2" "op_name (opcodes ! 1) = ''add''"
    by (simp_all add: opcodes_def)
  moreover have "show_dec 2 = ''2''" "show_dec 15 = ''15''"
    by code_simp+
  ultimately show ?thesis
    using register_round_trip [of "opcodes ! 1" 15 2 no_expression] by simp
qed

subsection \<open>Conditions\<close>

lemma conditions_shape:
  "\<forall>c \<in> set condition_codes. length (fst c) \<le> 3 \<and>
     list_all (\<lambda>c. \<not> is_end_of_line c \<and> c \<noteq> CHR '' '') (fst c) \<and>
     parse_extension (''c'' @ fst c) = Some \<lparr>condition = snd c, flags = EXT_FLAG_NONE\<rparr>"
  by (simp add: condition_codes_def is_end_of_line_def parse_extension_def parse_ext_loop.simps
      ext_turn_def parse_condition_def)

lemma table_names_short: "\<forall>op \<in> set opcodes. length (op_name op) \<le> 5"
  by (simp add: opcodes_def)

lemma md_assemble_condition:
  assumes "op \<in> set opcodes" and "op_ext op = CAN_EXT_ALL" and "c \<in> set condition_codes"
  shows "md_assemble expression (op_name op @ ''.c'' @ fst c @ '' '' @ args) =
    rbind (asm_operands expression op True \<lparr>condition = snd c, flags = EXT_FLAG_NONE\<rparr> ('' '' @ args) 0)
      (\<lambda>st. Inr (asm_finish op st))"
proof -
  let ?n = "op_name op" and ?f = "op_name op @ ''.c'' @ fst c"
  let ?P = "\<lambda>c. \<not> is_end_of_line c \<and> c \<noteq> CHR '' ''"
  from table_names assms(1) have n: "?n \<noteq> []"
      "list_all (\<lambda>c. \<not> is_end_of_line c \<and> c \<noteq> CHR '' '' \<and> c \<noteq> CHR ''.'' \<and> \<not> ISSPACE c) ?n" by auto
  from conditions_shape assms(3) have c: "length (fst c) \<le> 3" "list_all ?P (fst c)"
      "parse_extension (''c'' @ fst c) = Some \<lparr>condition = snd c, flags = EXT_FLAG_NONE\<rparr>" by auto
  have "skip_space (?f @ '' '' @ args) = ?f @ '' '' @ args"
    using n by (cases ?n) (auto simp: skip_space_def)
  moreover have "takeWhile ?P (?f @ '' '' @ args) = ?f"
    using n(2) c(2) by (subst takeWhile_all) (auto simp: list_all_iff is_end_of_line_def)
  then have "split_name (?f @ '' '' @ args) = (?f, '' '' @ args)"
    using c(1) table_names_short assms(1) by (auto simp: split_name_def)
  moreover have "takeWhile (\<lambda>c. c \<noteq> CHR ''.'') ?f = ?n"
    using n(2) by (subst takeWhile_all) (auto simp: list_all_iff)
  then have "split_dot ?f = (?n, Some (''c'' @ fst c))" by (simp add: split_dot_def)
  ultimately show ?thesis
    using n(1) find_opcode_name [OF assms(1)] c(3) assms(2)
    by (simp add: md_assemble_def check_extension_def)
qed

text \<open>
  A condition suffix alone is lost: for every two-register instruction that takes
  suffixes and every condition, the assembler accepts the statement with the suffix and emits
  exactly what it emits without it, an unconditional instruction.
\<close>

lemma condition_lost:
  assumes "op \<in> set opcodes" and "op_inst_type op = INST_TYPE_R1_R2" and "op_ext op = CAN_EXT_ALL"
    and "c \<in> set condition_codes"
  shows "md_assemble expression (op_name op @ ''.c'' @ fst c @ '' '' @ args) =
    md_assemble expression (op_name op @ '' '' @ args)"
  unfolding md_assemble_condition [OF assms(1,3,4)] md_assemble_plain [OF assms(1)]
  using assms(2) by (simp add: asm_operands_def asm_r1_r2_def Let_def case_prod_unfold cong: if_cong)





subsection \<open>The 24-bit extension\<close>

lemma e24_numeral_bits:
  "bit (0x80006000 :: int) n \<longleftrightarrow> n \<in> {13, 14, 31}" "bit (0x7FFF :: int) n \<longleftrightarrow> n < 15"
proof -
  have e: "(0x80006000 :: int) = push_bit 13 (mask 2) OR push_bit 31 1" "(0x7FFF :: int) = mask 15"
    by (simp_all add: mask_eq_exp_minus_1)
  show "bit (0x80006000 :: int) n \<longleftrightarrow> n \<in> {13, 14, 31}" "bit (0x7FFF :: int) n \<longleftrightarrow> n < 15"
    unfolding e bit_or_iff bit_push_bit_iff bit_mask_iff bit_1_iff by auto
qed

lemma e24_closed:
  "e24_word v cc = 0x80006000 OR push_bit 16 (take_bit 15 v) OR push_bit 8 cc OR
     take_bit 8 (drop_bit 15 v) OR push_bit 12 (take_bit 1 (drop_bit 23 v))"
proof -
  have "v AND 0x7FFF = take_bit 15 v"
    by (simp add: take_bit_eq_mask mask_eq_exp_minus_1)
  moreover have "take_bit 8 (signed_drop_bit 15 v) = take_bit 8 (drop_bit 15 v)"
    by (rule bit_word_eqI) (auto simp: bit_simps)
  moreover have "signed_drop_bit 8 (signed_drop_bit 15 v) AND 1 = take_bit 1 (drop_bit 23 v)"
  proof -
    have "signed_drop_bit 8 (signed_drop_bit 15 v) AND 1 = take_bit 1 (signed_drop_bit 8 (signed_drop_bit 15 v))"
      by (simp add: take_bit_eq_mask mask_eq_exp_minus_1)
    also have "\<dots> = take_bit 1 (drop_bit 23 v)"
    proof -
      have "odd (signed_drop_bit 23 v) = odd (drop_bit 23 v)"
        unfolding bit_0 [symmetric] by (simp add: bit_simps del: bit_0)
      then show ?thesis by (intro bit_word_eqI) (auto simp: bit_simps)
    qed
    finally show ?thesis .
  qed
  ultimately show ?thesis unfolding e24_word_def Let_def by (simp add: or.assoc)
qed

lemma e24_word_bit:
  assumes "cc < 16"
  shows "bit (e24_word v cc) n \<longleftrightarrow>
    n \<in> {13, 14, 31} \<or> (16 \<le> n \<and> n < 31 \<and> bit v (n - 16)) \<or> (8 \<le> n \<and> n < 12 \<and> bit cc (n - 8)) \<or>
    (n < 8 \<and> bit v (15 + n)) \<or> (n = 12 \<and> bit v 23)"
proof -
  have "take_bit 4 cc = cc" using assms by (simp add: take_bit_small word_less_nat_alt)
  then have cb: "bit cc m \<longleftrightarrow> m < 4 \<and> bit cc m" for m by (metis bit_take_bit_iff)
  have "bit (push_bit 8 cc) n \<longleftrightarrow> 8 \<le> n \<and> n < 12 \<and> bit cc (n - 8)"
    using cb [of "n - 8"] by (auto simp: bit_simps)
  moreover have "bit (0x80006000 :: u64) n \<longleftrightarrow> n \<in> {13, 14, 31}"
    unfolding bit_numeral_word_iff e24_numeral_bits by auto
  moreover have "bit (push_bit 16 (take_bit 15 v)) n \<longleftrightarrow> 16 \<le> n \<and> n < 31 \<and> bit v (n - 16)"
    by (auto simp: bit_simps)
  moreover have "bit (take_bit 8 (drop_bit 15 v)) n \<longleftrightarrow> n < 8 \<and> bit v (15 + n)"
    by (simp add: bit_simps)
  moreover have "bit (push_bit 12 (take_bit 1 (drop_bit 23 v))) n \<longleftrightarrow> n = 12 \<and> bit v 23"
    unfolding bit_push_bit_iff bit_take_bit_iff bit_drop_bit_eq by auto
  ultimately show ?thesis unfolding e24_closed bit_or_iff by simp
qed

lemma e24_fields:
  assumes "cc < 16"
  shows "take_bit 15 (drop_bit 16 (e24_word v cc)) = take_bit 15 v"
    and "take_bit 8 (e24_word v cc) = take_bit 8 (drop_bit 15 v)"
    and "take_bit 1 (drop_bit 12 (e24_word v cc)) = take_bit 1 (drop_bit 23 v)"
    and "take_bit 4 (drop_bit 8 (e24_word v cc)) = cc"
proof -
  have "take_bit 4 cc = cc" using assms by (simp add: take_bit_small word_less_nat_alt)
  then have cb: "bit cc m \<longleftrightarrow> m < 4 \<and> bit cc m" for m by (metis bit_take_bit_iff)
  note b = e24_word_bit [OF assms]
  have b1: "n < 15 \<Longrightarrow> bit (e24_word v cc) (16 + n) = bit v n" for n unfolding b by auto
  have b2: "n < 8 \<Longrightarrow> bit (e24_word v cc) n = bit v (15 + n)" for n unfolding b by auto
  have b3: "bit (e24_word v cc) (12 + 0) = bit v (23 + 0)" unfolding b by auto
  have b4: "n < 4 \<Longrightarrow> bit (e24_word v cc) (8 + n) = bit cc n" for n unfolding b by auto
  show "take_bit 15 (drop_bit 16 (e24_word v cc)) = take_bit 15 v"
    "take_bit 8 (e24_word v cc) = take_bit 8 (drop_bit 15 v)"
    by (rule bit_word_eqI, use b1 b2 in \<open>auto simp: bit_take_bit_iff bit_drop_bit_eq\<close>)+
  show "take_bit 1 (drop_bit 12 (e24_word v cc)) = take_bit 1 (drop_bit 23 v)"
    using b3 by (intro bit_word_eqI) (simp only: bit_take_bit_iff bit_drop_bit_eq less_one o_def, blast)
  show "take_bit 4 (drop_bit 8 (e24_word v cc)) = cc"
    by (rule bit_word_eqI, use b4 cb in \<open>auto simp: bit_take_bit_iff bit_drop_bit_eq\<close>)
qed

lemma e24_join:
  fixes v :: u64
  shows "take_bit 15 v OR push_bit 15 (take_bit 8 (drop_bit 15 v)) OR push_bit 23 (take_bit 1 (drop_bit 23 v)) =
    take_bit 24 v"
proof (rule bit_word_eqI)
  fix n :: nat
  assume "n < LENGTH(64)"
  then have *: "possible_bit TYPE(u64) n" by (simp add: possible_bit_def)
  consider "n < 15" | "15 \<le> n \<and> n < 23" | "n = 23" | "23 < n" by linarith
  then show "bit (take_bit 15 v OR push_bit 15 (take_bit 8 (drop_bit 15 v)) OR
      push_bit 23 (take_bit 1 (drop_bit 23 v))) n = bit (take_bit 24 v) n"
    unfolding bit_or_iff bit_push_bit_iff bit_take_bit_iff bit_drop_bit_eq o_def
    using * by cases auto
qed

text \<open>
  A 24-bit extension carries what it was built from: the word holds the low 24 bits of
  the value and the condition, bit 31 marks it as the first half of an extended instruction,
  and the four bytes the assembler emits are that word in big-endian order.
\<close>

lemma e24_round_trip:
  assumes "cc < 16"
  shows "e24_value (e24_word v cc) = take_bit 24 v \<and> e24_cond (e24_word v cc) = cc \<and>
    bit (e24_word v cc) 31 \<and>
    xtc_emit_e24 v cc = map (\<lambda>k. ucast (drop_bit k (e24_word v cc))) [24, 16, 8, 0]"
  unfolding e24_value_def e24_cond_def e24_fields [OF assms] e24_join e24_word_bit [OF assms]
  by (simp add: xtc_emit_e24_def Let_def)

subsection \<open>Branch targets\<close>

lemma br_entry: "op_name (opcodes ! 31) = ''br''" "op_inst_type (opcodes ! 31) = INST_TYPE_IMM8_R"
  "inst_offset_type (opcodes ! 31) = INST_PC_OFFSET"
  by (simp_all add: opcodes_def)

lemma imm8_numeral_bits:
  "bit (0xFF0 :: int) n \<longleftrightarrow> 4 \<le> n \<and> n < 12" "bit (0xFFFFFF00 :: int) n \<longleftrightarrow> 8 \<le> n \<and> n < 32"
proof -
  have e: "(0xFF0 :: int) = push_bit 4 (mask 8)" "(0xFFFFFF00 :: int) = push_bit 8 (mask 24)"
    by (simp_all add: mask_eq_exp_minus_1)
  show "bit (0xFF0 :: int) n \<longleftrightarrow> 4 \<le> n \<and> n < 12" "bit (0xFFFFFF00 :: int) n \<longleftrightarrow> 8 \<le> n \<and> n < 32"
    unfolding e bit_push_bit_iff bit_mask_iff by auto
qed

lemma imm8_field: "get_int_field_imm8 inst = ucast (ucast (drop_bit 4 inst) :: u8)"
  by (rule bit_word_eqI) (auto simp: get_int_field_imm8_def bit_simps imm8_numeral_bits)

lemma sint_byte: "sint (b :: u8) = uint b - (if bit b 7 then 256 else 0)"
proof -
  have "sint b = signed_take_bit 7 (uint b)" by (simp add: sint_uint)
  also have "\<dots> = take_bit 8 (uint b) - 256 * of_bool (bit (uint b) 7)"
    by (simp add: signed_take_bit_eq_take_bit_minus)
  also have "take_bit 8 (uint b) = uint b"
    using uint_lt2p [of b] by (simp add: take_bit_int_eq_self)
  finally show ?thesis by (simp add: bit_uint_iff)
qed

text \<open>Extending the sign of a byte to 32 bits only.\<close>

lemma extend_byte_32:
  fixes b :: u8
  assumes "bit b 7"
  shows "ucast b OR 0xFFFFFF00 = (word_of_int (sint b) + 2 ^ 32 :: u64)"
proof -
  have "ucast b OR 0xFFFFFF00 = (ucast b + 0xFFFFFF00 :: u64)"
    by (rule disjunctive_add [symmetric]) (auto simp: bit_simps imm8_numeral_bits dest: bit_imp_le_length)
  also have "(ucast b :: u64) = word_of_int (uint b)" by simp
  finally show ?thesis using assms by (simp add: sint_byte)
qed

text \<open>
  C21. The target address the disassembler library computes for a branch without a prefix is
  right for a non-negative displacement; for a negative one it is too large by \<open>2 ^ 32\<close> where
  addresses have 64 bits, because the sign is extended to 32 bits only.
\<close>

theorem branch_target:
  assumes "find_op inst = Some (opcodes ! 31)"
  shows "xtc_get_target_address inst False imv pcval r1val =
    (word_of_int (sint (ucast (drop_bit 4 inst) :: u8)) +
       (if bit inst 11 then 2 ^ 32 else 0) + r1val + pcval, True, False)"
proof -
  let ?b = "ucast (drop_bit 4 inst) :: u8"
  have b7: "bit ?b 7 = bit inst 11" by (simp add: bit_simps)
  have "(ucast ?b :: u64) AND 0x80 \<noteq> 0 \<longleftrightarrow> bit (ucast ?b :: u64) 7"
    unfolding bit_iff_and_push_bit_not_eq_0 by simp
  then have "(ucast ?b :: u64) AND 0x80 \<noteq> 0 \<longleftrightarrow> bit ?b 7" by (simp add: bit_simps)
  then have "target_offset inst False imv =
      word_of_int (sint ?b) + (if bit ?b 7 then 2 ^ 32 else 0)"
    by (auto simp: target_offset_def imm8_field Let_def extend_byte_32 sint_byte)
  then show ?thesis
    using assms br_entry by (simp add: xtc_get_target_address_def b7)
qed

theorem branch_target_witness:
  "xtc_get_target_address 0x4FE0 False 0 0x1000 0 = (0x100000FFE, True, False)"
proof -
  have "find_op 0x4FE0 = Some (opcodes ! 31)"
    by (simp add: find_op_def opcodes_def op_matches_def)
  from branch_target [OF this, of 0 "0x1000" 0] show ?thesis by (simp add: bit_numeral_word_iff)
qed

end
