(* ===== verification/Gas_Props.thy ===== *)
theory Gas_Props
  imports Gas_Fix Elf_Props Xtc_Props
begin

text \<open>
  The properties of fixups, from the statement that makes them to the relocation the linker
  reads: instruction operands reach the linker intact, what it then does with them, and what
  the assembler does with the fixups of data directives.
\<close>

subsection \<open>The fixups of a statement\<close>

text \<open>What \<^const>\<open>md_assemble\<close> leaves to the linker.\<close>

definition fix_imm8 :: "fixup \<Rightarrow> u8 list \<Rightarrow> bool" where
  "fix_imm8 f bs \<longleftrightarrow> (\<exists>inst cc. cc < 16 \<and>
     bs = Gas_Xtc.xtc_emit_e24 0 cc @ [INST_BYTE0 inst, INST_BYTE1 inst]) \<and>
     fx_size f = 6 \<and> fx_pcrel f \<and> fx_r_type f \<in> {BFD_RELOC_XTC_E24_I8_PCREL, BFD_RELOC_XTC_E24_I8}"

definition fix_mem :: "fixup \<Rightarrow> u8 list \<Rightarrow> bool" where
  "fix_mem f bs \<longleftrightarrow> (\<exists>inst.
     bs = Gas_Xtc.xtc_emit_e24 0 0 @ [INST_BYTE0 inst OR 0x80, INST_BYTE1 inst, 0x40, 0x00]) \<and>
     fx_size f = 8 \<and> \<not> fx_pcrel f \<and> fx_r_type f = BFD_RELOC_XTC_E24_E8"

definition fix_ok :: "fixup \<Rightarrow> u8 list \<Rightarrow> bool" where
  "fix_ok f bs \<longleftrightarrow> fx_where f = 0 \<and> X_op (fx_exp f) \<in> {O_constant, O_symbol} \<and> (fix_imm8 f bs \<or> fix_mem f bs)"

lemma condition_codes_small: "(n, c) \<in> set condition_codes \<Longrightarrow> c < 16"
  by (auto simp: condition_codes_def)

lemma parse_condition_small: "parse_condition s = Some (c, n) \<Longrightarrow> c < 16"
  by (auto simp: parse_condition_def dest!: find_in intro: condition_codes_small)

lemma ext_turn_small: "ext_turn e s = Some (e', s') \<Longrightarrow> condition e < 16 \<Longrightarrow> condition e' < 16"
  by (auto simp: ext_turn_def split: list.splits if_splits option.splits dest: parse_condition_small)

lemma parse_ext_loop_small: "parse_ext_loop e s = Some e' \<Longrightarrow> condition e < 16 \<Longrightarrow> condition e' < 16"
proof (induction e s rule: parse_ext_loop.induct)
  case (1 e s)
  note IH = 1(1) and prem = 1(2) and small = 1(3)
  from prem obtain e1 s1 where t: "ext_turn e s = Some (e1, s1)"
    by (subst (asm) parse_ext_loop.simps) (auto split: option.splits)
  with prem have "if s1 = [] then e' = e1 else parse_ext_loop e1 s1 = Some e'"
    by (subst (asm) parse_ext_loop.simps) (auto split: if_splits)
  with IH [OF t refl] ext_turn_small [OF t small] show ?case
    by (auto split: if_splits)
qed

lemma parse_extension_small: "parse_extension s = Some e \<Longrightarrow> condition e < 16"
  by (auto simp: parse_extension_def dest: parse_ext_loop_small)

lemma parse_imm_op: "parse_imm ex s lo hi = Inr (e, rest) \<Longrightarrow> X_op e \<in> {O_constant, O_symbol}"
  by (auto simp: parse_imm_def Let_def split: option.splits if_splits prod.splits)

lemma next_imm_op: "next_imm ex s lo hi = Inr (e, rest) \<Longrightarrow> X_op e \<in> {O_constant, O_symbol}"
  by (auto simp: next_imm_def dest: parse_imm_op)

lemma parse_memory_op: "parse_memory ex s = Inr (r, Some e, rest, b) \<Longrightarrow> X_op e \<in> {O_constant, O_symbol}"
  by (auto simp: parse_memory_def Let_def split: list.splits if_splits dest: parse_imm_op)

lemma mem_operands_op:
  "mem_operands ex l s = Inr (r1, r2, Some e, rest, b) \<Longrightarrow> X_op e \<in> {O_constant, O_symbol}"
  by (auto simp: mem_operands_def split: if_splits dest!: parse_memory_op)

lemma asm_mem_fixes:
  "asm_mem ex sp l x ext inst s b = Inr (Done out) \<Longrightarrow> f \<in> set (out_fixes out) \<Longrightarrow> fix_ok f (out_bytes out)"
  by (auto simp: asm_mem_def Let_def bad_out_def fix_ok_def fix_mem_def
      split: if_splits option.splits dest!: mem_operands_op)

lemma asm_imm8_r_fixes:
  assumes "asm_imm8_r ex op ext inst s b = Inr (Done out)" and "f \<in> set (out_fixes out)" and "condition ext < 16"
  shows "fix_ok f (out_bytes out)"
proof -
  have cc: "(if condition ext \<noteq> 0 then condition ext else 0) = condition ext" by simp
  from assms(1,2) obtain e rest reg1 where e: "X_op e \<in> {O_constant, O_symbol}"
    and f: "f = \<lparr>fx_where = 0, fx_size = 6, fx_exp = e, fx_pcrel = True, fx_r_type = i8_reloc op\<rparr>"
    and b: "out_bytes out = Gas_Xtc.xtc_emit_e24 0 (condition ext) @
      [INST_BYTE0 (set_ra reg1 inst), INST_BYTE1 (set_ra reg1 inst)]"
    unfolding asm_imm8_r_def Let_def cc by (fastforce split: if_splits dest!: next_imm_op)
  from e assms(3) show ?thesis
    unfolding f b fix_ok_def fix_imm8_def i8_reloc_def by auto
qed

lemma no_imm8_opcode: "\<forall>op \<in> set opcodes. op_inst_type op \<noteq> INST_TYPE_IMM8"
  by (simp add: opcodes_def)

lemma asm_r1_r2_break: "asm_r1_r2 ex op x ext inst s b \<noteq> Inr (Done out)"
  by (auto simp: asm_r1_r2_def Let_def split: if_splits prod.splits)

lemma asm_operands_fixes:
  assumes "asm_operands ex op x ext s b = Inr (Done out)" and "f \<in> set (out_fixes out)"
    and "condition ext < 16" and "op \<in> set opcodes"
  shows "fix_ok f (out_bytes out)"
proof -
  have "op_inst_type op \<noteq> INST_TYPE_IMM8" using no_imm8_opcode assms(4) by simp
  with assms(1-3) show ?thesis
    unfolding asm_operands_def Let_def
    by (cases "op_inst_type op")
      (auto dest: asm_mem_fixes asm_imm8_r_fixes simp: asm_spr_def asm_r_def asm_r1_r2_break asm_r1_r2_imm_def
        asm_imm_def asm_cop_def Let_def split: if_splits prod.splits)
qed

lemma finish_fixes: "f \<in> set (out_fixes (asm_finish op st)) \<Longrightarrow> st = Done (asm_finish op st)"
  by (cases st) (auto simp: asm_finish_def bad_out_def Let_def split: if_splits)

lemma asm_statement_fixes:
  assumes "rbind (asm_operands ex op x ext s b) (\<lambda>st. Inr (asm_finish op st)) = Inr out"
    and "f \<in> set (out_fixes out)" and "condition ext < 16" and "find_opcode n = Some op"
  shows "fix_ok f (out_bytes out)"
proof -
  from assms(1) obtain st where st: "asm_operands ex op x ext s b = Inr st" "out = asm_finish op st" by auto
  with finish_fixes assms(2) have "st = Done out" by blast
  moreover have "op \<in> set opcodes" using assms(4) find_in [of _ opcodes op] by (auto simp: find_opcode_def)
  ultimately show ?thesis using st(1) assms(2,3) asm_operands_fixes by blast
qed

lemma assembled_fixes:
  assumes "md_assemble ex str = Inr out" and "f \<in> set (out_fixes out)"
  shows "fix_ok f (out_bytes out)"
  using assms unfolding md_assemble_def
  by (auto split: prod.splits if_splits option.splits simp: bad_out_def
      intro: asm_statement_fixes dest: parse_extension_small simp del: rbind_eq_Inr)

subsection \<open>Fixups of instructions\<close>

lemma mark_used_frags [simp]: "frags (mark_used so st) = frags st" "bads (mark_used so st) = bads st"
  by (auto simp: mark_used_def split: option.splits)






subsection \<open>The bytes a relocation is applied to\<close>

lemma nth_middle: "i < length bs \<Longrightarrow> (pre @ bs @ post) ! (length pre + i) = bs ! i"
  by (simp add: nth_append)




subsection \<open>From the statement to the linked instruction\<close>






text \<open>A branch to a symbol, in a section of code with one fragment.\<close>

definition sym_expression :: expr_parser where
  "sym_expression s =
     (\<lparr>X_op = O_symbol, X_add_symbol = Some ''x'', X_op_symbol = None, X_add_number = 0\<rparr>, drop 1 s)"








subsection \<open>A displacement of zero\<close>

lemma relax_loop_step:
  "relax_turn t loc v b buf = Inr (Some (t', v', b', buf')) \<Longrightarrow> relax_loop t loc v b buf = relax_loop t' loc v' b' buf'"
  by (subst relax_loop.simps) simp

lemma relax_mem_zero:
  assumes "bs = Gas_Xtc.xtc_emit_e24 0 0 @ [b0, b1, 0x40, 0x00]"
  shows "xtc_relax_relocation R_XTC_32_E24_E8 0 (length pre) (pre @ bs @ post) =
    Inr (R_XTC_NONE, 6, pre @ bs[4 := 0xDE, 5 := 0xAD] @ post)"
proof -
  let ?p = "length pre" and ?buf = "pre @ bs @ post"
  have len: "length bs = 8" by (simp add: assms Gas_Xtc.xtc_emit_e24_def Let_def)
  have at: "?buf ! (?p + i) = bs ! i" if "i < 8" for i
    using that len by (intro nth_middle) simp
  have ext: "bs ! 6 = 0x40" "bs ! 7 = 0"
    by (simp_all add: assms Gas_Xtc.xtc_emit_e24_def Let_def)
  have idx: "?p + 4 + 2 = ?p + 6" "?p + 4 + 3 = ?p + 7" by simp_all
  have "?buf ! (?p + 4 + 2) = 0x40"
    unfolding idx using at [of 6] ext(1) by (rule trans) simp
  moreover have "?buf ! (?p + 4 + 3) = 0"
    unfolding idx using at [of 7] ext(2) by (rule trans) simp
  moreover have "word16 0x40 0 AND 0x2F00 = 0" by code_simp
  moreover have "?buf[?p + 4 := 0xDE, ?p + 4 + 1 := 0xAD] = pre @ bs[4 := 0xDE, 5 := 0xAD] @ post"
    using len by (simp add: list_update_append)
  moreover have "xtc_fits_imm 0 n" for n by (simp add: xtc_fits_imm_def)
  ultimately have "relax_turn R_XTC_32_E8 ?p 0 4 ?buf =
      Inr (Some (R_XTC_NONE, 0, 6, pre @ bs[4 := 0xDE, 5 := 0xAD] @ post))"
    using turn_e8 [of R_XTC_32_E8 ?p 4 ?buf 0] len by (simp add: moved_value_def add.assoc)
  moreover have "relax_turn R_XTC_32_E24_E8 ?p 0 0 ?buf = Inr (Some (R_XTC_32_E8, 0, 4, ?buf))"
    using turn_e24_e8 [of R_XTC_32_E24_E8 ?p 0 0 ?buf] by (simp add: moved_value_def xtc_fits_imm_def)
  moreover have "relax_turn R_XTC_NONE ?p v b' b'' = Inr None" for v b' b''
    by (simp add: relax_turn_def)
  ultimately show ?thesis
    by (simp add: xtc_relax_relocation_def relax_loop_step relax_loop.simps [of R_XTC_NONE])
qed

text \<open>
  C30. A load or store with a displacement does not survive a displacement of zero: the
  assembler always emits the long form for it, the linker shortens the relocation twice, has
  the instruction word itself deleted with the prefix, and leaves the extension word, which
  as an instruction of its own is a branch.
\<close>

theorem zero_displacement_lost:
  assumes "md_assemble ex str = Inr out" and "f \<in> set (out_fixes out)"
    and "fx_r_type f = BFD_RELOC_XTC_E24_E8"
  shows "code_reloc (fx_r_type f) = Some R_XTC_32_E24_E8 \<and> (\<exists>bs'.
    xtc_relax_relocation R_XTC_32_E24_E8 0 (length pre) (pre @ out_bytes out @ post) =
      Inr (R_XTC_NONE, 6, pre @ bs' @ post) \<and>
    length bs' = length (out_bytes out) \<and> drop 6 bs' = [0x40, 0x00] \<and>
    map_option op_name (find_op 0x4000) = Some ''br'')"
proof -
  have "fix_mem f (out_bytes out)"
    using assembled_fixes [OF assms(1,2)] assms(3) by (auto simp: fix_ok_def fix_imm8_def)
  then obtain b0 b1 where bs: "out_bytes out = Gas_Xtc.xtc_emit_e24 0 0 @ [b0, b1, 0x40, 0x00]"
    by (auto simp: fix_mem_def)
  have "drop 6 ((out_bytes out)[4 := 0xDE, 5 := 0xAD]) = [0x40, 0x00]"
    by (simp add: bs Gas_Xtc.xtc_emit_e24_def Let_def numeral_eq_Suc)
  moreover have "map_option op_name (find_op 0x4000) = Some ''br''"
    by (simp add: find_op_def opcodes_def op_matches_def)
  ultimately show ?thesis
    using relax_mem_zero [OF bs, of pre post] assms(3)
    by (intro conjI exI [of _ "(out_bytes out)[4 := 0xDE, 5 := 0xAD]"]) simp_all
qed

theorem zero_displacement_lost_witness:
  "\<exists>out bs'. md_assemble sym_expression ''ldw.i (r1 x), r2'' = Inr out \<and>
     xtc_relax_relocation R_XTC_32_E24_E8 0 0 (out_bytes out) = Inr (R_XTC_NONE, 6, bs') \<and>
     drop 6 bs' = [0x40, 0x00]"
proof -
  obtain out f where "md_assemble sym_expression ''ldw.i (r1 x), r2'' = Inr out" "f \<in> set (out_fixes out)"
      "fx_r_type f = BFD_RELOC_XTC_E24_E8"
  proof -
    have "case md_assemble sym_expression ''ldw.i (r1 x), r2'' of Inl _ \<Rightarrow> False
      | Inr out \<Rightarrow> map fx_r_type (out_fixes out) = [BFD_RELOC_XTC_E24_E8]"
      by code_simp
    then show ?thesis using that by (auto split: sum.splits)
  qed
  then show ?thesis
    using zero_displacement_lost [where pre = "[]" and post = "[]"] by force
qed

subsection \<open>Fixups of data\<close>

lemma or_bytes_ok: "p + length bs \<le> length buf \<Longrightarrow> \<exists>buf'. or_bytes p bs buf = Inr buf' \<and> length buf' = length buf"
proof (induction bs arbitrary: p buf)
  case (Cons b bs)
  then show ?case using Cons.IH [of "Suc p" "buf[p := buf ! p OR b]"] by auto
qed simp

text \<open>The sizes of the types data directives use.\<close>

definition data_size :: "bfd_reloc \<Rightarrow> nat" where
  "data_size r = (if r = BFD_RELOC_16 then 2 else 4)"

lemma data_apply_bytes:
  assumes "r \<in> {BFD_RELOC_16, BFD_RELOC_32, BFD_RELOC_RVA}" and "p + data_size r \<le> length buf"
  shows "\<exists>buf'. apply_bytes r h v p buf = Inr (buf', 0, False) \<and> length buf' = length buf \<and> (\<not> h \<longrightarrow> buf' = buf)"
proof -
  have "\<exists>buf'. or_bytes p [a, b] buf = Inr buf' \<and> length buf' = length buf" if "p + 2 \<le> length buf" for a b
    using that by (intro or_bytes_ok) simp
  moreover have "\<exists>buf'. or_bytes p [a, b, c, d] buf = Inr buf' \<and> length buf' = length buf"
    if "p + 4 \<le> length buf" for a b c d
    using that by (intro or_bytes_ok) simp
  ultimately show ?thesis
    using assms by (cases h) (auto simp: apply_bytes_def data_size_def simp del: or_bytes.simps)
qed

lemma data_apply:
  assumes "fx_r_type fix \<in> {BFD_RELOC_16, BFD_RELOC_32, BFD_RELOC_RVA}" and "fx_frag fix < length (frags st)"
    and "fx_where fix + data_size (fx_r_type fix) \<le> length (fr_literal (frags st ! fx_frag fix))"
    and "fx_addsy fix = Some a" and "\<not> fix_resolved st fix seg"
  shows "\<exists>buf. md_apply_fix fix n seg st = Inr (fix\<lparr>fx_done := False\<rparr>,
    st\<lparr>frags := (frags st)[fx_frag fix := (frags st ! fx_frag fix)\<lparr>fr_literal := buf\<rparr>]\<rparr>)"
proof -
  obtain buf where "apply_bytes (fx_r_type fix) (S_IS_DEFINED (symtab st a)) (adjusted_val st fix n)
      (fx_where fix) (fr_literal (frags st ! fx_frag fix)) = Inr (buf, 0, False)"
    using data_apply_bytes [OF assms(1,3)] by blast
  with assms(2,4,5) show ?thesis
    by (intro exI [of _ buf]) (auto simp: md_apply_fix_def Let_def)
qed



lemma gen_32:
  assumes "fx_r_type fx = BFD_RELOC_32" and "fx_addsy fx = Some s" and "fx_frag fx < length (frags st)"
    and "howto_table_ok tab"
  shows "\<exists>rel. tc_gen_reloc st tab fx = Inr (full_howto_table, rel) \<and> howto_type (rel_howto rel) = R_XTC_32 \<and>
    \<not> pc_relative (rel_howto rel) \<and> rel_sym rel = s \<and> rel_addend rel = fx_offset fx"
proof -
  obtain h where h: "howto_of R_XTC_32 = Some h" "howto_type h = R_XTC_32" "\<not> pc_relative h"
    by (simp add: howto_of_def howto_raw_defs)
  then show ?thesis
    using lookup_code [OF assms(4), of BFD_RELOC_32 R_XTC_32] assms(1-3)
    by (auto simp: tc_gen_reloc_def gen_code_def)
qed




text \<open>
  The difference between a symbol of another file and a label of the section it stands
  in is a relative quantity, and the assembler marks its fixup so; but the relocation it
  writes is the absolute one, so the linker stores an address instead of a distance.
\<close>

lemma data_difference_absolute:
  assumes "fix_new_exp mk i dot f = Inr (fx, n)" and "X_op (fx_exp f) = O_subtract"
    and "X_add_symbol (fx_exp f) = Some a" and "X_op_symbol (fx_exp f) = Some b"
    and "fx_r_type f = BFD_RELOC_32" and "fx_size f = 4" and "\<not> fx_pcrel f" and "i < length (frags st)"
    and "fx_where f + 4 \<le> length (fr_literal (frags st ! i))" and "howto_table_ok tab"
    and "seg_kind (S_GET_SEGMENT (symtab st a)) = undefined_section"
    and "S_GET_SEGMENT (symtab st b) = seg" and "seg_kind seg = normal_section"
    and "\<not> BSF_GNU_INDIRECT_FUNCTION (symtab st b)"
  shows "\<exists>fx' st' rel. fixup_one vt seg fx st = Inr (fx', st') \<and> fx_pcrel fx' \<and> \<not> fx_done fx' \<and>
    tc_gen_reloc st' tab fx' = Inr (full_howto_table, rel) \<and> rel_sym rel = a \<and>
    howto_type (rel_howto rel) = R_XTC_32 \<and> \<not> pc_relative (rel_howto rel)"
proof -
  have fx: "fx_r_type fx = BFD_RELOC_32" "fx_addsy fx = Some a" "fx_subsy fx = Some b" "\<not> fx_pcrel fx"
    "\<not> fx_done fx" "fx_frag fx = i" "fx_where fx = fx_where f"
    using assms(1-7) by (auto simp: fix_new_exp_def fix_new_internal_def Let_def split: if_splits)
  have ne: "S_GET_SEGMENT (symtab st a) \<noteq> seg" using assms(11,13) by auto
  have forced: "\<not> S_FORCE_RELOC (symtab st b) False"
    using assms(12-14) by (simp add: S_FORCE_RELOC_def bfd_is_com_section_def)
  have undef: "\<not> S_IS_DEFINED (symtab st a)" using assms(11) by (simp add: S_IS_DEFINED_def)
  have pc: "md_pcrel_from_section st g seg = Inr 0" if "fx_addsy g = Some a" for g :: fixS
    using that undef by (simp add: md_pcrel_from_section_def)
  obtain off m where sub: "fixup_sub seg st (fx, fx_offset fx) =
      Inr (fx\<lparr>fx_offset := off, fx_subsy := None, fx_pcrel := True\<rparr>, m)"
    using fx ne forced pc assms(8,12,13) by (auto simp: fixup_sub_def Let_def)
  let ?fx = "fx\<lparr>fx_offset := off, fx_subsy := None, fx_pcrel := True\<rparr>"
  have add: "fixup_add vt seg st (?fx, m) = Inr (?fx, m)"
    using fx ne assms(11) by (simp add: fixup_add_def Let_def)
  have pcrel: "fixup_pcrel seg st (?fx, m) = Inr (?fx, m)"
    using fx pc [of ?fx] by (simp add: fixup_pcrel_def)
  have "\<not> fix_resolved st ?fx seg" using fx undef by (simp add: fix_resolved_def)
  then obtain buf where ap: "md_apply_fix ?fx m seg st = Inr (?fx\<lparr>fx_done := False\<rparr>,
      st\<lparr>frags := (frags st)[i := (frags st ! i)\<lparr>fr_literal := buf\<rparr>]\<rparr>)"
    using data_apply [of ?fx st a seg m] fx assms(8,9) by (auto simp: data_size_def)
  have "?fx\<lparr>fx_done := False\<rparr> = ?fx" using fx(5) by simp
  with sub add pcrel ap fx obtain st' where "fixup_one vt seg fx st = Inr (?fx, st')"
    and "length (frags st') = length (frags st)"
    by (auto simp: fixup_one_def Let_def)
  then show ?thesis
    using gen_32 [of ?fx a st' tab] fx assms(8,10) by auto
qed

subsection \<open>Numbers\<close>

text \<open>A number read back from its bytes, the most significant one first.\<close>

definition chars_number :: "u8 list \<Rightarrow> u64" where
  "chars_number bs = foldl (\<lambda>v b. push_bit 8 v OR ucast b) 0 bs"

lemma chars_bigendian_acc: "chars_bigendian n v buf = chars_bigendian n v [] @ buf"
proof (induction n arbitrary: v buf)
  case (Suc n)
  show ?case
    using Suc.IH [of "drop_bit 8 v" "ucast v # buf"] Suc.IH [of "drop_bit 8 v" "[ucast v]"] by simp
qed simp

lemma chars_bigendian_rev: "chars_bigendian n v [] = rev (chars_littleendian n v)"
  by (induction n arbitrary: v) (simp, subst chars_bigendian.simps, subst chars_bigendian_acc, simp)

lemma chars_number_bigendian: "chars_number (chars_bigendian n v []) = take_bit (8 * n) v"
proof (induction n arbitrary: v)
  case (Suc n)
  have "chars_bigendian (Suc n) v [] = chars_bigendian n (drop_bit 8 v) [] @ [ucast v]"
    by (subst chars_bigendian.simps, subst chars_bigendian_acc) simp
  then have "chars_number (chars_bigendian (Suc n) v []) = push_bit 8 (take_bit (8 * n) (drop_bit 8 v)) OR ucast (ucast v :: u8)"
    using Suc.IH [of "drop_bit 8 v"] by (simp add: chars_number_def)
  also have "\<dots> = take_bit (8 * Suc n) v"
    by (rule bit_word_eqI) (auto simp: bit_simps)
  finally show ?case .
qed (simp add: chars_number_def)

text \<open>
  C33. The bytes of a number of any positive width hold exactly its low bits: read back in the
  byte order of the target they give the number, truncated to the width, and the two byte
  orders are each other's reverse; a width of zero aborts.
\<close>

theorem number_to_chars_round_trip:
  shows "(md_number_to_chars big v n = Inl Abort \<longleftrightarrow> n = 0) \<and>
    (\<forall>bs. md_number_to_chars big v n = Inr bs \<longrightarrow> length bs = n \<and>
       chars_number (if big then bs else rev bs) = take_bit (8 * n) v \<and>
       md_number_to_chars (\<not> big) v n = Inr (rev bs))"
proof -
  have len: "length (chars_littleendian k w) = k" for k w
    by (induction k arbitrary: w) simp_all
  show ?thesis
    using chars_number_bigendian [of n v] len [of n v]
    by (auto simp: md_number_to_chars_def number_to_chars_bigendian_def number_to_chars_littleendian_def
        chars_bigendian_rev)
qed

theorem number_to_chars_round_trip_witness:
  "\<exists>bs. md_number_to_chars True 0x1234 2 = Inr bs \<and> chars_number bs = 0x1234"
proof -
  obtain bs where bs: "md_number_to_chars True 0x1234 2 = Inr bs"
    by (simp add: md_number_to_chars_def number_to_chars_bigendian_def)
  moreover have "take_bit 16 (0x1234 :: u64) = 0x1234" by simp
  ultimately show ?thesis
    using number_to_chars_round_trip [of True "0x1234" 2] by auto
qed

end
