(* ===== verification/Lib_Support.thy ===== *)
theory Lib_Support
  imports Xtc_Prelude
begin

text \<open>
  The helpers of the run-time library: the C strings the rest of it handles, the functions of
  \<^verbatim>\<open>libxtcapp/support.c\<close> and \<^verbatim>\<open>libxtcapp/print.c\<close>, and a table of slots that are
  taken first-fit, as the device, file and stream tables are.  The target is a 32-bit machine.
  A call that waits for the hardware polls a register whose readings are given as a sequence.
\<close>

subsection \<open>Errors and C strings\<close>

text \<open>What the C code leaves undefined: an access outside an object, or an operand it may not have.\<close>

datatype lib_error = LibOutOfBounds | LibNull | LibBadArgument

abbreviation NUL :: char where "NUL \<equiv> CHR 0x00"

text \<open>The string a character array holds; an array without a null is read beyond its end.\<close>

definition c_string :: "char list \<Rightarrow> string" where
  "c_string arr = takeWhile (\<lambda>c. c \<noteq> NUL) arr"

text \<open>A string copied into an array, whose old tail stays.\<close>

definition strcpy :: "char list \<Rightarrow> nat \<Rightarrow> string \<Rightarrow> lib_error + char list" where
  "strcpy arr p s =
     (if p + length s < length arr
      then Inr (take p arr @ s @ NUL # drop (p + length s + 1) arr)
      else Inl LibOutOfBounds)"

definition strcat :: "char list \<Rightarrow> string \<Rightarrow> lib_error + char list" where
  "strcat arr s = strcpy arr (length (c_string arr)) s"

text \<open>At most \<open>n\<close> characters, filled up with nulls; nothing is written beyond them.\<close>

definition strncpy :: "char list \<Rightarrow> string \<Rightarrow> nat \<Rightarrow> lib_error + char list" where
  "strncpy arr s n =
     (if n \<le> length arr
      then Inr (take n s @ replicate (n - length s) NUL @ drop n arr)
      else Inl LibOutOfBounds)"

text \<open>Equality up to \<open>n\<close> characters or the end of one of the strings.\<close>

definition strncmp_eq :: "string \<Rightarrow> string \<Rightarrow> nat \<Rightarrow> bool" where
  "strncmp_eq s t n \<longleftrightarrow> take n s = take n t"

lemma c_string_append [simp]: "NUL \<notin> set s \<Longrightarrow> c_string (s @ NUL # rest) = s"
  by (induction s) (auto simp: c_string_def)

lemma c_string_no_nul: "NUL \<notin> set (c_string arr)"
  by (auto simp: c_string_def dest: set_takeWhileD)

lemma c_string_prefix: "arr = c_string arr @ dropWhile (\<lambda>c. c \<noteq> NUL) arr"
  by (simp add: c_string_def)

lemma strcpy_string: "strcpy arr 0 s = Inr arr' \<Longrightarrow> NUL \<notin> set s \<Longrightarrow> c_string arr' = s \<and> length arr' = length arr"
  by (auto simp: strcpy_def split: if_splits)

lemma strcat_string:
  assumes "strcat arr s = Inr arr'" and "NUL \<notin> set s"
  shows "c_string arr' = c_string arr @ s" and "length arr' = length arr"
proof -
  let ?p = "length (c_string arr)"
  have "take ?p arr = c_string arr"
    by (metis append_eq_conv_conj c_string_prefix)
  moreover have "NUL \<notin> set (c_string arr @ s)" using assms(2) c_string_no_nul by simp
  ultimately show "c_string arr' = c_string arr @ s" "length arr' = length arr"
    using assms(1) c_string_append [of "c_string arr @ s"]
    by (auto simp: strcat_def strcpy_def split: if_splits)
qed

lemma strncpy_string:
  assumes "strncpy arr s n = Inr arr'" and "NUL \<notin> set s" and "length s < n"
  shows "c_string arr' = s" and "length arr' = length arr"
proof -
  obtain k where "n - length s = Suc k" using assms(3) by (metis Suc_diff_Suc)
  with assms show "c_string arr' = s" "length arr' = length arr"
    by (auto simp: strncpy_def split: if_splits)
qed

subsection \<open>support.c\<close>

fun strchr :: "string \<Rightarrow> char \<Rightarrow> string option" where
  "strchr [] c = None"
| "strchr (x # s) c = (if x = c then Some (x # s) else strchr s c)"

lemma strchr_append: "c \<notin> set s \<Longrightarrow> strchr (s @ c # t) c = Some (c # t)"
  by (induction s) auto

lemma strchr_None: "strchr s c = None \<longleftrightarrow> c \<notin> set s"
  by (induction s) auto

lemma strchr_Some: "strchr s c = Some d \<Longrightarrow> \<exists>p. s = p @ d \<and> c \<notin> set p \<and> take 1 d = [c]"
proof (induction s)
  case (Cons x s)
  show ?case
  proof (cases "x = c")
    case False
    with Cons obtain p where "s = p @ d \<and> c \<notin> set p \<and> take 1 d = [c]" by auto
    with False show ?thesis by (intro exI [of _ "x # p"]) auto
  qed (use Cons in auto)
qed simp

text \<open>Multiplication by shifting and adding, for a processor without a multiplier.\<close>

lemma half_less: "a \<noteq> 0 \<Longrightarrow> unat (drop_bit 1 (a :: u32)) < unat a"
  unfolding unat_drop_bit_eq by (simp add: drop_bit_eq_div unat_gt_0)

function mulsi3_loop :: "u32 \<Rightarrow> u32 \<Rightarrow> u32 \<Rightarrow> u32" where
  "mulsi3_loop r a b =
     (if a = 0 then r
      else mulsi3_loop (if a AND 1 \<noteq> 0 then r + b else r) (drop_bit 1 a) (push_bit 1 b))"
  by pat_completeness auto
termination
  by (relation "measure (\<lambda>(r, a, b). unat a)") (auto simp: half_less [unfolded One_nat_def])

declare mulsi3_loop.simps [simp del]

definition mulsi3 :: "u32 \<Rightarrow> u32 \<Rightarrow> u32" where
  "mulsi3 a b = mulsi3_loop 0 a b"

subsection \<open>print.c\<close>

definition hex_char :: "u32 \<Rightarrow> char" where
  "hex_char nibble = char_of (unat (if nibble > 9 then nibble + (65 - 10) else nibble + 48))"

fun printhex_loop :: "nat \<Rightarrow> u32 \<Rightarrow> string" where
  "printhex_loop 0 v = []"
| "printhex_loop (Suc count) v = hex_char (drop_bit 28 v) # printhex_loop count (push_bit 4 v)"

text \<open>The characters sent to the console.\<close>

definition printhex :: "u32 \<Rightarrow> string" where
  "printhex v = printhex_loop 8 v"

subsection \<open>Tables of slots\<close>

text \<open>
  The interface of a fixed table of slots, of which the first one not in use is taken.
\<close>

locale slot_alloc =
  fixes used :: "'s \<Rightarrow> bool" and alloc :: "'s list \<Rightarrow> nat option"
  assumes alloc_first: "alloc tab = first_index (\<lambda>s. \<not> used s) tab"
begin

lemma alloc_full: "alloc tab = None \<longleftrightarrow> (\<forall>s \<in> set tab. used s)"
  unfolding alloc_first by (auto simp: first_index_None)

lemma alloc_slot:
  "alloc tab = Some i \<Longrightarrow> i < length tab \<and> \<not> used (tab ! i) \<and> (\<forall>j < i. used (tab ! j))"
  unfolding alloc_first using first_index_Some by fastforce

text \<open>Giving a slot back and asking again gives the same slot, if none before it was free.\<close>

lemma alloc_again:
  assumes "alloc tab = Some i" and "\<not> used s'"
  shows "alloc (tab[i := s, i := s']) = Some i"
proof -
  have "i < length tab" "\<And>j. j < i \<Longrightarrow> used (tab ! j)" using alloc_slot [OF assms(1)] by auto
  with assms(2) show ?thesis unfolding alloc_first by (intro first_indexI) simp_all
qed

end

text \<open>With keys: a key is looked up in the first slot in use that answers to it.\<close>

locale slot_table = slot_alloc used alloc
  for used :: "'s \<Rightarrow> bool" and alloc :: "'s list \<Rightarrow> nat option" +
  fixes has_key :: "'s \<Rightarrow> 'k \<Rightarrow> bool" and lookup :: "'s list \<Rightarrow> 'k \<Rightarrow> nat option"
  assumes lookup_first: "lookup tab k = first_index (\<lambda>s. used s \<and> has_key s k) tab"
begin

lemma lookup_slot:
  "lookup tab k = Some i \<Longrightarrow> i < length tab \<and> used (tab ! i) \<and> has_key (tab ! i) k"
  unfolding lookup_first using first_index_Some by fastforce

text \<open>What is put in a free slot is found under its key, if that was not there before.\<close>

lemma lookup_put:
  assumes "alloc tab = Some i" and "lookup tab k = None" and "used s" and "has_key s k"
  shows "lookup (tab[i := s]) k = Some i"
proof -
  have i: "i < length tab" using alloc_slot [OF assms(1)] by simp
  have no: "\<not> (used x \<and> has_key x k)" if "x \<in> set tab" for x
    using assms(2) that unfolding lookup_first by (auto simp: first_index_None)
  then have "\<not> (used (tab[i := s] ! j) \<and> has_key (tab[i := s] ! j) k)" if "j < i" for j
    using that i by simp
  with i assms(3,4) show ?thesis
    unfolding lookup_first by (intro first_indexI) simp_all
qed

text \<open>Keys the new slot does not answer to are found where they were.\<close>

lemma lookup_put_other:
  assumes "alloc tab = Some i" and "\<not> has_key s k"
  shows "lookup (tab[i := s]) k = lookup tab k"
proof -
  have "i < length tab" "\<not> used (tab ! i)" using alloc_slot [OF assms(1)] by simp_all
  with assms(2) show ?thesis
    unfolding lookup_first by (intro first_index_update) simp_all
qed

end

subsection \<open>Results of calls\<close>

text \<open>
  A call gives its result, ends in undefined behaviour, or, as \<open>None\<close>, never returns.
\<close>

type_synonym 'a res = "(lib_error + 'a) option"

abbreviation ret :: "'a \<Rightarrow> 'a res" where "ret x \<equiv> Some (Inr x)"
abbreviation undefined_for :: "lib_error \<Rightarrow> 'a res" where "undefined_for e \<equiv> Some (Inl e)"

definition lbind :: "'a res \<Rightarrow> ('a \<Rightarrow> 'b res) \<Rightarrow> 'b res" where
  "lbind m f = (case m of None \<Rightarrow> None | Some (Inl e) \<Rightarrow> Some (Inl e) | Some (Inr x) \<Rightarrow> f x)"

lemma lbind_simps [simp]:
  "lbind None f = None" "lbind (Some (Inl e)) f = Some (Inl e)" "lbind (Some (Inr x)) f = f x"
  by (simp_all add: lbind_def)

lemma lbind_ret [simp]: "lbind m f = Some (Inr y) \<longleftrightarrow> (\<exists>x. m = Some (Inr x) \<and> f x = Some (Inr y))"
  by (auto simp: lbind_def split: option.splits sum.splits)

definition the_slot :: "'a list \<Rightarrow> nat \<Rightarrow> 'a res" where
  "the_slot tab i = Some (arr_get LibOutOfBounds tab i)"

lemma the_slot_in [simp]: "i < length tab \<Longrightarrow> the_slot tab i = ret (tab ! i)"
  by (simp add: the_slot_def)

text \<open>A pointer that is followed.\<close>

definition deref :: "'a option \<Rightarrow> 'a res" where
  "deref p = (case p of None \<Rightarrow> undefined_for LibNull | Some x \<Rightarrow> ret x)"

lemma deref_Some [simp]: "deref (Some x) = ret x" "deref None = undefined_for LibNull"
  by (simp_all add: deref_def)

end
