(* ===== verification/Lib_Dev.thy ===== *)
theory Lib_Dev
  imports Lib_Support
begin

text \<open>
  The device layer of the run-time library: the tables of file backends and of devices of
  \<^verbatim>\<open>libxtcapp/zfdevice.c\<close>, the files in memory of \<^verbatim>\<open>libxtcapp/zfmem.c\<close>, the serial port of
  \<^verbatim>\<open>libxtcapp/serial.c\<close> and the SPI controller of \<^verbatim>\<open>libxtcapp/spi.c\<close>.  The hardware is a
  state of a type of its own, with the reading and writing of its registers as arguments.
\<close>

subsection \<open>Backends and devices\<close>

text \<open>
  The operations of a backend, over the state they act on.  A handle is a number, a null handle
  is \<open>None\<close>; the results of C type \<^verbatim>\<open>int\<close> are words.  An operation may be missing except
  for the first, which is always called.
\<close>

record 'w zfops =
  ops_open :: "string \<Rightarrow> 'w \<Rightarrow> (nat option \<times> 'w) res"
  ops_close :: "(nat \<Rightarrow> 'w \<Rightarrow> 'w res) option"
  ops_read :: "(nat \<Rightarrow> u32 \<Rightarrow> 'w \<Rightarrow> (u32 \<times> u8 list \<times> 'w) res) option"
  ops_write :: "(nat \<Rightarrow> u8 list \<Rightarrow> 'w \<Rightarrow> (u32 \<times> 'w) res) option"
  ops_seek :: "(nat \<Rightarrow> u32 \<Rightarrow> u32 \<Rightarrow> 'w \<Rightarrow> (u32 \<times> 'w) res) option"
  ops_fstat :: "(nat \<Rightarrow> 'w \<Rightarrow> (u32 \<times> u32 option \<times> 'w) res) option"

record 'w zfbackend =
  be_name :: "char list"
  be_ops :: "'w zfops option"

record 'd zfdevops =
  dev_read :: "u32 \<Rightarrow> u32 \<Rightarrow> 'd \<Rightarrow> (u32 \<times> u8 list \<times> 'd) res"
  dev_write :: "u32 \<Rightarrow> u8 list \<Rightarrow> 'd \<Rightarrow> (u32 \<times> 'd) res"

record 'd zfdevice =
  zd_name :: "char list"
  zd_ops :: "'d zfdevops option"
  zd_data :: u32

record memhandle =
  mh_name :: "char list"
  mh_start :: u32
  mh_size :: u32
  mh_pos :: u32

text \<open>What the operations of the backends act on.\<close>

record 'd world =
  devices :: "'d zfdevice list"
  handles :: "memhandle list"
  memory :: "u32 \<Rightarrow> u8"
  hw :: 'd

record 'd lib =
  backends :: "'d world zfbackend list"
  dev_initialized :: bool
  backend_initialized :: bool
  world :: "'d world"

abbreviation (input) ZF_MAX_BACKENDS :: nat where "ZF_MAX_BACKENDS \<equiv> 8"
abbreviation (input) ZF_MAX_DEVICES :: nat where "ZF_MAX_DEVICES \<equiv> 32"
abbreviation (input) MAX_MEM_HANDLES :: nat where "MAX_MEM_HANDLES \<equiv> 2"

text \<open>The static tables are zero at the start.\<close>

definition init_backends :: "'w zfbackend list" where
  "init_backends = replicate ZF_MAX_BACKENDS \<lparr>be_name = replicate 16 NUL, be_ops = None\<rparr>"

definition init_devices :: "'d zfdevice list" where
  "init_devices = replicate ZF_MAX_DEVICES \<lparr>zd_name = replicate 16 NUL, zd_ops = None, zd_data = 0\<rparr>"

definition init_handles :: "memhandle list" where
  "init_handles = replicate MAX_MEM_HANDLES \<lparr>mh_name = replicate 32 NUL, mh_start = 0, mh_size = 0, mh_pos = 0\<rparr>"

definition free_backend :: "'w zfbackend list \<Rightarrow> nat option" where
  "free_backend tab = first_index (\<lambda>b. be_ops b = None) tab"

definition zfRegisterFileBackend :: "string \<Rightarrow> 'd world zfops \<Rightarrow> 'd lib \<Rightarrow> (u32 \<times> 'd lib) res" where
  "zfRegisterFileBackend name ops st =
     (case free_backend (backends st) of
        None \<Rightarrow> ret (- 1, st)
      | Some i \<Rightarrow>
          lbind (Some (strncpy (be_name (backends st ! i)) name 15)) (\<lambda>arr.
            ret (0, st\<lparr>backends := (backends st)[i := \<lparr>be_name = arr, be_ops = Some ops\<rparr>]\<rparr>)))"

definition find_backend :: "'w zfbackend list \<Rightarrow> string \<Rightarrow> nat option" where
  "find_backend tab name =
     first_index (\<lambda>b. be_ops b \<noteq> None \<and> strncmp_eq (c_string (be_name b)) name 15) tab"

definition zfFindBackend :: "'d lib \<Rightarrow> string \<Rightarrow> 'd world zfops option" where
  "zfFindBackend st name =
     (case find_backend (backends st) name of None \<Rightarrow> None | Some i \<Rightarrow> be_ops (backends st ! i))"

definition zfFindDevice :: "'d zfdevice list \<Rightarrow> string \<Rightarrow> nat option" where
  "zfFindDevice tab name =
     first_index (\<lambda>d. zd_ops d \<noteq> None \<and> strncmp_eq (c_string (zd_name d)) name 15) tab"

definition zf_dev_open :: "string \<Rightarrow> 'd world \<Rightarrow> (nat option \<times> 'd world) res" where
  "zf_dev_open path w = ret (zfFindDevice (devices w) path, w)"

definition zf_dev_close :: "nat \<Rightarrow> 'd world \<Rightarrow> 'd world res" where
  "zf_dev_close handle w = ret w"

definition zf_dev_read :: "nat \<Rightarrow> u32 \<Rightarrow> 'd world \<Rightarrow> (u32 \<times> u8 list \<times> 'd world) res" where
  "zf_dev_read handle nbytes w =
     lbind (the_slot (devices w) handle) (\<lambda>dev.
     lbind (deref (zd_ops dev)) (\<lambda>ops.
     lbind (dev_read ops (zd_data dev) nbytes (hw w)) (\<lambda>(r, bs, d). ret (r, bs, w\<lparr>hw := d\<rparr>))))"

definition zf_dev_write :: "nat \<Rightarrow> u8 list \<Rightarrow> 'd world \<Rightarrow> (u32 \<times> 'd world) res" where
  "zf_dev_write handle src w =
     lbind (the_slot (devices w) handle) (\<lambda>dev.
     lbind (deref (zd_ops dev)) (\<lambda>ops.
     lbind (dev_write ops (zd_data dev) src (hw w)) (\<lambda>(r, d). ret (r, w\<lparr>hw := d\<rparr>))))"

definition zf_dev_fstat :: "nat \<Rightarrow> 'd world \<Rightarrow> (u32 \<times> u32 option \<times> 'd world) res" where
  "zf_dev_fstat handle w = ret (- 1, None, w)"

definition zf_dev_seek :: "nat \<Rightarrow> u32 \<Rightarrow> u32 \<Rightarrow> 'd world \<Rightarrow> (u32 \<times> 'd world) res" where
  "zf_dev_seek handle pos whence w = ret (- 1, w)"

definition dev_ops :: "'d world zfops" where
  "dev_ops = \<lparr>ops_open = zf_dev_open, ops_close = Some zf_dev_close, ops_read = Some zf_dev_read,
     ops_write = Some zf_dev_write, ops_seek = Some zf_dev_seek, ops_fstat = Some zf_dev_fstat\<rparr>"

definition zfIntializeDev :: "'d lib \<Rightarrow> (u32 \<times> 'd lib) res" where
  "zfIntializeDev st = zfRegisterFileBackend ''dev'' dev_ops st"

definition free_device :: "'d zfdevice list \<Rightarrow> nat option" where
  "free_device tab = first_index (\<lambda>d. zd_ops d = None) tab"

text \<open>The device itself, once the backend is there.\<close>

definition add_device :: "string \<Rightarrow> 'd zfdevops \<Rightarrow> u32 \<Rightarrow> 'd lib \<Rightarrow> (u32 \<times> 'd lib) res" where
  "add_device name ops data st =
     (case free_device (devices (world st)) of
        None \<Rightarrow> ret (- 1, st)
      | Some i \<Rightarrow>
          lbind (Some (strncpy (zd_name (devices (world st) ! i)) name 16)) (\<lambda>arr.
            ret (0, st\<lparr>world := (world st)\<lparr>devices :=
              (devices (world st))[i := \<lparr>zd_name = arr, zd_ops = Some ops, zd_data = data\<rparr>]\<rparr>\<rparr>)))"

definition zfRegisterDevice :: "string \<Rightarrow> 'd zfdevops \<Rightarrow> u32 \<Rightarrow> 'd lib \<Rightarrow> (u32 \<times> 'd lib) res" where
  "zfRegisterDevice name ops data st =
     (if dev_initialized st then add_device name ops data st
      else lbind (zfIntializeDev st) (\<lambda>(r, st).
             if r \<noteq> 0 then ret (- 1, st)
             else add_device name ops data (st\<lparr>dev_initialized := True\<rparr>)))"

interpretation backend_table: slot_table
  "\<lambda>b. be_ops b \<noteq> None" free_backend "\<lambda>b name. strncmp_eq (c_string (be_name b)) name 15" find_backend
  by unfold_locales (simp_all add: free_backend_def find_backend_def)

interpretation device_table: slot_table
  "\<lambda>d. zd_ops d \<noteq> None" free_device "\<lambda>d name. strncmp_eq (c_string (zd_name d)) name 15" zfFindDevice
  by unfold_locales (simp_all add: free_device_def zfFindDevice_def)

subsection \<open>Files in memory\<close>

abbreviation (input) SEEK_SET :: u32 where "SEEK_SET \<equiv> 0"
abbreviation (input) SEEK_CUR :: u32 where "SEEK_CUR \<equiv> 1"
abbreviation (input) SEEK_END :: u32 where "SEEK_END \<equiv> 2"

definition mem_open :: "string \<Rightarrow> 'd world \<Rightarrow> (nat option \<times> 'd world) res" where
  "mem_open path w =
     ret (first_index (\<lambda>h. mh_start h \<noteq> 0 \<and> path = c_string (mh_name h)) (handles w), w)"

definition mem_close :: "nat \<Rightarrow> 'd world \<Rightarrow> 'd world res" where
  "mem_close handle w = ret w"

text \<open>The comparison wraps around; copying more than is left of the file leaves it.\<close>

definition mem_read :: "nat \<Rightarrow> u32 \<Rightarrow> 'd world \<Rightarrow> (u32 \<times> u8 list \<times> 'd world) res" where
  "mem_read handle nbytes w =
     lbind (the_slot (handles w) handle) (\<lambda>h.
       let readsize = (if mh_pos h + nbytes > mh_size h then mh_size h - mh_pos h else nbytes) in
       if readsize = 0 then ret (readsize, [], w)
       else if unat (mh_size h) < unat (mh_pos h) + unat readsize then undefined_for LibOutOfBounds
       else ret (readsize,
                 map (\<lambda>i. memory w (mh_start h + mh_pos h + of_nat i)) [0..<unat readsize],
                 w\<lparr>handles := (handles w)[handle := h\<lparr>mh_pos := mh_pos h + readsize\<rparr>]\<rparr>))"

definition mem_write :: "nat \<Rightarrow> u8 list \<Rightarrow> 'd world \<Rightarrow> (u32 \<times> 'd world) res" where
  "mem_write handle src w = ret (- 1, w)"

definition mem_fstat :: "nat \<Rightarrow> 'd world \<Rightarrow> (u32 \<times> u32 option \<times> 'd world) res" where
  "mem_fstat handle w = lbind (the_slot (handles w) handle) (\<lambda>h. ret (0, Some (mh_size h), w))"

text \<open>The case for the current position falls through, and the new position is only returned.\<close>

definition mem_newpos :: "memhandle \<Rightarrow> u32 \<Rightarrow> u32 \<Rightarrow> u32 option" where
  "mem_newpos h pos whence =
     (if whence = SEEK_SET then Some pos
      else if whence = SEEK_CUR \<or> whence = SEEK_END then Some (mh_size h + pos)
      else None)"

definition mem_seek :: "nat \<Rightarrow> u32 \<Rightarrow> u32 \<Rightarrow> 'd world \<Rightarrow> (u32 \<times> 'd world) res" where
  "mem_seek handle pos whence w =
     lbind (the_slot (handles w) handle) (\<lambda>h.
     case mem_newpos h pos whence of
       None \<Rightarrow> undefined_for LibBadArgument
     | Some newpos \<Rightarrow>
         let newpos = (if sint newpos < 0 then 0 else newpos);
             newpos = (if newpos > mh_size h then mh_size h else newpos)
         in ret (newpos, w))"

definition mem_ops :: "'d world zfops" where
  "mem_ops = \<lparr>ops_open = mem_open, ops_close = Some mem_close, ops_read = Some mem_read,
     ops_write = Some mem_write, ops_seek = Some mem_seek, ops_fstat = Some mem_fstat\<rparr>"

text \<open>The function returns before it looks for a free handle.\<close>

definition memAddFile :: "string \<Rightarrow> u32 \<Rightarrow> u32 \<Rightarrow> 'd lib \<Rightarrow> (u32 \<times> 'd lib) res" where
  "memAddFile name start nbytes st =
     (if backend_initialized st then ret (0, st)
      else lbind (zfRegisterFileBackend ''mem'' mem_ops st) (\<lambda>(r, st).
             if sint r < 0 then ret (- 1, st) else ret (0, st\<lparr>backend_initialized := True\<rparr>)))"

subsection \<open>The serial port\<close>

text \<open>Reading and writing the registers of a device, by address.\<close>

record 'd bus =
  bus_read :: "u32 \<Rightarrow> 'd \<Rightarrow> u32 \<times> 'd"
  bus_write :: "u32 \<Rightarrow> u32 \<Rightarrow> 'd \<Rightarrow> 'd"

text \<open>The busy flag is polled until it is clear.\<close>

partial_function (option) uart_wait :: "'d bus \<Rightarrow> u32 \<Rightarrow> 'd \<Rightarrow> 'd option" where
  "uart_wait io reg d =
     (case bus_read io (reg + 4) d of (status, d) \<Rightarrow>
        if status AND 2 \<noteq> 0 then uart_wait io reg d else Some d)"

fun uart_send :: "'d bus \<Rightarrow> u32 \<Rightarrow> u8 list \<Rightarrow> 'd \<Rightarrow> 'd option" where
  "uart_send io reg [] d = Some d"
| "uart_send io reg (b # bs) d =
     (case uart_wait io reg d of
        None \<Rightarrow> None
      | Some d \<Rightarrow> uart_send io reg bs (bus_write io reg (ucast b) d))"

text \<open>The value of the data register is returned; nothing is stored in the buffer.\<close>

definition serial_read :: "'d bus \<Rightarrow> u32 \<Rightarrow> u32 \<Rightarrow> 'd \<Rightarrow> (u32 \<times> u8 list \<times> 'd) res" where
  "serial_read io reg nbytes d = (case bus_read io reg d of (v, d) \<Rightarrow> ret (v, [], d))"

definition serial_write :: "'d bus \<Rightarrow> u32 \<Rightarrow> u8 list \<Rightarrow> 'd \<Rightarrow> (u32 \<times> 'd) res" where
  "serial_write io reg src d =
     (case uart_send io reg src d of None \<Rightarrow> None | Some d \<Rightarrow> ret (of_nat (length src), d))"

definition serial_devops :: "'d bus \<Rightarrow> 'd zfdevops" where
  "serial_devops io = \<lparr>dev_read = serial_read io, dev_write = serial_write io\<rparr>"

subsection \<open>The SPI controller\<close>

text \<open>
  \<^verbatim>\<open>libxtcapp/spi.c\<close>: a register of the controller per width of a transfer, whose address
  says how many bytes go out; the answer is read from the same register.
\<close>

definition spi_select :: "'d bus \<Rightarrow> u32 \<Rightarrow> u32 \<Rightarrow> 'd \<Rightarrow> 'd" where
  "spi_select io base val d = bus_write io (base + 4 * 2) val d"

definition spi_transfer :: "'d bus \<Rightarrow> u32 \<Rightarrow> u32 \<Rightarrow> u32 \<Rightarrow> 'd \<Rightarrow> u32 \<times> 'd" where
  "spi_transfer io base width val d =
     (let reg = base + 4 * (4 * (width div 8 - 1) + 1) in bus_read io reg (bus_write io reg val d))"

definition spi_recv8 :: "'d bus \<Rightarrow> u32 \<Rightarrow> 'd \<Rightarrow> u32 \<times> 'd" where
  "spi_recv8 io base d = bus_read io (base + 4) d"

definition spi_send8 :: "'d bus \<Rightarrow> u32 \<Rightarrow> u32 \<Rightarrow> 'd \<Rightarrow> 'd" where
  "spi_send8 io base val d = bus_write io (base + 4) val d"

end
