(* ===== verification/Lib_Posix.thy ===== *)
theory Lib_Posix
  imports Lib_Dev
begin

text \<open>
  The system calls of \<^verbatim>\<open>libxtcapp/zposix.c\<close>: the table of open files over the backends, the
  working directory, the heap limit and the clock.  The size of the table is defined in a
  header that is not part of the sources and is an argument where the table is made.
\<close>

subsection \<open>State\<close>

record 'd filedes =
  fd_ops :: "'d world zfops option"
  fd_data :: nat
  fd_mode :: u32

record 'd posix = "'d lib" +
  fds :: "'d filedes list"
  cwd :: "char list"
  mend :: u32
  brk_initialised :: bool
  posix_initialized :: bool

definition posix_init :: "'d posix \<Rightarrow> 'd posix res" where
  "posix_init st =
     (if posix_initialized st then ret st
      else lbind (Some (strcpy (cwd st) 0 ''/'')) (\<lambda>arr.
             ret (st\<lparr>fds := map (\<lambda>f. f\<lparr>fd_ops := None\<rparr>) (fds st), cwd := arr, posix_initialized := True\<rparr>)))"

subsection \<open>The working directory\<close>

definition getcwd :: "'d posix \<Rightarrow> char list \<Rightarrow> nat \<Rightarrow> lib_error + char list" where
  "getcwd st buf n = strncpy buf (c_string (cwd st)) n"

text \<open>The path is put together in an array of 128 characters.\<close>

definition makefullpath :: "'d posix \<Rightarrow> string \<Rightarrow> char list \<Rightarrow> lib_error + char list" where
  "makefullpath st pathname dest =
     (if take 1 pathname = ''/'' then strcpy dest 0 pathname
      else rbind (getcwd st (replicate 128 NUL) 128) (\<lambda>buf.
           let dir = c_string buf; len = length dir in
           rbind (strcpy dest 0 dir) (\<lambda>dest.
           if len \<noteq> 1
           then rbind (strcpy dest len ''/'') (\<lambda>dest. strcpy dest (len + 1) pathname)
           else strcpy dest len pathname)))"

text \<open>The loop that is to strip slashes starts at the null behind the last character.\<close>

fun strip_loop :: "nat \<Rightarrow> char list \<Rightarrow> char list" where
  "strip_loop 0 arr = arr"
| "strip_loop (Suc n) arr =
     (if arr ! Suc n = CHR ''/'' then strip_loop n (arr[Suc n := NUL]) else arr)"

definition chdir_array :: "char list \<Rightarrow> string \<Rightarrow> lib_error + char list" where
  "chdir_array arr path =
     (if take 1 path = ''/'' then strcpy arr 0 path
      else if length (c_string arr) = 1 then strcat arr path
      else rbind (strcat arr ''/'') (\<lambda>arr. strcat arr path))"

definition chdir :: "string \<Rightarrow> 'd posix \<Rightarrow> (u32 \<times> 'd posix) res" where
  "chdir path st =
     lbind (Some (chdir_array (cwd st) path)) (\<lambda>arr.
       ret (0, st\<lparr>cwd := strip_loop (length (c_string arr)) arr\<rparr>))"

subsection \<open>Files\<close>

definition free_fd :: "'d filedes list \<Rightarrow> nat option" where
  "free_fd tab = first_index (\<lambda>f. fd_ops f = None) tab"

interpretation fd_table: slot_alloc "\<lambda>f. fd_ops f \<noteq> None" free_fd
  by unfold_locales (simp add: free_fd_def)

text \<open>The backend and the rest of a full path; \<open>None\<close> where \<^verbatim>\<open>open\<close> gives up.\<close>

definition split_path :: "string \<Rightarrow> (string \<times> string) option" where
  "split_path path =
     (if take 1 path \<noteq> ''/'' then None
      else let pptr = drop 1 path in
           case strchr pptr (CHR ''/'') of
             None \<Rightarrow> None
           | Some delim \<Rightarrow>
               let n = length pptr - length delim in
               if 15 < n then None else Some (take n pptr, drop 1 delim))"

definition posix_open :: "string option \<Rightarrow> u32 \<Rightarrow> 'd posix \<Rightarrow> (u32 \<times> 'd posix) res" where
  "posix_open pathname flags st =
     (case free_fd (fds st) of
        None \<Rightarrow> ret (- 1, st)
      | Some newfd \<Rightarrow>
          let st = st\<lparr>fds := (fds st)[newfd := (fds st ! newfd)\<lparr>fd_mode := flags\<rparr>]\<rparr> in
          case pathname of
            None \<Rightarrow> ret (- 1, st)
          | Some name \<Rightarrow>
              if name = [] then ret (- 1, st)
              else lbind (Some (makefullpath st name (replicate 128 NUL))) (\<lambda>arr.
              case split_path (c_string arr) of
                None \<Rightarrow> ret (- 1, st)
              | Some (rdevice, rest) \<Rightarrow>
                  (case zfFindBackend (lib.truncate st) rdevice of
                     None \<Rightarrow> ret (- 1, st)
                   | Some ops \<Rightarrow>
                       lbind (ops_open ops rest (world st)) (\<lambda>(handle, w).
                       case handle of
                         None \<Rightarrow> ret (- 1, st\<lparr>world := w\<rparr>)
                       | Some h \<Rightarrow>
                           ret (of_nat newfd, st\<lparr>world := w,
                             fds := (fds st)[newfd := (fds st ! newfd)\<lparr>fd_ops := Some ops, fd_data := h\<rparr>]\<rparr>)))))"

text \<open>The table is indexed with the descriptor as it is.\<close>

definition the_fd :: "'d posix \<Rightarrow> u32 \<Rightarrow> 'd filedes res" where
  "the_fd st fd = (if sint fd < 0 then undefined_for LibOutOfBounds else the_slot (fds st) (unat fd))"

definition posix_close :: "u32 \<Rightarrow> 'd posix \<Rightarrow> (u32 \<times> 'd posix) res" where
  "posix_close fd st =
     lbind (the_fd st fd) (\<lambda>f.
     case fd_ops f of
       None \<Rightarrow> ret (0, st)
     | Some ops \<Rightarrow>
         lbind (case ops_close ops of None \<Rightarrow> ret (world st) | Some close \<Rightarrow> close (fd_data f) (world st)) (\<lambda>w.
           ret (0, st\<lparr>world := w, fds := (fds st)[unat fd := f\<lparr>fd_ops := None\<rparr>]\<rparr>)))"

definition posix_read :: "u32 \<Rightarrow> u32 \<Rightarrow> 'd posix \<Rightarrow> (u32 \<times> u8 list \<times> 'd posix) res" where
  "posix_read fd count st =
     lbind (the_fd st fd) (\<lambda>f.
     case fd_ops f of
       None \<Rightarrow> ret (- 1, [], st)
     | Some ops \<Rightarrow>
         (case ops_read ops of
            None \<Rightarrow> ret (- 1, [], st)
          | Some rd \<Rightarrow>
              lbind (rd (fd_data f) count (world st)) (\<lambda>(r, bs, w). ret (r, bs, st\<lparr>world := w\<rparr>))))"

text \<open>Here too it is the read operation that is tested; a missing one to call would be a null call.\<close>

definition posix_fstat :: "u32 \<Rightarrow> 'd posix \<Rightarrow> (u32 \<times> u32 option \<times> 'd posix) res" where
  "posix_fstat fd st =
     lbind (the_fd st fd) (\<lambda>f.
     case fd_ops f of
       None \<Rightarrow> ret (- 1, None, st)
     | Some ops \<Rightarrow>
         if ops_read ops = None then ret (- 1, None, st)
         else lbind (deref (ops_fstat ops)) (\<lambda>stat.
              lbind (stat (fd_data f) (world st)) (\<lambda>(r, s, w). ret (r, s, st\<lparr>world := w\<rparr>))))"

definition posix_write :: "u32 \<Rightarrow> u8 list \<Rightarrow> 'd posix \<Rightarrow> (u32 \<times> 'd posix) res" where
  "posix_write fd buf st =
     lbind (the_fd st fd) (\<lambda>f.
     case fd_ops f of
       None \<Rightarrow> ret (- 1, st)
     | Some ops \<Rightarrow>
         (case ops_write ops of
            None \<Rightarrow> ret (- 1, st)
          | Some wr \<Rightarrow> lbind (wr (fd_data f) buf (world st)) (\<lambda>(r, w). ret (r, st\<lparr>world := w\<rparr>))))"

definition posix_lseek :: "u32 \<Rightarrow> u32 \<Rightarrow> u32 \<Rightarrow> 'd posix \<Rightarrow> (u32 \<times> 'd posix) res" where
  "posix_lseek fd offset whence st =
     lbind (the_fd st fd) (\<lambda>f.
     case fd_ops f of
       None \<Rightarrow> ret (- 1, st)
     | Some ops \<Rightarrow>
         (case ops_seek ops of
            None \<Rightarrow> ret (- 1, st)
          | Some seek \<Rightarrow> lbind (seek (fd_data f) offset whence (world st)) (\<lambda>(r, w). ret (r, st\<lparr>world := w\<rparr>))))"

text \<open>Messages of the library itself go straight to the first serial port.\<close>

definition debugprint :: "'d bus \<Rightarrow> string \<Rightarrow> 'd \<Rightarrow> 'd option" where
  "debugprint io s d = uart_send io 0x90000000 (map of_char s) d"

subsection \<open>The heap and the clock\<close>

abbreviation (input) PAGESIZE :: u32 where "PAGESIZE \<equiv> 4096"

definition page_up :: "u32 \<Rightarrow> u32" where
  "page_up n = (n + (PAGESIZE - 1)) AND NOT (PAGESIZE - 1)"

definition brk_initialise :: "u32 \<Rightarrow> 'd posix \<Rightarrow> 'd posix" where
  "brk_initialise bss_end st = st\<lparr>mend := page_up bss_end, brk_initialised := True\<rparr>"

definition sbrk :: "u32 \<Rightarrow> u32 \<Rightarrow> 'd posix \<Rightarrow> u32 \<times> 'd posix" where
  "sbrk bss_end increment st =
     (let st = (if brk_initialised st then st else brk_initialise bss_end st)
      in (mend st, st\<lparr>mend := mend st + page_up increment\<rparr>))"

definition gettimeofday :: "u32 \<Rightarrow> u32 \<times> u32" where
  "gettimeofday now = (now div 1000, (now mod 1000) * 1000)"

text \<open>
  The clock is read again and again; \<open>now\<close> is \<^verbatim>\<open>millis\<close>, which gives the time and the
  state after it has been read.
\<close>

partial_function (option) wait_while :: "(u32 \<Rightarrow> bool) \<Rightarrow> ('s \<Rightarrow> u32 \<times> 's) \<Rightarrow> 's \<Rightarrow> 's option" where
  "wait_while P now s = (case now s of (t, s) \<Rightarrow> if P t then wait_while P now s else Some s)"

definition usleep :: "('s \<Rightarrow> u32 \<times> 's) \<Rightarrow> u32 \<Rightarrow> 's \<Rightarrow> 's option" where
  "usleep now usec s =
     (case now s of (start, s) \<Rightarrow>
      let stop = start + usec div 1000 in
      if start > stop then wait_while (\<lambda>t. t > stop) now s
      else wait_while (\<lambda>t. t < stop) now s)"

end
