(* ===== verification/Lib_Stdio.thy ===== *)
theory Lib_Stdio
  imports Lib_Posix
begin

text \<open>
  The standard input and output of \<^verbatim>\<open>libxtcapp/zstdio.c\<close>: formatted output and the table of
  streams over the file descriptors, and the registration of the console in
  \<^verbatim>\<open>libxtcapp/serial.c\<close>.  Messages the library prints about
  itself through \<^verbatim>\<open>printstring\<close> are left out.
\<close>

subsection \<open>Formatted output\<close>

text \<open>A variable argument; taking one of the wrong kind, or one too many, is undefined.\<close>

datatype va_arg = VInt u32 | VStr string

definition digit_char :: "u32 \<Rightarrow> u32 \<Rightarrow> char" where
  "digit_char upper c = char_of (unat (if c < 10 then c + 48 else c + upper - 10))"

definition base_of :: "bool \<Rightarrow> u32" where
  "base_of hex = (if hex then 16 else 10)"

lemma div_base_less: "i div base_of hex \<noteq> 0 \<Longrightarrow> unat (i div base_of hex) < unat i"
  by (cases "i = 0") (auto simp: base_of_def unat_div unat_gt_0 intro!: div_less_dividend)

text \<open>The digits, the last one first; the base is ten or sixteen.\<close>

function utoa_loop :: "bool \<Rightarrow> u32 \<Rightarrow> u32 \<Rightarrow> string \<Rightarrow> string" where
  "utoa_loop hex upper i str =
     (let q = i div base_of hex; str = digit_char upper (i - base_of hex * q) # str in
      if q = 0 then str else utoa_loop hex upper q str)"
  by pat_completeness auto
termination
  by (relation "measure (\<lambda>(hex, upper, i, str). unat i)") (auto simp: div_base_less)

declare utoa_loop.simps [simp del]

text \<open>
  The number is put together from the end of an array of 65 characters, its terminator in the
  byte behind the array; padding it beyond the start of the array leaves it.  A null as
  the padding character ends the copy before the number.
\<close>

definition utoa :: "u32 \<Rightarrow> bool \<Rightarrow> u32 \<Rightarrow> nat \<Rightarrow> char \<Rightarrow> u32 \<Rightarrow> lib_error + string" where
  "utoa i hex sz pad fill upper =
     (if sz = 0 then Inr []
      else let ds = utoa_loop hex upper i []; str = replicate (pad - length ds) fill @ ds in
           if 65 < length str then Inl LibOutOfBounds
           else Inr (take (unat sz) (c_string str)))"

text \<open>What is kept while a format is worked off; \<open>vs_out\<close> is what has been written.\<close>

record vs_state =
  vs_out :: string
  vs_size :: u32
  vs_isformat :: bool
  vs_spec :: string
  vs_fill :: char

fun atoi :: "string \<Rightarrow> nat \<Rightarrow> nat" where
  "atoi [] n = n"
| "atoi (c # cs) n = atoi cs (n * 10 + (of_char c - 48))"

text \<open>The width collected so far goes to an array of four characters and is used up.\<close>

definition vs_number :: "u32 \<Rightarrow> bool \<Rightarrow> u32 \<Rightarrow> vs_state \<Rightarrow> lib_error + vs_state" where
  "vs_number n hex upper s =
     (if 4 \<le> length (vs_spec s) then Inl LibOutOfBounds
      else rbind (utoa n hex (vs_size s) (atoi (vs_spec s) 0) (vs_fill s) upper) (\<lambda>str.
             Inr (s\<lparr>vs_out := vs_out s @ str, vs_size := vs_size s - of_nat (length str),
                    vs_spec := [], vs_isformat := False\<rparr>)))"

definition vs_decimal :: "u32 \<Rightarrow> vs_state \<Rightarrow> lib_error + vs_state" where
  "vs_decimal n s =
     (if sint n < 0
      then vs_number (- n) False 65 (s\<lparr>vs_out := vs_out s @ ''-'', vs_size := vs_size s - 1\<rparr>)
      else vs_number n False 65 s)"

text \<open>
  The size is decremented with every test, also with the one that ends the loop, whether the
  string or the space has run out.
\<close>

definition vs_string :: "string \<Rightarrow> vs_state \<Rightarrow> vs_state" where
  "vs_string st s =
     s\<lparr>vs_out := vs_out s @ take (unat (vs_size s)) st,
       vs_size := vs_size s - of_nat (min (unat (vs_size s)) (length st)) - 1,
       vs_isformat := False\<rparr>"

definition is_dec :: "char \<Rightarrow> bool" where
  "is_dec c \<longleftrightarrow> 48 \<le> (of_char c :: nat) \<and> (of_char c :: nat) \<le> 57"

definition vs_digit :: "char \<Rightarrow> vs_state \<Rightarrow> lib_error + vs_state" where
  "vs_digit c s =
     (if c \<noteq> CHR ''0'' \<or> vs_spec s \<noteq> []
      then if 4 \<le> length (vs_spec s) then Inl LibOutOfBounds else Inr (s\<lparr>vs_spec := vs_spec s @ [c]\<rparr>)
      else Inr (s\<lparr>vs_fill := c\<rparr>))"

text \<open>One turn of the loop takes one character of the format.\<close>

definition vs_convert :: "char \<Rightarrow> va_arg list \<Rightarrow> vs_state \<Rightarrow> lib_error + (va_arg list \<times> vs_state)" where
  "vs_convert c args s =
     (if c \<in> set ''Dd'' then
        (case args of VInt n # args \<Rightarrow> rbind (vs_decimal n s) (\<lambda>s. Inr (args, s)) | _ \<Rightarrow> Inl LibBadArgument)
      else if c \<in> set ''xXUu'' then
        (case args of
           VInt n # args \<Rightarrow>
             rbind (vs_number n (c \<in> set ''xX'') (if c = CHR ''x'' then 97 else 65) s) (\<lambda>s. Inr (args, s))
         | _ \<Rightarrow> Inl LibBadArgument)
      else if c = CHR ''s'' then
        (case args of VStr st # args \<Rightarrow> Inr (args, vs_string st s) | _ \<Rightarrow> Inl LibBadArgument)
      else if c = CHR ''l'' then Inr (args, s)
      else if is_dec c then rbind (vs_digit c s) (\<lambda>s. Inr (args, s))
      else Inr (args, s\<lparr>vs_isformat := False\<rparr>))"

definition vs_char :: "char \<Rightarrow> va_arg list \<Rightarrow> vs_state \<Rightarrow> lib_error + (va_arg list \<times> vs_state)" where
  "vs_char c args s =
     (if vs_isformat s then vs_convert c args s
      else if c = CHR ''%'' then Inr (args, s\<lparr>vs_isformat := True\<rparr>)
      else Inr (args, s\<lparr>vs_fill := CHR '' '', vs_size := vs_size s - 1, vs_out := vs_out s @ [c]\<rparr>))"

fun vs_loop :: "string \<Rightarrow> va_arg list \<Rightarrow> vs_state \<Rightarrow> lib_error + (va_arg list \<times> vs_state)" where
  "vs_loop [] args s = Inr (args, s)"
| "vs_loop (c # fmt) args s =
     (if vs_size s = 0 then Inr (args, s)
      else rbind (vs_char c args s) (\<lambda>(args, s). vs_loop fmt args s))"

definition vs_init :: "u32 \<Rightarrow> vs_state" where
  "vs_init sz = \<lparr>vs_out = [], vs_size = sz - 1, vs_isformat = False, vs_spec = [], vs_fill = NUL\<rparr>"

text \<open>What is written in front of the terminator; its length is the result.\<close>

definition vsnprintf :: "u32 \<Rightarrow> string \<Rightarrow> va_arg list \<Rightarrow> lib_error + string" where
  "vsnprintf sz format args = rbind (vs_loop format args (vs_init sz)) (\<lambda>(args, s). Inr (vs_out s))"

definition sprintf :: "string \<Rightarrow> va_arg list \<Rightarrow> lib_error + string" where
  "sprintf format args = vsnprintf 0x7FFFFFFF format args"

subsection \<open>Streams\<close>

text \<open>A stream is its descriptor, negative when it is free; it is known by its place in the table.\<close>

record 'd stdio = "'d posix" +
  files :: "u32 list"
  stdio_initialized :: bool

definition find_free_file :: "u32 list \<Rightarrow> nat option" where
  "find_free_file tab = first_index (\<lambda>fd. sint fd < 0) tab"

interpretation file_table: slot_alloc "\<lambda>fd. \<not> sint fd < 0" find_free_file
  by unfold_locales (simp add: find_free_file_def)

text \<open>A call of the layer below that leaves the streams alone.\<close>

definition on_posix :: "('d posix \<Rightarrow> ('a \<times> 'd posix) res) \<Rightarrow> 'd stdio \<Rightarrow> ('a \<times> 'd stdio) res" where
  "on_posix f st =
     lbind (f (posix.truncate st)) (\<lambda>(r, p).
       ret (r, posix.extend p \<lparr>files = files st, stdio_initialized = stdio_initialized st\<rparr>))"

definition stdio_init :: "'d stdio \<Rightarrow> 'd stdio res" where
  "stdio_init st =
     (if stdio_initialized st then ret st
      else lbind (on_posix (\<lambda>p. lbind (posix_init p) (\<lambda>p. ret ((), p))) st) (\<lambda>(_, st).
             ret (st\<lparr>files := map (\<lambda>_. - 1) (files st), stdio_initialized := True\<rparr>)))"

text \<open>The mode is not looked at; every stream is opened for reading.\<close>

definition fopen :: "string \<Rightarrow> string \<Rightarrow> 'd stdio \<Rightarrow> (nat option \<times> 'd stdio) res" where
  "fopen path mode st =
     (case find_free_file (files st) of
        None \<Rightarrow> ret (None, st)
      | Some i \<Rightarrow>
          lbind (on_posix (posix_open (Some path) 0) st) (\<lambda>(fd, st).
            if sint fd < 0 then ret (None, st) else ret (Some i, st\<lparr>files := (files st)[i := fd]\<rparr>)))"

definition fdopen :: "u32 \<Rightarrow> 'd stdio \<Rightarrow> nat option \<times> 'd stdio" where
  "fdopen fd st =
     (case find_free_file (files st) of
        None \<Rightarrow> (None, st)
      | Some i \<Rightarrow> (Some i, st\<lparr>files := (files st)[i := fd]\<rparr>))"

text \<open>The results of the writes are added up; a failed one counts as minus one.\<close>

fun fwrite_loop :: "u32 \<Rightarrow> nat \<Rightarrow> nat \<Rightarrow> u8 list \<Rightarrow> u32 \<Rightarrow> 'd stdio \<Rightarrow> (u32 \<times> 'd stdio) res" where
  "fwrite_loop fd sz 0 buf n st = ret (n, st)"
| "fwrite_loop fd sz (Suc nmemb) buf n st =
     (if length buf < sz then undefined_for LibOutOfBounds
      else lbind (on_posix (posix_write fd (take sz buf)) st) (\<lambda>(r, st).
             fwrite_loop fd sz nmemb (drop sz buf) (n + r) st))"

definition fwrite :: "u8 list \<Rightarrow> u32 \<Rightarrow> u32 \<Rightarrow> nat option \<Rightarrow> 'd stdio \<Rightarrow> (u32 \<times> 'd stdio) res" where
  "fwrite buf sz nmemb stream st =
     (case stream of
        None \<Rightarrow> ret (- 1, st)
      | Some i \<Rightarrow>
          lbind (the_slot (files st) i) (\<lambda>fd.
            if sint fd < 0 then ret (- 1, st)
            else fwrite_loop fd (unat sz) (unat nmemb) buf 0 st))"

text \<open>The bytes of a short read are in the buffer all the same.\<close>

fun fread_loop :: "u32 \<Rightarrow> u32 \<Rightarrow> nat \<Rightarrow> u8 list \<Rightarrow> u32 \<Rightarrow> 'd stdio \<Rightarrow> (u32 \<times> u8 list \<times> 'd stdio) res" where
  "fread_loop fd sz 0 got n st = ret (n, got, st)"
| "fread_loop fd sz (Suc nmemb) got n st =
     lbind (on_posix (\<lambda>p. lbind (posix_read fd sz p) (\<lambda>(r, bs, p). ret ((r, bs), p))) st) (\<lambda>((r, bs), st).
       if r \<noteq> sz then ret (n, got @ bs, st) else fread_loop fd sz nmemb (got @ bs) (n + 1) st)"

text \<open>With elements of one byte the result of the read is passed on; as it is unsigned it is never negative.\<close>

definition fread :: "u32 \<Rightarrow> u32 \<Rightarrow> nat option \<Rightarrow> 'd stdio \<Rightarrow> (u32 \<times> u8 list \<times> 'd stdio) res" where
  "fread sz nmemb stream st =
     (case stream of
        None \<Rightarrow> ret (- 1, [], st)
      | Some i \<Rightarrow>
          lbind (the_slot (files st) i) (\<lambda>fd.
            if sint fd < 0 then ret (- 1, [], st)
            else if sz = 1
            then lbind (on_posix (\<lambda>p. lbind (posix_read fd nmemb p) (\<lambda>(r, bs, p). ret ((r, bs), p))) st)
                   (\<lambda>((r, bs), st). ret (r, bs, st))
            else fread_loop fd sz (unat nmemb) [] 0 st))"

definition fclose :: "nat \<Rightarrow> 'd stdio \<Rightarrow> 'd stdio res" where
  "fclose i st =
     lbind (the_slot (files st) i) (\<lambda>fd.
       if fd = - 1 then ret st
       else lbind (on_posix (posix_close fd) st) (\<lambda>(_, st). ret (st\<lparr>files := (files st)[i := - 1]\<rparr>)))"

definition fprintf :: "nat option \<Rightarrow> string \<Rightarrow> va_arg list \<Rightarrow> 'd stdio \<Rightarrow> (u32 \<times> 'd stdio) res" where
  "fprintf stream format args st =
     lbind (Some (vsnprintf 8192 format args)) (\<lambda>out.
     let r = of_nat (length out) :: u32 in
     if 8192 \<le> length out then undefined_for LibOutOfBounds
     else lbind (fwrite (map of_char out) r 1 stream st) (\<lambda>(_, st). ret (r, st)))"

definition printf :: "string \<Rightarrow> va_arg list \<Rightarrow> 'd stdio \<Rightarrow> (u32 \<times> 'd stdio) res" where
  "printf format args st = fprintf (Some 1) format args st"

definition fputs :: "string \<Rightarrow> nat option \<Rightarrow> 'd stdio \<Rightarrow> (u32 \<times> 'd stdio) res" where
  "fputs s stream st = fwrite (map of_char s) (of_nat (length s)) 1 stream st"

text \<open>The character is an \<^verbatim>\<open>int\<close>, whose first byte in memory, the most significant one, is written.\<close>

definition fputc :: "u32 \<Rightarrow> nat option \<Rightarrow> 'd stdio \<Rightarrow> (u32 \<times> 'd stdio) res" where
  "fputc c stream st =
     fwrite (map (\<lambda>k. ucast (drop_bit k c)) [24, 16, 8, 0]) 1 1 stream st"

definition putchar :: "u32 \<Rightarrow> 'd stdio \<Rightarrow> (u32 \<times> 'd stdio) res" where
  "putchar c st = fputc c (Some 1) st"

definition puts :: "string \<Rightarrow> 'd stdio \<Rightarrow> (u32 \<times> 'd stdio) res" where
  "puts s st = fputs s (Some 1) st"

text \<open>The console of this C library: three streams over two descriptors.\<close>

definition zstdio_register_console :: "string \<Rightarrow> 'd stdio \<Rightarrow> 'd stdio res" where
  "zstdio_register_console device st =
     lbind (the_slot (files st) 0) (\<lambda>f0.
     lbind (the_slot (files st) 1) (\<lambda>f1.
     if 0 \<le> sint f0 \<or> 0 \<le> sint f1 then ret st
     else lbind (on_posix (posix_open (Some device) 0) st) (\<lambda>(fd0, st).
          let st = st\<lparr>files := (files st)[0 := fd0]\<rparr> in
          lbind (on_posix (posix_open (Some device) 2) st) (\<lambda>(fd1, st).
          lbind (the_slot (files st) 2) (\<lambda>_. ret (st\<lparr>files := (files st)[2 := fd1, 1 := fd1]\<rparr>))))))"

subsection \<open>The console\<close>

text \<open>Calls of the device layer, and of the hardware itself.\<close>

definition on_lib :: "('d lib \<Rightarrow> ('a \<times> 'd lib) res) \<Rightarrow> 'd posix \<Rightarrow> ('a \<times> 'd posix) res" where
  "on_lib f st = lbind (f (lib.truncate st)) (\<lambda>(r, l). ret (r, lib.extend l (lib.more st)))"

definition on_hw :: "('d \<Rightarrow> 'd option) \<Rightarrow> 'd posix \<Rightarrow> 'd posix res" where
  "on_hw f st =
     (case f (hw (world st)) of None \<Rightarrow> None | Some d \<Rightarrow> ret (st\<lparr>world := (world st)\<lparr>hw := d\<rparr>\<rparr>))"

text \<open>
  Three streams are opened for the console; if one cannot be, the function never returns.  The
  library can be built with either C library's streams, so opening one is an argument here
  that says whether it succeeded.
\<close>

fun stdio_register_console :: "(string \<Rightarrow> string \<Rightarrow> 'd posix \<Rightarrow> (bool \<times> 'd posix) res) \<Rightarrow> string \<Rightarrow>
    string list \<Rightarrow> 'd posix \<Rightarrow> 'd posix res" where
  "stdio_register_console fopen_fn device [] st = ret st"
| "stdio_register_console fopen_fn device (mode # modes) st =
     lbind (fopen_fn device mode st) (\<lambda>(ok, st).
       if ok then stdio_register_console fopen_fn device modes st else None)"

text \<open>A name printed into an array.\<close>

definition sprintf_array :: "nat \<Rightarrow> string \<Rightarrow> va_arg list \<Rightarrow> string res" where
  "sprintf_array cap format args =
     lbind (Some (sprintf format args)) (\<lambda>out. if cap \<le> length out then undefined_for LibOutOfBounds else ret out)"

definition serial_register_device :: "'d bus \<Rightarrow> (string \<Rightarrow> string \<Rightarrow> 'd posix \<Rightarrow> (bool \<times> 'd posix) res) \<Rightarrow>
    string \<Rightarrow> u32 \<Rightarrow> 'd posix \<Rightarrow> (u32 \<times> 'd posix) res" where
  "serial_register_device io fopen_fn name data st =
     lbind (on_lib (zfRegisterDevice name (serial_devops io) data) st) (\<lambda>(r, st).
     if r \<noteq> 0 then ret (r, st)
     else lbind (sprintf_array 32 ''/dev/%s'' [VStr name]) (\<lambda>fname.
          lbind (sprintf_array 64 (''Registered console %s'' @ [CHR 0x0D, CHR 0x0A]) [VStr fname]) (\<lambda>desc.
          lbind (on_hw (uart_send io data (map of_char desc)) st) (\<lambda>st.
          lbind (stdio_register_console fopen_fn fname [''r'', ''w'', ''w''] st) (\<lambda>st.
          lbind (sprintf_array 64 (''STDIO base registered in console %s'' @ [CHR 0x0D, CHR 0x0A]) [VStr fname]) (\<lambda>desc.
          lbind (on_hw (uart_send io data (map of_char desc)) st) (\<lambda>st. ret (r, st))))))))"

end
