(* ===== verification/Lib_Props.thy ===== *)
theory Lib_Props
  imports Lib_Stdio
begin

text \<open>
  The properties of the run-time library: multiplication, opening and writing to devices through
  the system calls, formatted output and its bounds, and waiting.
\<close>

subsection \<open>Multiplication\<close>

lemma mulsi3_loop_eq: "mulsi3_loop r a b = r + a * b"
proof (induction r a b rule: mulsi3_loop.induct)
  case (1 r a b)
  show ?case
  proof (cases "a = 0")
    case True
    then show ?thesis by (simp add: mulsi3_loop.simps)
  next
    case False
    have half: "drop_bit 1 a = a div 2" "push_bit 1 b = 2 * b" "a AND 1 = a mod 2"
      by (simp_all add: drop_bit_eq_div push_bit_eq_mult and_one_eq)
    have "a = 2 * (a div 2) + a mod 2" by (rule mult_div_mod_eq [symmetric])
    then have "a * b = a div 2 * (2 * b) + a mod 2 * b"
      by (metis (no_types) distrib_right mult.assoc mult.commute)
    moreover have "a mod 2 = 0 \<or> a mod 2 = 1" by (cases "even a") (simp_all add: even_iff_mod_2_eq_zero odd_iff_mod_2_eq_one)
    ultimately show ?thesis
      using 1 [OF False] False unfolding mulsi3_loop.simps [of r a b] half by auto
  qed
qed

text \<open>
  C34. The shift-and-add multiplication the compiler calls always ends and is the product
  modulo \<open>2 ^ 32\<close>.
\<close>

theorem mulsi3_correct: "mulsi3 a b = a * b"
  by (simp add: mulsi3_def mulsi3_loop_eq)

subsection \<open>Formatted output stays in its buffer\<close>


lemma unat_minus_nat: "k \<le> unat sz \<Longrightarrow> unat (sz - of_nat k :: u32) = unat sz - k"
proof -
  assume k: "k \<le> unat sz"
  moreover have "unat sz < 2 ^ 32" using unsigned_less [of sz] by simp
  ultimately have "k < 2 ^ 32" by simp
  then have "unat (of_nat k :: u32) = k" by (simp add: unat_of_nat take_bit_nat_eq_self)
  with k show ?thesis by (simp add: unat_sub word_le_nat_alt)
qed










lemma vs_plain:
  assumes "CHR ''%'' \<notin> set fmt" and "\<not> vs_isformat s" and "length fmt \<le> unat (vs_size s)"
  shows "\<exists>s'. vs_loop fmt args s = Inr (args, s') \<and> vs_out s' = vs_out s @ fmt"
  using assms
proof (induction fmt arbitrary: s)
  case (Cons c fmt)
  let ?s = "s\<lparr>vs_fill := CHR '' '', vs_size := vs_size s - 1, vs_out := vs_out s @ [c]\<rparr>"
  have "length fmt \<le> unat (vs_size ?s)" using Cons.prems(3) unat_minus_nat [of 1 "vs_size s"] by simp
  with Cons.prems Cons.IH [of ?s] obtain s' where "vs_loop fmt args ?s = Inr (args, s')" "vs_out s' = vs_out ?s @ fmt"
    by auto
  moreover have "vs_size s \<noteq> 0" using Cons.prems(3) by auto
  ultimately show ?case using Cons.prems(1,2) by (auto simp: vs_char_def)
qed simp

text \<open>
  C36. A string argument that does not fit lifts the limit: what fits of it is written, the size
  wraps around, and the rest of the format is written behind the end of the buffer.
\<close>

theorem vsnprintf_string_overflow:
  assumes "2 \<le> unat sz" and "unat sz - 1 \<le> length st" and "CHR ''%'' \<notin> set rest" and "length rest < 2 ^ 32 - 1"
  shows "vsnprintf sz (''%s'' @ rest) [VStr st] = Inr (take (unat sz - 1) st @ rest) \<and>
    length (take (unat sz - 1) st @ rest) = unat sz - 1 + length rest"
proof -
  have n: "unat (sz - 1) = unat sz - 1" using assms(1) unat_minus_nat [of 1 sz] by simp
  then have ne: "sz - 1 \<noteq> 0" using assms(1) by auto
  let ?s = "vs_string st ((vs_init sz)\<lparr>vs_isformat := True\<rparr>)"
  have "min (unat (sz - 1)) (length st) = unat (sz - 1)" using assms(2) n by simp
  then have "vs_size ?s = - 1"
    by (simp add: vs_string_def vs_init_def)
  then have "length rest \<le> unat (vs_size ?s)"
    using assms(4) by (simp add: unsigned_minus_1_eq_mask mask_eq_exp_minus_1)
  moreover have "\<not> vs_isformat ?s" by (simp add: vs_string_def)
  ultimately obtain s' where "vs_loop rest [] ?s = Inr ([], s')" and "vs_out s' = vs_out ?s @ rest"
    using vs_plain [OF assms(3), of ?s "[]"] by auto
  moreover have "vs_out ?s = take (unat sz - 1) st"
    using n by (simp add: vs_string_def vs_init_def)
  moreover have "vs_loop (''%s'' @ rest) [VStr st] (vs_init sz) = vs_loop rest [] ?s"
    using ne by (simp add: vs_char_def vs_convert_def vs_init_def)
  ultimately show ?thesis
    using assms(2) by (simp add: vsnprintf_def)
qed

theorem vsnprintf_string_overflow_witness:
  "vsnprintf 4 ''%s: not found'' [VStr ''abcdef''] = Inr ''abc: not found''"
  using vsnprintf_string_overflow [of 4 "''abcdef''" "'': not found''"] by simp

subsection \<open>Printing numbers\<close>













subsection \<open>Devices through the system calls\<close>

text \<open>The backend for devices is there exactly when the flag says so.\<close>

definition dev_ready :: "'d lib \<Rightarrow> bool" where
  "dev_ready l \<longleftrightarrow> zfFindBackend l ''dev'' = (if dev_initialized l then Some dev_ops else None)"

lemma find_backend_fields [simp]:
  "zfFindBackend (l\<lparr>dev_initialized := b\<rparr>) name = zfFindBackend l name"
  "zfFindBackend (l\<lparr>world := w\<rparr>) name = zfFindBackend l name"
  by (simp_all add: zfFindBackend_def cong: option.case_cong)

lemma register_backend:
  assumes "zfRegisterFileBackend name ops l = ret (0, l')" and "zfFindBackend l name = None"
    and "NUL \<notin> set name" and "length name < 15"
  shows "zfFindBackend l' name = Some ops" and "world l' = world l"
proof -
  from assms(1) obtain i arr where i: "free_backend (backends l) = Some i"
    and arr: "strncpy (be_name (backends l ! i)) name 15 = Inr arr"
    and l': "l' = l\<lparr>backends := (backends l)[i := \<lparr>be_name = arr, be_ops = Some ops\<rparr>]\<rparr>"
    by (auto simp: zfRegisterFileBackend_def split: option.splits)
  have none: "find_backend (backends l) name = None"
  proof (rule ccontr)
    assume "find_backend (backends l) name \<noteq> None"
    then obtain j where j: "find_backend (backends l) name = Some j" by auto
    with backend_table.lookup_slot [OF j] assms(2) show False by (auto simp: zfFindBackend_def)
  qed
  have "find_backend ((backends l)[i := \<lparr>be_name = arr, be_ops = Some ops\<rparr>]) name = Some i"
    using strncpy_string [OF arr assms(3,4)]
    by (intro backend_table.lookup_put [OF i none]) (simp_all add: strncmp_eq_def)
  moreover have "i < length (backends l)" using backend_table.alloc_slot [OF i] by simp
  ultimately show "zfFindBackend l' name = Some ops" "world l' = world l"
    by (simp_all add: zfFindBackend_def l')
qed

lemma add_device_ok:
  assumes "add_device name ops data l = ret (0, l')" and "zfFindDevice (devices (world l)) name = None"
    and "NUL \<notin> set name" and "length name \<le> 15"
  shows "\<exists>i arr. l' = l\<lparr>world := (world l)\<lparr>devices :=
      (devices (world l))[i := \<lparr>zd_name = arr, zd_ops = Some ops, zd_data = data\<rparr>]\<rparr>\<rparr> \<and>
    i < length (devices (world l)) \<and> zfFindDevice (devices (world l')) name = Some i"
proof -
  from assms(1) obtain i arr where i: "free_device (devices (world l)) = Some i"
    and arr: "strncpy (zd_name (devices (world l) ! i)) name 16 = Inr arr"
    and l': "l' = l\<lparr>world := (world l)\<lparr>devices :=
      (devices (world l))[i := \<lparr>zd_name = arr, zd_ops = Some ops, zd_data = data\<rparr>]\<rparr>\<rparr>"
    by (auto simp: add_device_def split: option.splits)
  have "zfFindDevice (devices (world l')) name = Some i"
    using strncpy_string [OF arr assms(3)] assms(4) unfolding l'
    by (simp, intro device_table.lookup_put [OF i assms(2)]) (simp_all add: strncmp_eq_def)
  with device_table.alloc_slot [OF i] l' show ?thesis by auto
qed

lemma register_device:
  assumes "zfRegisterDevice name ops data l = ret (0, l')" and "dev_ready l"
    and "zfFindDevice (devices (world l)) name = None" and "NUL \<notin> set name" and "length name \<le> 15"
  obtains i where "zfFindBackend l' ''dev'' = Some dev_ops" and "zfFindDevice (devices (world l')) name = Some i"
    and "i < length (devices (world l'))" and "zd_ops (devices (world l') ! i) = Some ops"
    and "zd_data (devices (world l') ! i) = data" and "hw (world l') = hw (world l)"
proof -
  have "\<exists>l1. add_device name ops data l1 = ret (0, l') \<and> world l1 = world l \<and> zfFindBackend l1 ''dev'' = Some dev_ops"
  proof (cases "dev_initialized l")
    case True
    with assms(1,2) show ?thesis by (auto simp: zfRegisterDevice_def dev_ready_def)
  next
    case False
    with assms(1) obtain l0 where l0: "zfIntializeDev l = ret (0, l0)"
      and "add_device name ops data (l0\<lparr>dev_initialized := True\<rparr>) = ret (0, l')"
      by (auto simp: zfRegisterDevice_def split: if_splits)
    moreover have "zfFindBackend l0 ''dev'' = Some dev_ops" "world l0 = world l"
      using register_backend [of "''dev''" dev_ops l l0] l0 assms(2) False
      by (simp_all add: zfIntializeDev_def dev_ready_def)
    ultimately show ?thesis
      by (intro exI [of _ "l0\<lparr>dev_initialized := True\<rparr>"]) simp
  qed
  then obtain l1 where l1: "add_device name ops data l1 = ret (0, l')" "world l1 = world l"
    "zfFindBackend l1 ''dev'' = Some dev_ops" by blast
  with add_device_ok [OF l1(1)] assms(3-5) show ?thesis
    by (auto intro!: that)
qed

lemma split_dev: "split_path (''/dev/'' @ rest) = Some (''dev'', rest)"
  by (simp add: split_path_def Let_def)

lemma full_path_absolute:
  assumes "take 1 path = ''/''" and "NUL \<notin> set path" and "length path < 128"
  shows "\<exists>arr. makefullpath st path (replicate 128 NUL) = Inr arr \<and> c_string arr = path"
proof -
  obtain arr where "strcpy (replicate 128 NUL) 0 path = Inr arr"
    using assms(3) by (simp add: strcpy_def)
  with assms(1,2) strcpy_string show ?thesis by (auto simp: makefullpath_def)
qed

lemma fd_word: "fd < 2 ^ 31 \<Longrightarrow> unat (of_nat fd :: u32) = fd \<and> \<not> sint (of_nat fd :: u32) < 0"
proof -
  assume fd: "fd < 2 ^ 31"
  then have "unat (of_nat fd :: u32) = fd" by (simp add: unat_of_nat take_bit_nat_eq_self)
  moreover have "sint (of_nat fd :: u32) = int fd"
    using fd by (simp add: signed_of_nat signed_take_bit_int_eq_self)
  ultimately show ?thesis by simp
qed

lemma makefullpath_fds [simp]: "makefullpath (st\<lparr>fds := x\<rparr>) path dest = makefullpath st path dest"
  by (simp add: makefullpath_def getcwd_def)

text \<open>Opening a path that comes to lie under \<open>/dev\<close> asks the device backend for the rest of it.\<close>

lemma open_dev:
  assumes "free_fd (fds st) = Some fd" and "path \<noteq> []" and "makefullpath st path (replicate 128 NUL) = Inr arr"
    and "split_path (c_string arr) = Some (''dev'', rest)" and "zfFindBackend (lib.truncate st) ''dev'' = Some dev_ops"
  shows "posix_open (Some path) flags st =
    (case zfFindDevice (devices (world st)) rest of
       None \<Rightarrow> ret (- 1, st\<lparr>fds := (fds st)[fd := (fds st ! fd)\<lparr>fd_mode := flags\<rparr>]\<rparr>)
     | Some h \<Rightarrow> ret (of_nat fd, st\<lparr>fds := (fds st)[fd :=
         (fds st ! fd)\<lparr>fd_mode := flags, fd_ops := Some dev_ops, fd_data := h\<rparr>]\<rparr>))"
proof -
  have "fd < length (fds st)" using fd_table.alloc_slot [OF assms(1)] by simp
  moreover have "lib.truncate (st\<lparr>fds := x\<rparr>) = lib.truncate st" for x
    by (simp add: lib.truncate_def)
  moreover have "ops_open dev_ops rest w = ret (zfFindDevice (devices w) rest, w)" for w :: "'a world"
    by (simp add: dev_ops_def zf_dev_open_def)
  ultimately show ?thesis
    using assms by (simp add: posix_open_def Let_def split: option.splits)
qed

text \<open>
  C38. A device that has been registered can be opened and written through the system calls:
  the call returns the lowest free descriptor, no other descriptor changes, and every write to
  it does to the hardware exactly what the device's own write operation does, and returns
  what that returns.
\<close>

theorem device_open_write:
  assumes "zfRegisterDevice name ops data (lib.truncate st) = ret (0, l)" and "dev_ready (lib.truncate st)"
    and "zfFindDevice (devices (world st)) name = None" and "NUL \<notin> set name" and "length name \<le> 15"
    and "free_fd (fds st) = Some fd" and "length (fds st) < 2 ^ 31"
  shows "\<exists>st'. posix_open (Some (''/dev/'' @ name)) flags (lib.extend l (lib.more st)) = ret (of_nat fd, st') \<and>
    fd_ops (fds st ! fd) = None \<and> (\<forall>j < fd. fd_ops (fds st ! j) \<noteq> None) \<and>
    (\<forall>j. j \<noteq> fd \<longrightarrow> fds st' ! j = fds st ! j) \<and> hw (world st') = hw (world st) \<and>
    (\<forall>bs. posix_write (of_nat fd) bs st' =
       lbind (dev_write ops data bs (hw (world st))) (\<lambda>(r, d).
         ret (r, st'\<lparr>world := (world st')\<lparr>hw := d\<rparr>\<rparr>)))"
proof -
  let ?st = "lib.extend l (lib.more st)" and ?path = "''/dev/'' @ name"
  have world: "world (lib.truncate st) = world st" by (simp add: lib.truncate_def)
  obtain i where dev: "zfFindBackend l ''dev'' = Some dev_ops" "zfFindDevice (devices (world l)) name = Some i"
    "i < length (devices (world l))" "zd_ops (devices (world l) ! i) = Some ops"
    "zd_data (devices (world l) ! i) = data" "hw (world l) = hw (world st)"
    using register_device [OF assms(1,2)] assms(3-5) world by metis
  have fields: "lib.truncate ?st = l" "fds ?st = fds st" "world ?st = world l"
    by (cases l, cases st, simp add: lib.defs)+
  obtain arr where arr: "makefullpath ?st ?path (replicate 128 NUL) = Inr arr" "c_string arr = ?path"
    using full_path_absolute [of ?path ?st] assms(4,5) by auto
  let ?f = "(fds st ! fd)\<lparr>fd_mode := flags, fd_ops := Some dev_ops, fd_data := i\<rparr>"
  let ?st' = "?st\<lparr>fds := (fds st)[fd := ?f]\<rparr>"
  have opened: "posix_open (Some ?path) flags ?st = ret (of_nat fd, ?st')"
    using open_dev [of ?st fd ?path arr name flags] assms(6) fields arr dev(1,2) split_dev [of name] by simp
  have fd: "fd < length (fds st)" "fd_ops (fds st ! fd) = None" "\<forall>j < fd. fd_ops (fds st ! j) \<noteq> None"
    using fd_table.alloc_slot [OF assms(6)] by auto
  have w: "unat (of_nat fd :: u32) = fd" "\<not> sint (of_nat fd :: u32) < 0"
    using fd_word [of fd] fd(1) assms(7) by auto
  have "posix_write (of_nat fd) bs ?st' = lbind (dev_write ops data bs (hw (world st))) (\<lambda>(r, d).
      ret (r, ?st'\<lparr>world := (world ?st')\<lparr>hw := d\<rparr>\<rparr>))" for bs
    using dev fd(1) w fields
    by (simp add: posix_write_def the_fd_def dev_ops_def zf_dev_write_def lbind_def split: option.splits sum.splits)
  then show ?thesis
    using opened fd dev(6) fields by (intro exI [of _ ?st']) simp
qed

text \<open>A fresh library whose only device keeps what is written to it.\<close>

definition log_ops :: "u8 list zfdevops" where
  "log_ops = \<lparr>dev_read = (\<lambda>data n d. ret (0, [], d)),
     dev_write = (\<lambda>data bs d. ret (of_nat (length bs), d @ bs))\<rparr>"

definition fresh :: "u8 list posix" where
  "fresh = \<lparr>backends = init_backends, dev_initialized = False, backend_initialized = False,
     world = \<lparr>devices = init_devices, handles = init_handles, memory = (\<lambda>_. 0), hw = []\<rparr>,
     fds = replicate 3 \<lparr>fd_ops = None, fd_data = 0, fd_mode = 0\<rparr>, cwd = ''/'' @ replicate 127 NUL,
     mend = 0, brk_initialised = False, posix_initialized = True\<rparr>"

lemma fresh_ready: "dev_ready (lib.truncate fresh)" "zfFindDevice (devices (world fresh)) name = None"
  "free_fd (fds fresh) = Some 0"
proof -
  have "find_backend (init_backends :: u8 list world zfbackend list) n = None" for n
    unfolding find_backend_def first_index_None by (simp add: init_backends_def)
  then show "dev_ready (lib.truncate fresh)"
    by (simp add: dev_ready_def fresh_def lib.truncate_def zfFindBackend_def)
  show "zfFindDevice (devices (world fresh)) name = None"
    unfolding zfFindDevice_def first_index_None by (simp add: fresh_def init_devices_def)
  show "free_fd (fds fresh) = Some 0"
    by (simp add: free_fd_def fresh_def numeral_eq_Suc)
qed

lemma fresh_register: "\<exists>l. zfRegisterDevice ''serial0'' log_ops 0 (lib.truncate fresh) = ret (0, l)"
proof -
  have "\<exists>l. zfRegisterFileBackend ''dev'' dev_ops (lib.truncate fresh) = ret (0, l) \<and> world l = world fresh"
    by (simp add: zfRegisterFileBackend_def free_backend_def fresh_def lib.truncate_def init_backends_def strncpy_def
        numeral_eq_Suc)
  then obtain l where "zfRegisterFileBackend ''dev'' dev_ops (lib.truncate fresh) = ret (0, l)" "world l = world fresh"
    by blast
  moreover have "free_device (devices (world fresh)) = Some 0"
    by (simp add: free_device_def fresh_def init_devices_def numeral_eq_Suc)
  moreover have "length (zd_name (devices (world fresh) ! 0)) = 16"
    by (simp add: fresh_def init_devices_def)
  moreover have "\<not> dev_initialized (lib.truncate fresh)" by (simp add: fresh_def lib.truncate_def)
  ultimately show ?thesis
    by (simp add: zfRegisterDevice_def zfIntializeDev_def add_device_def strncpy_def)
qed

lemma fresh_device:
  assumes "zfRegisterDevice ''serial0'' log_ops 0 (lib.truncate fresh) = ret (0, l)"
  shows "zfFindBackend l ''dev'' = Some dev_ops" and "\<exists>i. zfFindDevice (devices (world l)) ''serial0'' = Some i"
    and "zfFindDevice (devices (world l)) ''/serial0'' = None"
proof -
  have w: "world (lib.truncate fresh) = world fresh" by (simp add: lib.truncate_def)
  from register_device [OF assms fresh_ready(1)] fresh_ready(2) w show
    "zfFindBackend l ''dev'' = Some dev_ops" "\<exists>i. zfFindDevice (devices (world l)) ''serial0'' = Some i"
    by auto
  from assms obtain l1 where "add_device ''serial0'' log_ops 0 l1 = ret (0, l)" "world l1 = world fresh"
    by (auto simp: zfRegisterDevice_def zfIntializeDev_def zfRegisterFileBackend_def w split: if_splits option.splits)
  then obtain i arr where i: "free_device (devices (world fresh)) = Some i"
    and "strncpy (zd_name (devices (world fresh) ! i)) ''serial0'' 16 = Inr arr"
    and l: "devices (world l) = (devices (world fresh))[i := \<lparr>zd_name = arr, zd_ops = Some log_ops, zd_data = 0\<rparr>]"
    by (auto simp: add_device_def split: option.splits)
  then have "c_string arr = ''serial0''" using strncpy_string(1) by fastforce
  then show "zfFindDevice (devices (world l)) ''/serial0'' = None"
    unfolding l by (subst device_table.lookup_put_other [OF i]) (simp_all add: fresh_ready strncmp_eq_def)
qed

theorem device_open_write_witness:
  "\<exists>l st' st''. zfRegisterDevice ''serial0'' log_ops 0 (lib.truncate fresh) = ret (0, l) \<and>
     posix_open (Some ''/dev/serial0'') 0 (lib.extend l (lib.more fresh)) = ret (0, st') \<and>
     posix_write 0 [72, 105] st' = ret (2, st'') \<and> hw (world st'') = [72, 105]"
proof -
  obtain l where l: "zfRegisterDevice ''serial0'' log_ops 0 (lib.truncate fresh) = ret (0, l)"
    using fresh_register by blast
  have "length (fds fresh) < 2 ^ 31" "hw (world fresh) = []" by (simp_all add: fresh_def)
  with device_open_write [OF l fresh_ready(1,2) _ _ fresh_ready(3), of 0] l show ?thesis
    by (auto simp: log_ops_def)
qed

subsection \<open>The working directory\<close>

text \<open>The loop that should strip a slash never runs: it looks at the null behind the string.\<close>

lemma strip_loop_idle:
  assumes "length (c_string arr) < length arr"
  shows "strip_loop (length (c_string arr)) arr = arr"
proof (cases "length (c_string arr)")
  case (Suc n)
  have "arr ! length (c_string arr) = NUL"
    using nth_length_takeWhile [of "\<lambda>c. c \<noteq> NUL" arr] assms by (simp add: c_string_def)
  then show ?thesis by (simp add: Suc)
qed simp

lemma chdir_absolute:
  assumes "take 1 path = ''/''" and "NUL \<notin> set path" and "length path < length (cwd st)"
  shows "\<exists>arr. chdir path st = ret (0, st\<lparr>cwd := arr\<rparr>) \<and> c_string arr = path \<and> length arr = length (cwd st)"
proof -
  obtain arr where arr: "strcpy (cwd st) 0 path = Inr arr" using assms(3) by (simp add: strcpy_def)
  with strcpy_string [OF arr assms(2)] strip_loop_idle [of arr] assms show ?thesis
    by (intro exI [of _ arr]) (simp add: chdir_def chdir_array_def)
qed

lemma full_path_relative:
  assumes "length (cwd st) = 128" and "take 1 dir = ''/''" and "NUL \<notin> set dir" and "length dir \<noteq> 1"
    and "take 1 name \<noteq> ''/''" and "NUL \<notin> set name" and "length dir + length name < 127"
  shows "\<exists>st1 full. chdir dir st = ret (0, st1) \<and> c_string (cwd st1) = dir \<and> fds st1 = fds st \<and> world st1 = world st \<and>
    lib.truncate st1 = lib.truncate st \<and> makefullpath st1 name (replicate 128 NUL) = Inr full \<and>
    c_string full = dir @ ''/'' @ name"
proof -
  obtain arr where arr: "chdir dir st = ret (0, st\<lparr>cwd := arr\<rparr>)" "c_string arr = dir" "length arr = 128"
    using chdir_absolute [of dir st] assms by auto
  have "c_string (dir @ replicate (128 - length dir) NUL) = dir"
    using assms(3,7) by (cases "128 - length dir") auto
  moreover have "getcwd (st\<lparr>cwd := arr\<rparr>) (replicate 128 NUL) 128 = Inr (dir @ replicate (128 - length dir) NUL)"
    using arr(2) assms(7) by (simp add: getcwd_def strncpy_def)
  ultimately have "makefullpath (st\<lparr>cwd := arr\<rparr>) name (replicate 128 NUL) =
      Inr (dir @ ''/'' @ name @ NUL # replicate (126 - length dir - length name) NUL)"
    using assms(4,5,7) by (simp add: makefullpath_def strcpy_def Let_def)
  moreover have "c_string (dir @ ''/'' @ name @ NUL # x) = dir @ ''/'' @ name" for x
    using c_string_append [of "dir @ ''/'' @ name" x] assms(3,6) by simp
  ultimately show ?thesis
    using arr by (intro exI [of _ "st\<lparr>cwd := arr\<rparr>"]) (simp add: lib.truncate_def)
qed

text \<open>
  Changing to a directory named with a slash at the end keeps the slash, contrary to the
  comment, so relative paths get two: after changing to \<open>/dev/\<close> no device can be opened by its
  name, while after changing to \<open>/dev\<close> every registered one can.
\<close>

lemma chdir_slash:
  assumes "length (cwd st) = 128" and "NUL \<notin> set name" and "name \<noteq> []" and "take 1 name \<noteq> ''/''"
    and "length name \<le> 15" and "zfFindBackend (lib.truncate st) ''dev'' = Some dev_ops"
    and "free_fd (fds st) = Some fd"
    and "zfFindDevice (devices (world st)) name = Some i" and "zfFindDevice (devices (world st)) (CHR ''/'' # name) = None"
  shows "(\<exists>st1 st2. chdir ''/dev/'' st = ret (0, st1) \<and> c_string (cwd st1) = ''/dev/'' \<and>
      posix_open (Some name) flags st1 = ret (- 1, st2)) \<and>
    (\<exists>st1 st2. chdir ''/dev'' st = ret (0, st1) \<and> posix_open (Some name) flags st1 = ret (of_nat fd, st2))"
proof -
  have opens: "\<exists>st1 full. chdir dir st = ret (0, st1) \<and> c_string (cwd st1) = dir \<and> fds st1 = fds st \<and> world st1 = world st \<and>
      lib.truncate st1 = lib.truncate st \<and> makefullpath st1 name (replicate 128 NUL) = Inr full \<and>
      c_string full = dir @ ''/'' @ name"
    if "dir \<in> {''/dev'', ''/dev/''}" for dir
    using full_path_relative [of st dir name] that assms(1-5) by auto
  have via: "\<exists>st1. chdir dir st = ret (0, st1) \<and> c_string (cwd st1) = dir \<and>
      posix_open (Some name) flags st1 =
        (case zfFindDevice (devices (world st)) rest of
           None \<Rightarrow> ret (- 1, st1\<lparr>fds := (fds st)[fd := (fds st ! fd)\<lparr>fd_mode := flags\<rparr>]\<rparr>)
         | Some h \<Rightarrow> ret (of_nat fd, st1\<lparr>fds := (fds st)[fd :=
             (fds st ! fd)\<lparr>fd_mode := flags, fd_ops := Some dev_ops, fd_data := h\<rparr>]\<rparr>))"
    if dir: "dir \<in> {''/dev'', ''/dev/''}" and rest: "split_path (dir @ ''/'' @ name) = Some (''dev'', rest)" for dir rest
  proof -
    obtain st1 full where st1: "chdir dir st = ret (0, st1)" "c_string (cwd st1) = dir" "fds st1 = fds st"
      "world st1 = world st" "lib.truncate st1 = lib.truncate st"
      and full: "makefullpath st1 name (replicate 128 NUL) = Inr full" "c_string full = dir @ ''/'' @ name"
      using opens [OF dir] by blast
    show ?thesis
      using open_dev [of st1 fd name full rest flags] st1 full assms(3,6,7) rest
      by (intro exI [of _ st1]) (simp cong: option.case_cong)
  qed
  from via [of "''/dev/''" "CHR ''/'' # name"] via [of "''/dev''" name] show ?thesis
    using assms(8,9) split_dev [of name] split_dev [of "CHR ''/'' # name"] by force
qed

subsection \<open>Waiting\<close>

text \<open>A clock that is read often enough to be seen at every value, and does not stop.\<close>

definition ticking :: "(nat \<Rightarrow> u32) \<Rightarrow> bool" where
  "ticking clock \<longleftrightarrow> (\<forall>k. clock (Suc k) = clock k \<or> clock (Suc k) = clock k + 1) \<and>
     (\<forall>k. \<exists>j > k. clock j \<noteq> clock k)"

lemma next_tick:
  assumes "ticking clock"
  shows "\<exists>j > k. clock j = clock k + 1"
proof -
  let ?P = "\<lambda>j. k < j \<and> clock j \<noteq> clock k"
  have "\<exists>j. ?P j" using assms by (auto simp: ticking_def)
  then have first: "?P (LEAST j. ?P j)" by (rule LeastI_ex)
  then obtain m where m: "(LEAST j. ?P j) = Suc m" using less_imp_Suc_add by blast
  have "\<not> ?P m" using not_less_Least [of m ?P] m by simp
  with first m have "clock m = clock k" by (cases "m = k") auto
  with first m assms show ?thesis by (metis ticking_def)
qed

lemma unat_step: "t \<noteq> c \<Longrightarrow> unat (t - (c + 1)) < unat (t - c :: u32)"
proof -
  assume "t \<noteq> c"
  then have "1 \<le> unat (t - c)" by (simp add: Suc_le_eq unat_gt_0)
  then show ?thesis using unat_minus_nat [of 1 "t - c"] by (simp add: algebra_simps)
qed

lemma clock_reaches: "ticking clock \<Longrightarrow> \<exists>j \<ge> k. clock j = t"
proof (induction "unat (t - clock k)" arbitrary: k rule: less_induct)
  case less
  show ?case
  proof (cases "clock k = t")
    case False
    obtain j where j: "k < j" "clock j = clock k + 1" using next_tick [OF less.prems] by blast
    then have "unat (t - clock j) < unat (t - clock k)" using unat_step [of t "clock k"] False by simp
    from less.hyps [OF this less.prems] obtain i where "j \<le> i" "clock i = t" by blast
    with j(1) show ?thesis by (intro exI [of _ i]) simp
  qed auto
qed

text \<open>A clock whose \<open>k\<close>-th reading is \<open>clock k\<close>; the state is the number of the next reading.\<close>

definition polls :: "(nat \<Rightarrow> u32) \<Rightarrow> nat \<Rightarrow> u32 \<times> nat" where
  "polls clock k = (clock k, Suc k)"

lemma case_polls [simp]: "(case polls clock k of (t, s) \<Rightarrow> f t s) = f (clock k) (Suc k)"
  by (simp add: polls_def)

lemma wait_while_first:
  assumes "\<not> P (clock n)" and "j \<le> n"
  shows "\<exists>m \<ge> j. wait_while P (polls clock) j = Some (Suc m) \<and> \<not> P (clock m) \<and> (\<forall>i. j \<le> i \<and> i < m \<longrightarrow> P (clock i))"
  using assms(2)
proof (induction rule: inc_induct)
  case base
  then show ?case using assms(1) by (intro exI [of _ n]) (auto simp: wait_while.simps [of P "polls clock" n])
next
  case (step j)
  show ?case
  proof (cases "P (clock j)")
    case True
    with step obtain m where m: "m \<ge> Suc j" "wait_while P (polls clock) (Suc j) = Some (Suc m)" "\<not> P (clock m)"
      "\<forall>i. Suc j \<le> i \<and> i < m \<longrightarrow> P (clock i)" by blast
    have "P (clock i)" if "j \<le> i" "i < m" for i
      using m(4) True that by (cases "i = j") auto
    with True m show ?thesis
      by (intro exI [of _ m]) (auto simp: wait_while.simps [of P "polls clock" j])
  next
    case False
    then show ?thesis by (intro exI [of _ j]) (auto simp: wait_while.simps [of P "polls clock" j])
  qed
qed

lemma wraps_to_zero: "x + 1 \<le> s \<Longrightarrow> s < (x :: u32) \<Longrightarrow> x + 1 = 0"
  using unatSuc [of x] by (auto simp: add.commute word_le_nat_alt word_less_nat_alt)

text \<open>
  C40. With a clock that keeps ticking and is polled faster than it ticks, a sleep always
  returns.  If the end of the sleep can be reached without the millisecond counter
  wrapping around, it returns no earlier than that; if the counter has to wrap, it returns as
  soon as the counter is zero, before the time has passed.
\<close>

theorem usleep_returns:
  assumes "ticking clock"
  shows "\<exists>n > k. usleep (polls clock) usec k = Some (Suc n) \<and>
    (clock k \<le> clock k + usec div 1000 \<longrightarrow> clock k + usec div 1000 \<le> clock n) \<and>
    (clock k + usec div 1000 < clock k \<and> clock k \<le> clock (Suc k) \<longrightarrow> clock n = 0)"
proof (cases "clock k \<le> clock k + usec div 1000")
  case True
  let ?P = "\<lambda>now. now < clock k + usec div 1000"
  obtain j where "Suc k \<le> j" "\<not> ?P (clock j)"
    using clock_reaches [OF assms, of "Suc k" "clock k + usec div 1000"] by auto
  with wait_while_first [of ?P clock j "Suc k"] obtain n where
    "n \<ge> Suc k" "wait_while ?P (polls clock) (Suc k) = Some (Suc n)" "\<not> ?P (clock n)" by blast
  with True show ?thesis by (intro exI [of _ n]) (auto simp: usleep_def not_less Let_def)
next
  case False
  let ?stop = "clock k + usec div 1000"
  let ?P = "\<lambda>now. now > ?stop"
  obtain j where "Suc k \<le> j" "\<not> ?P (clock j)"
    using clock_reaches [OF assms, of "Suc k" ?stop] by auto
  with wait_while_first [of ?P clock j "Suc k"] obtain n where n: "n \<ge> Suc k"
    "wait_while ?P (polls clock) (Suc k) = Some (Suc n)" "\<not> ?P (clock n)" and before: "\<forall>i. Suc k \<le> i \<and> i < n \<longrightarrow> ?P (clock i)"
    by blast
  have "clock n = 0" if "clock k \<le> clock (Suc k)"
  proof -
    have "?P (clock (Suc k))" using False that by simp
    then have "Suc k < n" using n(1,3) by (metis le_neq_implies_less)
    then obtain m where m: "n = Suc m" "Suc k \<le> m" using less_imp_Suc_add by (metis Suc_leI add_Suc_right less_Suc_eq_le)
    then have "?stop < clock m" using before by simp
    moreover have "clock n = clock m \<or> clock n = clock m + 1" using assms m(1) by (simp add: ticking_def)
    ultimately show ?thesis using n(3) wraps_to_zero [of "clock m" ?stop] by auto
  qed
  with n False show ?thesis by (intro exI [of _ n]) (auto simp: usleep_def not_le Let_def)
qed

theorem usleep_returns_witness: "\<exists>n > 3. usleep (polls (\<lambda>i. of_nat i)) 5000 3 = Some (Suc n) \<and> 8 \<le> (of_nat n :: u32)"
proof -
  have "ticking (\<lambda>i. of_nat i)"
    unfolding ticking_def
  proof (intro conjI allI)
    fix k :: nat
    show "\<exists>j > k. (of_nat j :: u32) \<noteq> of_nat k" by (intro exI [of _ "Suc k"]) simp
  qed (simp add: add.commute)
  from usleep_returns [OF this, of 3 5000] show ?thesis by simp
qed

subsection \<open>What some calls cannot do\<close>

text \<open>Seeking in a file in memory does not move the position the next read starts from.\<close>

lemma mem_seek_stays: "mem_seek handle pos whence w = ret (r, w') \<Longrightarrow> w' = w"
  by (auto simp: mem_seek_def Let_def split: option.splits)

text \<open>On this big-endian machine, printing a character writes a null instead.\<close>

lemma fputc_null:
  assumes "unat c < 256"
  shows "fputc c stream st = fwrite [0, 0, 0, ucast c] 1 1 stream st"
proof -
  have "drop_bit k c = 0" if "8 \<le> k" for k
  proof -
    have "unat c < 2 ^ k" using assms that power_increasing [of 8 k "2 :: nat"] by simp
    then have "unat (drop_bit k c) = 0" unfolding unat_drop_bit_eq by (simp add: drop_bit_eq_div)
    then show ?thesis by (simp add: unat_eq_0)
  qed
  then show ?thesis by (simp add: fputc_def)
qed

end
