(* ===== verification/Fat_Fs.thy ===== *)
theory Fat_Fs
  imports Lib_Support
begin

text \<open>
  The FAT file system of \<^verbatim>\<open>libxtcapp/fatfs/ff.c\<close> in the configuration of
  \<^verbatim>\<open>libxtcapp/fatfs/ff.h\<close>: read-only, sectors of 512 bytes, two drives, Shift-JIS names, no
  directory listing.  The functions of \<^verbatim>\<open>diskio.h\<close> are an argument, over a state of their
  own.  A pointer to a file system object is its number in a list of objects; a file object is
  passed and returned.  A path is the list of its bytes, without the terminator.
\<close>

subsection \<open>Types\<close>

datatype FRESULT = FR_OK | FR_NOT_READY | FR_NO_FILE | FR_NO_PATH | FR_INVALID_NAME | FR_INVALID_DRIVE
  | FR_DENIED | FR_EXIST | FR_RW_ERROR | FR_WRITE_PROTECTED | FR_NOT_ENABLED | FR_NO_FILESYSTEM
  | FR_INVALID_OBJECT | FR_MKFS_ABORTED

fun fr_num :: "FRESULT \<Rightarrow> u32" where
  "fr_num FR_OK = 0"
| "fr_num FR_NOT_READY = 1"
| "fr_num FR_NO_FILE = 2"
| "fr_num FR_NO_PATH = 3"
| "fr_num FR_INVALID_NAME = 4"
| "fr_num FR_INVALID_DRIVE = 5"
| "fr_num FR_DENIED = 6"
| "fr_num FR_EXIST = 7"
| "fr_num FR_RW_ERROR = 8"
| "fr_num FR_WRITE_PROTECTED = 9"
| "fr_num FR_NOT_ENABLED = 10"
| "fr_num FR_NO_FILESYSTEM = 11"
| "fr_num FR_INVALID_OBJECT = 12"
| "fr_num FR_MKFS_ABORTED = 13"

datatype DRESULT = RES_OK | RES_ERROR | RES_WRPRT | RES_NOTRDY | RES_PARERR

text \<open>
  The functions of a disk: a drive, a first sector and a number of sectors give a result and the bytes
  stored from the start of the buffer.  One that never returns is \<open>None\<close>.
\<close>

record 's disk =
  dk_initialize :: "u8 \<Rightarrow> 's \<Rightarrow> (u8 \<times> 's) option"
  dk_status :: "u8 \<Rightarrow> 's \<Rightarrow> (u8 \<times> 's) option"
  dk_read :: "u8 \<Rightarrow> u32 \<Rightarrow> u8 \<Rightarrow> 's \<Rightarrow> (DRESULT \<times> u8 list \<times> 's) option"

record FATFS =
  fs_id :: u16
  fs_n_rootdir :: u16
  fs_winsect :: u32
  fs_sects_fat :: u32
  fs_max_clust :: u32
  fs_fatbase :: u32
  fs_dirbase :: u32
  fs_database :: u32
  fs_type :: u8
  fs_sects_clust :: u8
  fs_n_fats :: u8
  fs_drive :: u8
  fs_winflag :: u8
  fs_win :: "u8 list"

record DIR =
  d_index :: u16
  d_sclust :: u32
  d_clust :: u32
  d_sect :: u32

record FIL =
  fp_id :: u16
  fp_flag :: u8
  fp_sect_clust :: u8
  fp_fs :: "nat option"
  fp_fptr :: u32
  fp_fsize :: u32
  fp_org_clust :: u32
  fp_curr_clust :: u32
  fp_curr_sect :: u32
  fp_buffer :: "u8 list"

text \<open>The objects, the table of drives and the mount number, with the state of the disks.\<close>

record 's ffs =
  objs :: "FATFS list"
  FatFs :: "nat option list"
  fsid :: u16
  dsk :: 's

abbreviation (input) STA_NOINIT :: u8 where "STA_NOINIT \<equiv> 1"
abbreviation (input) FA_READ :: u8 where "FA_READ \<equiv> 1"
abbreviation (input) FA_ERROR :: u8 where "FA_ERROR \<equiv> 0x80"
abbreviation (input) FS_FAT12 :: u8 where "FS_FAT12 \<equiv> 1"
abbreviation (input) FS_FAT16 :: u8 where "FS_FAT16 \<equiv> 2"
abbreviation (input) FS_FAT32 :: u8 where "FS_FAT32 \<equiv> 3"
abbreviation (input) AM_VOL :: u8 where "AM_VOL \<equiv> 8"
abbreviation (input) AM_DIR :: u8 where "AM_DIR \<equiv> 0x10"

subsection \<open>Bytes of a sector\<close>

definition LD_WORD :: "u8 list \<Rightarrow> nat \<Rightarrow> u16" where
  "LD_WORD b i = push_bit 8 (ucast (b ! (i + 1))) OR ucast (b ! i)"

definition LD_DWORD :: "u8 list \<Rightarrow> nat \<Rightarrow> u32" where
  "LD_DWORD b i =
     push_bit 24 (ucast (b ! (i + 3))) OR push_bit 16 (ucast (b ! (i + 2))) OR
     push_bit 8 (ucast (b ! (i + 1))) OR ucast (b ! i)"

lemma unat_LD_WORD: "unat (LD_WORD b i) = unat (b ! i) + 256 * unat (b ! (i + 1))"
proof -
  have "unat (b ! i) < 256" "unat (b ! Suc i) < 256" by (simp_all add: u8_lt)
  then show ?thesis
    unfolding LD_WORD_def by (subst unat_join) (simp_all add: unat_ucast_u8)
qed

lemma unat_bytes4:
  fixes a b c e :: u8
  shows "unat (push_bit 24 (ucast a :: u32) OR push_bit 16 (ucast b) OR push_bit 8 (ucast c) OR ucast e) =
    unat e + 256 * unat c + 65536 * unat b + 16777216 * unat a"
proof -
  note l = u8_lt [of a] u8_lt [of b] u8_lt [of c] u8_lt [of e]
  note u = unat_ucast_u8 [where ?'a = 32, simplified]
  have 1: "unat (push_bit 8 (ucast c :: u32) OR ucast e) = unat c * 256 + unat e"
    using l by (subst unat_join) (simp_all add: u)
  have 2: "unat (push_bit 16 (ucast b :: u32) OR (push_bit 8 (ucast c) OR ucast e)) =
      unat b * 65536 + (unat c * 256 + unat e)"
    using l by (subst unat_join) (simp_all add: u 1)
  show ?thesis
    unfolding or.assoc using l by (subst unat_join) (simp_all add: u 2)
qed

lemma unat_LD_DWORD:
  "unat (LD_DWORD b i) =
     unat (b ! i) + 256 * unat (b ! (i + 1)) + 65536 * unat (b ! (i + 2)) + 16777216 * unat (b ! (i + 3))"
  unfolding LD_DWORD_def unat_bytes4 ..

lemma and_511 [simp]: "w AND 511 = take_bit 9 (w :: 'a::len word)"
  by (simp add: take_bit_eq_mask mask_eq_exp_minus_1)

lemma unat_take_bit_9: "unat (take_bit 9 (w :: 'a::len word)) = unat w mod 512"
  unfolding unsigned_take_bit_eq by (simp add: take_bit_eq_mod)

text \<open>Bytes stored from the start of a buffer of fixed size.\<close>

definition overwrite :: "u8 list \<Rightarrow> u8 list \<Rightarrow> u8 list" where
  "overwrite buf bs = take (length buf) bs @ drop (length bs) buf"

lemma length_overwrite [simp]: "length (overwrite buf bs) = length buf"
  by (simp add: overwrite_def)

lemma overwrite_all [simp]: "length bs = length buf \<Longrightarrow> overwrite buf bs = bs"
  by (simp add: overwrite_def)

subsection \<open>The window on the disk\<close>

text \<open>Sector 0 stands for no sector: nothing is read for it.\<close>

definition move_window :: "'s disk \<Rightarrow> u32 \<Rightarrow> FATFS \<Rightarrow> 's \<Rightarrow> (bool \<times> FATFS \<times> 's) option" where
  "move_window dk sector fs s =
     (if fs_winsect fs \<noteq> sector \<and> sector \<noteq> 0
      then Option.bind (dk_read dk (fs_drive fs) sector 1 s) (\<lambda>(r, bs, s).
             let fs = fs\<lparr>fs_win := overwrite (fs_win fs) bs\<rparr> in
             Some (if r \<noteq> RES_OK then (False, fs, s) else (True, fs\<lparr>fs_winsect := sector\<rparr>, s)))
      else Some (True, fs, s))"

text \<open>The entry of a cluster; 1 also stands for an error.\<close>

definition get_cluster :: "'s disk \<Rightarrow> u32 \<Rightarrow> FATFS \<Rightarrow> 's \<Rightarrow> (u32 \<times> FATFS \<times> 's) option" where
  "get_cluster dk clust fs s =
     (if 2 \<le> clust \<and> clust < fs_max_clust fs
      then let fatsect = fs_fatbase fs in
           if fs_type fs = FS_FAT12 then
             let bc = of_nat (unat (ucast clust :: u16) * 3 div 2) :: u16 in
             Option.bind (move_window dk (fatsect + ucast bc div 512) fs s) (\<lambda>(ok, fs, s).
             if \<not> ok then Some (1, fs, s)
             else let wc = ucast (fs_win fs ! unat (bc AND 511)) :: u16; bc = bc + 1 in
             Option.bind (move_window dk (fatsect + ucast bc div 512) fs s) (\<lambda>(ok, fs, s).
             if \<not> ok then Some (1, fs, s)
             else let wc = wc OR push_bit 8 (ucast (fs_win fs ! unat (bc AND 511))) in
                  Some (ucast (if clust AND 1 \<noteq> 0 then drop_bit 4 wc else wc AND 0xFFF), fs, s)))
           else if fs_type fs = FS_FAT16 then
             Option.bind (move_window dk (fatsect + clust div 256) fs s) (\<lambda>(ok, fs, s).
             if \<not> ok then Some (1, fs, s)
             else Some (ucast (LD_WORD (fs_win fs) (unat (ucast clust :: u16) * 2 mod 512)), fs, s))
           else if fs_type fs = FS_FAT32 then
             Option.bind (move_window dk (fatsect + clust div 128) fs s) (\<lambda>(ok, fs, s).
             if \<not> ok then Some (1, fs, s)
             else Some (LD_DWORD (fs_win fs) (unat (ucast clust :: u16) * 4 mod 512) AND 0x0FFFFFFF, fs, s))
           else Some (1, fs, s)
      else Some (1, fs, s))"

definition clust2sect :: "FATFS \<Rightarrow> u32 \<Rightarrow> u32" where
  "clust2sect fs clust =
     (let clust = clust - 2 in
      if fs_max_clust fs - 2 \<le> clust then 0
      else clust * ucast (fs_sects_clust fs) + fs_database fs)"

subsection \<open>Directories\<close>

definition next_dir_entry :: "'s disk \<Rightarrow> DIR \<Rightarrow> FATFS \<Rightarrow> 's \<Rightarrow> (bool \<times> DIR \<times> FATFS \<times> 's) option" where
  "next_dir_entry dk d fs s =
     (let idx = d_index d + 1 in
      if idx AND 15 \<noteq> 0 then Some (True, d\<lparr>d_index := idx\<rparr>, fs, s)
      else let d = d\<lparr>d_sect := d_sect d + 1\<rparr> in
           if d_clust d = 0 then
             Some (if fs_n_rootdir fs \<le> idx then (False, d, fs, s) else (True, d\<lparr>d_index := idx\<rparr>, fs, s))
           else if uint (idx div 16) AND (uint (fs_sects_clust fs) - 1) \<noteq> 0
             then Some (True, d\<lparr>d_index := idx\<rparr>, fs, s)
           else Option.bind (get_cluster dk (d_clust d) fs s) (\<lambda>(clust, fs, s).
             if clust < 2 \<or> fs_max_clust fs \<le> clust then Some (False, d, fs, s)
             else Some (True, d\<lparr>d_clust := clust, d_sect := clust2sect fs clust, d_index := idx\<rparr>, fs, s)))"

text \<open>
  One name of a path in the form of a directory entry, with the character that ended it, 1 for
  a name that is not valid.  \<open>a\<close> says that the character before was the first of two.
\<close>

definition sjis :: "u8 \<Rightarrow> bool" where
  "sjis c \<longleftrightarrow> (0x81 \<le> c \<and> c \<le> 0x9F) \<or> (0xE0 \<le> c \<and> c \<le> 0xFC)"

definition md_reject :: "bool \<Rightarrow> u8 \<Rightarrow> bool" where
  "md_reject a c \<longleftrightarrow>
     c = 0x22 \<or>
     (0x29 < c \<and> c \<le> 0x2C) \<or>
     (0x39 < c \<and> c \<le> 0x3F) \<or>
     (0x3F < c \<and> \<not> a \<and> (c = 0x7C \<or> (0x5B \<le> c \<and> c \<le> 0x5D)))"

definition md_upper :: "bool \<Rightarrow> u8 \<Rightarrow> u8" where
  "md_upper a c = (if \<not> a \<and> 0x61 \<le> c \<and> c \<le> 0x7A then c - 0x20 else c)"

fun md_loop :: "u8 list \<Rightarrow> nat \<Rightarrow> nat \<Rightarrow> bool \<Rightarrow> u8 list \<Rightarrow> u8 \<times> u8 list \<times> u8 list" where
  "md_loop [] n t a nm = (if n = 0 then (1, [], nm) else (0, [], nm[11 := 0]))"
| "md_loop (c # path) n t a nm =
     (if c = 0x2F then (if n = 0 then (1, path, nm) else (c, path, nm[11 := 0]))
      else if c \<le> 0x20 \<or> c = 0x7F then (1, path, nm)
      else if c = 0x2E then (if \<not> a \<and> 1 \<le> n \<and> n \<le> 8 then md_loop path 8 11 a nm else (1, path, nm))
      else if sjis c then
        let c = (if n = 0 \<and> c = 0xE5 then 0x05 else c) in
        if t \<le> n then (1, path, nm) else md_loop path (n + 1) t (\<not> a) (nm[n := c])
      else if md_reject a c then (1, path, nm)
      else if t \<le> n then (1, path, nm)
      else md_loop path (n + 1) t False (nm[n := md_upper a c]))"

definition make_dirfile :: "u8 list \<Rightarrow> u8 list \<Rightarrow> u8 \<times> u8 list \<times> u8 list" where
  "make_dirfile path nm = md_loop path 0 8 False (replicate 11 0x20 @ drop 11 nm)"

text \<open>Going through a directory until an entry has the name; it may go round for ever.\<close>

datatype scan = Found | NotFound | ScanError

definition dir_entry :: "DIR \<Rightarrow> FATFS \<Rightarrow> u8 list" where
  "dir_entry d fs = take 32 (drop (unat (d_index d AND 15) * 32) (fs_win fs))"

definition entry_matches :: "u8 list \<Rightarrow> u8 list \<Rightarrow> bool" where
  "entry_matches e nm \<longleftrightarrow> e ! 0 \<noteq> 0xE5 \<and> e ! 11 AND AM_VOL = 0 \<and> take 11 e = take 11 nm"

partial_function (option) scan_dir ::
    "'s disk \<Rightarrow> u8 list \<Rightarrow> DIR \<Rightarrow> FATFS \<Rightarrow> 's \<Rightarrow> (scan \<times> DIR \<times> FATFS \<times> 's) option" where
  "scan_dir dk nm d fs s =
     Option.bind (move_window dk (d_sect d) fs s) (\<lambda>(ok, fs, s).
       if \<not> ok then Some (ScanError, d, fs, s)
       else let e = dir_entry d fs in
       if e ! 0 = 0 then Some (NotFound, d, fs, s)
       else if entry_matches e nm then Some (Found, d, fs, s)
       else Option.bind (next_dir_entry dk d fs s) (\<lambda>(ok, d, fs, s).
         if \<not> ok then Some (NotFound, d, fs, s) else scan_dir dk nm d fs s))"

declare scan_dir.simps [code]

definition entry_clust :: "u8 list \<Rightarrow> u32" where
  "entry_clust e = push_bit 16 (ucast (LD_WORD e 20)) OR ucast (LD_WORD e 26)"

partial_function (option) trace_loop ::
    "'s disk \<Rightarrow> u8 list \<Rightarrow> u8 list \<Rightarrow> DIR \<Rightarrow> FATFS \<Rightarrow> 's \<Rightarrow> (FRESULT \<times> u8 list option \<times> FATFS \<times> 's) option" where
  "trace_loop dk nm path d fs s =
     (case make_dirfile path nm of (ds, path, nm) \<Rightarrow>
      if ds = 1 then Some (FR_INVALID_NAME, None, fs, s)
      else Option.bind (scan_dir dk nm d fs s) (\<lambda>(r, d, fs, s).
        case r of
          ScanError \<Rightarrow> Some (FR_RW_ERROR, None, fs, s)
        | NotFound \<Rightarrow> Some (if ds = 0 then FR_NO_FILE else FR_NO_PATH, None, fs, s)
        | Found \<Rightarrow>
            let e = dir_entry d fs in
            if ds = 0 then Some (FR_OK, Some e, fs, s)
            else if e ! 11 AND AM_DIR = 0 then Some (FR_NO_PATH, None, fs, s)
            else let clust = entry_clust e in
                 trace_loop dk nm path
                   (d\<lparr>d_clust := clust, d_sclust := clust, d_sect := clust2sect fs clust, d_index := 2\<rparr>) fs s))"

declare trace_loop.simps [code]

text \<open>The directory entry found, none for the root directory.\<close>

definition root_dir :: "FATFS \<Rightarrow> DIR" where
  "root_dir fs =
     (let clust = fs_dirbase fs in
      if fs_type fs = FS_FAT32
      then \<lparr>d_index = 0, d_sclust = clust, d_clust = clust, d_sect = clust2sect fs clust\<rparr>
      else \<lparr>d_index = 0, d_sclust = 0, d_clust = 0, d_sect = clust\<rparr>)"

definition trace_path :: "'s disk \<Rightarrow> u8 list \<Rightarrow> u8 list \<Rightarrow> FATFS \<Rightarrow> 's \<Rightarrow> (FRESULT \<times> u8 list option \<times> FATFS \<times> 's) option" where
  "trace_path dk nm path fs s =
     (if path = [] then Some (FR_OK, None, fs, s) else trace_loop dk nm path (root_dir fs) fs s)"

subsection \<open>Mounting\<close>

text \<open>0 for a boot record of a FAT file system, 1 for another boot record, 2 for none or an error.\<close>

definition check_fs :: "'s disk \<Rightarrow> u32 \<Rightarrow> FATFS \<Rightarrow> 's \<Rightarrow> (u8 \<times> FATFS \<times> 's) option" where
  "check_fs dk sect fs s =
     Option.bind (dk_read dk (fs_drive fs) sect 1 s) (\<lambda>(r, bs, s).
       let w = overwrite (fs_win fs) bs; fs = fs\<lparr>fs_win := w\<rparr> in
       Some (if r \<noteq> RES_OK then 2
             else if LD_WORD w 510 \<noteq> 0xAA55 then 2
             else if take 3 (drop 54 w) = [0x46, 0x41, 0x54] then 0
             else if take 5 (drop 82 w) = [0x46, 0x41, 0x54, 0x33, 0x32] \<and> w ! 40 AND 0x80 = 0 then 0
             else 1, fs, s))"

definition zero_fs :: FATFS where
  "zero_fs = \<lparr>fs_id = 0, fs_n_rootdir = 0, fs_winsect = 0, fs_sects_fat = 0, fs_max_clust = 0, fs_fatbase = 0,
     fs_dirbase = 0, fs_database = 0, fs_type = 0, fs_sects_clust = 0, fs_n_fats = 0, fs_drive = 0,
     fs_winflag = 0, fs_win = replicate 512 0\<rparr>"

text \<open>
  The object filled in from the boot record in its window.  A record that gives no sectors to
  a cluster makes the code divide by zero.
\<close>

definition fs_layout :: "u32 \<Rightarrow> FATFS \<Rightarrow> FATFS res" where
  "fs_layout bootsect fs =
     (let w = fs_win fs;
          sects_fat = (if LD_WORD w 22 \<noteq> 0 then ucast (LD_WORD w 22) else LD_DWORD w 36);
          fatsize = sects_fat * ucast (w ! 16);
          fatbase = bootsect + ucast (LD_WORD w 14);
          sects_clust = w ! 13;
          n_rootdir = LD_WORD w 17;
          totalsect = (if LD_WORD w 19 \<noteq> 0 then ucast (LD_WORD w 19) else LD_DWORD w 32)
      in if sects_clust = 0 then undefined_for LibBadArgument
      else let maxclust =
             (totalsect - ucast (LD_WORD w 14) - fatsize - ucast (n_rootdir div 16)) div ucast sects_clust + 2;
             fmt = (if 0xFFF7 < maxclust then FS_FAT32 else if 0xFF7 < maxclust then FS_FAT16 else FS_FAT12)
      in ret (fs\<lparr>fs_sects_fat := sects_fat, fs_n_fats := w ! 16, fs_fatbase := fatbase,
           fs_sects_clust := sects_clust, fs_n_rootdir := n_rootdir, fs_max_clust := maxclust, fs_type := fmt,
           fs_dirbase := (if fmt = FS_FAT32 then LD_DWORD w 44 else fatbase + fatsize),
           fs_database := fatbase + fatsize + ucast (n_rootdir div 16)\<rparr>))"

definition returns :: "'a option \<Rightarrow> 'a res" where
  "returns m = map_option Inr m"

lemma returns_simps [simp]: "returns (Some x) = ret x" "returns None = None"
  by (simp_all add: returns_def)

text \<open>The boot record of the volume, on the disk itself or in its first partition, with its sector.\<close>

definition find_volume :: "'s disk \<Rightarrow> FATFS \<Rightarrow> 's \<Rightarrow> (u8 \<times> u32 \<times> FATFS \<times> 's) option" where
  "find_volume dk fs s =
     Option.bind (check_fs dk 0 fs s) (\<lambda>(fmt, fs, s).
     if fmt = 1 \<and> fs_win fs ! (446 + 4) \<noteq> 0
     then let bootsect = LD_DWORD (fs_win fs) (446 + 8) in
          Option.bind (check_fs dk bootsect fs s) (\<lambda>(fmt, fs, s). Some (fmt, bootsect, fs, s))
     else Some (fmt, 0, fs, s))"

text \<open>The volume in a drive that is not mounted yet.\<close>

definition mount_volume :: "'s disk \<Rightarrow> u8 \<Rightarrow> 's \<Rightarrow> (FRESULT \<times> FATFS \<times> 's) res" where
  "mount_volume dk drv s =
     (let fs = zero_fs\<lparr>fs_drive := drv\<rparr> in
      lbind (returns (dk_initialize dk drv s)) (\<lambda>(stat, s).
      if stat AND STA_NOINIT \<noteq> 0 then ret (FR_NOT_READY, fs, s)
      else lbind (returns (find_volume dk fs s)) (\<lambda>(fmt, bootsect, fs, s).
      if fmt \<noteq> 0 \<or> LD_WORD (fs_win fs) 11 \<noteq> 512 then ret (FR_NO_FILESYSTEM, fs, s)
      else lbind (fs_layout bootsect fs) (\<lambda>fs. ret (FR_OK, fs, s)))))"

text \<open>The drive a path names, and the rest of the path.\<close>

definition path_drive :: "u8 list \<Rightarrow> u8 \<times> u8 list" where
  "path_drive path =
     (let p = dropWhile (\<lambda>c. c = 0x20) path;
          (drv, p) = (case p of
             c # c' # q \<Rightarrow> if c - 0x30 \<le> 9 \<and> c' = 0x3A then (c - 0x30, q) else (0, p)
           | _ \<Rightarrow> (0, p))
      in (drv, case p of c # q \<Rightarrow> if c = 0x2F then q else p | [] \<Rightarrow> p))"

definition put_fs :: "nat \<Rightarrow> FATFS \<Rightarrow> 's \<Rightarrow> 's ffs \<Rightarrow> 's ffs" where
  "put_fs i fs s st = st\<lparr>objs := (objs st)[i := fs], dsk := s\<rparr>"

definition auto_mount :: "'s disk \<Rightarrow> u8 list \<Rightarrow> 's ffs \<Rightarrow> (FRESULT \<times> nat \<times> u8 list \<times> 's ffs) res" where
  "auto_mount dk path st =
     (case path_drive path of (drv, p) \<Rightarrow>
      if 2 \<le> drv then ret (FR_INVALID_DRIVE, 0, p, st)
      else case FatFs st ! unat drv of
        None \<Rightarrow> ret (FR_NOT_ENABLED, 0, p, st)
      | Some i \<Rightarrow>
          lbind (the_slot (objs st) i) (\<lambda>fs.
          lbind (if fs_type fs \<noteq> 0
                 then lbind (returns (dk_status dk (fs_drive fs) (dsk st))) (\<lambda>(stat, s).
                        ret (stat AND STA_NOINIT = 0, s))
                 else ret (False, dsk st)) (\<lambda>(mounted, s).
          if mounted then ret (FR_OK, i, p, st\<lparr>dsk := s\<rparr>)
          else lbind (mount_volume dk drv s) (\<lambda>(r, fs, s).
            if r \<noteq> FR_OK then ret (r, i, p, put_fs i fs s st)
            else ret (FR_OK, i, p, (put_fs i (fs\<lparr>fs_id := fsid st + 1\<rparr>) s st)\<lparr>fsid := fsid st + 1\<rparr>)))))"

definition validate :: "'s disk \<Rightarrow> nat option \<Rightarrow> u16 \<Rightarrow> 's ffs \<Rightarrow> (FRESULT \<times> 's ffs) res" where
  "validate dk p ident st =
     (case p of
        None \<Rightarrow> ret (FR_INVALID_OBJECT, st)
      | Some i \<Rightarrow>
          lbind (the_slot (objs st) i) (\<lambda>fs.
          if fs_id fs \<noteq> ident then ret (FR_INVALID_OBJECT, st)
          else lbind (returns (dk_status dk (fs_drive fs) (dsk st))) (\<lambda>(stat, s).
            ret (if stat AND STA_NOINIT \<noteq> 0 then FR_NOT_READY else FR_OK, st\<lparr>dsk := s\<rparr>))))"

subsection \<open>Files\<close>

definition f_mount :: "u8 \<Rightarrow> nat option \<Rightarrow> 's ffs \<Rightarrow> FRESULT \<times> 's ffs" where
  "f_mount drv p st =
     (if 2 \<le> drv then (FR_INVALID_DRIVE, st)
      else let clean = (\<lambda>q os. case q of None \<Rightarrow> os | Some i \<Rightarrow> os[i := zero_fs]) in
        (FR_OK, st\<lparr>FatFs := (FatFs st)[unat drv := p],
                   objs := clean p (clean (FatFs st ! unat drv) (objs st))\<rparr>))"

definition f_open :: "'s disk \<Rightarrow> FIL \<Rightarrow> u8 list \<Rightarrow> u8 \<Rightarrow> 's ffs \<Rightarrow> (FRESULT \<times> FIL \<times> 's ffs) res" where
  "f_open dk fp path mode st =
     (let fp = fp\<lparr>fp_fs := None\<rparr>; mode = mode AND FA_READ in
      lbind (auto_mount dk path st) (\<lambda>(res, i, path, st).
      if res \<noteq> FR_OK then ret (res, fp, st)
      else lbind (the_slot (objs st) i) (\<lambda>fs.
      lbind (returns (trace_path dk (replicate 12 0) path fs (dsk st))) (\<lambda>(res, dir, fs, s).
      let st = put_fs i fs s st in
      if res \<noteq> FR_OK then ret (res, fp, st)
      else case dir of
        None \<Rightarrow> ret (FR_NO_FILE, fp, st)
      | Some e \<Rightarrow>
          if e ! 11 AND AM_DIR \<noteq> 0 then ret (FR_NO_FILE, fp, st)
          else ret (FR_OK, fp\<lparr>fp_flag := mode, fp_org_clust := entry_clust e, fp_fsize := LD_DWORD e 28,
                 fp_fptr := 0, fp_sect_clust := 1, fp_fs := Some i, fp_id := fs_id fs\<rparr>, st)))))"

text \<open>
  Each turn of the loop gives a number of bytes; a turn that fails ends it with the error flag
  set.  Whole sectors go to the caller's buffer directly.
\<close>

definition fr_error :: "FIL \<Rightarrow> FIL" where
  "fr_error fp = fp\<lparr>fp_flag := fp_flag fp OR FA_ERROR\<rparr>"

text \<open>The sector at a boundary: the next one of the cluster, or the first of the next cluster.\<close>

definition next_sector :: "'s disk \<Rightarrow> FIL \<Rightarrow> FATFS \<Rightarrow> 's \<Rightarrow> (bool \<times> FIL \<times> FATFS \<times> 's) option" where
  "next_sector dk fp fs s =
     (let fp = fp\<lparr>fp_sect_clust := fp_sect_clust fp - 1\<rparr> in
      if fp_sect_clust fp \<noteq> 0 then Some (True, fp\<lparr>fp_curr_sect := fp_curr_sect fp + 1\<rparr>, fs, s)
      else Option.bind (if fp_fptr fp = 0 then Some (fp_org_clust fp, fs, s)
                        else get_cluster dk (fp_curr_clust fp) fs s) (\<lambda>(clust, fs, s).
        if clust < 2 \<or> fs_max_clust fs \<le> clust then Some (False, fp, fs, s)
        else Some (True, fp\<lparr>fp_curr_clust := clust, fp_curr_sect := clust2sect fs clust,
                            fp_sect_clust := fs_sects_clust fs\<rparr>, fs, s)))"

text \<open>The bytes of the buffer from the position on, at most as many as are wanted.\<close>

definition copy_count :: "u32 \<Rightarrow> u16 \<Rightarrow> u16" where
  "copy_count fptr btr = (let rcnt = 512 - (ucast fptr AND 511) in if btr < rcnt then btr else rcnt)"

definition copy_bytes :: "u16 \<Rightarrow> FIL \<Rightarrow> u16 \<times> u8 list" where
  "copy_bytes btr fp =
     (let rcnt = copy_count (fp_fptr fp) btr in
      (rcnt, take (unat rcnt) (drop (unat (fp_fptr fp AND 511)) (fp_buffer fp))))"

definition read_sector :: "'s disk \<Rightarrow> u16 \<Rightarrow> FIL \<Rightarrow> FATFS \<Rightarrow> 's \<Rightarrow> (bool \<times> u16 \<times> u8 list \<times> FIL \<times> 's) option" where
  "read_sector dk btr fp fs s =
     (let cc = ucast (btr div 512) :: u8 in
      if cc \<noteq> 0 then
        let cc = (if fp_sect_clust fp < cc then fp_sect_clust fp else cc) in
        Option.bind (dk_read dk (fs_drive fs) (fp_curr_sect fp) cc s) (\<lambda>(r, bs, s).
          Some (if r \<noteq> RES_OK then (False, 0, bs, fp, s)
                else (True, ucast cc * 512, bs,
                      fp\<lparr>fp_sect_clust := fp_sect_clust fp - (cc - 1),
                         fp_curr_sect := fp_curr_sect fp + (ucast cc - 1)\<rparr>, s)))
      else Option.bind (dk_read dk (fs_drive fs) (fp_curr_sect fp) 1 s) (\<lambda>(r, bs, s).
        let fp = fp\<lparr>fp_buffer := overwrite (fp_buffer fp) bs\<rparr> in
        Some (if r \<noteq> RES_OK then (False, 0, [], fp, s)
              else case copy_bytes btr fp of (rcnt, bs) \<Rightarrow> (True, rcnt, bs, fp, s))))"

definition read_turn :: "'s disk \<Rightarrow> u16 \<Rightarrow> FIL \<Rightarrow> FATFS \<Rightarrow> 's \<Rightarrow>
    (bool \<times> u16 \<times> u8 list \<times> FIL \<times> FATFS \<times> 's) option" where
  "read_turn dk btr fp fs s =
     (if fp_fptr fp AND 511 \<noteq> 0
      then case copy_bytes btr fp of (rcnt, bs) \<Rightarrow> Some (True, rcnt, bs, fp, fs, s)
      else Option.bind (next_sector dk fp fs s) (\<lambda>(ok, fp, fs, s).
        if \<not> ok then Some (False, 0, [], fp, fs, s)
        else Option.bind (read_sector dk btr fp fs s) (\<lambda>(ok, rcnt, bs, fp, s).
          Some (ok, rcnt, bs, fp, fs, s))))"

partial_function (option) f_read_loop ::
    "'s disk \<Rightarrow> u16 \<Rightarrow> u16 \<Rightarrow> u8 list \<Rightarrow> FIL \<Rightarrow> FATFS \<Rightarrow> 's \<Rightarrow>
     (FRESULT \<times> u16 \<times> u8 list \<times> FIL \<times> FATFS \<times> 's) option" where
  "f_read_loop dk btr br got fp fs s =
     (if btr = 0 then Some (FR_OK, br, got, fp, fs, s)
      else Option.bind (read_turn dk btr fp fs s) (\<lambda>(ok, rcnt, bs, fp, fs, s).
        if \<not> ok then Some (FR_RW_ERROR, br, got @ bs, fr_error fp, fs, s)
        else f_read_loop dk (btr - rcnt) (br + rcnt) (got @ bs)
               (fp\<lparr>fp_fptr := fp_fptr fp + ucast rcnt\<rparr>) fs s))"

declare f_read_loop.simps [code]

definition f_read :: "'s disk \<Rightarrow> FIL \<Rightarrow> u16 \<Rightarrow> 's ffs \<Rightarrow> (FRESULT \<times> u16 \<times> u8 list \<times> FIL \<times> 's ffs) res" where
  "f_read dk fp btr st =
     lbind (validate dk (fp_fs fp) (fp_id fp) st) (\<lambda>(res, st).
     if res \<noteq> FR_OK then ret (res, 0, [], fp, st)
     else if fp_flag fp AND FA_ERROR \<noteq> 0 then ret (FR_RW_ERROR, 0, [], fp, st)
     else if fp_flag fp AND FA_READ = 0 then ret (FR_DENIED, 0, [], fp, st)
     else let remain = fp_fsize fp - fp_fptr fp; i = the (fp_fs fp);
              btr = (if remain < ucast btr then ucast remain else btr) in
     lbind (the_slot (objs st) i) (\<lambda>fs.
     lbind (returns (f_read_loop dk btr 0 [] fp fs (dsk st))) (\<lambda>(res, br, bs, fp, fs, s).
       ret (res, br, bs, fp, put_fs i fs s st))))"

definition f_close :: "'s disk \<Rightarrow> FIL \<Rightarrow> 's ffs \<Rightarrow> (FRESULT \<times> FIL \<times> 's ffs) res" where
  "f_close dk fp st =
     lbind (validate dk (fp_fs fp) (fp_id fp) st) (\<lambda>(res, st).
     ret (res, if res = FR_OK then fp\<lparr>fp_fs := None\<rparr> else fp, st))"

text \<open>
  The clusters before the position are skipped one by one.  The loop gives the cluster it stopped at,
  which is 0 where the chain ends early, and the offset within it, or an error.
\<close>

partial_function (option) seek_loop ::
    "'s disk \<Rightarrow> u32 \<Rightarrow> u32 \<Rightarrow> u32 \<Rightarrow> FIL \<Rightarrow> FATFS \<Rightarrow> 's \<Rightarrow> ((u32 \<times> u32) option \<times> FIL \<times> FATFS \<times> 's) option" where
  "seek_loop dk csize clust ofs fp fs s =
     (let fp = fp\<lparr>fp_curr_clust := clust\<rparr> in
      if ofs \<le> csize then Some (Some (clust, ofs), fp, fs, s)
      else Option.bind (get_cluster dk clust fs s) (\<lambda>(clust, fs, s).
        if clust = 0 then Some (Some (clust, csize), fp, fs, s)
        else if clust = 1 \<or> fs_max_clust fs \<le> clust then Some (None, fp, fs, s)
        else seek_loop dk csize clust (ofs - csize) (fp\<lparr>fp_fptr := fp_fptr fp + csize\<rparr>) fs s))"

declare seek_loop.simps [code]

definition seek_file :: "'s disk \<Rightarrow> u32 \<Rightarrow> FIL \<Rightarrow> FATFS \<Rightarrow> 's \<Rightarrow> (FRESULT \<times> FIL \<times> FATFS \<times> 's) option" where
  "seek_file dk ofs fp fs s =
     (let fp = fp\<lparr>fp_fptr := 0, fp_sect_clust := 1\<rparr> in
      if ofs = 0 \<or> fp_org_clust fp = 0 then Some (FR_OK, fp, fs, s)
      else Option.bind (seek_loop dk (ucast (fs_sects_clust fs) * 512) (fp_org_clust fp) ofs fp fs s)
        (\<lambda>(r, fp, fs, s).
        case r of
          None \<Rightarrow> Some (FR_RW_ERROR, fr_error fp, fs, s)
        | Some (clust, ofs) \<Rightarrow>
            let csect = ucast ((ofs - 1) div 512) :: u8;
                fp = fp\<lparr>fp_curr_sect := clust2sect fs clust + ucast csect\<rparr>;
                finish = (\<lambda>fp s. Some (FR_OK, fp\<lparr>fp_sect_clust := fs_sects_clust fs - csect,
                                               fp_fptr := fp_fptr fp + ofs\<rparr>, fs, s)) in
            if ofs AND 511 \<noteq> 0
            then Option.bind (dk_read dk (fs_drive fs) (fp_curr_sect fp) 1 s) (\<lambda>(r, bs, s).
                   let fp = fp\<lparr>fp_buffer := overwrite (fp_buffer fp) bs\<rparr> in
                   if r \<noteq> RES_OK then Some (FR_RW_ERROR, fr_error fp, fs, s) else finish fp s)
            else finish fp s))"

definition f_lseek :: "'s disk \<Rightarrow> FIL \<Rightarrow> u32 \<Rightarrow> 's ffs \<Rightarrow> (FRESULT \<times> FIL \<times> 's ffs) res" where
  "f_lseek dk fp ofs st =
     lbind (validate dk (fp_fs fp) (fp_id fp) st) (\<lambda>(res, st).
     if res \<noteq> FR_OK then ret (res, fp, st)
     else if fp_flag fp AND FA_ERROR \<noteq> 0 then ret (FR_RW_ERROR, fp, st)
     else let ofs = (if fp_fsize fp < ofs then fp_fsize fp else ofs); i = the (fp_fs fp) in
     lbind (the_slot (objs st) i) (\<lambda>fs.
     lbind (returns (seek_file dk ofs fp fs (dsk st))) (\<lambda>(res, fp, fs, s).
       ret (res, fp, put_fs i fs s st))))"

end
