(* ===== verification/Fat_Chain.thy ===== *)
theory Fat_Chain
  imports Fat_Fs
begin

text \<open>
  What a FAT volume means, as a function of the contents of its sectors: the entries of the file
  allocation table, the chain of clusters from a cluster on, the sectors and the bytes of a
  file.  The window on the disk always shows what the disk holds, and reading an entry
  through it gives the entry of the table.
\<close>

subsection \<open>A disk that works\<close>

text \<open>
  The contract of \<^verbatim>\<open>diskio.h\<close> for a drive that is ready and whose sectors are \<open>sec\<close>: in every
  state that satisfies \<open>ok\<close>, the drive says it is initialised and a read gives the sectors.
\<close>

definition serves :: "'s disk \<Rightarrow> ('s \<Rightarrow> bool) \<Rightarrow> (u32 \<Rightarrow> u8 list) \<Rightarrow> bool" where
  "serves dk ok sec \<longleftrightarrow>
     (\<forall>n. length (sec n) = 512) \<and>
     (\<forall>drv s. ok s \<longrightarrow> (\<exists>stat s'. dk_status dk drv s = Some (stat, s') \<and> stat AND 1 = 0 \<and> ok s')) \<and>
     (\<forall>drv n c s. ok s \<longrightarrow> c \<noteq> 0 \<longrightarrow>
        (\<exists>s'. dk_read dk drv n c s = Some (RES_OK, concat (map (\<lambda>k. sec (n + of_nat k)) [0..<unat c]), s') \<and> ok s'))"

lemma serves_length: "serves dk ok sec \<Longrightarrow> length (sec n) = 512"
  by (simp add: serves_def)

lemma serves_status:
  "serves dk ok sec \<Longrightarrow> ok s \<Longrightarrow> \<exists>stat s'. dk_status dk drv s = Some (stat, s') \<and> stat AND 1 = 0 \<and> ok s'"
  by (simp add: serves_def)

lemma serves_read:
  "serves dk ok sec \<Longrightarrow> ok s \<Longrightarrow> c \<noteq> 0 \<Longrightarrow>
   \<exists>s'. dk_read dk drv n c s = Some (RES_OK, concat (map (\<lambda>k. sec (n + of_nat k)) [0..<unat c]), s') \<and> ok s'"
  by (simp add: serves_def)

lemma serves_read1:
  "serves dk ok sec \<Longrightarrow> ok s \<Longrightarrow> \<exists>s'. dk_read dk drv n 1 s = Some (RES_OK, sec n, s') \<and> ok s'"
  using serves_read [of dk ok sec s 1 drv n] by simp

subsection \<open>The window\<close>

definition window_ok :: "(u32 \<Rightarrow> u8 list) \<Rightarrow> FATFS \<Rightarrow> bool" where
  "window_ok sec fs \<longleftrightarrow> length (fs_win fs) = 512 \<and> (fs_winsect fs \<noteq> 0 \<longrightarrow> fs_win fs = sec (fs_winsect fs))"

text \<open>Everything but the window.\<close>

definition volume :: "FATFS \<Rightarrow> FATFS" where
  "volume fs = fs\<lparr>fs_win := [], fs_winsect := 0\<rparr>"

lemma volume_fields:
  assumes "volume fs = volume fs'"
  shows "fs_id fs = fs_id fs'" "fs_n_rootdir fs = fs_n_rootdir fs'" "fs_sects_fat fs = fs_sects_fat fs'"
    "fs_max_clust fs = fs_max_clust fs'" "fs_fatbase fs = fs_fatbase fs'" "fs_dirbase fs = fs_dirbase fs'"
    "fs_database fs = fs_database fs'" "fs_type fs = fs_type fs'" "fs_sects_clust fs = fs_sects_clust fs'"
    "fs_n_fats fs = fs_n_fats fs'" "fs_drive fs = fs_drive fs'"
  using assms by (cases fs; cases fs'; simp add: volume_def)+

lemma volume_update [simp]:
  "volume (fs\<lparr>fs_win := w\<rparr>) = volume fs" "volume (fs\<lparr>fs_winsect := n\<rparr>) = volume fs"
  by (simp_all add: volume_def)

lemma clust2sect_volume: "volume fs = volume fs' \<Longrightarrow> clust2sect fs c = clust2sect fs' c"
  using volume_fields [of fs fs'] by (simp add: clust2sect_def Let_def)

lemma move_window_ok:
  assumes "serves dk ok sec" "ok s" "window_ok sec fs" "sector \<noteq> 0"
  shows "\<exists>fs' s'. move_window dk sector fs s = Some (True, fs', s') \<and> ok s' \<and> window_ok sec fs' \<and>
    volume fs' = volume fs \<and> fs_win fs' = sec sector"
proof (cases "fs_winsect fs = sector")
  case True
  then show ?thesis using assms by (auto simp: move_window_def window_ok_def)
next
  case False
  obtain s' where "dk_read dk (fs_drive fs) sector 1 s = Some (RES_OK, sec sector, s')" "ok s'"
    using serves_read1 [OF assms(1,2)] by blast
  then show ?thesis
    using False assms serves_length [OF assms(1)]
    by (simp add: move_window_def window_ok_def Let_def)
qed

subsection \<open>The file allocation table\<close>

definition fat_byte :: "(u32 \<Rightarrow> u8 list) \<Rightarrow> FATFS \<Rightarrow> nat \<Rightarrow> u8" where
  "fat_byte sec fs i = sec (fs_fatbase fs + of_nat (i div 512)) ! (i mod 512)"

text \<open>Entries of 12 bits share a byte, those of 16 and 32 bits are little-endian.\<close>

definition fat_entry :: "(u32 \<Rightarrow> u8 list) \<Rightarrow> FATFS \<Rightarrow> nat \<Rightarrow> nat" where
  "fat_entry sec fs c =
     (let byte = (\<lambda>i. unat (fat_byte sec fs i)) in
      if fs_type fs = FS_FAT12 then
        (let v = byte (c * 3 div 2) + 256 * byte (c * 3 div 2 + 1) in if odd c then v div 16 else v mod 4096)
      else if fs_type fs = FS_FAT16 then byte (2 * c) + 256 * byte (2 * c + 1)
      else (byte (4 * c) + 256 * byte (4 * c + 1) + 65536 * byte (4 * c + 2) + 16777216 * byte (4 * c + 3)) mod 2 ^ 28)"

text \<open>A volume whose areas lie within the addressable sectors.\<close>

definition volume_ok :: "FATFS \<Rightarrow> bool" where
  "volume_ok fs \<longleftrightarrow>
     fs_type fs \<in> {FS_FAT12, FS_FAT16, FS_FAT32} \<and>
     (fs_type fs = FS_FAT12 \<longrightarrow> unat (fs_max_clust fs) \<le> 0xFF7) \<and>
     fs_sects_clust fs \<noteq> 0 \<and> 2 \<le> unat (fs_max_clust fs) \<and>
     0 < unat (fs_fatbase fs) \<and> unat (fs_fatbase fs) + unat (fs_max_clust fs) < 2 ^ 32 \<and>
     0 < unat (fs_database fs) \<and>
     unat (fs_database fs) + unat (fs_max_clust fs) * unat (fs_sects_clust fs) < 2 ^ 32"

lemma volume_ok_volume: "volume fs = volume fs' \<Longrightarrow> volume_ok fs \<longleftrightarrow> volume_ok fs'"
  using volume_fields [of fs fs'] by (simp add: volume_ok_def)

lemma fat_entry_volume: "volume fs = volume fs' \<Longrightarrow> fat_entry sec fs = fat_entry sec fs'"
  using volume_fields [of fs fs'] by (intro ext) (simp add: fat_entry_def fat_byte_def Let_def)

definition valid_clust :: "FATFS \<Rightarrow> u32 \<Rightarrow> bool" where
  "valid_clust fs c \<longleftrightarrow> 2 \<le> c \<and> c < fs_max_clust fs"

text \<open>The sectors of the table are not sector 0.\<close>

lemma fat_sector_nonzero:
  assumes "volume_ok fs" "m \<le> unat (fs_max_clust fs)"
  shows "fs_fatbase fs + of_nat m \<noteq> 0"
proof -
  have "unat (fs_fatbase fs + of_nat m) = unat (fs_fatbase fs) + m"
    using assms by (simp add: volume_ok_def unat_word_ariths unat_of_nat take_bit_nat_eq_self)
  then show ?thesis using assms by (auto simp: volume_ok_def)
qed

text \<open>Reading an entry gives the entry of the table, for each of the three kinds of table.\<close>

lemma unat_fat12: "unat (c :: u32) \<le> 0xFF7 \<Longrightarrow>
   unat (of_nat (unat (ucast c :: u16) * 3 div 2) :: u16) = unat c * 3 div 2"
  by (simp add: unsigned_ucast_eq unat_of_nat take_bit_nat_eq_self)

lemma and_1_iff: "(c :: u32) AND 1 \<noteq> 0 \<longleftrightarrow> odd (unat c)"
proof -
  have "unat (c AND 1) = unat c mod 2"
    unfolding unsigned_and_eq by (simp add: and_one_eq)
  then show ?thesis by (metis odd_iff_mod_2_eq_one unat_eq_0 mod_2_eq_odd of_bool_eq_0_iff)
qed

lemma ucast_u16: "unat (w :: u16) = n \<Longrightarrow> ucast w = (of_nat n :: u32)"
  using u16_lt [of w] by (intro of_unatI) (simp add: unsigned_ucast_eq take_bit_nat_eq_self)

lemma fat12_value:
  fixes wc :: u16
  shows "ucast (if (c :: u32) AND 1 \<noteq> 0 then drop_bit 4 wc else wc AND 0xFFF) =
    (of_nat (if odd (unat c) then unat wc div 16 else unat wc mod 4096) :: u32)"
proof (cases "odd (unat c)")
  case True
  then have "c AND 1 \<noteq> 0" by (simp add: and_1_iff)
  moreover have "unat (ucast (drop_bit 4 wc) :: u32) = unat wc div 16"
    using u16_lt [of wc] unfolding unsigned_ucast_eq unsigned_drop_bit_eq by (simp add: drop_bit_eq_div take_bit_nat_eq_self)
  ultimately show ?thesis using True by (simp add: of_unatI)
next
  case False
  then have "c AND 1 = 0" using and_1_iff by blast
  moreover have "unat (ucast (take_bit 12 wc) :: u32) = unat wc mod 4096"
    using u16_lt [of wc] unfolding unsigned_ucast_eq unsigned_take_bit_eq by (simp add: take_bit_eq_mod)
  ultimately show ?thesis using False by (simp add: of_unatI)
qed

lemma and_28: "unat (w AND 0x0FFFFFFF) = unat (w :: u32) mod 2 ^ 28"
proof -
  have "w AND 0x0FFFFFFF = take_bit 28 w" by (simp add: take_bit_eq_mask mask_eq_exp_minus_1)
  then show ?thesis by (simp only: unsigned_take_bit_eq) (simp add: take_bit_eq_mod)
qed

lemma sect_at:
  fixes n k m r :: nat
  assumes "r < k" "k * m = 512" "0 < k"
  shows "(k * n + r) div 512 = n div m" "(k * n + r) mod 512 = (n mod 65536) * k mod 512 + r"
proof -
  have km: "512 = k * m" using assms by simp
  have "(k * n + r) div 512 = ((k * n + r) div k) div m" unfolding km by (simp add: div_mult2_eq)
  then show "(k * n + r) div 512 = n div m" using assms by simp
  have "(k * n + r) mod 512 = k * ((k * n + r) div k mod m) + (k * n + r) mod k"
    unfolding km by (rule mod_mult2_eq)
  then have a: "(k * n + r) mod 512 = k * (n mod m) + r" using assms by simp
  have "m dvd 65536"
  proof -
    have "m dvd 512" unfolding km by simp
    then show ?thesis by (rule dvd_trans) simp
  qed
  then have "(n mod 65536) mod m = n mod m" by (rule mod_mod_cancel)
  then have "(n mod 65536) * k mod 512 = k * (n mod m)" unfolding km by (simp add: mult.commute mult_mod_right [symmetric])
  with a show "(k * n + r) mod 512 = (n mod 65536) * k mod 512 + r" by simp
qed

lemma valid_clust_lt:
  "valid_clust fs c \<Longrightarrow> unat c < unat (fs_max_clust fs)" "valid_clust fs c \<Longrightarrow> 2 \<le> unat c"
  "valid_clust fs c \<Longrightarrow> 2 \<le> c \<and> c < fs_max_clust fs"
  by (simp_all add: valid_clust_def word_le_nat_alt word_less_nat_alt)

lemma get_cluster_fat12:
  assumes d: "serves dk ok sec" and s: "ok s" and w: "window_ok sec fs" and v: "volume_ok fs" and c: "valid_clust fs c"
    and f12: "fs_type fs = 1"
  shows "\<exists>fs' s'. get_cluster dk c fs s = Some (of_nat (fat_entry sec fs (unat c)), fs', s') \<and>
    ok s' \<and> window_ok sec fs' \<and> volume fs' = volume fs"
proof -
  note lt = valid_clust_lt(1,2) [OF c] and valid = valid_clust_lt(3) [OF c]
  define i where "i = unat c * 3 div 2"
  define bc :: u16 where "bc = of_nat (unat (ucast c :: u16) * 3 div 2)"
  have "unat c \<le> 0xFF7" using lt v f12 by (simp add: volume_ok_def)
  then have bc: "unat bc = i" "i < 6200" by (simp_all add: bc_def i_def unat_fat12)
  have bc1: "unat (bc + 1) = i + 1" using bc by (simp add: unat_word_ariths)
  have sect: "ucast bc div 512 = (of_nat (i div 512) :: u32)" "ucast (bc + 1) div 512 = (of_nat ((i + 1) div 512) :: u32)"
    using bc bc1 by (simp_all add: word_unat_eq_iff unat_div unsigned_ucast_eq unat_of_nat take_bit_nat_eq_self)
  have le: "i div 512 \<le> unat (fs_max_clust fs)" "(i + 1) div 512 \<le> unat (fs_max_clust fs)"
    using lt by (simp_all add: i_def)
  obtain fs1 s1 where 1: "move_window dk (fs_fatbase fs + ucast bc div 512) fs s = Some (True, fs1, s1)"
      "ok s1" "window_ok sec fs1" "volume fs1 = volume fs" "fs_win fs1 = sec (fs_fatbase fs + of_nat (i div 512))"
    using move_window_ok [OF d s w fat_sector_nonzero [OF v le(1)]] unfolding sect by blast
  obtain fs2 s2 where 2: "move_window dk (fs_fatbase fs + ucast (bc + 1) div 512) fs1 s1 = Some (True, fs2, s2)"
      "ok s2" "window_ok sec fs2" "volume fs2 = volume fs1" "fs_win fs2 = sec (fs_fatbase fs + of_nat ((i + 1) div 512))"
    using move_window_ok [OF d 1(2,3) fat_sector_nonzero [OF v le(2)]] unfolding sect by blast
  define wc :: u16 where "wc = ucast (fat_byte sec fs i) OR push_bit 8 (ucast (fat_byte sec fs (i + 1)))"
  have wc: "unat wc = unat (fat_byte sec fs i) + 256 * unat (fat_byte sec fs (i + 1))"
    using u8_lt [of "fat_byte sec fs i"] u8_lt [of "fat_byte sec fs (i + 1)"] unfolding wc_def or.commute [of "ucast (fat_byte sec fs i)"]
    by (subst unat_join) (simp_all add: unat_ucast_u8)
  have "get_cluster dk c fs s = Some (ucast (if c AND 1 \<noteq> 0 then drop_bit 4 wc else wc AND 0xFFF), fs2, s2)"
    using valid f12 1(1) 2(1) bc bc1
    by (simp add: get_cluster_def bc_def [symmetric] 1(5) 2(5) wc_def fat_byte_def unat_take_bit_9 Let_def)
  moreover have "ucast (if c AND 1 \<noteq> 0 then drop_bit 4 wc else wc AND 0xFFF) = (of_nat (fat_entry sec fs (unat c)) :: u32)"
    using f12 by (simp add: fat12_value fat_entry_def Let_def wc i_def)
  ultimately show ?thesis using 1 2 by simp
qed

lemma get_cluster_fat16:
  assumes d: "serves dk ok sec" and s: "ok s" and w: "window_ok sec fs" and v: "volume_ok fs" and c: "valid_clust fs c"
    and f16: "fs_type fs = 2"
  shows "\<exists>fs' s'. get_cluster dk c fs s = Some (of_nat (fat_entry sec fs (unat c)), fs', s') \<and>
    ok s' \<and> window_ok sec fs' \<and> volume fs' = volume fs"
proof -
  note lt = valid_clust_lt(1,2) [OF c] and valid = valid_clust_lt(3) [OF c]
  have "unat c div 256 \<le> unat (fs_max_clust fs)" using lt by simp
  from move_window_ok [OF d s w fat_sector_nonzero [OF v this]] obtain fs1 s1 where
    1: "move_window dk (fs_fatbase fs + of_nat (unat c div 256)) fs s = Some (True, fs1, s1)"
      "ok s1" "window_ok sec fs1" "volume fs1 = volume fs" "fs_win fs1 = sec (fs_fatbase fs + of_nat (unat c div 256))"
    by blast
  have c256: "c div 256 = of_nat (unat c div 256)" by (simp add: word_arith_nat_div)
  have u: "unat (ucast c :: u16) = unat c mod 65536" by (simp add: unsigned_ucast_eq take_bit_eq_mod)
  have at: "2 * unat c div 512 = unat c div 256" "(2 * unat c + 1) div 512 = unat c div 256"
    "2 * unat c mod 512 = unat (ucast c :: u16) * 2 mod 512" "(2 * unat c + 1) mod 512 = unat (ucast c :: u16) * 2 mod 512 + 1"
    unfolding u using sect_at [of 0 2 256 "unat c"] sect_at [of 1 2 256 "unat c"] by simp_all
  have "unat (LD_WORD (fs_win fs1) (unat (ucast c :: u16) * 2 mod 512)) = fat_entry sec fs (unat c)"
    using f16 unfolding unat_LD_WORD 1(5) fat_entry_def fat_byte_def Let_def at by simp
  then have "ucast (LD_WORD (fs_win fs1) (unat (ucast c :: u16) * 2 mod 512)) = (of_nat (fat_entry sec fs (unat c)) :: u32)"
    by (rule ucast_u16)
  then show ?thesis using 1(2-4) 1(1) [folded c256] valid f16 by (simp add: get_cluster_def)
qed

lemma get_cluster_fat32:
  assumes d: "serves dk ok sec" and s: "ok s" and w: "window_ok sec fs" and v: "volume_ok fs" and c: "valid_clust fs c"
    and f32: "fs_type fs = 3"
  shows "\<exists>fs' s'. get_cluster dk c fs s = Some (of_nat (fat_entry sec fs (unat c)), fs', s') \<and>
    ok s' \<and> window_ok sec fs' \<and> volume fs' = volume fs"
proof -
  note lt = valid_clust_lt(1,2) [OF c] and valid = valid_clust_lt(3) [OF c]
  have "unat c div 128 \<le> unat (fs_max_clust fs)" using lt by simp
  from move_window_ok [OF d s w fat_sector_nonzero [OF v this]] obtain fs1 s1 where
    1: "move_window dk (fs_fatbase fs + of_nat (unat c div 128)) fs s = Some (True, fs1, s1)"
      "ok s1" "window_ok sec fs1" "volume fs1 = volume fs" "fs_win fs1 = sec (fs_fatbase fs + of_nat (unat c div 128))"
    by blast
  have c128: "c div 128 = of_nat (unat c div 128)" by (simp add: word_arith_nat_div)
  have u: "unat (ucast c :: u16) = unat c mod 65536" by (simp add: unsigned_ucast_eq take_bit_eq_mod)
  have at: "(4 * unat c + r) div 512 = unat c div 128" "(4 * unat c + r) mod 512 = unat (ucast c :: u16) * 4 mod 512 + r"
    if "r < 4" for r
    unfolding u using sect_at [of r 4 128 "unat c"] that by simp_all
  have "unat (LD_DWORD (fs_win fs1) (unat (ucast c :: u16) * 4 mod 512) AND 0x0FFFFFFF) = fat_entry sec fs (unat c)"
    using f32 at [of 0] at [of 1] at [of 2] at [of 3]
    by (simp add: and_28 unat_LD_DWORD 1(5) fat_entry_def fat_byte_def Let_def del: u)
  then have "LD_DWORD (fs_win fs1) (unat (ucast c :: u16) * 4 mod 512) AND 0x0FFFFFFF = of_nat (fat_entry sec fs (unat c))"
    by (rule of_unatI)
  then show ?thesis using 1(2-4) 1(1) [folded c128] valid f32 by (simp add: get_cluster_def)
qed

lemma get_cluster_ok:
  assumes d: "serves dk ok sec" and s: "ok s" and w: "window_ok sec fs" and v: "volume_ok fs" and c: "valid_clust fs c"
  shows "\<exists>fs' s'. get_cluster dk c fs s = Some (of_nat (fat_entry sec fs (unat c)), fs', s') \<and>
    ok s' \<and> window_ok sec fs' \<and> volume fs' = volume fs"
proof -
  consider "fs_type fs = 1" | "fs_type fs = 2" | "fs_type fs = 3"
    using v by (auto simp: volume_ok_def)
  then show ?thesis
    using get_cluster_fat12 [OF assms] get_cluster_fat16 [OF assms] get_cluster_fat32 [OF assms] by cases
qed

end
