(* ===== verification/Fat_File.thy ===== *)
theory Fat_File
  imports Fat_Chain
begin

text \<open>
  Files on a FAT volume: the contents of a file as the disk holds them, and the cursor the
  file object keeps.  Reading gives the contents from the position on, seeking moves the
  position, and both leave a cursor that fits.
\<close>

subsection \<open>Contents\<close>

text \<open>The \<open>k\<close>-th cluster from a cluster on, the \<open>m\<close>-th sector of the file that starts there, its bytes.\<close>

definition nth_clust :: "(u32 \<Rightarrow> u8 list) \<Rightarrow> FATFS \<Rightarrow> u32 \<Rightarrow> nat \<Rightarrow> u32" where
  "nth_clust sec fs org k = ((\<lambda>c. of_nat (fat_entry sec fs (unat c))) ^^ k) org"

definition sector_no :: "(u32 \<Rightarrow> u8 list) \<Rightarrow> FATFS \<Rightarrow> u32 \<Rightarrow> nat \<Rightarrow> u32" where
  "sector_no sec fs org m =
     clust2sect fs (nth_clust sec fs org (m div unat (fs_sects_clust fs))) + of_nat (m mod unat (fs_sects_clust fs))"

definition file_byte :: "(u32 \<Rightarrow> u8 list) \<Rightarrow> FATFS \<Rightarrow> u32 \<Rightarrow> nat \<Rightarrow> u8" where
  "file_byte sec fs org p = sec (sector_no sec fs org (p div 512)) ! (p mod 512)"

definition contents :: "(u32 \<Rightarrow> u8 list) \<Rightarrow> FATFS \<Rightarrow> u32 \<Rightarrow> nat \<Rightarrow> u8 list" where
  "contents sec fs org n = map (file_byte sec fs org) [0..<n]"

text \<open>The chain has a valid cluster for every byte of the file.\<close>

definition chain_ok :: "(u32 \<Rightarrow> u8 list) \<Rightarrow> FATFS \<Rightarrow> u32 \<Rightarrow> nat \<Rightarrow> bool" where
  "chain_ok sec fs org n \<longleftrightarrow> (\<forall>k. k * (unat (fs_sects_clust fs) * 512) < n \<longrightarrow> valid_clust fs (nth_clust sec fs org k))"

lemma nth_clust_0 [simp]: "nth_clust sec fs org 0 = org"
  by (simp add: nth_clust_def)

lemma nth_clust_Suc: "nth_clust sec fs org (Suc k) = of_nat (fat_entry sec fs (unat (nth_clust sec fs org k)))"
  by (simp add: nth_clust_def)

lemma file_volume:
  assumes "volume fs = volume fs'"
  shows "nth_clust sec fs = nth_clust sec fs'" "sector_no sec fs = sector_no sec fs'"
    "contents sec fs = contents sec fs'" "chain_ok sec fs = chain_ok sec fs'" "valid_clust fs = valid_clust fs'"
proof -
  show n: "nth_clust sec fs = nth_clust sec fs'"
    using fat_entry_volume [OF assms] by (intro ext) (simp add: nth_clust_def)
  show s: "sector_no sec fs = sector_no sec fs'"
    using volume_fields [OF assms] clust2sect_volume [OF assms] by (intro ext) (simp add: sector_no_def n)
  show "contents sec fs = contents sec fs'"
    by (intro ext) (simp add: contents_def file_byte_def s)
  show v: "valid_clust fs = valid_clust fs'"
    using volume_fields [OF assms] by (intro ext) (simp add: valid_clust_def)
  show "chain_ok sec fs = chain_ok sec fs'"
    using volume_fields [OF assms] by (intro ext) (simp add: chain_ok_def n v)
qed

lemma chain_sector:
  assumes "chain_ok sec fs org n" "m * 512 < n"
  shows "valid_clust fs (nth_clust sec fs org (m div unat (fs_sects_clust fs)))"
proof -
  let ?S = "unat (fs_sects_clust fs)"
  have "m div ?S * ?S \<le> m" by simp
  then have "m div ?S * (?S * 512) \<le> m * 512" by (simp add: mult.assoc [symmetric])
  with assms(2) have "m div ?S * (?S * 512) < n" by (rule le_less_trans [rotated])
  with assms(1) show ?thesis unfolding chain_ok_def by blast
qed

subsection \<open>The cursor\<close>

text \<open>
  Between calls, the object of the file describes the sector of the byte before the position; the
  buffer holds it unless the position is at a boundary.
\<close>

definition at_sector :: "(u32 \<Rightarrow> u8 list) \<Rightarrow> FATFS \<Rightarrow> nat \<Rightarrow> FIL \<Rightarrow> bool" where
  "at_sector sec fs m fp \<longleftrightarrow>
     fp_curr_clust fp = nth_clust sec fs (fp_org_clust fp) (m div unat (fs_sects_clust fs)) \<and>
     fp_curr_sect fp = sector_no sec fs (fp_org_clust fp) m \<and>
     unat (fp_sect_clust fp) = unat (fs_sects_clust fs) - m mod unat (fs_sects_clust fs)"

definition cursor_ok :: "(u32 \<Rightarrow> u8 list) \<Rightarrow> FATFS \<Rightarrow> FIL \<Rightarrow> bool" where
  "cursor_ok sec fs fp \<longleftrightarrow>
     fp_fptr fp \<le> fp_fsize fp \<and> length (fp_buffer fp) = 512 \<and>
     (if fp_fptr fp = 0 then fp_sect_clust fp = 1
      else at_sector sec fs ((unat (fp_fptr fp) - 1) div 512) fp \<and>
        (unat (fp_fptr fp) mod 512 \<noteq> 0 \<longrightarrow> fp_buffer fp = sec (fp_curr_sect fp)))"

text \<open>What does not change while a file is read.\<close>

definition same_file :: "FIL \<Rightarrow> FIL \<Rightarrow> bool" where
  "same_file fp fp' \<longleftrightarrow> fp_id fp' = fp_id fp \<and> fp_flag fp' = fp_flag fp \<and> fp_fs fp' = fp_fs fp \<and>
     fp_fsize fp' = fp_fsize fp \<and> fp_org_clust fp' = fp_org_clust fp"

lemma same_file_refl [simp]: "same_file fp fp"
  by (simp add: same_file_def)

lemma same_file_trans: "same_file fp fp' \<Longrightarrow> same_file fp' fp'' \<Longrightarrow> same_file fp fp''"
  by (simp add: same_file_def)

lemma at_sector_volume: "volume fs = volume fs' \<Longrightarrow> at_sector sec fs = at_sector sec fs'"
  using volume_fields [of fs fs'] file_volume [of fs fs'] by (intro ext) (simp add: at_sector_def)

lemma cursor_volume: "volume fs = volume fs' \<Longrightarrow> cursor_ok sec fs = cursor_ok sec fs'"
  using at_sector_volume [of fs fs'] by (intro ext) (simp add: cursor_ok_def)

lemma next_sector_ok:
  assumes d: "serves dk ok sec" and s: "ok s" and w: "window_ok sec fs" and v: "volume_ok fs"
    and chain: "chain_ok sec fs (fp_org_clust fp) (unat (fp_fsize fp))" and cur: "cursor_ok sec fs fp"
    and bound: "unat (fp_fptr fp) mod 512 = 0" and lt: "fp_fptr fp < fp_fsize fp"
  shows "\<exists>fp' fs' s'. next_sector dk fp fs s = Some (True, fp', fs', s') \<and> ok s' \<and> window_ok sec fs' \<and>
    volume fs' = volume fs \<and> at_sector sec fs (unat (fp_fptr fp) div 512) fp' \<and> same_file fp fp' \<and>
    fp_fptr fp' = fp_fptr fp \<and> fp_buffer fp' = fp_buffer fp"
proof -
  let ?S = "unat (fs_sects_clust fs)" and ?org = "fp_org_clust fp"
  define m where "m = unat (fp_fptr fp) div 512"
  have p: "unat (fp_fptr fp) = m * 512" using bound by (auto simp: m_def)
  have S: "0 < ?S" using v by (simp add: volume_ok_def unat_gt_0)
  have valid: "valid_clust fs (nth_clust sec fs ?org (m div ?S))"
    using chain lt p by (intro chain_sector) (simp_all add: word_less_nat_alt)
  show ?thesis
  proof (cases m)
    case 0
    then have "fp_fptr fp = 0" using p by (simp add: unat_eq_0)
    moreover have "fp_sect_clust fp = 1" using cur calculation by (simp add: cursor_ok_def)
    ultimately show ?thesis
      using valid 0 s w p
      by (simp add: next_sector_def at_sector_def sector_no_def same_file_def m_def valid_clust_def not_less not_le Let_def)
  next
    case (Suc j)
    have "fp_fptr fp \<noteq> 0" using p Suc by auto
    moreover have "(unat (fp_fptr fp) - 1) div 512 = j" unfolding p Suc by simp
    ultimately have at: "at_sector sec fs j fp" using cur by (simp add: cursor_ok_def)
    show ?thesis
    proof (cases "Suc (j mod ?S) = ?S")
      case True
      have "unat (fp_sect_clust fp) = 1" using at True S unfolding at_sector_def by simp
      then have "fp_sect_clust fp = 1" by (simp add: word_unat_eq_iff)
      moreover have pos: "m div ?S = Suc (j div ?S)" "m mod ?S = 0" using Suc True by (simp_all add: div_Suc mod_Suc)
      have "unat (fp_fptr fp) = (Suc j) * 512" using p Suc by simp
      then have "j * 512 < unat (fp_fsize fp)" using lt by (simp add: word_less_nat_alt)
      then have "valid_clust fs (fp_curr_clust fp)"
        using at chain_sector [OF chain] by (simp add: at_sector_def)
      from get_cluster_ok [OF d s w v this] obtain fs' s' where
        "get_cluster dk (fp_curr_clust fp) fs s = Some (nth_clust sec fs ?org (m div ?S), fs', s')"
        and fs': "ok s'" "window_ok sec fs'" "volume fs' = volume fs"
        using at pos by (auto simp: at_sector_def nth_clust_Suc)
      ultimately show ?thesis
        using valid \<open>fp_fptr fp \<noteq> 0\<close> volume_fields [OF fs'(3)] clust2sect_volume [OF fs'(3)] pos fs'
        by (simp add: next_sector_def at_sector_def sector_no_def same_file_def m_def [symmetric] valid_clust_def
            not_less not_le Let_def)
    next
      case False
      have sc: "unat (fp_sect_clust fp) = ?S - j mod ?S" using at by (simp add: at_sector_def)
      with False mod_less_divisor [OF S, of j] have "1 < unat (fp_sect_clust fp)" by linarith
      then have "fp_sect_clust fp \<noteq> 0" "fp_sect_clust fp - 1 \<noteq> 0" by (auto dest: unat_minus_1)
      moreover have "m div ?S = j div ?S" "m mod ?S = Suc (j mod ?S)" using Suc False by (simp_all add: div_Suc mod_Suc)
      ultimately show ?thesis
        using at s w by (simp add: next_sector_def at_sector_def sector_no_def same_file_def m_def [symmetric] unat_minus_1)
    qed
  qed
qed

lemmas same_sector = div_mod_add [where S = 512]

text \<open>Bytes of the buffered sector are bytes of the file.\<close>

lemma buffer_bytes:
  assumes "p mod 512 + n \<le> 512" "length (sec (sector_no sec fs org (p div 512))) = 512"
  shows "take n (drop (p mod 512) (sec (sector_no sec fs org (p div 512)))) = map (file_byte sec fs org) [p..<p + n]"
proof (rule nth_equalityI)
  fix i assume "i < length (take n (drop (p mod 512) (sec (sector_no sec fs org (p div 512)))))"
  then have "i < n" "p mod 512 + i < 512" using assms by auto
  then show "take n (drop (p mod 512) (sec (sector_no sec fs org (p div 512)))) ! i =
      map (file_byte sec fs org) [p..<p + n] ! i"
    using assms same_sector [of p i] by (simp add: file_byte_def)
qed (use assms in simp)

lemma unat_copy_count:
  "unat (copy_count fptr btr) = min (unat btr) (512 - unat fptr mod 512)"
proof -
  have m: "unat (take_bit 9 (ucast fptr :: u16)) = unat fptr mod 512"
    unfolding unat_take_bit_9 unsigned_ucast_eq by (simp add: take_bit_eq_mod mod_mod_cancel)
  have "take_bit 9 (ucast fptr :: u16) \<le> 512" unfolding word_le_nat_alt m by simp
  then have "unat (512 - take_bit 9 (ucast fptr :: u16)) = 512 - unat fptr mod 512"
    by (simp add: unat_sub m)
  then show ?thesis by (auto simp: copy_count_def Let_def word_less_nat_alt)
qed

lemma unat_add_count:
  assumes "unat (fptr :: u32) + unat (n :: u16) \<le> unat (fsize :: u32)"
  shows "unat (fptr + ucast n) = unat fptr + unat n"
proof -
  have "unat (ucast n :: u32) = unat n" using u16_lt [of n] by (simp add: unsigned_ucast_eq take_bit_nat_eq_self)
  then show ?thesis using assms u32_lt [of fsize] by (simp add: unat_word_ariths)
qed

text \<open>The next bytes come from the buffer.\<close>

lemma copy_ok:
  assumes at: "at_sector sec fs (unat (fp_fptr fp) div 512) fp" and buf: "fp_buffer fp = sec (fp_curr_sect fp)"
    and len: "length (fp_buffer fp) = 512"
    and btr: "0 < unat btr" "unat (fp_fptr fp) + unat btr \<le> unat (fp_fsize fp)"
    and copy: "copy_bytes btr fp = (rcnt, bs)"
  shows "0 < unat rcnt \<and> unat rcnt \<le> unat btr \<and>
    bs = map (file_byte sec fs (fp_org_clust fp)) [unat (fp_fptr fp)..<unat (fp_fptr fp) + unat rcnt] \<and>
    cursor_ok sec fs (fp\<lparr>fp_fptr := fp_fptr fp + ucast rcnt\<rparr>)"
proof -
  let ?p = "unat (fp_fptr fp)"
  have rcnt: "unat rcnt = min (unat btr) (512 - ?p mod 512)" and bs: "bs = take (unat rcnt) (drop (?p mod 512) (fp_buffer fp))"
    using copy unat_copy_count [of "fp_fptr fp" btr] by (auto simp: copy_bytes_def Let_def unat_take_bit_9)
  have b: "0 < unat rcnt" "unat rcnt \<le> unat btr" "?p mod 512 + unat rcnt \<le> 512" using btr rcnt by auto
  have sect: "fp_buffer fp = sec (sector_no sec fs (fp_org_clust fp) (?p div 512))"
    using at buf by (simp add: at_sector_def)
  have "bs = map (file_byte sec fs (fp_org_clust fp)) [?p..<?p + unat rcnt]"
    using buffer_bytes [OF b(3), of sec fs "fp_org_clust fp"] len unfolding bs sect by simp
  moreover have stop: "unat (fp_fptr fp + ucast rcnt) = ?p + unat rcnt"
    using b btr by (intro unat_add_count [of _ _ "fp_fsize fp"]) simp
  moreover have "(?p + unat rcnt - 1) div 512 = ?p div 512"
    using same_sector(1) [of ?p "unat rcnt - 1"] b by simp
  moreover have "at_sector sec fs (?p div 512) (fp\<lparr>fp_fptr := fp_fptr fp + ucast rcnt\<rparr>)" using at by (simp add: at_sector_def)
  moreover have "fp_fptr fp + ucast rcnt \<noteq> 0" "fp_fptr fp + ucast rcnt \<le> fp_fsize fp"
    using stop b btr by (auto simp: word_le_nat_alt word_unat_eq_iff)
  ultimately show ?thesis using b buf len by (simp add: cursor_ok_def)
qed

text \<open>Whole sectors are read directly, as many as are wanted and left in the cluster.\<close>

lemma sector_no_add:
  assumes "m mod unat (fs_sects_clust fs) + k < unat (fs_sects_clust fs)"
  shows "sector_no sec fs org (m + k) = sector_no sec fs org m + of_nat k"
    "(m + k) div unat (fs_sects_clust fs) = m div unat (fs_sects_clust fs)"
    "(m + k) mod unat (fs_sects_clust fs) = m mod unat (fs_sects_clust fs) + k"
  unfolding sector_no_def div_mod_add [OF assms] by simp_all

lemma concat_blocks:
  assumes "\<And>k. k < n \<Longrightarrow> f k = map g [a + b * k..<a + b * k + b]"
  shows "concat (map f [0..<n]) = map g [a..<a + b * n]"
  using assms
proof (induction n)
  case (Suc n)
  have "[a..<a + b * Suc n] = [a..<a + b * n] @ [a + b * n..<a + b * n + b]"
    using upt_add_eq_append [of a "a + b * n" b] by (simp add: add.assoc add.commute [of b])
  with Suc show ?case by simp
qed simp

lemma direct_bytes:
  assumes S: "m mod unat (fs_sects_clust fs) + n \<le> unat (fs_sects_clust fs)" and len: "\<And>k. length (sec k) = 512"
  shows "concat (map (\<lambda>k. sec (sector_no sec fs org m + of_nat k)) [0..<n]) =
    map (file_byte sec fs org) [m * 512..<m * 512 + 512 * n]"
proof (rule concat_blocks)
  fix k assume "k < n"
  then have k: "sector_no sec fs org m + of_nat k = sector_no sec fs org (m + k)"
    using S by (intro sector_no_add(1) [symmetric]) simp
  have at: "m * 512 + 512 * k = (m + k) * 512" by simp
  show "sec (sector_no sec fs org m + of_nat k) = map (file_byte sec fs org) [m * 512 + 512 * k..<m * 512 + 512 * k + 512]"
    using buffer_bytes [of "(m + k) * 512" 512 sec fs org] len unfolding k at by simp
qed

lemma direct_ok:
  assumes at: "at_sector sec fs m fp" and p: "unat (fp_fptr fp) = m * 512" and len: "length (fp_buffer fp) = 512"
    and cc: "0 < unat (cc :: u8)" "unat cc \<le> unat (fp_sect_clust fp)" "unat cc < 128"
    and fits: "m * 512 + 512 * unat cc \<le> unat (fp_fsize fp)"
  shows "unat (ucast cc * 512 :: u16) = 512 * unat cc"
    "cursor_ok sec fs (fp\<lparr>fp_sect_clust := fp_sect_clust fp - (cc - 1), fp_curr_sect := fp_curr_sect fp + (ucast cc - 1),
       fp_fptr := fp_fptr fp + ucast (ucast cc * 512 :: u16)\<rparr>)"
proof -
  let ?S = "unat (fs_sects_clust fs)"
  have u: "unat (ucast cc :: u16) = unat cc" "unat (ucast cc :: u32) = unat cc" by (simp_all add: unat_ucast_u8)
  show r: "unat (ucast cc * 512 :: u16) = 512 * unat cc" using cc u by (simp add: unat_word_ariths)
  then have stop: "unat (fp_fptr fp + ucast (ucast cc * 512 :: u16)) = m * 512 + 512 * unat cc"
    using fits p by (simp add: unat_add_count [of _ _ "fp_fsize fp"])
  have sc: "unat (fp_sect_clust fp) = ?S - m mod ?S" using at by (simp add: at_sector_def)
  have k: "m mod ?S + (unat cc - 1) < ?S" using sc cc by linarith
  have one: "(1 :: u8) \<le> cc" "(1 :: u32) \<le> ucast cc" using cc u by (simp_all add: word_le_nat_alt)
  have c1: "unat (cc - 1) = unat cc - 1" using one by (simp add: unat_sub)
  have "ucast cc - 1 = (of_nat (unat cc - 1) :: u32)" using one u by (intro of_unatI) (simp add: unat_sub)
  then have sect: "fp_curr_sect fp + (ucast cc - 1) = sector_no sec fs (fp_org_clust fp) (m + (unat cc - 1))"
    using at sector_no_add(1) [OF k] by (simp add: at_sector_def)
  have "unat (fp_sect_clust fp - (cc - 1)) = unat (fp_sect_clust fp) - (unat cc - 1)"
    using cc c1 by (subst unat_sub) (simp_all add: word_le_nat_alt)
  then have "at_sector sec fs (m + (unat cc - 1)) (fp\<lparr>fp_sect_clust := fp_sect_clust fp - (cc - 1),
      fp_curr_sect := fp_curr_sect fp + (ucast cc - 1), fp_fptr := fp_fptr fp + ucast (ucast cc * 512 :: u16)\<rparr>)"
    using at sect sector_no_add(2,3) [OF k] sc by (simp add: at_sector_def)
  moreover have "(m * 512 + 512 * unat cc - 1) div 512 = m + (unat cc - 1)" "(m * 512 + 512 * unat cc) mod 512 = 0"
    using cc by (auto simp: algebra_simps intro!: div_nat_eqI)
  moreover have "fp_fptr fp + ucast (ucast cc * 512 :: u16) \<noteq> 0" "fp_fptr fp + ucast (ucast cc * 512 :: u16) \<le> fp_fsize fp"
    using stop fits cc by (auto simp: word_le_nat_alt word_unat_eq_iff)
  ultimately show "cursor_ok sec fs (fp\<lparr>fp_sect_clust := fp_sect_clust fp - (cc - 1), fp_curr_sect := fp_curr_sect fp + (ucast cc - 1),
       fp_fptr := fp_fptr fp + ucast (ucast cc * 512 :: u16)\<rparr>)"
    using stop len by (simp add: cursor_ok_def)
qed

text \<open>What one turn of the loop achieves.\<close>

definition turn_ok :: "(u32 \<Rightarrow> u8 list) \<Rightarrow> FATFS \<Rightarrow> FIL \<Rightarrow> u16 \<Rightarrow> u16 \<Rightarrow> u8 list \<Rightarrow> FIL \<Rightarrow> bool" where
  "turn_ok sec fs fp btr rcnt bs fp' \<longleftrightarrow>
     0 < unat rcnt \<and> unat rcnt \<le> unat btr \<and>
     bs = map (file_byte sec fs (fp_org_clust fp)) [unat (fp_fptr fp)..<unat (fp_fptr fp) + unat rcnt] \<and>
     same_file fp fp' \<and> fp_fptr fp' = fp_fptr fp \<and> cursor_ok sec fs (fp'\<lparr>fp_fptr := fp_fptr fp + ucast rcnt\<rparr>)"

lemma read_sector_ok:
  assumes d: "serves dk ok sec" and s: "ok s" and v: "volume_ok fs"
    and at: "at_sector sec fs m fp" and p: "unat (fp_fptr fp) = m * 512" and len: "length (fp_buffer fp) = 512"
    and btr: "0 < unat btr" "unat (fp_fptr fp) + unat btr \<le> unat (fp_fsize fp)"
  shows "\<exists>rcnt bs fp' s'. read_sector dk btr fp fs s = Some (True, rcnt, bs, fp', s') \<and> ok s' \<and>
    turn_ok sec fs fp btr rcnt bs fp'"
proof -
  let ?S = "unat (fs_sects_clust fs)"
  define n :: u8 where "n = ucast (btr div 512)"
  have n: "unat n = unat btr div 512" "unat n < 128"
    using u16_lt [of btr] by (simp_all add: n_def unsigned_ucast_eq unat_div take_bit_nat_eq_self div_less_iff_less_mult)
  have S: "m mod ?S < ?S" using v by (simp add: volume_ok_def unat_gt_0)
  show ?thesis
  proof (cases "n = 0")
    case True
    obtain s' where s': "dk_read dk (fs_drive fs) (fp_curr_sect fp) 1 s = Some (RES_OK, sec (fp_curr_sect fp), s')" "ok s'"
      using serves_read1 [OF d s] by blast
    let ?fp = "fp\<lparr>fp_buffer := sec (fp_curr_sect fp)\<rparr>"
    obtain rcnt bs where c: "copy_bytes btr ?fp = (rcnt, bs)" by fastforce
    have "turn_ok sec fs fp btr rcnt bs ?fp"
      using copy_ok [of sec fs ?fp btr rcnt bs] c at p btr serves_length [OF d]
      by (simp add: turn_ok_def at_sector_def same_file_def)
    then show ?thesis
      using True s' c len serves_length [OF d] by (simp add: read_sector_def n_def [symmetric] Let_def)
  next
    case False
    define cc where "cc = (if fp_sect_clust fp < n then fp_sect_clust fp else n)"
    have sc: "unat (fp_sect_clust fp) = ?S - m mod ?S" using at by (simp add: at_sector_def)
    have cc: "0 < unat cc" "unat cc \<le> unat (fp_sect_clust fp)" "unat cc < 128" "unat cc \<le> unat n"
      using False n sc S by (auto simp: cc_def unat_gt_0 word_less_nat_alt)
    then have fits: "m * 512 + 512 * unat cc \<le> unat (fp_fsize fp)" "512 * unat cc \<le> unat btr"
      using n btr p by linarith+
    obtain s' where s': "dk_read dk (fs_drive fs) (fp_curr_sect fp) cc s =
        Some (RES_OK, concat (map (\<lambda>k. sec (fp_curr_sect fp + of_nat k)) [0..<unat cc]), s')" "ok s'"
      using serves_read [OF d s, of cc] cc(1) by fastforce
    have "m mod ?S + unat cc \<le> ?S" using cc sc S by linarith
    note bs = direct_bytes [OF this, where sec = sec and org = "fp_org_clust fp", OF serves_length [OF d]]
    let ?fp = "fp\<lparr>fp_sect_clust := fp_sect_clust fp - (cc - 1), fp_curr_sect := fp_curr_sect fp + (ucast cc - 1)\<rparr>"
    have "turn_ok sec fs fp btr (ucast cc * 512) (map (file_byte sec fs (fp_org_clust fp)) [m * 512..<m * 512 + 512 * unat cc]) ?fp"
      using direct_ok [OF at p len cc(1-3) fits(1)] fits cc p by (simp add: turn_ok_def same_file_def)
    then show ?thesis
      using False s' bs at
      by (simp add: read_sector_def n_def [symmetric] cc_def [symmetric] Let_def at_sector_def)
  qed
qed

lemma pred_sector: "p mod 512 \<noteq> 0 \<Longrightarrow> (p - 1) div 512 = p div (512 :: nat)"
  by (cases p) (simp_all add: div_Suc)

lemma read_turn_ok:
  assumes d: "serves dk ok sec" and s: "ok s" and w: "window_ok sec fs" and v: "volume_ok fs"
    and chain: "chain_ok sec fs (fp_org_clust fp) (unat (fp_fsize fp))" and cur: "cursor_ok sec fs fp"
    and btr: "0 < unat btr" "unat (fp_fptr fp) + unat btr \<le> unat (fp_fsize fp)"
  shows "\<exists>rcnt bs fp' fs' s'. read_turn dk btr fp fs s = Some (True, rcnt, bs, fp', fs', s') \<and> ok s' \<and>
    window_ok sec fs' \<and> volume fs' = volume fs \<and> turn_ok sec fs fp btr rcnt bs fp'"
proof (cases "unat (fp_fptr fp) mod 512 = 0")
  case False
  then have pos: "fp_fptr fp \<noteq> 0" "(unat (fp_fptr fp) - 1) div 512 = unat (fp_fptr fp) div 512"
    "take_bit 9 (fp_fptr fp) \<noteq> 0"
    using pred_sector [of "unat (fp_fptr fp)"] by (auto simp: word_unat_eq_iff unat_take_bit_9)
  obtain rcnt bs where c: "copy_bytes btr fp = (rcnt, bs)" by fastforce
  have "at_sector sec fs (unat (fp_fptr fp) div 512) fp" "fp_buffer fp = sec (fp_curr_sect fp)" "length (fp_buffer fp) = 512"
    using cur pos False by (auto simp: cursor_ok_def)
  from copy_ok [OF this btr c] have "turn_ok sec fs fp btr rcnt bs fp" by (simp add: turn_ok_def)
  then show ?thesis using c pos s w by (simp add: read_turn_def)
next
  case True
  have lt: "fp_fptr fp < fp_fsize fp" using btr by (simp add: word_less_nat_alt)
  from next_sector_ok [OF d s w v chain cur True lt] obtain fp1 fs1 s1 where
    1: "next_sector dk fp fs s = Some (True, fp1, fs1, s1)" "ok s1" "window_ok sec fs1" "volume fs1 = volume fs"
      "at_sector sec fs (unat (fp_fptr fp) div 512) fp1" "same_file fp fp1" "fp_fptr fp1 = fp_fptr fp" "fp_buffer fp1 = fp_buffer fp"
    by blast
  have p: "unat (fp_fptr fp1) = unat (fp_fptr fp) div 512 * 512" using True 1(7) by auto
  have "volume_ok fs1" "at_sector sec fs1 (unat (fp_fptr fp) div 512) fp1" "length (fp_buffer fp1) = 512"
      "unat (fp_fptr fp1) + unat btr \<le> unat (fp_fsize fp1)"
    using v 1 cur btr volume_ok_volume [OF 1(4)] at_sector_volume [OF 1(4)] by (auto simp: cursor_ok_def same_file_def)
  from read_sector_ok [OF d 1(2) this(1,2) p this(3) btr(1) this(4)] obtain rcnt bs fp' s' where
    2: "read_sector dk btr fp1 fs1 s1 = Some (True, rcnt, bs, fp', s')" "ok s'" "turn_ok sec fs1 fp1 btr rcnt bs fp'"
    by blast
  have "turn_ok sec fs fp btr rcnt bs fp'"
    using 2(3) 1(6,7) cursor_volume [OF 1(4)] file_volume(2) [OF 1(4)]
    by (auto simp: turn_ok_def same_file_def file_byte_def fun_eq_iff)
  moreover have "take_bit 9 (fp_fptr fp) = 0" using True by (simp add: word_unat_eq_iff unat_take_bit_9)
  ultimately show ?thesis using 1 2 by (simp add: read_turn_def)
qed

subsection \<open>Reading\<close>

text \<open>The loop ends after as many turns as it takes, with the bytes that were asked for.\<close>

lemma f_read_loop_ok:
  assumes "serves dk ok sec" "ok s" "window_ok sec fs" "volume_ok fs"
    "chain_ok sec fs (fp_org_clust fp) (unat (fp_fsize fp))" "cursor_ok sec fs fp"
    "unat (fp_fptr fp) + unat btr \<le> unat (fp_fsize fp)"
  shows "\<exists>fp' fs' s'. f_read_loop dk btr br got fp fs s =
      Some (FR_OK, br + btr, got @ map (file_byte sec fs (fp_org_clust fp)) [unat (fp_fptr fp)..<unat (fp_fptr fp) + unat btr],
        fp', fs', s') \<and> ok s' \<and> window_ok sec fs' \<and> volume fs' = volume fs \<and> same_file fp fp' \<and>
      cursor_ok sec fs' fp' \<and> unat (fp_fptr fp') = unat (fp_fptr fp) + unat btr"
  using assms(2-)
proof (induction "unat btr" arbitrary: btr br got fp fs s rule: less_induct)
  case less
  show ?case
  proof (cases "btr = 0")
    case True
    then show ?thesis using less.prems by (simp add: f_read_loop.simps)
  next
    case False
    then have pos: "0 < unat btr" by (simp add: unat_gt_0)
    from read_turn_ok [OF assms(1) less.prems(1-5) pos less.prems(6)] obtain rcnt bs fp1 fs1 s1 where
      1: "read_turn dk btr fp fs s = Some (True, rcnt, bs, fp1, fs1, s1)" "ok s1" "window_ok sec fs1" "volume fs1 = volume fs"
        and t: "turn_ok sec fs fp btr rcnt bs fp1" by blast
    define fp2 where "fp2 = fp1\<lparr>fp_fptr := fp_fptr fp + ucast rcnt\<rparr>"
    have rcnt: "0 < unat rcnt" "unat rcnt \<le> unat btr" using t by (simp_all add: turn_ok_def)
    then have left: "unat (btr - rcnt) = unat btr - unat rcnt" by (simp add: unat_sub word_le_nat_alt)
    have same: "same_file fp fp2" "cursor_ok sec fs1 fp2"
      using t cursor_volume [OF 1(4)] by (simp_all add: fp2_def turn_ok_def same_file_def)
    have ptr: "unat (fp_fptr fp2) = unat (fp_fptr fp) + unat rcnt"
      using rcnt less.prems(6) by (simp add: fp2_def unat_add_count [of _ _ "fp_fsize fp"])
    have "volume_ok fs1" "chain_ok sec fs1 (fp_org_clust fp2) (unat (fp_fsize fp2))"
        "unat (fp_fptr fp2) + unat (btr - rcnt) \<le> unat (fp_fsize fp2)" "unat (btr - rcnt) < unat btr"
      using less.prems 1(4) same(1) ptr left rcnt pos volume_ok_volume [OF 1(4)] file_volume(4) [OF 1(4)]
      by (simp_all add: same_file_def)
    from less.hyps [OF this(4) 1(2,3) this(1,2) same(2) this(3), of "br + rcnt" "got @ bs"] obtain fp' fs' s' where
      2: "f_read_loop dk (btr - rcnt) (br + rcnt) (got @ bs) fp2 fs1 s1 = Some (FR_OK, br + rcnt + (btr - rcnt), (got @ bs) @
          map (file_byte sec fs1 (fp_org_clust fp2)) [unat (fp_fptr fp2)..<unat (fp_fptr fp2) + unat (btr - rcnt)], fp', fs', s')"
        "ok s'" "window_ok sec fs'" "volume fs' = volume fs1" "same_file fp2 fp'" "cursor_ok sec fs' fp'"
        "unat (fp_fptr fp') = unat (fp_fptr fp2) + unat (btr - rcnt)" by blast
    have "[unat (fp_fptr fp)..<unat (fp_fptr fp) + unat btr] =
        [unat (fp_fptr fp)..<unat (fp_fptr fp2)] @ [unat (fp_fptr fp2)..<unat (fp_fptr fp2) + unat (btr - rcnt)]"
      using upt_add_eq_append [of "unat (fp_fptr fp)" "unat (fp_fptr fp2)" "unat (btr - rcnt)"] ptr left rcnt by simp
    then have bytes: "(got @ bs) @ map (file_byte sec fs1 (fp_org_clust fp2)) [unat (fp_fptr fp2)..<unat (fp_fptr fp2) + unat (btr - rcnt)] =
        got @ map (file_byte sec fs (fp_org_clust fp)) [unat (fp_fptr fp)..<unat (fp_fptr fp) + unat btr]"
      using t ptr file_volume(2) [OF 1(4)] same(1) by (simp add: turn_ok_def file_byte_def same_file_def cong: map_cong)
    have "f_read_loop dk btr br got fp fs s = f_read_loop dk (btr - rcnt) (br + rcnt) (got @ bs) fp2 fs1 s1"
      using False 1(1) t by (simp add: f_read_loop.simps [of dk btr br got] fp2_def turn_ok_def)
    then show ?thesis
      using 1(4) 2 same(1) ptr left rcnt unfolding bytes by (auto intro: same_file_trans)
  qed
qed

text \<open>A file that has been opened for reading, and what it contains.\<close>

definition the_fs :: "'s ffs \<Rightarrow> FIL \<Rightarrow> FATFS" where
  "the_fs st fp = objs st ! the (fp_fs fp)"

definition readable :: "(u32 \<Rightarrow> u8 list) \<Rightarrow> 's ffs \<Rightarrow> FIL \<Rightarrow> bool" where
  "readable sec st fp \<longleftrightarrow>
     (\<exists>i < length (objs st). fp_fs fp = Some i) \<and> fs_id (the_fs st fp) = fp_id fp \<and>
     window_ok sec (the_fs st fp) \<and> volume_ok (the_fs st fp) \<and>
     chain_ok sec (the_fs st fp) (fp_org_clust fp) (unat (fp_fsize fp)) \<and> cursor_ok sec (the_fs st fp) fp \<and>
     fp_flag fp AND 0x80 = 0 \<and> fp_flag fp AND 1 \<noteq> 0"

definition file_contents :: "(u32 \<Rightarrow> u8 list) \<Rightarrow> 's ffs \<Rightarrow> FIL \<Rightarrow> u8 list" where
  "file_contents sec st fp = contents sec (the_fs st fp) (fp_org_clust fp) (unat (fp_fsize fp))"

lemma length_file_contents [simp]: "length (file_contents sec st fp) = unat (fp_fsize fp)"
  by (simp add: file_contents_def contents_def)

lemma validate_file_ok:
  assumes "serves dk ok sec" "ok (dsk st)" "readable sec st fp"
  shows "\<exists>s. validate dk (fp_fs fp) (fp_id fp) st = ret (FR_OK, st\<lparr>dsk := s\<rparr>) \<and> ok s"
proof -
  obtain stat s where "dk_status dk (fs_drive (the_fs st fp)) (dsk st) = Some (stat, s)" "stat AND 1 = 0" "ok s"
    using serves_status [OF assms(1,2)] by blast
  then show ?thesis using assms(3) by (auto simp: validate_def readable_def the_fs_def)
qed

text \<open>The file is still open with the same contents after its object and that of the volume have changed.\<close>

lemma readable_update:
  assumes r: "readable sec st fp" and v: "volume fs' = volume (the_fs st fp)" and w: "window_ok sec fs'"
    and f: "same_file fp fp'" and c: "cursor_ok sec fs' fp'"
  shows "readable sec (put_fs (the (fp_fs fp)) fs' s st) fp'" "file_contents sec (put_fs (the (fp_fs fp)) fs' s st) fp' = file_contents sec st fp"
proof -
  obtain i where i: "i < length (objs st)" "fp_fs fp = Some i" using r by (auto simp: readable_def)
  then have "the_fs (put_fs (the (fp_fs fp)) fs' s st) fp' = fs'" using f by (simp add: the_fs_def put_fs_def same_file_def)
  then show "readable sec (put_fs (the (fp_fs fp)) fs' s st) fp'" "file_contents sec (put_fs (the (fp_fs fp)) fs' s st) fp' = file_contents sec st fp"
    using r f c w i volume_ok_volume [OF v] file_volume(3,4) [OF v, of sec] volume_fields(1) [OF v]
    by (simp_all add: readable_def file_contents_def same_file_def put_fs_def)
qed

lemma f_read_ok:
  assumes d: "serves dk ok sec" and s: "ok (dsk st)" and r: "readable sec st fp"
    and n_def: "n = min (unat btr) (unat (fp_fsize fp) - unat (fp_fptr fp))"
  shows "\<exists>fp' st'. f_read dk fp btr st = ret (FR_OK, of_nat n, take n (drop (unat (fp_fptr fp)) (file_contents sec st fp)), fp', st') \<and>
    ok (dsk st') \<and> readable sec st' fp' \<and> file_contents sec st' fp' = file_contents sec st fp \<and>
    same_file fp fp' \<and> unat (fp_fptr fp') = unat (fp_fptr fp) + n"
proof -
  let ?fs = "the_fs st fp"
  define b where "b = (if fp_fsize fp - fp_fptr fp < ucast btr then ucast (fp_fsize fp - fp_fptr fp) else btr)"
  obtain s1 where s1: "validate dk (fp_fs fp) (fp_id fp) st = ret (FR_OK, st\<lparr>dsk := s1\<rparr>)" "ok s1"
    using validate_file_ok [OF d s r] by blast
  obtain i where i: "i < length (objs st)" "fp_fs fp = Some i" using r by (auto simp: readable_def)
  have le: "unat (fp_fptr fp) \<le> unat (fp_fsize fp)" using r by (simp add: readable_def cursor_ok_def word_le_nat_alt)
  then have rem: "unat (fp_fsize fp - fp_fptr fp) = unat (fp_fsize fp) - unat (fp_fptr fp)" by (simp add: unat_sub word_le_nat_alt)
  have u: "unat (ucast btr :: u32) = unat btr" using u16_lt [of btr] by (simp add: unsigned_ucast_eq take_bit_nat_eq_self)
  have bn: "unat b = n"
    using u16_lt [of btr] by (auto simp: b_def n_def word_less_nat_alt rem u unsigned_ucast_eq take_bit_nat_eq_self)
  have fits: "unat (fp_fptr fp) + unat b \<le> unat (fp_fsize fp)" using le by (simp add: bn n_def)
  have inv: "window_ok sec ?fs" "volume_ok ?fs" "chain_ok sec ?fs (fp_org_clust fp) (unat (fp_fsize fp))" "cursor_ok sec ?fs fp"
    using r by (simp_all add: readable_def)
  from f_read_loop_ok [OF d s1(2) inv fits, of 0 "[]"] obtain fp' fs' s' where
    2: "f_read_loop dk b 0 [] fp ?fs s1 = Some (FR_OK, b, map (file_byte sec ?fs (fp_org_clust fp))
        [unat (fp_fptr fp)..<unat (fp_fptr fp) + unat b], fp', fs', s')" "ok s'" "window_ok sec fs'" "volume fs' = volume ?fs"
      "same_file fp fp'" "cursor_ok sec fs' fp'" "unat (fp_fptr fp') = unat (fp_fptr fp) + unat b"
    by auto
  have "take n (drop (unat (fp_fptr fp)) (file_contents sec st fp)) =
      map (file_byte sec ?fs (fp_org_clust fp)) [unat (fp_fptr fp)..<unat (fp_fptr fp) + unat b]"
    using fits by (simp add: file_contents_def contents_def drop_map take_map bn [symmetric])
  moreover have "f_read dk fp btr st = ret (FR_OK, b, map (file_byte sec ?fs (fp_org_clust fp))
      [unat (fp_fptr fp)..<unat (fp_fptr fp) + unat b], fp', put_fs i fs' s' (st\<lparr>dsk := s1\<rparr>))"
    using s1 2 i r unfolding f_read_def b_def [symmetric] by (simp add: readable_def the_fs_def b_def [symmetric] Let_def)
  moreover have "put_fs i fs' s' (st\<lparr>dsk := s1\<rparr>) = put_fs i fs' s' st" by (simp add: put_fs_def)
  moreover have "b = of_nat n" using bn by (rule of_unatI)
  ultimately show ?thesis
    using 2 bn readable_update [OF r 2(4,3,5,6), of s'] i by (auto simp: put_fs_def)
qed

subsection \<open>Seeking\<close>

lemma seek_loop_ok:
  assumes d: "serves dk ok sec" and S: "0 < unat (fs_sects_clust fs)"
    and t: "t \<le> n" "n < 2 ^ 32" and csize: "unat csize = unat (fs_sects_clust fs) * 512"
  shows "ok s \<Longrightarrow> window_ok sec fs' \<Longrightarrow> volume fs' = volume fs \<Longrightarrow> volume_ok fs \<Longrightarrow> chain_ok sec fs org n \<Longrightarrow>
    k * unat csize < t \<Longrightarrow> unat ofs = t - k * unat csize \<Longrightarrow> unat (fp_fptr fp) = k * unat csize \<Longrightarrow>
    clust = nth_clust sec fs org k \<Longrightarrow>
    \<exists>K ofs' fp' fs'' s'. seek_loop dk csize clust ofs fp fs' s = Some (Some (nth_clust sec fs org K, ofs'), fp', fs'', s') \<and>
      ok s' \<and> window_ok sec fs'' \<and> volume fs'' = volume fs \<and> K = (t - 1) div unat csize \<and> unat ofs' = t - K * unat csize \<and>
      fp_curr_clust fp' = nth_clust sec fs org K \<and> unat (fp_fptr fp') = K * unat csize \<and>
      same_file fp fp' \<and> fp_buffer fp' = fp_buffer fp \<and> fp_sect_clust fp' = fp_sect_clust fp"
proof (induction "t - k * unat csize" arbitrary: k clust ofs fp fs' s rule: less_induct)
  case less
  let ?c = "unat csize"
  have c: "0 < ?c" using S csize by simp
  have kt: "k * ?c < t" by (fact less.prems(6))
  show ?case
  proof (cases "unat ofs \<le> ?c")
    case True
    have K: "(t - 1) div ?c = k"
      using kt True less.prems(7) c by (intro div_nat_eqI) (auto simp: mult.commute)
    have "ofs \<le> csize" using True by (simp add: word_le_nat_alt)
    then show ?thesis
      using less.prems K by (intro exI [of _ k] exI [of _ ofs]) (simp add: seek_loop.simps same_file_def)
  next
    case False
    have Sk: "Suc k * ?c < t" using False kt less.prems(7) by simp
    have vs: "valid_clust fs (nth_clust sec fs org k)" "valid_clust fs (nth_clust sec fs org (Suc k))"
      using less.prems(5) kt Sk t(1) by (simp_all add: chain_ok_def csize)
    have v': "volume_ok fs'" "valid_clust fs' clust"
      using less.prems(3,4,9) vs volume_ok_volume file_volume(5) by metis+
    from get_cluster_ok [OF d less.prems(1,2) this] obtain fs1 s1 where
      1: "get_cluster dk clust fs' s = Some (nth_clust sec fs org (Suc k), fs1, s1)" "ok s1" "window_ok sec fs1" "volume fs1 = volume fs"
      using less.prems(3,9) fat_entry_volume [OF less.prems(3)] by (auto simp: nth_clust_Suc)
    let ?fp = "fp\<lparr>fp_curr_clust := clust, fp_fptr := fp_fptr fp + csize\<rparr>"
    have lt: "t < 2 ^ 32" using t by simp
    have ptr: "unat (fp_fptr fp + csize) = Suc k * ?c" 
      using less.prems(8) Sk lt by (simp add: unat_word_ariths)
    have ofs: "unat (ofs - csize) = t - Suc k * ?c"
      using False less.prems(7) by (simp add: unat_sub word_le_nat_alt)
    have "t - Suc k * ?c < t - k * ?c" using Sk c by simp
    from less.hyps [OF this 1(2-4) less.prems(4,5) Sk ofs, of ?fp] ptr obtain K ofs' fp' fs'' s' where
      2: "seek_loop dk csize (nth_clust sec fs org (Suc k)) (ofs - csize) ?fp fs1 s1 = Some (Some (nth_clust sec fs org K, ofs'), fp', fs'', s')"
      "ok s'" "window_ok sec fs''" "volume fs'' = volume fs" "K = (t - 1) div ?c" "unat ofs' = t - K * ?c"
      "fp_curr_clust fp' = nth_clust sec fs org K" "unat (fp_fptr fp') = K * ?c" "same_file ?fp fp'"
      "fp_buffer fp' = fp_buffer fp" "fp_sect_clust fp' = fp_sect_clust fp" by auto
    have nz: "nth_clust sec fs org (Suc k) \<noteq> 0" "nth_clust sec fs org (Suc k) \<noteq> 1" "\<not> fs_max_clust fs1 \<le> nth_clust sec fs org (Suc k)"
      using vs(2) volume_fields(4) [OF 1(4)] valid_clust_lt(2) [OF vs(2)] by (auto simp: valid_clust_def not_le)
    have "seek_loop dk csize clust ofs fp fs' s = seek_loop dk csize (nth_clust sec fs org (Suc k)) (ofs - csize) ?fp fs1 s1"
      using False 1(1) nz by (simp add: seek_loop.simps [of dk csize clust] word_le_nat_alt Let_def)
    then show ?thesis using 2 by (auto simp: same_file_def)
  qed
qed

text \<open>The position in the last cluster, in sectors.\<close>

lemma last_sector:
  fixes t S :: nat
  assumes "0 < t" "0 < S" and K: "K = (t - 1) div (S * 512)" and o: "ofs = t - K * (S * 512)"
  shows "(ofs - 1) div 512 < S" "(t - 1) div 512 div S = K" "(t - 1) div 512 mod S = (ofs - 1) div 512"
    "ofs mod 512 = t mod 512" "K * (S * 512) + ofs = t" "0 < ofs" "ofs \<le> S * 512"
proof -
  have le: "K * (S * 512) \<le> t - 1" unfolding K by simp
  have o1: "ofs - 1 = (t - 1) mod (S * 512)" using le o K by (simp add: minus_div_mult_eq_mod [symmetric])
  show pos: "0 < ofs" "K * (S * 512) + ofs = t" using le assms(1) o by auto
  have lt: "ofs - 1 < 512 * S" unfolding o1 using assms(2) by (simp add: mult.commute)
  then show "ofs \<le> S * 512" by linarith
  show "(ofs - 1) div 512 < S" using lt by (simp add: less_mult_imp_div_less mult.commute)
  show "(t - 1) div 512 div S = K" unfolding K mult.commute [of S] by (simp add: div_mult2_eq)
  show "(t - 1) div 512 mod S = (ofs - 1) div 512" unfolding o1 mult.commute [of S] by (simp add: mod_mult2_eq)
  show "ofs mod 512 = t mod 512" unfolding pos(2) [symmetric] by (simp add: mult.assoc [symmetric])
qed

text \<open>The object as it is left, given where the loop stopped.\<close>

lemma seek_position:
  assumes t: "0 < t" "t < 2 ^ 32" and S: "0 < unat (fs_sects_clust fs)"
    and K: "K = (t - 1) div (unat (fs_sects_clust fs) * 512)"
    and o: "unat ofs = t - K * (unat (fs_sects_clust fs) * 512)"
    and fp: "fp_curr_clust fp = nth_clust sec fs (fp_org_clust fp) K" "unat (fp_fptr fp) = K * (unat (fs_sects_clust fs) * 512)"
  defines "csect \<equiv> ucast ((ofs - 1) div 512) :: u8"
  shows "fp_fptr fp + ofs = of_nat t"
    "at_sector sec fs ((t - 1) div 512) (fp\<lparr>fp_curr_sect := clust2sect fs (nth_clust sec fs (fp_org_clust fp) K) + ucast csect,
      fp_sect_clust := fs_sects_clust fs - csect, fp_fptr := fp_fptr fp + ofs\<rparr>)"
proof -
  note L = last_sector [OF t(1) S K o]
  have "unat (ofs - 1) = unat ofs - 1" using L(6) by (simp add: unat_minus_1 unat_gt_0)
  then have csect: "unat csect = (unat ofs - 1) div 512"
    using L(1) u8_lt [of "fs_sects_clust fs"] by (simp add: csect_def unsigned_ucast_eq unat_div take_bit_nat_eq_self)
  show "fp_fptr fp + ofs = of_nat t"
    using fp(2) L(5) t(2) by (intro of_unatI) (simp add: unat_word_ariths)
  have sc: "unat (fs_sects_clust fs - csect) = unat (fs_sects_clust fs) - unat csect"
    using L(1) csect by (simp add: unat_sub word_le_nat_alt)
  have "ucast csect = (of_nat (unat csect) :: u32)" by (intro of_unatI) (simp add: unat_ucast_u8)
  then show "at_sector sec fs ((t - 1) div 512) (fp\<lparr>fp_curr_sect := clust2sect fs (nth_clust sec fs (fp_org_clust fp) K) + ucast csect,
      fp_sect_clust := fs_sects_clust fs - csect, fp_fptr := fp_fptr fp + ofs\<rparr>)"
    using fp(1) L(2,3) csect sc by (simp add: at_sector_def sector_no_def)
qed

lemma seek_file_ok:
  assumes d: "serves dk ok sec" and s: "ok s" and w: "window_ok sec fs" and v: "volume_ok fs"
    and chain: "chain_ok sec fs (fp_org_clust fp) (unat (fp_fsize fp))" and len: "length (fp_buffer fp) = 512"
    and ofs: "ofs \<le> fp_fsize fp"
  shows "\<exists>fp' fs' s'. seek_file dk ofs fp fs s = Some (FR_OK, fp', fs', s') \<and> ok s' \<and> window_ok sec fs' \<and>
    volume fs' = volume fs \<and> same_file fp fp' \<and> cursor_ok sec fs' fp' \<and> fp_fptr fp' = ofs"
proof (cases "ofs = 0")
  case True
  then show ?thesis using s w len by (simp add: seek_file_def cursor_ok_def same_file_def)
next
  case False
  define t where "t = unat ofs"
  let ?S = "unat (fs_sects_clust fs)"
  define csize :: u32 where "csize = ucast (fs_sects_clust fs) * 512"
  have t: "0 < t" "t \<le> unat (fp_fsize fp)" using False ofs by (simp_all add: t_def unat_gt_0 word_le_nat_alt)
  have S: "0 < ?S" using v by (simp add: volume_ok_def unat_gt_0)
  have u: "unat (ucast (fs_sects_clust fs) :: u32) = ?S" by (simp add: unat_ucast_u8)
  have csize: "unat csize = ?S * 512" using u8_lt [of "fs_sects_clust fs"] by (simp add: csize_def unat_word_ariths u)
  have "valid_clust fs (fp_org_clust fp)" using chain t by (auto simp: chain_ok_def dest: spec [of _ 0])
  then have org: "fp_org_clust fp \<noteq> 0" using valid_clust_lt(2) by fastforce
  let ?fp = "fp\<lparr>fp_fptr := 0, fp_sect_clust := 1\<rparr>"
  have "unat (fp_fsize fp) < 2 ^ 32" using u32_lt by simp
  note loop = seek_loop_ok [OF d S t(2) this csize s w refl v chain, of 0 ofs ?fp]
  have pre: "0 * unat csize < t" "unat ofs = t - 0 * unat csize" "unat (fp_fptr ?fp) = 0 * unat csize"
    "fp_org_clust fp = nth_clust sec fs (fp_org_clust fp) 0" using t by (simp_all add: t_def)
  from loop [OF pre] obtain K ofs' fp1 fs1 s1 where
    1: "seek_loop dk csize (fp_org_clust fp) ofs ?fp fs s = Some (Some (nth_clust sec fs (fp_org_clust fp) K, ofs'), fp1, fs1, s1)"
      "ok s1" "window_ok sec fs1" "volume fs1 = volume fs" and K: "K = (t - 1) div unat csize" and o: "unat ofs' = t - K * unat csize"
    and fp1: "fp_curr_clust fp1 = nth_clust sec fs (fp_org_clust fp) K" "unat (fp_fptr fp1) = K * unat csize"
      "same_file ?fp fp1" "fp_buffer fp1 = fp_buffer ?fp"
    by blast
  note L = last_sector [OF t(1) S K [unfolded csize] o [unfolded csize]]
  have "fs_sects_clust fs1 = fs_sects_clust fs" "clust2sect fs1 = clust2sect fs"
    using volume_fields [OF 1(4)] clust2sect_volume [OF 1(4)] by auto
  note fs1 = this
  define csect :: u8 where "csect = ucast ((ofs' - 1) div 512)"
  define fp2 where "fp2 = fp1\<lparr>fp_curr_sect := clust2sect fs (nth_clust sec fs (fp_org_clust fp) K) + ucast csect,
      fp_sect_clust := fs_sects_clust fs - csect, fp_fptr := fp_fptr fp1 + ofs'\<rparr>"
  have same: "same_file fp fp2" using fp1(3) by (simp add: fp2_def same_file_def)
  have org1: "fp_org_clust fp1 = fp_org_clust fp" using fp1(3) by (simp add: same_file_def)
  have ptr: "fp_fptr fp2 = ofs" and at: "at_sector sec fs ((t - 1) div 512) fp2"
    using seek_position [OF t(1) _ S K [unfolded csize] o [unfolded csize] fp1(1) [folded org1] fp1(2) [unfolded csize]]
      u32_lt [of ofs] unfolding fp2_def csect_def org1 by (simp_all add: t_def)
  have res: "seek_file dk ofs fp fs s = Some (FR_OK, fp2\<lparr>fp_buffer := b\<rparr>, fs1, s')"
    if "if ofs' AND 511 \<noteq> 0
      then dk_read dk (fs_drive fs1) (fp_curr_sect fp2) 1 s1 = Some (RES_OK, b, s') \<and> length b = 512
      else b = fp_buffer fp2 \<and> s' = s1" for b s'
    using that 1(1) False org fs1 len fp1(4)
    by (simp add: seek_file_def csize_def [symmetric] csect_def [symmetric] fp2_def Let_def split: if_splits)
  have low: "ofs' AND 511 \<noteq> 0 \<longleftrightarrow> t mod 512 \<noteq> 0"
    using L(4) unat_take_bit_9 [of ofs'] by (auto simp: word_unat_eq_iff)
  have cur: "cursor_ok sec fs1 (fp2\<lparr>fp_buffer := b\<rparr>)" if "length b = 512" "t mod 512 \<noteq> 0 \<longrightarrow> b = sec (fp_curr_sect fp2)" for b
    using that at False ofs same unfolding cursor_volume [OF 1(4)]
    by (simp add: cursor_ok_def ptr at_sector_def t_def same_file_def)
  show ?thesis
  proof (cases "t mod 512 = 0")
    case True
    then show ?thesis
      using res [of "fp_buffer fp2" s1] low cur [of "fp_buffer fp2"] 1(2-4) len fp1(4) same ptr
      by (simp add: fp2_def same_file_def)
  next
    case t': False
    obtain s' where "dk_read dk (fs_drive fs1) (fp_curr_sect fp2) 1 s1 = Some (RES_OK, sec (fp_curr_sect fp2), s')" "ok s'"
      using serves_read1 [OF d 1(2)] by blast
    then show ?thesis
      using res [of "sec (fp_curr_sect fp2)" s'] t' low cur [of "sec (fp_curr_sect fp2)"] 1(3,4) serves_length [OF d] same ptr
      by (simp add: same_file_def)
  qed
qed

lemma f_lseek_ok:
  assumes d: "serves dk ok sec" and s: "ok (dsk st)" and r: "readable sec st fp"
  shows "\<exists>fp' st'. f_lseek dk fp ofs st = ret (FR_OK, fp', st') \<and> ok (dsk st') \<and> readable sec st' fp' \<and>
    file_contents sec st' fp' = file_contents sec st fp \<and> same_file fp fp' \<and> fp_fptr fp' = min ofs (fp_fsize fp)"
proof -
  let ?fs = "the_fs st fp"
  obtain s1 where s1: "validate dk (fp_fs fp) (fp_id fp) st = ret (FR_OK, st\<lparr>dsk := s1\<rparr>)" "ok s1"
    using validate_file_ok [OF d s r] by blast
  obtain i where i: "i < length (objs st)" "fp_fs fp = Some i" using r by (auto simp: readable_def)
  have inv: "window_ok sec ?fs" "volume_ok ?fs" "chain_ok sec ?fs (fp_org_clust fp) (unat (fp_fsize fp))" "length (fp_buffer fp) = 512"
    using r by (simp_all add: readable_def cursor_ok_def)
  from seek_file_ok [OF d s1(2) inv, of "min ofs (fp_fsize fp)"] obtain fp' fs' s' where
    2: "seek_file dk (min ofs (fp_fsize fp)) fp ?fs s1 = Some (FR_OK, fp', fs', s')" "ok s'" "window_ok sec fs'"
      "volume fs' = volume ?fs" "same_file fp fp'" "cursor_ok sec fs' fp'" "fp_fptr fp' = min ofs (fp_fsize fp)" by auto
  have m: "(if fp_fsize fp < ofs then fp_fsize fp else ofs) = min ofs (fp_fsize fp)" by (auto simp: min_def)
  have "f_lseek dk fp ofs st = ret (FR_OK, fp', put_fs i fs' s' st)"
    using s1 2(1) i r unfolding f_lseek_def m by (simp add: readable_def the_fs_def Let_def put_fs_def)
  then show ?thesis
    using 2 readable_update [OF r 2(4,3,5,6), of s'] i by (auto simp: put_fs_def)
qed

end
