(* ===== verification/Fat_Dir.thy ===== *)
theory Fat_Dir
  imports Fat_File
begin

text \<open>
  What a directory of a FAT volume means: its entries in their order, the first one that
  bears a name, and the entry a path leads to.  Going through a directory one entry at a time,
  through its sectors and its chain of clusters, finds exactly that entry, and so does following
  a path from the root directory.
\<close>

subsection \<open>The entries of a directory\<close>

text \<open>
  A directory is named by its first cluster; 0 stands for the root directory of a volume with
  small table entries, whose sectors follow each other.
\<close>

definition dir_sector :: "(u32 \<Rightarrow> u8 list) \<Rightarrow> FATFS \<Rightarrow> u32 \<Rightarrow> nat \<Rightarrow> u32" where
  "dir_sector sec fs org m = (if org = 0 then fs_dirbase fs + of_nat m else sector_no sec fs org m)"

definition dir_clust :: "(u32 \<Rightarrow> u8 list) \<Rightarrow> FATFS \<Rightarrow> u32 \<Rightarrow> nat \<Rightarrow> u32" where
  "dir_clust sec fs org m = (if org = 0 then 0 else nth_clust sec fs org (m div unat (fs_sects_clust fs)))"

definition dir_ent :: "(u32 \<Rightarrow> u8 list) \<Rightarrow> FATFS \<Rightarrow> u32 \<Rightarrow> nat \<Rightarrow> u8 list" where
  "dir_ent sec fs org k = take 32 (drop (k mod 16 * 32) (sec (dir_sector sec fs org (k div 16))))"

text \<open>Sector \<open>m\<close> belongs to the directory.\<close>

definition dir_room :: "(u32 \<Rightarrow> u8 list) \<Rightarrow> FATFS \<Rightarrow> u32 \<Rightarrow> nat \<Rightarrow> bool" where
  "dir_room sec fs org m \<longleftrightarrow>
     (if org = 0 then m = 0 \<or> m * 16 < unat (fs_n_rootdir fs)
      else \<forall>j \<le> m div unat (fs_sects_clust fs). valid_clust fs (nth_clust sec fs org j))"

text \<open>A volume whose root directory lies within the addressable sectors and whose clusters are a power of two.\<close>

definition dirs_ok :: "FATFS \<Rightarrow> bool" where
  "dirs_ok fs \<longleftrightarrow>
     volume_ok fs \<and> (\<exists>p. unat (fs_sects_clust fs) = 2 ^ p) \<and> fs_dirbase fs \<noteq> 0 \<and>
     (fs_type fs \<noteq> FS_FAT32 \<longrightarrow> unat (fs_dirbase fs) + unat (fs_n_rootdir fs) div 16 < 2 ^ 32)"

definition root_org :: "FATFS \<Rightarrow> u32" where
  "root_org fs = (if fs_type fs = FS_FAT32 then fs_dirbase fs else 0)"

lemma dir_volume:
  assumes "volume fs = volume fs'"
  shows "dir_sector sec fs = dir_sector sec fs'" "dir_clust sec fs = dir_clust sec fs'"
    "dir_ent sec fs = dir_ent sec fs'" "dir_room sec fs = dir_room sec fs'" "dirs_ok fs = dirs_ok fs'"
    "root_org fs = root_org fs'"
proof -
  note f = volume_fields [OF assms] and g = file_volume [OF assms]
  show s: "dir_sector sec fs = dir_sector sec fs'" by (intro ext) (simp add: dir_sector_def f g)
  show "dir_clust sec fs = dir_clust sec fs'" by (intro ext) (simp add: dir_clust_def f g)
  show "dir_ent sec fs = dir_ent sec fs'" by (intro ext) (simp add: dir_ent_def s)
  show "dir_room sec fs = dir_room sec fs'" by (intro ext) (simp add: dir_room_def f g)
  show "dirs_ok fs = dirs_ok fs'" by (simp add: dirs_ok_def f volume_ok_volume [OF assms])
  show "root_org fs = root_org fs'" by (simp add: root_org_def f)
qed

lemma sector_no_nonzero:
  assumes v: "volume_ok fs" and c: "valid_clust fs (nth_clust sec fs org (m div unat (fs_sects_clust fs)))"
  shows "sector_no sec fs org m \<noteq> 0"
proof -
  let ?c = "nth_clust sec fs org (m div unat (fs_sects_clust fs))" and ?S = "unat (fs_sects_clust fs)"
  have S: "0 < ?S" using v by (simp add: volume_ok_def unat_gt_0)
  have c2: "2 \<le> unat ?c" "unat ?c < unat (fs_max_clust fs)" using c by (auto simp: valid_clust_def word_le_nat_alt word_less_nat_alt)
  then have u: "unat (?c - 2) = unat ?c - 2" "unat (fs_max_clust fs - 2) = unat (fs_max_clust fs) - 2"
    by (simp_all add: unat_sub word_le_nat_alt)
  have "(unat ?c - 2) * ?S + m mod ?S < (unat ?c - 1) * ?S"
    using mod_less_divisor [OF S, of m] c2(1) by (cases "unat ?c"; cases "unat ?c - 1") simp_all
  also have "\<dots> \<le> unat (fs_max_clust fs) * ?S" using c2 by (intro mult_right_mono) simp_all
  finally have lt: "(unat ?c - 2) * ?S + m mod ?S + unat (fs_database fs) < 2 ^ 32" using v by (simp add: volume_ok_def)
  have sc: "unat (ucast (fs_sects_clust fs) :: u32) = ?S" using u8_lt [of "fs_sects_clust fs"] by (simp add: unsigned_ucast_eq take_bit_nat_eq_self)
  have "sector_no sec fs org m = (?c - 2) * ucast (fs_sects_clust fs) + fs_database fs + of_nat (m mod ?S)"
  proof -
    have "\<not> fs_max_clust fs - 2 \<le> ?c - 2" using c2 u by (simp add: word_le_nat_alt)
    then show ?thesis by (simp add: sector_no_def clust2sect_def Let_def)
  qed
  then have "unat (sector_no sec fs org m) = (unat ?c - 2) * ?S + unat (fs_database fs) + m mod ?S"
    using lt by (simp add: unat_word_ariths unat_of_nat take_bit_nat_eq_self u sc)
  moreover have "0 < unat (fs_database fs)" using v by (simp add: volume_ok_def)
  ultimately show ?thesis by (metis add_gr_0 less_irrefl unat_0)
qed

lemma dir_sector_nonzero:
  assumes ok: "dirs_ok fs" and org: "org = 0 \<longrightarrow> fs_type fs \<noteq> FS_FAT32" and r: "dir_room sec fs org m"
  shows "dir_sector sec fs org m \<noteq> 0"
proof (cases "org = 0")
  case True
  have "m \<le> unat (fs_n_rootdir fs) div 16"
    using r True by (auto simp: dir_room_def less_eq_div_iff_mult_less_eq)
  then have "unat (fs_dirbase fs + of_nat m) = unat (fs_dirbase fs) + m"
    using ok org True by (simp add: dirs_ok_def unat_word_ariths unat_of_nat take_bit_nat_eq_self)
  moreover have "0 < unat (fs_dirbase fs)" using ok by (simp add: dirs_ok_def unat_gt_0)
  ultimately show ?thesis using True by (auto simp: dir_sector_def)
next
  case False
  then show ?thesis
    using ok r sector_no_nonzero [of fs sec org m] by (simp add: dir_sector_def dir_room_def dirs_ok_def)
qed

subsection \<open>Going from entry to entry\<close>

definition dir_pos :: "(u32 \<Rightarrow> u8 list) \<Rightarrow> FATFS \<Rightarrow> u32 \<Rightarrow> nat \<Rightarrow> DIR \<Rightarrow> bool" where
  "dir_pos sec fs org k d \<longleftrightarrow>
     unat (d_index d) = k \<and> d_sect d = dir_sector sec fs org (k div 16) \<and> d_clust d = dir_clust sec fs org (k div 16)"

lemma unat_and_15: "unat ((i :: u16) AND 15) = unat i mod 16"
  unfolding and_15 unsigned_take_bit_eq by (simp add: take_bit_eq_mod)

lemma and_15_iff: "(i :: u16) AND 15 \<noteq> 0 \<longleftrightarrow> unat i mod 16 \<noteq> 0"
  using unat_and_15 [of i] by (metis unat_eq_0)

lemma pow_and_iff:
  assumes "unat (c :: u8) = 2 ^ p"
  shows "uint (i :: u16) AND (uint c - 1) \<noteq> 0 \<longleftrightarrow> unat i mod unat c \<noteq> 0"
proof -
  have c: "uint c = 2 ^ p" using assms by (simp add: uint_nat)
  have "uint i AND (uint c - 1) = take_bit p (int (unat i))"
    unfolding c take_bit_eq_mask mask_eq_exp_minus_1 uint_nat [of i] ..
  also have "\<dots> = int (unat i mod unat c)" unfolding take_bit_eq_mod assms by (simp add: zmod_int)
  finally show ?thesis by simp
qed

lemma next_index:
  assumes "dir_pos sec fs org k d" "Suc k < 2 ^ 16"
  shows "unat (d_index d + 1) = Suc k" "unat ((d_index d + 1) div 16) = Suc k div 16"
    "(d_index d + 1) AND 15 \<noteq> 0 \<longleftrightarrow> Suc k mod 16 \<noteq> 0"
proof -
  show u: "unat (d_index d + 1) = Suc k" using assms by (simp add: dir_pos_def unat_word_ariths)
  show "unat ((d_index d + 1) div 16) = Suc k div 16" by (simp add: unat_div_distrib u)
  show "(d_index d + 1) AND 15 \<noteq> 0 \<longleftrightarrow> Suc k mod 16 \<noteq> 0" unfolding and_15_iff u ..
qed

text \<open>The next entry, where there is one, and the end of the directory, where there is none.\<close>

lemma next_same:
  assumes "dir_pos sec fs org k d" "Suc k < 2 ^ 16" "Suc k mod 16 \<noteq> 0"
  shows "\<exists>d'. next_dir_entry dk d fs s = Some (True, d', fs, s) \<and> dir_pos sec fs org (Suc k) d'"
proof -
  have m: "Suc k div 16 = k div 16" using assms(3) by (simp add: div_Suc)
  have "next_dir_entry dk d fs s = Some (True, d\<lparr>d_index := d_index d + 1\<rparr>, fs, s)"
    using assms(3) next_index(3) [OF assms(1,2)] by (simp add: next_dir_entry_def Let_def)
  moreover have "dir_pos sec fs org (Suc k) (d\<lparr>d_index := d_index d + 1\<rparr>)"
    unfolding dir_pos_def m using assms(1) next_index(1) [OF assms(1,2)] by (simp add: dir_pos_def)
  ultimately show ?thesis by blast
qed

lemma next_root:
  assumes "dir_pos sec fs 0 k d" "Suc k < 2 ^ 16" "Suc k mod 16 = 0"
  shows "\<exists>d'. next_dir_entry dk d fs s = Some (dir_room sec fs 0 (Suc k div 16), d', fs, s) \<and>
    (dir_room sec fs 0 (Suc k div 16) \<longrightarrow> dir_pos sec fs 0 (Suc k) d')"
proof -
  have m: "Suc k div 16 = Suc (k div 16)" using assms(3) by (simp add: div_Suc)
  have m16: "Suc (k div 16) * 16 = Suc k" using div_mult_mod_eq [of "Suc k" 16] unfolding assms(3) m by linarith
  have "fs_n_rootdir fs \<le> d_index d + 1 \<longleftrightarrow> \<not> dir_room sec fs 0 (Suc k div 16)"
    unfolding m using next_index(1) [OF assms(1,2)]
    by (simp add: dir_room_def word_le_nat_alt not_less m16 del: mult_Suc)
  note limit = this
  have d: "d_clust d = 0" "d_sect d = fs_dirbase fs + of_nat (k div 16)"
    using assms(1) by (simp_all add: dir_pos_def dir_sector_def dir_clust_def)
  have "next_dir_entry dk d fs s = Some (if fs_n_rootdir fs \<le> d_index d + 1
      then (False, d\<lparr>d_sect := d_sect d + 1\<rparr>, fs, s)
      else (True, d\<lparr>d_sect := d_sect d + 1, d_index := d_index d + 1\<rparr>, fs, s))"
    using d next_index(3) [OF assms(1,2)] assms(3) by (simp add: next_dir_entry_def Let_def)
  moreover have "dir_pos sec fs 0 (Suc k) (d\<lparr>d_sect := d_sect d + 1, d_index := d_index d + 1\<rparr>)"
    unfolding dir_pos_def dir_sector_def dir_clust_def m by (simp add: d next_index(1) [OF assms(1,2)])
  ultimately show ?thesis unfolding limit by (cases "dir_room sec fs 0 (Suc k div 16)") (simp_all only: if_True if_False simp_thms, blast+)
qed

lemma next_chain:
  assumes d: "serves dk ok sec" and s: "ok s" and w: "window_ok sec fs" and v: "dirs_ok fs" and org: "org \<noteq> 0"
    and pos: "dir_pos sec fs org k d" "Suc k < 2 ^ 16" "Suc k mod 16 = 0" and room: "dir_room sec fs org (k div 16)"
  shows "\<exists>d' fs' s'. next_dir_entry dk d fs s = Some (dir_room sec fs org (Suc k div 16), d', fs', s') \<and> ok s' \<and>
    window_ok sec fs' \<and> volume fs' = volume fs \<and>
    (dir_room sec fs org (Suc k div 16) \<longrightarrow> dir_pos sec fs org (Suc k) d')"
proof -
  let ?S = "unat (fs_sects_clust fs)" and ?m = "k div 16"
  obtain p where p: "?S = 2 ^ p" and vol: "volume_ok fs" using v by (auto simp: dirs_ok_def)
  have m: "Suc k div 16 = Suc ?m" using pos(3) by (simp add: div_Suc)
  have valid: "valid_clust fs (nth_clust sec fs org (?m div ?S))" using room org by (simp add: dir_room_def)
  have at: "d_sect d = sector_no sec fs org ?m" "d_clust d = nth_clust sec fs org (?m div ?S)"
    using pos org by (simp_all add: dir_pos_def dir_sector_def dir_clust_def)
  have nz: "d_clust d \<noteq> 0" using valid at by (auto simp: valid_clust_def)
  note idx = next_index [OF pos(1,2)]
  have cond: "uint ((d_index d + 1) div 16) AND (uint (fs_sects_clust fs) - 1) \<noteq> 0 \<longleftrightarrow> Suc ?m mod ?S \<noteq> 0"
    unfolding pow_and_iff [OF p] idx(2) m ..
  show ?thesis
  proof (cases "Suc ?m mod ?S = 0")
    case False
    then have q: "Suc ?m div ?S = ?m div ?S" "Suc ?m mod ?S = Suc (?m mod ?S)" by (simp_all add: div_Suc mod_Suc split: if_splits)
    then have "dir_room sec fs org (Suc k div 16)" using room org by (simp add: dir_room_def m)
    then show ?thesis
      using False cond nz idx pos(3) s w q at org
      by (simp add: next_dir_entry_def dir_pos_def dir_sector_def dir_clust_def sector_no_def m Let_def add.commute)
  next
    case True
    then have q: "Suc ?m div ?S = Suc (?m div ?S)" by (simp add: div_Suc)
    obtain fs' s' where g: "get_cluster dk (d_clust d) fs s = Some (nth_clust sec fs org (Suc (?m div ?S)), fs', s')"
        "ok s'" "window_ok sec fs'" "volume fs' = volume fs"
      using get_cluster_ok [OF d s w vol valid] unfolding at nth_clust_Suc by blast
    have r: "dir_room sec fs org (Suc k div 16) \<longleftrightarrow> valid_clust fs (nth_clust sec fs org (Suc (?m div ?S)))"
      using room org by (auto simp: dir_room_def m q le_Suc_eq)
    show ?thesis
      using True cond nz idx pos(3) g volume_fields(4) [OF g(4)] clust2sect_volume [OF g(4)] org unfolding r
      by (auto simp: next_dir_entry_def dir_pos_def dir_sector_def dir_clust_def sector_no_def m q valid_clust_def Let_def not_less not_le)
  qed
qed

lemma next_dir_ok:
  assumes d: "serves dk ok sec" and s: "ok s" and w: "window_ok sec fs" and v: "dirs_ok fs"
    and pos: "dir_pos sec fs org k d" "Suc k < 2 ^ 16" and room: "dir_room sec fs org (k div 16)"
  shows "\<exists>d' fs' s'. next_dir_entry dk d fs s = Some (dir_room sec fs org (Suc k div 16), d', fs', s') \<and> ok s' \<and>
    window_ok sec fs' \<and> volume fs' = volume fs \<and>
    (dir_room sec fs org (Suc k div 16) \<longrightarrow> dir_pos sec fs org (Suc k) d')"
proof (cases "Suc k mod 16 = 0")
  case True
  show ?thesis
  proof (cases "org = 0")
    case root: True
    from next_root [OF pos [unfolded root] True, of dk s] show ?thesis unfolding root using s w by blast
  next
    case False
    from next_chain [OF d s w v False pos True room] show ?thesis .
  qed
next
  case False
  then have m: "Suc k div 16 = k div 16" by (simp add: div_Suc)
  from next_same [OF pos False, of dk s] show ?thesis unfolding m using s w room by auto
qed

subsection \<open>Looking for a name\<close>

definition skipped :: "(u32 \<Rightarrow> u8 list) \<Rightarrow> FATFS \<Rightarrow> u32 \<Rightarrow> u8 list \<Rightarrow> nat \<Rightarrow> nat \<Rightarrow> bool" where
  "skipped sec fs org nm k j \<longleftrightarrow>
     (\<forall>i. k \<le> i \<and> i < j \<longrightarrow> dir_ent sec fs org i ! 0 \<noteq> 0 \<and> \<not> entry_matches (dir_ent sec fs org i) nm)"

text \<open>
  From entry \<open>k\<close> on, entry \<open>j\<close> is the first with the name, or there is none: an entry that marks
  the end comes first or the directory ends.  An index has 16 bits.
\<close>

definition finds :: "(u32 \<Rightarrow> u8 list) \<Rightarrow> FATFS \<Rightarrow> u32 \<Rightarrow> nat \<Rightarrow> u8 list \<Rightarrow> nat \<Rightarrow> bool" where
  "finds sec fs org k nm j \<longleftrightarrow>
     k \<le> j \<and> j < 2 ^ 16 \<and> dir_room sec fs org (j div 16) \<and> skipped sec fs org nm k j \<and>
     dir_ent sec fs org j ! 0 \<noteq> 0 \<and> entry_matches (dir_ent sec fs org j) nm"

definition misses :: "(u32 \<Rightarrow> u8 list) \<Rightarrow> FATFS \<Rightarrow> u32 \<Rightarrow> nat \<Rightarrow> u8 list \<Rightarrow> nat \<Rightarrow> bool" where
  "misses sec fs org k nm j \<longleftrightarrow>
     k \<le> j \<and> j < 2 ^ 16 \<and> skipped sec fs org nm k j \<and>
     (if dir_room sec fs org (j div 16) then dir_ent sec fs org j ! 0 = 0
      else k < j \<and> dir_room sec fs org ((j - 1) div 16))"

lemma scan_volume:
  assumes "volume fs = volume fs'"
  shows "finds sec fs = finds sec fs'" "misses sec fs = misses sec fs'" "dir_pos sec fs = dir_pos sec fs'"
  using dir_volume [OF assms]
  by (intro ext; simp add: finds_def misses_def skipped_def dir_pos_def)+

lemma dir_room_mono: "dir_room sec fs org m \<Longrightarrow> m' \<le> m \<Longrightarrow> dir_room sec fs org m'"
  unfolding dir_room_def by (auto dest: div_le_mono [of m' m "unat (fs_sects_clust fs)"])

lemma window_entry:
  assumes d: "serves dk ok sec" and s: "ok s" and w: "window_ok sec fs" and v: "dirs_ok fs"
    and org: "org = 0 \<longrightarrow> fs_type fs \<noteq> FS_FAT32"
    and pos: "dir_pos sec fs org k d" and room: "dir_room sec fs org (k div 16)"
  shows "\<exists>fs' s'. move_window dk (d_sect d) fs s = Some (True, fs', s') \<and> ok s' \<and> window_ok sec fs' \<and>
    volume fs' = volume fs \<and> dir_entry d fs' = dir_ent sec fs org k"
proof -
  have sect: "d_sect d = dir_sector sec fs org (k div 16)" "unat (d_index d) = k" using pos by (simp_all add: dir_pos_def)
  from move_window_ok [OF d s w dir_sector_nonzero [OF v org room]] show ?thesis
    unfolding dir_entry_def dir_ent_def unat_and_15 sect by metis
qed

lemma scan_step:
  assumes d: "serves dk ok sec" and s: "ok s" and w: "window_ok sec fs" and v: "dirs_ok fs"
    and org: "org = 0 \<longrightarrow> fs_type fs \<noteq> FS_FAT32"
    and pos: "dir_pos sec fs org k d" "Suc k < 2 ^ 16" and room: "dir_room sec fs org (k div 16)"
    and go: "dir_ent sec fs org k ! 0 \<noteq> 0" "\<not> entry_matches (dir_ent sec fs org k) nm"
  shows "\<exists>d' fs' s'. scan_dir dk nm d fs s =
      (if dir_room sec fs org (Suc k div 16) then scan_dir dk nm d' fs' s' else Some (NotFound, d', fs', s')) \<and>
    ok s' \<and> window_ok sec fs' \<and> volume fs' = volume fs \<and>
    (dir_room sec fs org (Suc k div 16) \<longrightarrow> dir_pos sec fs org (Suc k) d')"
proof -
  from window_entry [OF d s w v org pos(1) room] obtain fs1 s1 where
    1: "move_window dk (d_sect d) fs s = Some (True, fs1, s1)" "ok s1" "window_ok sec fs1"
      "volume fs1 = volume fs" "dir_entry d fs1 = dir_ent sec fs org k" by blast
  note vol = dir_volume [OF 1(4)]
  have "dir_pos sec fs1 org k d" "dirs_ok fs1" "dir_room sec fs1 org (k div 16)"
    using pos(1) v room by (simp_all add: dir_pos_def vol)
  from next_dir_ok [OF d 1(2,3) this(2) this(1) pos(2) this(3)] obtain d2 fs2 s2 where
    2: "next_dir_entry dk d fs1 s1 = Some (dir_room sec fs org (Suc k div 16), d2, fs2, s2)" "ok s2" "window_ok sec fs2"
      "volume fs2 = volume fs" "dir_room sec fs org (Suc k div 16) \<longrightarrow> dir_pos sec fs org (Suc k) d2"
    unfolding dir_pos_def vol 1(4) by blast
  have "scan_dir dk nm d fs s =
      (if dir_room sec fs org (Suc k div 16) then scan_dir dk nm d2 fs2 s2 else Some (NotFound, d2, fs2, s2))"
    by (subst scan_dir.simps) (simp add: 1(1,5) 2(1) go Let_def)
  then show ?thesis using 2 by blast
qed

lemma scan_found:
  assumes d: "serves dk ok sec" and s: "ok s" and w: "window_ok sec fs" and v: "dirs_ok fs"
    and org: "org = 0 \<longrightarrow> fs_type fs \<noteq> FS_FAT32"
    and pos: "dir_pos sec fs org k d" and f: "finds sec fs org k nm j"
  shows "\<exists>d' fs' s'. scan_dir dk nm d fs s = Some (Found, d', fs', s') \<and> ok s' \<and> window_ok sec fs' \<and>
    volume fs' = volume fs \<and> dir_entry d' fs' = dir_ent sec fs org j"
proof -
  obtain n where "j = k + n" using f by (auto simp: finds_def le_iff_add)
  then show ?thesis using s w v org pos f
  proof (induction n arbitrary: k d fs s)
    case 0
    then have "dir_room sec fs org (k div 16)" by (simp add: finds_def)
    from window_entry [OF d 0(2-6) this] obtain fs1 s1 where
      1: "move_window dk (d_sect d) fs s = Some (True, fs1, s1)" "ok s1" "window_ok sec fs1"
        "volume fs1 = volume fs" "dir_entry d fs1 = dir_ent sec fs org k" by blast
    have "scan_dir dk nm d fs s = Some (Found, d, fs1, s1)"
      using 0(1,7) by (subst scan_dir.simps) (simp add: 1(1,5) finds_def Let_def)
    then show ?case using 1 0(1) by auto
  next
    case (Suc n)
    have room: "dir_room sec fs org (k div 16)" "dir_room sec fs org (Suc k div 16)"
      using Suc.prems(1,7) by (auto simp: finds_def intro: dir_room_mono div_le_mono)
    have go: "dir_ent sec fs org k ! 0 \<noteq> 0" "\<not> entry_matches (dir_ent sec fs org k) nm" "Suc k < 2 ^ 16"
      using Suc.prems(1,7) by (auto simp: finds_def skipped_def)
    from scan_step [OF d Suc.prems(2-6) go(3) room(1) go(1,2)] obtain d' fs' s' where
      1: "scan_dir dk nm d fs s = scan_dir dk nm d' fs' s'" "ok s'" "window_ok sec fs'" "volume fs' = volume fs"
        "dir_pos sec fs org (Suc k) d'" using room(2) by auto
    note vol = dir_volume [OF 1(4)]
    have "finds sec fs org (Suc k) nm j" using Suc.prems(1,7) by (auto simp: finds_def skipped_def)
    with Suc.IH [of "Suc k" s' fs' d'] Suc.prems(1,4,5) 1 volume_fields(8) [OF 1(4)] show ?case
      by (simp add: scan_volume [OF 1(4)] vol)
  qed
qed

lemma scan_missed:
  assumes d: "serves dk ok sec" and s: "ok s" and w: "window_ok sec fs" and v: "dirs_ok fs"
    and org: "org = 0 \<longrightarrow> fs_type fs \<noteq> FS_FAT32"
    and pos: "dir_pos sec fs org k d" and f: "misses sec fs org k nm j"
  shows "\<exists>d' fs' s'. scan_dir dk nm d fs s = Some (NotFound, d', fs', s') \<and> ok s' \<and> window_ok sec fs' \<and>
    volume fs' = volume fs"
proof -
  obtain n where "j = k + n" using f by (auto simp: misses_def le_iff_add)
  then show ?thesis using s w v org pos f
  proof (induction n arbitrary: k d fs s)
    case 0
    then have "dir_room sec fs org (k div 16)" by (auto simp: misses_def split: if_splits)
    from window_entry [OF d 0(2-6) this] obtain fs1 s1 where
      1: "move_window dk (d_sect d) fs s = Some (True, fs1, s1)" "ok s1" "window_ok sec fs1"
        "volume fs1 = volume fs" "dir_entry d fs1 = dir_ent sec fs org k" by blast
    have "scan_dir dk nm d fs s = Some (NotFound, d, fs1, s1)"
      using 0(1,7) by (subst scan_dir.simps) (simp add: 1(1,5) misses_def Let_def split: if_splits)
    then show ?case using 1 0(1) by auto
  next
    case (Suc n)
    have room: "dir_room sec fs org (k div 16)"
      using Suc.prems(1,7) by (auto simp: misses_def split: if_splits intro: dir_room_mono div_le_mono)
    have go: "dir_ent sec fs org k ! 0 \<noteq> 0" "\<not> entry_matches (dir_ent sec fs org k) nm" "Suc k < 2 ^ 16"
      using Suc.prems(1,7) by (auto simp: misses_def skipped_def)
    from scan_step [OF d Suc.prems(2-6) go(3) room go(1,2)] obtain d' fs' s' where
      1: "scan_dir dk nm d fs s =
          (if dir_room sec fs org (Suc k div 16) then scan_dir dk nm d' fs' s' else Some (NotFound, d', fs', s'))"
        "ok s'" "window_ok sec fs'" "volume fs' = volume fs"
        "dir_room sec fs org (Suc k div 16) \<longrightarrow> dir_pos sec fs org (Suc k) d'" by blast
    note vol = dir_volume [OF 1(4)]
    show ?case
    proof (cases "dir_room sec fs org (Suc k div 16)")
      case True
      then have "misses sec fs org (Suc k) nm j" using Suc.prems(1,7) by (cases n) (auto simp: misses_def skipped_def split: if_splits)
      with Suc.IH [of "Suc k" s' fs' d'] Suc.prems(1,4,5) 1 True volume_fields(8) [OF 1(4)] show ?thesis
        by (simp add: scan_volume [OF 1(4)] vol)
    qed (use 1 in auto)
  qed
qed

subsection \<open>Names\<close>

text \<open>A name of at most eight characters with an extension of at most three, and how an entry stores it.\<close>

type_synonym name83 = "u8 list \<times> u8 list"

definition plain :: "u8 \<Rightarrow> bool" where
  "plain c \<longleftrightarrow> 0x20 < c \<and> c \<noteq> 0x2F \<and> c \<noteq> 0x7F \<and> c \<noteq> 0x2E \<and> \<not> sjis c \<and> \<not> md_reject False c"

definition name_ok :: "name83 \<Rightarrow> bool" where
  "name_ok n \<longleftrightarrow> (case n of (b, x) \<Rightarrow>
     b \<noteq> [] \<and> length b \<le> 8 \<and> length x \<le> 3 \<and> list_all plain b \<and> list_all plain x)"

definition name_field :: "name83 \<Rightarrow> u8 list" where
  "name_field n = (case n of (b, x) \<Rightarrow>
     map (md_upper False) b @ replicate (8 - length b) 0x20 @ map (md_upper False) x @ replicate (3 - length x) 0x20)"

definition name_text :: "name83 \<Rightarrow> u8 list" where
  "name_text n = (case n of (b, x) \<Rightarrow> b @ (if x = [] then [] else 0x2E # x))"

fun path_text :: "name83 list \<Rightarrow> u8 list" where
  "path_text [] = []"
| "path_text [n] = name_text n"
| "path_text (n # m # ns) = name_text n @ 0x2F # path_text (m # ns)"

lemma md_plain:
  "list_all plain cs \<Longrightarrow> length pre + length cs \<le> t \<Longrightarrow> length mid = length cs \<Longrightarrow>
   md_loop (cs @ rest) (length pre) t False (pre @ mid @ post) =
     md_loop rest (length pre + length cs) t False (pre @ map (md_upper False) cs @ post)"
proof (induction cs arbitrary: pre mid)
  case (Cons c cs)
  then obtain x ms where mid: "mid = x # ms" "length ms = length cs" by (cases mid) auto
  have c: "\<not> c \<le> 0x20" "c \<noteq> 0x2F" "c \<noteq> 0x7F" "c \<noteq> 0x2E" "\<not> sjis c" "\<not> md_reject False c"
    using Cons.prems(1) by (simp_all add: plain_def not_le)
  from Cons.IH [of "pre @ [md_upper False c]" ms] Cons.prems mid show ?case by (simp add: c)
qed simp

text \<open>What ends a name: nothing more or a slash.\<close>

definition name_end :: "u8 list \<Rightarrow> u8 \<times> u8 list" where
  "name_end rest = (case rest of [] \<Rightarrow> (0, []) | c # r \<Rightarrow> (c, r))"

lemma md_end:
  assumes "rest = [] \<or> (\<exists>r. rest = 0x2F # r)" "n \<noteq> 0" "length nm = 11"
  shows "md_loop rest n t a (nm @ [x]) = (fst (name_end rest), snd (name_end rest), nm @ [0])"
  using assms by (auto simp: name_end_def list_update_append)

lemma make_dirfile_name:
  assumes n: "name_ok n" and rest: "rest = [] \<or> (\<exists>r. rest = 0x2F # r)" and nm: "length nm = 12"
  shows "make_dirfile (name_text n @ rest) nm = (fst (name_end rest), snd (name_end rest), name_field n @ [0])"
proof -
  obtain b x where bx: "n = (b, x)" by fastforce
  have "length (drop 11 nm) = Suc 0" using nm by simp
  then obtain z where z: "drop 11 nm = [z]" unfolding length_Suc_conv by auto
  have b: "b \<noteq> []" "length b \<le> 8" "list_all plain b" "length x \<le> 3" "list_all plain x" using n by (simp_all add: name_ok_def bx)
  let ?u = "map (md_upper False)"
  have blank: "replicate 11 0x20 = replicate (length b) 0x20 @ replicate (8 - length b) (0x20 :: u8) @ replicate 3 0x20"
    using b(2) by (simp add: replicate_add [symmetric])
  have 1: "md_loop (b @ r) 0 8 False (replicate 11 0x20 @ [z]) =
      md_loop r (length b) 8 False (?u b @ (replicate (8 - length b) 0x20 @ replicate 3 0x20) @ [z])" for r
    using md_plain [of b "[]" 8 "replicate (length b) 0x20" r "(replicate (8 - length b) 0x20 @ replicate 3 0x20) @ [z]"] b(2,3)
    unfolding blank by simp
  show ?thesis
  proof (cases "x = []")
    case True
    then show ?thesis
      using 1 [of rest] md_end [OF rest, of "length b" "?u b @ replicate (8 - length b) 0x20 @ replicate 3 0x20" 8 False z] b(1,2)
      by (simp add: make_dirfile_def z bx name_text_def name_field_def)
  next
    case False
    let ?p = "?u b @ replicate (8 - length b) (0x20 :: u8)"
    have dot: "md_loop (0x2E # x @ rest) (length b) 8 False nm' = md_loop (x @ rest) 8 11 False nm'" for nm'
      using b(1,2) by (simp add: sjis_def Suc_le_eq)
    have p: "length ?p = 8" using b(2) by simp
    have 3: "replicate 3 (0x20 :: u8) = replicate (length x) 0x20 @ replicate (3 - length x) 0x20"
      using b(4) by (simp add: replicate_add [symmetric])
    have 2: "md_loop (x @ rest) 8 11 False (?p @ replicate 3 0x20 @ [z]) =
        md_loop rest (8 + length x) 11 False (?p @ ?u x @ replicate (3 - length x) 0x20 @ [z])"
      using md_plain [of x ?p 11 "replicate (length x) 0x20" rest "replicate (3 - length x) 0x20 @ [z]"] b(4,5)
      unfolding p 3 by simp
    show ?thesis
      using 1 [of "0x2E # x @ rest"] 2 False p b(4)
        md_end [OF rest, of "8 + length x" "?p @ ?u x @ replicate (3 - length x) 0x20" 11 False z]
      by (simp add: make_dirfile_def z bx name_text_def name_field_def dot del: md_loop.simps)
  qed
qed

subsection \<open>Paths\<close>

text \<open>
  Where a path leads from entry \<open>k\<close> of a directory on: to the entry with the last name, or to the
  error of the first name that is missing or, with more names to come, is no directory.  The
  search of a directory below the root starts behind its two links.
\<close>

fun path_leads :: "(u32 \<Rightarrow> u8 list) \<Rightarrow> FATFS \<Rightarrow> u32 \<Rightarrow> nat \<Rightarrow> name83 list \<Rightarrow> FRESULT \<times> u8 list option \<Rightarrow> bool" where
  "path_leads sec fs org k [] r = False"
| "path_leads sec fs org k [n] r =
     ((\<exists>j. finds sec fs org k (name_field n) j \<and> r = (FR_OK, Some (dir_ent sec fs org j))) \<or>
      (\<exists>j. misses sec fs org k (name_field n) j \<and> r = (FR_NO_FILE, None)))"
| "path_leads sec fs org k (n # m # ns) r =
     ((\<exists>j. misses sec fs org k (name_field n) j \<and> r = (FR_NO_PATH, None)) \<or>
      (\<exists>j. finds sec fs org k (name_field n) j \<and>
        (let e = dir_ent sec fs org j; clust = entry_clust e in
         if e ! 11 AND AM_DIR = 0 then r = (FR_NO_PATH, None)
         else clust \<noteq> 0 \<and> path_leads sec fs clust 2 (m # ns) r)))"

lemma path_leads_volume:
  assumes "volume fs = volume fs'"
  shows "path_leads sec fs = path_leads sec fs'"
proof (intro ext)
  fix org k names r
  show "path_leads sec fs org k names r = path_leads sec fs' org k names r"
    by (induction names arbitrary: org k rule: induct_list012)
      (simp_all add: scan_volume [OF assms] dir_volume [OF assms] Let_def)
qed

lemma length_name_field: "name_ok n \<Longrightarrow> length (name_field n) = 11"
  by (auto simp: name_ok_def name_field_def split: prod.splits)

lemma matches_append: "length nm = 11 \<Longrightarrow> entry_matches e (nm @ [x]) = entry_matches e nm"
  by (simp add: entry_matches_def)

lemma scan_append:
  assumes "length nm = 11"
  shows "finds sec fs org k (nm @ [x]) j = finds sec fs org k nm j" "misses sec fs org k (nm @ [x]) j = misses sec fs org k nm j"
  by (simp_all add: finds_def misses_def skipped_def matches_append [OF assms])

lemma subdir_pos:
  "org \<noteq> 0 \<Longrightarrow> dir_pos sec fs org 2 (d\<lparr>d_clust := org, d_sclust := x, d_sect := clust2sect fs org, d_index := 2\<rparr>)"
  by (simp add: dir_pos_def dir_sector_def dir_clust_def sector_no_def)

lemma root_pos: "dirs_ok fs \<Longrightarrow> dir_pos sec fs (root_org fs) 0 (root_dir fs)"
  by (simp add: dir_pos_def dir_sector_def dir_clust_def sector_no_def root_dir_def root_org_def dirs_ok_def Let_def)

text \<open>The last name of a path, and a name with more to come.\<close>

lemma trace_last:
  assumes d: "serves dk ok sec" and s: "ok s" "window_ok sec fs" "dirs_ok fs" "org = 0 \<longrightarrow> fs_type fs \<noteq> FS_FAT32"
      "dir_pos sec fs org k d"
    and n: "name_ok n" "length nm = 12" and r: "path_leads sec fs org k [n] (res, e)"
  shows "\<exists>fs' s'. trace_loop dk nm (name_text n) d fs s = Some (res, e, fs', s') \<and> ok s' \<and> window_ok sec fs' \<and>
      volume fs' = volume fs"
proof -
  have mk: "make_dirfile (name_text n) nm = (0, [], name_field n @ [0])"
    using make_dirfile_name [OF n(1), of "[]" nm] n(2) by (simp add: name_end_def)
  from r consider j where "finds sec fs org k (name_field n @ [0]) j" "res = FR_OK" "e = Some (dir_ent sec fs org j)"
    | j where "misses sec fs org k (name_field n @ [0]) j" "res = FR_NO_FILE" "e = None"
    by (auto simp: scan_append length_name_field [OF n(1)])
  then show ?thesis
  proof cases
    case 1
    from scan_found [OF d s 1(1)] show ?thesis by (subst trace_loop.simps) (auto simp: mk 1 Let_def)
  next
    case 2
    from scan_missed [OF d s 2(1)] show ?thesis by (subst trace_loop.simps) (auto simp: mk 2)
  qed
qed

lemma trace_more:
  assumes d: "serves dk ok sec" and s: "ok s" "window_ok sec fs" "dirs_ok fs" "org = 0 \<longrightarrow> fs_type fs \<noteq> FS_FAT32"
      "dir_pos sec fs org k d"
    and n: "name_ok n" "length nm = 12" and r: "path_leads sec fs org k (n # m # ns) (res, e)"
  shows "\<exists>fs' s'. ok s' \<and> window_ok sec fs' \<and> volume fs' = volume fs \<and>
    (trace_loop dk nm (path_text (n # m # ns)) d fs s = Some (res, e, fs', s') \<or>
     (\<exists>clust d'. clust \<noteq> 0 \<and> dir_pos sec fs clust 2 d' \<and> path_leads sec fs clust 2 (m # ns) (res, e) \<and>
       trace_loop dk nm (path_text (n # m # ns)) d fs s =
         trace_loop dk (name_field n @ [0]) (path_text (m # ns)) d' fs' s'))"
proof -
  have mk: "make_dirfile (path_text (n # m # ns)) nm = (0x2F, path_text (m # ns), name_field n @ [0])"
    using make_dirfile_name [OF n(1), of "0x2F # path_text (m # ns)" nm] n(2) by (simp add: name_end_def)
  from r consider j where "misses sec fs org k (name_field n @ [0]) j" "res = FR_NO_PATH" "e = None"
    | j where "finds sec fs org k (name_field n @ [0]) j" "dir_ent sec fs org j ! 11 AND 0x10 = 0" "res = FR_NO_PATH" "e = None"
    | j where "finds sec fs org k (name_field n @ [0]) j" "dir_ent sec fs org j ! 11 AND 0x10 \<noteq> 0"
        "entry_clust (dir_ent sec fs org j) \<noteq> 0" "path_leads sec fs (entry_clust (dir_ent sec fs org j)) 2 (m # ns) (res, e)"
    by (auto simp: scan_append length_name_field [OF n(1)] Let_def split: if_splits)
  then show ?thesis
  proof cases
    case 1
    from scan_missed [OF d s 1(1)] obtain d1 fs1 s1 where
      2: "scan_dir dk (name_field n @ [0]) d fs s = Some (NotFound, d1, fs1, s1)" "ok s1" "window_ok sec fs1"
        "volume fs1 = volume fs" by blast
    then have "trace_loop dk nm (path_text (n # m # ns)) d fs s = Some (res, e, fs1, s1)"
      by (subst trace_loop.simps) (simp add: mk 1 del: path_text.simps)
    then show ?thesis using 2 by blast
  next
    case 2
    from scan_found [OF d s 2(1)] obtain d1 fs1 s1 where
      1: "scan_dir dk (name_field n @ [0]) d fs s = Some (Found, d1, fs1, s1)" "ok s1" "window_ok sec fs1"
        "volume fs1 = volume fs" "dir_entry d1 fs1 = dir_ent sec fs org j" by blast
    then have "trace_loop dk nm (path_text (n # m # ns)) d fs s = Some (res, e, fs1, s1)"
      using 2 by (subst trace_loop.simps) (simp add: mk Let_def del: path_text.simps)
    then show ?thesis using 1 by blast
  next
    case 3
    from scan_found [OF d s 3(1)] obtain d1 fs1 s1 where
      1: "scan_dir dk (name_field n @ [0]) d fs s = Some (Found, d1, fs1, s1)" "ok s1" "window_ok sec fs1"
        "volume fs1 = volume fs" "dir_entry d1 fs1 = dir_ent sec fs org j" by blast
    let ?c = "entry_clust (dir_ent sec fs org j)"
    let ?d = "d1\<lparr>d_clust := ?c, d_sclust := ?c, d_sect := clust2sect fs ?c, d_index := 2\<rparr>"
    have "trace_loop dk nm (path_text (n # m # ns)) d fs s =
        trace_loop dk (name_field n @ [0]) (path_text (m # ns)) ?d fs1 s1"
      using 3(2) clust2sect_volume [OF 1(4)]
      by (subst trace_loop.simps) (simp add: mk 1(1,5) Let_def del: path_text.simps)
    then show ?thesis using 1(2-4) 3(3,4) subdir_pos [OF 3(3)] by blast
  qed
qed

lemma trace_loop_ok:
  assumes d: "serves dk ok sec"
  shows "list_all name_ok names \<Longrightarrow> ok s \<Longrightarrow> window_ok sec fs \<Longrightarrow> dirs_ok fs \<Longrightarrow>
    org = 0 \<longrightarrow> fs_type fs \<noteq> FS_FAT32 \<Longrightarrow> dir_pos sec fs org k d \<Longrightarrow> path_leads sec fs org k names (res, e) \<Longrightarrow>
    length nm = 12 \<Longrightarrow>
    \<exists>fs' s'. trace_loop dk nm (path_text names) d fs s = Some (res, e, fs', s') \<and> ok s' \<and> window_ok sec fs' \<and>
      volume fs' = volume fs"
proof (induction names arbitrary: nm org k d fs s rule: induct_list012)
  case (2 n)
  from trace_last [OF d 2(2-6) _ 2(8,7)] 2(1) show ?case by simp
next
  case (3 n m ns)
  from trace_more [OF d 3(4-8) _ 3(10,9)] 3(3) obtain fs1 s1 where
    1: "ok s1" "window_ok sec fs1" "volume fs1 = volume fs" and
    2: "trace_loop dk nm (path_text (n # m # ns)) d fs s = Some (res, e, fs1, s1) \<or>
     (\<exists>clust d'. clust \<noteq> 0 \<and> dir_pos sec fs clust 2 d' \<and> path_leads sec fs clust 2 (m # ns) (res, e) \<and>
       trace_loop dk nm (path_text (n # m # ns)) d fs s =
         trace_loop dk (name_field n @ [0]) (path_text (m # ns)) d' fs1 s1)" by auto
  from 2 show ?case
  proof (elim disjE exE conjE)
    fix clust d'
    assume a: "clust \<noteq> 0" "dir_pos sec fs clust 2 d'" "path_leads sec fs clust 2 (m # ns) (res, e)"
      "trace_loop dk nm (path_text (n # m # ns)) d fs s = trace_loop dk (name_field n @ [0]) (path_text (m # ns)) d' fs1 s1"
    from 3(2) [of s1 fs1 clust 2 d' "name_field n @ [0]"] 3(3,6) 1 a show ?thesis
      by (simp add: scan_volume [OF 1(3)] dir_volume [OF 1(3)] path_leads_volume [OF 1(3)] length_name_field del: path_text.simps path_leads.simps)
  qed (use 1 in blast)
qed simp

end
