(* ===== verification/Fat_Mount.thy ===== *)
theory Fat_Mount
  imports Fat_Dir
begin

text \<open>
  Mounting: where the boot record of a volume is found, the layout it describes, and that a
  consistent record gives a well-formed volume.  Opening a file then follows its path and
  gives a file object through which the contents of the file are read.
\<close>

subsection \<open>Boot records\<close>

definition fat_record :: "u8 list \<Rightarrow> bool" where
  "fat_record w \<longleftrightarrow> LD_WORD w 510 = 0xAA55 \<and>
     (take 3 (drop 54 w) = [0x46, 0x41, 0x54] \<or>
      take 5 (drop 82 w) = [0x46, 0x41, 0x54, 0x33, 0x32] \<and> w ! 40 AND 0x80 = 0)"

text \<open>The volume fills the disk, or it is the first partition.\<close>

definition starts_at :: "(u32 \<Rightarrow> u8 list) \<Rightarrow> u32 \<Rightarrow> bool" where
  "starts_at sec b \<longleftrightarrow>
     (if fat_record (sec 0) then b = 0
      else LD_WORD (sec 0) 510 = 0xAA55 \<and> sec 0 ! 450 \<noteq> 0 \<and> b = LD_DWORD (sec 0) 454 \<and> fat_record (sec b))"

text \<open>The numbers of a record: sectors before the tables, in the tables, in the root directory, of the volume.\<close>

definition rec_reserved :: "u8 list \<Rightarrow> nat" where
  "rec_reserved w = unat (LD_WORD w 14)"

definition rec_fats :: "u8 list \<Rightarrow> nat" where
  "rec_fats w = (if LD_WORD w 22 \<noteq> 0 then unat (LD_WORD w 22) else unat (LD_DWORD w 36)) * unat (w ! 16)"

definition rec_root :: "u8 list \<Rightarrow> nat" where
  "rec_root w = unat (LD_WORD w 17) div 16"

definition rec_total :: "u8 list \<Rightarrow> nat" where
  "rec_total w = (if LD_WORD w 19 \<noteq> 0 then unat (LD_WORD w 19) else unat (LD_DWORD w 32))"

definition rec_meta :: "u8 list \<Rightarrow> nat" where
  "rec_meta w = rec_reserved w + rec_fats w + rec_root w"

definition rec_clusters :: "u8 list \<Rightarrow> nat" where
  "rec_clusters w = (rec_total w - rec_meta w) div unat (w ! 13)"

text \<open>A record whose areas fit into the volume, which starts at sector \<open>b\<close> and ends before the last sector.\<close>

definition record_ok :: "u8 list \<Rightarrow> nat \<Rightarrow> bool" where
  "record_ok w b \<longleftrightarrow>
     LD_WORD w 11 = 512 \<and> (\<exists>p. unat (w ! 13) = 2 ^ p) \<and> 0 < rec_reserved w \<and>
     rec_meta w \<le> rec_total w \<and> b + rec_total w + 512 < 2 ^ 32 \<and>
     (0xFFF7 < rec_clusters w + 2 \<longrightarrow> LD_DWORD w 44 \<noteq> 0)"

text \<open>The kind of table follows from the number of clusters.\<close>

definition fat_kind :: "nat \<Rightarrow> u8" where
  "fat_kind n = (if 0xFFF7 < n + 2 then FS_FAT32 else if 0xFF7 < n + 2 then FS_FAT16 else FS_FAT12)"

definition layout_ok :: "u8 list \<Rightarrow> nat \<Rightarrow> FATFS \<Rightarrow> bool" where
  "layout_ok w b fs \<longleftrightarrow>
     unat (fs_fatbase fs) = b + rec_reserved w \<and>
     unat (fs_database fs) = b + rec_meta w \<and>
     unat (fs_max_clust fs) = rec_clusters w + 2 \<and>
     fs_sects_clust fs = w ! 13 \<and> fs_n_rootdir fs = LD_WORD w 17 \<and> fs_type fs = fat_kind (rec_clusters w) \<and>
     (if fs_type fs = FS_FAT32 then fs_dirbase fs = LD_DWORD w 44
      else unat (fs_dirbase fs) = b + rec_reserved w + rec_fats w)"

lemma unat_ucast_u16: "unat (ucast (w :: u16) :: u32) = unat w"
  using u16_lt [of w] by (simp add: unsigned_ucast_eq take_bit_nat_eq_self)

lemma unat_ucast_u8_u32: "unat (ucast (w :: u8) :: u32) = unat w"
  using u8_lt [of w] by (simp add: unsigned_ucast_eq take_bit_nat_eq_self)

lemma unat_sub3:
  fixes a b c t :: u32
  assumes "unat a + unat b + unat c \<le> unat t"
  shows "unat (t - a - b - c) = unat t - (unat a + unat b + unat c)"
proof -
  have 1: "unat (t - a) = unat t - unat a" using assms by (simp add: unat_sub word_le_nat_alt)
  have 2: "unat (t - a - b) = unat t - unat a - unat b" using assms by (subst unat_sub) (simp_all add: 1 word_le_nat_alt)
  show ?thesis using assms by (subst unat_sub) (simp_all add: 2 word_le_nat_alt)
qed

lemma fs_layout_ok:
  assumes r: "record_ok (fs_win fs) (unat b)"
  shows "\<exists>fs'. fs_layout b fs = ret fs' \<and> layout_ok (fs_win fs) (unat b) fs' \<and>
    fs_win fs' = fs_win fs \<and> fs_winsect fs' = fs_winsect fs \<and> fs_drive fs' = fs_drive fs"
proof -
  let ?w = "fs_win fs"
  define sf where "sf = (if LD_WORD ?w 22 \<noteq> 0 then ucast (LD_WORD ?w 22) else LD_DWORD ?w 36)"
  define tot where "tot = (if LD_WORD ?w 19 \<noteq> 0 then ucast (LD_WORD ?w 19) else LD_DWORD ?w 32)"
  define res where "res = (ucast (LD_WORD ?w 14) :: u32)"
  define root where "root = (ucast (LD_WORD ?w 17 div 16) :: u32)"
  define fatsz where "fatsz = sf * ucast (?w ! 16)"
  have le: "rec_meta ?w \<le> rec_total ?w" "unat b + rec_total ?w + 512 < 2 ^ 32" and sc: "?w ! 13 \<noteq> 0"
    using r by (auto simp: record_ok_def)
  have u: "unat tot = rec_total ?w" "unat res = rec_reserved ?w" "unat root = rec_root ?w"
    by (simp_all add: tot_def rec_total_def res_def rec_reserved_def root_def rec_root_def unat_ucast_u16 unat_div_distrib)
  have "unat sf * unat (ucast (?w ! 16) :: u32) = rec_fats ?w"
    by (simp add: sf_def rec_fats_def unat_ucast_u16 unat_ucast_u8_u32)
  moreover have "rec_fats ?w < 2 ^ 32" using le by (simp add: rec_meta_def)
  ultimately have uf: "unat fatsz = rec_fats ?w" by (simp add: fatsz_def unat_word_ariths)
  have meta: "rec_reserved ?w + rec_fats ?w + rec_root ?w = rec_meta ?w" by (simp add: rec_meta_def)
  have 3: "unat (tot - res - fatsz - root) = rec_total ?w - rec_meta ?w"
    using unat_sub3 [of res fatsz root tot] le u uf meta by simp
  define mc where "mc = (tot - res - fatsz - root) div ucast (?w ! 13) + 2"
  have "rec_clusters ?w \<le> rec_total ?w" unfolding rec_clusters_def by (rule le_trans [OF div_le_dividend diff_le_self])
  then have mc: "unat mc = rec_clusters ?w + 2"
    using le by (simp add: mc_def rec_clusters_def unat_word_ariths unat_div_distrib 3 unat_ucast_u8_u32)
  have base: "unat (b + res) = unat b + rec_reserved ?w" "unat (b + res + fatsz) = unat b + rec_reserved ?w + rec_fats ?w"
    "unat (b + res + fatsz + root) = unat b + rec_meta ?w"
    using le meta by (simp_all add: unat_word_ariths u uf)
  have kind: "(if 0xFFF7 < mc then 3 else if 0xFF7 < mc then 2 else 1) = fat_kind (rec_clusters ?w)"
    by (simp add: fat_kind_def word_less_nat_alt mc)
  have "fs_layout b fs = ret (fs\<lparr>fs_sects_fat := sf, fs_n_fats := ?w ! 16, fs_fatbase := b + res,
      fs_sects_clust := ?w ! 13, fs_n_rootdir := LD_WORD ?w 17, fs_max_clust := mc, fs_type := fat_kind (rec_clusters ?w),
      fs_dirbase := (if fat_kind (rec_clusters ?w) = 3 then LD_DWORD ?w 44 else b + res + fatsz),
      fs_database := b + res + fatsz + root\<rparr>)"
    unfolding fs_layout_def kind [symmetric] mc_def fatsz_def sf_def tot_def res_def root_def using sc by (simp add: Let_def)
  then show ?thesis using base mc by (simp add: layout_ok_def)
qed

text \<open>Such a layout is a well-formed volume.\<close>

lemma layout_volume:
  assumes r: "record_ok w b" and l: "layout_ok w b fs"
  shows "dirs_ok fs"
proof -
  obtain p where p: "unat (w ! 13) = 2 ^ p" using r by (auto simp: record_ok_def)
  have le: "rec_meta w \<le> rec_total w" "b + rec_total w + 512 < 2 ^ 32" "0 < rec_reserved w" using r by (auto simp: record_ok_def)
  have sc: "w ! 13 \<noteq> 0" using p by auto
  have "unat (w ! 13) < 256" using u8_lt [of "w ! 13"] by simp
  moreover have c: "rec_clusters w * unat (w ! 13) \<le> rec_total w - rec_meta w"
    unfolding rec_clusters_def by (rule div_times_less_eq_dividend)
  ultimately have data: "b + rec_meta w + (rec_clusters w + 2) * unat (w ! 13) < 2 ^ 32"
    using le by (simp add: distrib_right)
  have "rec_clusters w \<le> rec_total w - rec_meta w" unfolding rec_clusters_def by (rule div_le_dividend)
  then have fat: "b + rec_reserved w + (rec_clusters w + 2) < 2 ^ 32" using le by (simp add: rec_meta_def)
  have "fs_type fs \<in> {1, 2, 3}" "fs_type fs = 1 \<longrightarrow> unat (fs_max_clust fs) \<le> 0xFF7"
    using l by (auto simp: layout_ok_def fat_kind_def split: if_splits)
  then have "volume_ok fs" using l sc data fat le by (simp add: volume_ok_def layout_ok_def rec_meta_def)
  moreover have "fs_dirbase fs \<noteq> 0"
  proof (cases "fs_type fs = 3")
    case True
    then show ?thesis using l r by (auto simp: layout_ok_def record_ok_def fat_kind_def split: if_splits)
  next
    case False
    then have "unat (fs_dirbase fs) = b + rec_reserved w + rec_fats w" using l by (simp add: layout_ok_def)
    then show ?thesis using le(3) by auto
  qed
  moreover have "unat (fs_dirbase fs) + unat (fs_n_rootdir fs) div 16 < 2 ^ 32" if "fs_type fs \<noteq> 3"
    using l that le by (simp add: layout_ok_def rec_meta_def rec_root_def)
  ultimately show ?thesis using l p by (auto simp: dirs_ok_def layout_ok_def)
qed

subsection \<open>Mounting a volume\<close>

text \<open>What is asked of a disk and of the state of its driver for the volume to be mounted.\<close>

definition mountable :: "'s disk \<Rightarrow> ('s \<Rightarrow> bool) \<Rightarrow> (u32 \<Rightarrow> u8 list) \<Rightarrow> u8 \<Rightarrow> 's \<Rightarrow> bool" where
  "mountable dk ok sec drv s \<longleftrightarrow>
     (\<exists>stat s'. dk_initialize dk drv s = Some (stat, s') \<and> stat AND 1 = 0 \<and> ok s') \<and>
     (\<exists>b. starts_at sec b \<and> record_ok (sec b) (unat b))"

lemma check_fs_ok:
  assumes d: "serves dk ok sec" and s: "ok s" and w: "length (fs_win fs) = 512"
  shows "\<exists>s'. check_fs dk n fs s = Some
    (if fat_record (sec n) then 0 else if LD_WORD (sec n) 510 = 0xAA55 then 1 else 2, fs\<lparr>fs_win := sec n\<rparr>, s') \<and> ok s'"
proof -
  obtain s' where "dk_read dk (fs_drive fs) n 1 s = Some (RES_OK, sec n, s')" "ok s'"
    using serves_read1 [OF d s] by blast
  then show ?thesis using w serves_length [OF d, of n] by (auto simp: check_fs_def fat_record_def Let_def)
qed

lemma find_volume_ok:
  assumes d: "serves dk ok sec" and s: "ok s" and w: "length (fs_win fs) = 512" and b: "starts_at sec b"
  shows "\<exists>s'. find_volume dk fs s = Some (0, b, fs\<lparr>fs_win := sec b\<rparr>, s') \<and> ok s'"
proof -
  let ?k = "\<lambda>n. if fat_record (sec n) then 0 else if LD_WORD (sec n) 510 = 0xAA55 then 1 else 2 :: u8"
  obtain s1 where 1: "check_fs dk 0 fs s = Some (?k 0, fs\<lparr>fs_win := sec 0\<rparr>, s1)" "ok s1"
    using check_fs_ok [OF d s w] by blast
  obtain s2 where 2: "check_fs dk b (fs\<lparr>fs_win := sec 0\<rparr>) s1 = Some (?k b, fs\<lparr>fs_win := sec b\<rparr>, s2)" "ok s2"
    using check_fs_ok [OF d 1(2), of "fs\<lparr>fs_win := sec 0\<rparr>" b] serves_length [OF d] by auto
  show ?thesis
    using 1 2 b by (cases "fat_record (sec 0)") (auto simp: starts_at_def find_volume_def Let_def)
qed

lemma mount_volume_ok:
  assumes d: "serves dk ok sec" and m: "mountable dk ok sec drv s"
  shows "\<exists>b fs s'. mount_volume dk drv s = ret (FR_OK, fs, s') \<and> ok s' \<and> starts_at sec b \<and>
    layout_ok (sec b) (unat b) fs \<and> window_ok sec fs \<and> dirs_ok fs \<and> fs_drive fs = drv"
proof -
  obtain stat s0 b where i: "dk_initialize dk drv s = Some (stat, s0)" "stat AND 1 = 0" "ok s0"
    and b: "starts_at sec b" "record_ok (sec b) (unat b)" using m by (auto simp: mountable_def)
  let ?z = "zero_fs\<lparr>fs_drive := drv\<rparr>"
  have z: "length (fs_win ?z) = 512" "fs_winsect ?z = 0" by (simp_all add: zero_fs_def)
  from find_volume_ok [OF d i(3) z(1) b(1)] obtain s1 where
    f: "find_volume dk ?z s0 = Some (0, b, ?z\<lparr>fs_win := sec b\<rparr>, s1)" "ok s1" by blast
  from fs_layout_ok [of "?z\<lparr>fs_win := sec b\<rparr>" b] b(2) obtain fs where
    l: "fs_layout b (?z\<lparr>fs_win := sec b\<rparr>) = ret fs" "layout_ok (sec b) (unat b) fs"
      "fs_win fs = sec b" "fs_winsect fs = 0" "fs_drive fs = drv" using z(2) by auto
  have "window_ok sec fs" using l serves_length [OF d] by (simp add: window_ok_def)
  moreover have "LD_WORD (sec b) 11 = 512" using b(2) by (simp add: record_ok_def)
  ultimately show ?thesis
    using f i l(1,2,5) b layout_volume [OF b(2) l(2)] by (auto simp: mount_volume_def Let_def)
qed

subsection \<open>What a volume holds\<close>

text \<open>The files and directories depend on the layout only, so the record says what they are.\<close>

definition geometry :: "FATFS \<Rightarrow> u8 \<times> u8 \<times> u32 \<times> u32 \<times> u32 \<times> u32 \<times> u16" where
  "geometry fs = (fs_type fs, fs_sects_clust fs, fs_max_clust fs, fs_fatbase fs, fs_database fs, fs_dirbase fs, fs_n_rootdir fs)"

definition volume_of :: "u8 list \<Rightarrow> nat \<Rightarrow> FATFS" where
  "volume_of w b = zero_fs\<lparr>fs_type := fat_kind (rec_clusters w), fs_sects_clust := w ! 13,
     fs_max_clust := of_nat (rec_clusters w + 2), fs_fatbase := of_nat (b + rec_reserved w),
     fs_database := of_nat (b + rec_meta w), fs_n_rootdir := LD_WORD w 17,
     fs_dirbase := (if fat_kind (rec_clusters w) = FS_FAT32 then LD_DWORD w 44
                    else of_nat (b + rec_reserved w + rec_fats w))\<rparr>"

lemma layout_geometry: "layout_ok w b fs \<Longrightarrow> geometry fs = geometry (volume_of w b)"
  unfolding layout_ok_def geometry_def volume_of_def
  by (auto simp del: of_nat_add add_2_eq_Suc' intro!: of_unatI)

lemma same_geometry:
  assumes "geometry fs = geometry fs'"
  shows "contents sec fs = contents sec fs'" "chain_ok sec fs = chain_ok sec fs'"
    "path_leads sec fs = path_leads sec fs'" "root_org fs = root_org fs'"
proof -
  have g: "fs_type fs = fs_type fs'" "fs_sects_clust fs = fs_sects_clust fs'" "fs_max_clust fs = fs_max_clust fs'"
    "fs_fatbase fs = fs_fatbase fs'" "fs_database fs = fs_database fs'" "fs_dirbase fs = fs_dirbase fs'"
    "fs_n_rootdir fs = fs_n_rootdir fs'" using assms by (simp_all add: geometry_def)
  have e: "fat_entry sec fs = fat_entry sec fs'" by (intro ext) (simp add: fat_entry_def fat_byte_def g)
  have n: "nth_clust sec fs = nth_clust sec fs'" by (intro ext) (simp add: nth_clust_def e)
  have v: "valid_clust fs = valid_clust fs'" by (intro ext) (simp add: valid_clust_def g)
  have s: "sector_no sec fs = sector_no sec fs'" by (intro ext) (simp add: sector_no_def clust2sect_def n g Let_def)
  show "contents sec fs = contents sec fs'" by (intro ext) (simp add: contents_def file_byte_def s)
  show "chain_ok sec fs = chain_ok sec fs'" by (intro ext) (simp add: chain_ok_def n v g)
  show "root_org fs = root_org fs'" by (simp add: root_org_def g)
  have d: "dir_ent sec fs = dir_ent sec fs'" by (intro ext) (simp add: dir_ent_def dir_sector_def s g)
  have r: "dir_room sec fs = dir_room sec fs'" by (intro ext) (simp add: dir_room_def n v g)
  have f: "finds sec fs = finds sec fs'" "misses sec fs = misses sec fs'"
    by (intro ext; simp add: finds_def misses_def skipped_def d r)+
  show "path_leads sec fs = path_leads sec fs'"
  proof (intro ext)
    fix org k names r
    show "path_leads sec fs org k names r = path_leads sec fs' org k names r"
      by (induction names arbitrary: org k rule: induct_list012) (simp_all add: d f Let_def)
  qed
qed

subsection \<open>Opening a file\<close>

text \<open>
  Drive 0 has object \<open>i\<close>, with the volume whose record is at sector \<open>b\<close> mounted or ready to be
  mounted.
\<close>

definition has_volume :: "(u32 \<Rightarrow> u8 list) \<Rightarrow> u32 \<Rightarrow> FATFS \<Rightarrow> bool" where
  "has_volume sec b fs \<longleftrightarrow> geometry fs = geometry (volume_of (sec b) (unat b)) \<and> window_ok sec fs \<and> dirs_ok fs"

definition drive_ready :: "'s disk \<Rightarrow> ('s \<Rightarrow> bool) \<Rightarrow> (u32 \<Rightarrow> u8 list) \<Rightarrow> u32 \<Rightarrow> nat \<Rightarrow> 's ffs \<Rightarrow> bool" where
  "drive_ready dk ok sec b i st \<longleftrightarrow>
     FatFs st ! 0 = Some i \<and> i < length (objs st) \<and> starts_at sec b \<and>
     (if fs_type (objs st ! i) = 0 then mountable dk ok sec 0 (dsk st)
      else ok (dsk st) \<and> has_volume sec b (objs st ! i))"

lemma starts_at_unique: "starts_at sec b \<Longrightarrow> starts_at sec b' \<Longrightarrow> b = b'"
  by (simp add: starts_at_def split: if_splits)

lemma auto_mount_ok:
  assumes d: "serves dk ok sec" and r: "drive_ready dk ok sec b i st" and p: "path_drive path = (0, p)"
  shows "\<exists>st'. auto_mount dk path st = ret (FR_OK, i, p, st') \<and> ok (dsk st') \<and> i < length (objs st') \<and>
    has_volume sec b (objs st' ! i) \<and> FatFs st' = FatFs st"
proof (cases "fs_type (objs st ! i) = 0")
  case True
  with r have m: "mountable dk ok sec 0 (dsk st)" "starts_at sec b" "i < length (objs st)" "FatFs st ! 0 = Some i"
    by (simp_all add: drive_ready_def)
  from mount_volume_ok [OF d m(1)] obtain b' fs s' where
    v: "mount_volume dk 0 (dsk st) = ret (FR_OK, fs, s')" "ok s'" "starts_at sec b'"
      "layout_ok (sec b') (unat b') fs" "window_ok sec fs" "dirs_ok fs" by blast
  have "b' = b" using v(3) m(2) by (rule starts_at_unique)
  then have "has_volume sec b (fs\<lparr>fs_id := x\<rparr>)" for x
    using layout_geometry [OF v(4)] v(5,6) by (simp add: has_volume_def geometry_def window_ok_def dirs_ok_def volume_ok_def)
  then show ?thesis using True p v(1,2) m(3,4) by (simp add: auto_mount_def put_fs_def)
next
  case False
  with r have m: "ok (dsk st)" "has_volume sec b (objs st ! i)" "i < length (objs st)" "FatFs st ! 0 = Some i"
    by (simp_all add: drive_ready_def)
  obtain stat s where "dk_status dk (fs_drive (objs st ! i)) (dsk st) = Some (stat, s)" "stat AND 1 = 0" "ok s"
    using serves_status [OF d m(1)] by blast
  then have "auto_mount dk path st = ret (FR_OK, i, p, st\<lparr>dsk := s\<rparr>)" using False p m by (simp add: auto_mount_def)
  then show ?thesis using m \<open>ok s\<close> by simp
qed

lemma path_drive_plain:
  assumes "list_all name_ok names" "names \<noteq> []"
  shows "path_drive (path_text names) = (0, path_text names)"
proof -
  obtain n ns where n: "names = n # ns" using assms(2) by (cases names) auto
  obtain b x where bx: "n = (b, x)" by fastforce
  then obtain c cs where c: "b = c # cs" "plain c" "list_all plain cs"
    using assms(1) n by (cases b) (auto simp: name_ok_def)
  obtain r where r: "path_text names = c # cs @ r" "r = [] \<or> hd r = 0x2E \<or> hd r = 0x2F"
    unfolding n by (cases ns) (auto simp: bx c name_text_def)
  have colon: "plain c' \<Longrightarrow> c' \<noteq> 0x3A" for c' by (auto simp: plain_def md_reject_def)
  have p: "c \<noteq> 0x20" "c \<noteq> 0x2F" using c(2) by (auto simp: plain_def)
  have "cs @ r = [] \<or> hd (cs @ r) \<noteq> 0x3A" using r(2) c(3) colon by (cases cs) auto
  then show ?thesis unfolding r(1) using p by (cases "cs @ r") (auto simp: path_drive_def Let_def)
qed

text \<open>The result of opening what a path leads to: a directory is no file.\<close>

definition open_result :: "FRESULT \<Rightarrow> u8 list option \<Rightarrow> FRESULT" where
  "open_result res e =
     (case e of None \<Rightarrow> if res = FR_OK then FR_NO_FILE else res
      | Some ent \<Rightarrow> if ent ! 11 AND AM_DIR \<noteq> 0 then FR_NO_FILE else FR_OK)"

lemma path_leads_ok: "path_leads sec fs org k names (res, e) \<Longrightarrow> res = FR_OK \<longleftrightarrow> e \<noteq> None"
  by (induction names arbitrary: org k rule: induct_list012) (auto simp: Let_def split: if_splits)

lemma trace_path_ok:
  assumes d: "serves dk ok sec" and s: "ok s" and v: "has_volume sec b fs"
    and names: "list_all name_ok names" "names \<noteq> []"
    and leads: "path_leads sec (volume_of (sec b) (unat b)) (root_org (volume_of (sec b) (unat b))) 0 names (res, e)"
  shows "\<exists>fs' s'. trace_path dk (replicate 12 0) (path_text names) fs s = Some (res, e, fs', s') \<and> ok s' \<and>
    has_volume sec b fs' \<and> fs_id fs' = fs_id fs"
proof -
  have g: "geometry fs = geometry (volume_of (sec b) (unat b))" and w: "window_ok sec fs" "dirs_ok fs"
    using v by (simp_all add: has_volume_def)
  have l: "path_leads sec fs (root_org fs) 0 names (res, e)" using leads unfolding same_geometry(3,4) [OF g] .
  have "root_org fs = 0 \<longrightarrow> fs_type fs \<noteq> 3" using w(2) by (simp add: root_org_def dirs_ok_def)
  from trace_loop_ok [OF d names(1) s w this root_pos [OF w(2)] l, of "replicate 12 0"] obtain fs' s' where
    t: "trace_loop dk (replicate 12 0) (path_text names) (root_dir fs) fs s = Some (res, e, fs', s')" "ok s'"
      "window_ok sec fs'" "volume fs' = volume fs" by auto
  have "geometry fs' = geometry fs" using volume_fields [OF t(4)] by (simp add: geometry_def)
  then have "has_volume sec b fs'" using t(3) w(2) g dir_volume(5) [OF t(4)] by (simp add: has_volume_def)
  moreover have "path_text names \<noteq> []"
    using names by (cases names rule: path_text.cases) (auto simp: name_text_def name_ok_def split: prod.splits)
  ultimately show ?thesis using t volume_fields(1) [OF t(4)] by (simp add: trace_path_def)
qed

lemma f_open_ok:
  assumes d: "serves dk ok sec" and r: "drive_ready dk ok sec b i st"
    and names: "list_all name_ok names" "names \<noteq> []" and vol_def: "vol = volume_of (sec b) (unat b)"
    and leads: "path_leads sec vol (root_org vol) 0 names (res, e)"
    and mode: "mode AND 1 = 1" and buf: "length (fp_buffer fp) = 512"
  shows "\<exists>fp' st'. f_open dk fp (path_text names) mode st = ret (open_result res e, fp', st') \<and>
    ok (dsk st') \<and> drive_ready dk ok sec b i st' \<and>
    (\<forall>ent. e = Some ent \<longrightarrow> ent ! 11 AND AM_DIR = 0 \<longrightarrow>
       chain_ok sec vol (entry_clust ent) (unat (LD_DWORD ent 28)) \<longrightarrow>
       readable sec st' fp' \<and> fp_fptr fp' = 0 \<and>
       file_contents sec st' fp' = contents sec vol (entry_clust ent) (unat (LD_DWORD ent 28)))"
proof -
  from auto_mount_ok [OF d r path_drive_plain [OF names]] obtain st1 where
    m: "auto_mount dk (path_text names) st = ret (FR_OK, i, path_text names, st1)" "ok (dsk st1)"
      "i < length (objs st1)" "has_volume sec b (objs st1 ! i)" "FatFs st1 = FatFs st" by blast
  from trace_path_ok [OF d m(2,4) names leads [unfolded vol_def]] obtain fs s where
    t: "trace_path dk (replicate 12 0) (path_text names) (objs st1 ! i) (dsk st1) = Some (res, e, fs, s)" "ok s"
      "has_volume sec b fs" "fs_id fs = fs_id (objs st1 ! i)" by blast
  let ?st = "put_fs i fs s st1"
  have dir: "dirs_ok fs" and w: "window_ok sec fs" and g: "geometry fs = geometry vol"
    using t(3) by (simp_all add: has_volume_def vol_def)
  have "fs_type fs \<noteq> 0" using dir by (auto simp: dirs_ok_def volume_ok_def)
  then have ready: "ok (dsk ?st)" "drive_ready dk ok sec b i ?st"
    using r m t by (simp_all add: drive_ready_def put_fs_def)
  have re: "res = FR_OK \<longleftrightarrow> e \<noteq> None" using leads by (rule path_leads_ok)
  show ?thesis
  proof (cases "\<exists>ent. e = Some ent \<and> ent ! 11 AND 0x10 = 0")
    case False
    then have "f_open dk fp (path_text names) mode st = ret (open_result res e, fp\<lparr>fp_fs := None\<rparr>, ?st)"
      using m(1,3) t(1) re by (auto simp: f_open_def open_result_def Let_def split: option.splits)
    then show ?thesis using ready False by blast
  next
    case True
    then obtain ent where e: "e = Some ent" "ent ! 11 AND 0x10 = 0" "res = FR_OK" using re by auto
    let ?fp = "fp\<lparr>fp_flag := 1, fp_org_clust := entry_clust ent, fp_fsize := LD_DWORD ent 28, fp_fptr := 0,
      fp_sect_clust := 1, fp_fs := Some i, fp_id := fs_id fs\<rparr>"
    have o: "f_open dk fp (path_text names) mode st = ret (FR_OK, ?fp, ?st)"
      using m(1,3) t(1) e mode by (simp add: f_open_def Let_def)
    have "the_fs ?st ?fp = fs" using m(3) by (simp add: the_fs_def put_fs_def)
    then have "file_contents sec ?st ?fp = contents sec vol (entry_clust ent) (unat (LD_DWORD ent 28))"
      "chain_ok sec vol (entry_clust ent) (unat (LD_DWORD ent 28)) \<Longrightarrow> readable sec ?st ?fp"
      using dir w m(3) buf by (simp_all add: file_contents_def readable_def same_geometry [OF g] cursor_ok_def dirs_ok_def put_fs_def)
    then show ?thesis using o ready e by (auto simp: open_result_def)
  qed
qed

end
