(* ===== verification/Fat_Props.thy ===== *)
theory Fat_Props
  imports Fat_Mount
begin

text \<open>
  Properties of the file system as its callers see it: mounting gives a well-formed volume,
  opening follows the path, and any sequence of reads and seeks on an open file behaves like
  the same sequence on the bytes of the file with a position.
\<close>

subsection \<open>Files as bytes with a position\<close>

datatype file_call = CallRead u16 | CallSeek u32

text \<open>What the calls answer on a file that is its bytes, with the position behind them.\<close>

fun spec_calls :: "u8 list \<Rightarrow> nat \<Rightarrow> file_call list \<Rightarrow> (FRESULT \<times> u8 list) list \<times> nat" where
  "spec_calls data p [] = ([], p)"
| "spec_calls data p (CallRead btr # cs) =
     (let n = min (unat btr) (length data - p); (out, q) = spec_calls data (p + n) cs
      in ((FR_OK, take n (drop p data)) # out, q))"
| "spec_calls data p (CallSeek ofs # cs) =
     (let (out, q) = spec_calls data (min (unat ofs) (length data)) cs in ((FR_OK, []) # out, q))"

fun run_calls :: "(u16 \<Rightarrow> 'f \<Rightarrow> (FRESULT \<times> u8 list \<times> 'f) res) \<Rightarrow> (u32 \<Rightarrow> 'f \<Rightarrow> (FRESULT \<times> 'f) res) \<Rightarrow>
    file_call list \<Rightarrow> 'f \<Rightarrow> ((FRESULT \<times> u8 list) list \<times> 'f) res" where
  "run_calls rd sk [] f = ret ([], f)"
| "run_calls rd sk (CallRead btr # cs) f =
     lbind (rd btr f) (\<lambda>(res, bs, f). lbind (run_calls rd sk cs f) (\<lambda>(out, f). ret ((res, bs) # out, f)))"
| "run_calls rd sk (CallSeek ofs # cs) f =
     lbind (sk ofs f) (\<lambda>(res, f). lbind (run_calls rd sk cs f) (\<lambda>(out, f). ret ((res, []) # out, f)))"

locale byte_file =
  fixes rd :: "u16 \<Rightarrow> 'f \<Rightarrow> (FRESULT \<times> u8 list \<times> 'f) res"
    and sk :: "u32 \<Rightarrow> 'f \<Rightarrow> (FRESULT \<times> 'f) res"
    and inv :: "'f \<Rightarrow> bool"
    and bytes :: "'f \<Rightarrow> u8 list"
    and pos :: "'f \<Rightarrow> nat"
  assumes rd_ok: "inv f \<Longrightarrow> n = min (unat btr) (length (bytes f) - pos f) \<Longrightarrow>
      \<exists>f'. rd btr f = ret (FR_OK, take n (drop (pos f) (bytes f)), f') \<and> inv f' \<and> bytes f' = bytes f \<and> pos f' = pos f + n"
    and sk_ok: "inv f \<Longrightarrow>
      \<exists>f'. sk ofs f = ret (FR_OK, f') \<and> inv f' \<and> bytes f' = bytes f \<and> pos f' = min (unat ofs) (length (bytes f))"
begin

lemma calls_ok:
  "inv f \<Longrightarrow> spec_calls (bytes f) (pos f) cs = (out, q) \<Longrightarrow>
   \<exists>f'. run_calls rd sk cs f = ret (out, f') \<and> inv f' \<and> bytes f' = bytes f \<and> pos f' = q"
proof (induction cs arbitrary: f out q)
  case (Cons c cs)
  show ?case
  proof (cases c)
    case (CallRead btr)
    from rd_ok [OF Cons.prems(1) refl, of btr] obtain f' where
      1: "rd btr f = ret (FR_OK, take (min (unat btr) (length (bytes f) - pos f)) (drop (pos f) (bytes f)), f')" "inv f'"
        "bytes f' = bytes f" "pos f' = pos f + min (unat btr) (length (bytes f) - pos f)" by blast
    obtain out' where 2: "spec_calls (bytes f') (pos f') cs = (out', q)"
      "out = (FR_OK, take (min (unat btr) (length (bytes f) - pos f)) (drop (pos f) (bytes f))) # out'"
      using Cons.prems(2) by (auto simp: CallRead 1(3,4) Let_def split: prod.splits)
    from Cons.IH [OF 1(2) 2(1)] show ?thesis by (auto simp: CallRead 1(1,3) 2(2))
  next
    case (CallSeek ofs)
    from sk_ok [OF Cons.prems(1), of ofs] obtain f' where
      1: "sk ofs f = ret (FR_OK, f')" "inv f'" "bytes f' = bytes f" "pos f' = min (unat ofs) (length (bytes f))" by blast
    obtain out' where 2: "spec_calls (bytes f') (pos f') cs = (out', q)" "out = (FR_OK, []) # out'"
      using Cons.prems(2) by (auto simp: CallSeek 1(3,4) split: prod.splits)
    from Cons.IH [OF 1(2) 2(1)] show ?thesis by (auto simp: CallSeek 1(1,3) 2(2))
  qed
qed simp

end

definition fat_read :: "'s disk \<Rightarrow> u16 \<Rightarrow> FIL \<times> 's ffs \<Rightarrow> (FRESULT \<times> u8 list \<times> FIL \<times> 's ffs) res" where
  "fat_read dk btr f = (case f of (fp, st) \<Rightarrow> lbind (f_read dk fp btr st) (\<lambda>(res, br, bs, f). ret (res, bs, f)))"

definition fat_seek :: "'s disk \<Rightarrow> u32 \<Rightarrow> FIL \<times> 's ffs \<Rightarrow> (FRESULT \<times> FIL \<times> 's ffs) res" where
  "fat_seek dk ofs f = (case f of (fp, st) \<Rightarrow> f_lseek dk fp ofs st)"

definition fat_open :: "'s disk \<Rightarrow> ('s \<Rightarrow> bool) \<Rightarrow> (u32 \<Rightarrow> u8 list) \<Rightarrow> FIL \<times> 's ffs \<Rightarrow> bool" where
  "fat_open dk ok sec f \<longleftrightarrow> (case f of (fp, st) \<Rightarrow> serves dk ok sec \<and> ok (dsk st) \<and> readable sec st fp)"

interpretation fat: byte_file "fat_read dk" "fat_seek dk" "fat_open dk ok sec"
    "\<lambda>(fp, st). file_contents sec st fp" "\<lambda>(fp, st). unat (fp_fptr fp)" for dk ok sec
proof (unfold_locales, goal_cases)
  case (1 f n btr)
  then show ?case
    using f_read_ok [of dk ok sec "snd f" "fst f" n btr] by (fastforce simp: fat_read_def fat_open_def split: prod.splits)
next
  case (2 f ofs)
  then show ?case
    using f_lseek_ok [of dk ok sec "snd f" "fst f" ofs]
    by (fastforce simp: fat_seek_def fat_open_def min_def word_le_nat_alt split: prod.splits)
qed

text \<open>
  C11. An open file behaves like its bytes with a position: whatever sequence of \<^verbatim>\<open>f_read\<close> and
  \<^verbatim>\<open>f_lseek\<close> calls is made, every call succeeds, every read gives the bytes from the position on,
  at most as many as are left, and every seek sets the position, at most to the end.  Sectors,
  clusters, the chain in the table and the one-sector buffer do not show.
\<close>

theorem file_calls_refine:
  assumes "serves dk ok sec" and "ok (dsk st)" and "readable sec st fp"
    and "spec_calls (file_contents sec st fp) (unat (fp_fptr fp)) cs = (out, q)"
  shows "\<exists>fp' st'. run_calls (fat_read dk) (fat_seek dk) cs (fp, st) = ret (out, fp', st') \<and>
    ok (dsk st') \<and> readable sec st' fp' \<and> file_contents sec st' fp' = file_contents sec st fp \<and> unat (fp_fptr fp') = q"
  using fat.calls_ok [of dk ok sec "(fp, st)" cs out q] assms by (auto simp: fat_open_def)

subsection \<open>A volume in memory\<close>

text \<open>
  A disk of eight sectors in memory: a boot record, a table of 12-bit entries, a root directory
  with the file \<^verbatim>\<open>A.TXT\<close>, which has 600 bytes in the clusters 2 and 3.
\<close>

definition image :: "(nat \<times> u8) list \<Rightarrow> u8 list" where
  "image ps = map (\<lambda>i. case map_of ps i of None \<Rightarrow> 0 | Some v \<Rightarrow> v) [0..<512]"

definition boot_image :: "u8 list" where
  "boot_image = image [(12, 2), (13, 1), (14, 1), (16, 1), (17, 16), (19, 8), (22, 1),
     (54, 0x46), (55, 0x41), (56, 0x54), (510, 0x55), (511, 0xAA)]"

definition fat_image :: "u8 list" where
  "fat_image = image [(3, 3), (4, 0xF0), (5, 0xFF)]"

definition root_image :: "u8 list" where
  "root_image = image [(0, 0x41), (1, 0x20), (2, 0x20), (3, 0x20), (4, 0x20), (5, 0x20), (6, 0x20), (7, 0x20),
     (8, 0x54), (9, 0x58), (10, 0x54), (11, 0x20), (26, 2), (28, 0x58), (29, 2)]"

definition ram_sec :: "u32 \<Rightarrow> u8 list" where
  "ram_sec n =
     (if n = 0 then boot_image else if n = 1 then fat_image else if n = 2 then root_image
      else replicate 512 (if n = 3 then 0x41 else 0x42))"

definition ram_disk :: "unit disk" where
  "ram_disk = \<lparr>dk_initialize = (\<lambda>drv s. Some (0, s)), dk_status = (\<lambda>drv s. Some (0, s)),
     dk_read = (\<lambda>drv n c s. Some (RES_OK, concat (map (\<lambda>k. ram_sec (n + of_nat k)) [0..<unat c]), s))\<rparr>"

definition ram_fs :: "unit ffs" where
  "ram_fs = \<lparr>objs = [zero_fs], FatFs = [Some 0, None], fsid = 0, dsk = ()\<rparr>"

definition new_file :: FIL where
  "new_file = \<lparr>fp_id = 0, fp_flag = 0, fp_sect_clust = 0, fp_fs = None, fp_fptr = 0, fp_fsize = 0, fp_org_clust = 0,
     fp_curr_clust = 0, fp_curr_sect = 0, fp_buffer = replicate 512 0\<rparr>"

lemma length_image [simp]: "length (image ps) = 512"
  by (simp add: image_def)

lemma nth_image: "i < 512 \<Longrightarrow> image ps ! i = (case map_of ps i of None \<Rightarrow> 0 | Some v \<Rightarrow> v)"
  by (simp add: image_def)

lemma take_drop_image:
  "i + n \<le> 512 \<Longrightarrow> take n (drop i (image ps)) = map (\<lambda>j. case map_of ps (i + j) of None \<Rightarrow> 0 | Some v \<Rightarrow> v) [0..<n]"
  by (intro nth_equalityI) (simp_all add: nth_image)

lemma ram_serves: "serves ram_disk (\<lambda>s. True) ram_sec"
  by (simp add: serves_def ram_disk_def ram_sec_def boot_image_def fat_image_def root_image_def)

lemma boot_words:
  "LD_WORD boot_image 11 = 512" "LD_WORD boot_image 14 = 1" "LD_WORD boot_image 17 = 16" "LD_WORD boot_image 19 = 8"
  "LD_WORD boot_image 22 = 1" "LD_WORD boot_image 510 = 0xAA55" "boot_image ! 13 = 1" "boot_image ! 16 = 1"
  by (simp_all add: boot_image_def LD_WORD_def nth_image)

lemma boot_numbers:
  "rec_reserved boot_image = 1" "rec_fats boot_image = 1" "rec_root boot_image = 1" "rec_total boot_image = 8"
  "rec_meta boot_image = 3" "rec_clusters boot_image = 5" "fat_kind 5 = 1"
  by (simp_all add: rec_reserved_def rec_fats_def rec_root_def rec_total_def rec_meta_def rec_clusters_def boot_words fat_kind_def)

lemma ram_starts: "starts_at ram_sec 0"
proof -
  have "take 3 (drop 54 boot_image) = [0x46, 0x41, 0x54]"
    unfolding boot_image_def by (subst take_drop_image) (simp_all add: numeral_3_eq_3)
  then show ?thesis by (simp add: starts_at_def fat_record_def ram_sec_def boot_words)
qed

lemma ram_record: "record_ok (ram_sec 0) 0"
proof -
  have "\<exists>p. unat (boot_image ! 13) = 2 ^ p" by (rule exI [of _ 0]) (simp add: boot_words)
  then show ?thesis by (simp add: record_ok_def ram_sec_def boot_words boot_numbers)
qed

lemma ram_mountable: "mountable ram_disk (\<lambda>s. True) ram_sec 0 ()"
proof -
  have "\<exists>b. starts_at ram_sec b \<and> record_ok (ram_sec b) (unat b)" using ram_starts ram_record by (intro exI [of _ 0]) simp
  then show ?thesis by (simp add: mountable_def ram_disk_def)
qed

lemma ram_ready: "drive_ready ram_disk (\<lambda>s. True) ram_sec 0 0 ram_fs"
  using ram_mountable ram_starts by (simp add: drive_ready_def ram_fs_def zero_fs_def)

definition ram_vol :: FATFS where
  "ram_vol = volume_of (ram_sec 0) (unat (0 :: u32))"

definition ram_entry :: "u8 list" where
  "ram_entry = dir_ent ram_sec ram_vol 0 0"

lemma ram_layout:
  "fs_type ram_vol = 1" "fs_sects_clust ram_vol = 1" "fs_max_clust ram_vol = 7" "fs_fatbase ram_vol = 1"
  "fs_database ram_vol = 3" "fs_dirbase ram_vol = 2" "fs_n_rootdir ram_vol = 16" "root_org ram_vol = 0"
  by (simp_all add: ram_vol_def volume_of_def ram_sec_def boot_words boot_numbers root_org_def)

lemma ram_entry_bytes: "ram_entry = take 32 root_image"
  by (simp add: ram_entry_def dir_ent_def dir_sector_def ram_layout ram_sec_def)

lemma ram_entry_fields:
  "ram_entry ! 0 = 0x41" "ram_entry ! 11 = 0x20" "entry_clust ram_entry = 2" "LD_DWORD ram_entry 28 = 600"
  by (simp_all add: ram_entry_bytes root_image_def nth_image entry_clust_def LD_WORD_def LD_DWORD_def)

definition ram_name :: name83 where
  "ram_name = ([0x61], [0x74, 0x78, 0x74])"

lemma ram_name_ok: "name_ok ram_name" "name_field ram_name = [0x41, 0x20, 0x20, 0x20, 0x20, 0x20, 0x20, 0x20, 0x54, 0x58, 0x54]"
  by (simp_all add: ram_name_def name_ok_def plain_def sjis_def md_reject_def name_field_def md_upper_def) (simp add: numeral_eq_Suc)

lemma ram_finds: "finds ram_sec ram_vol 0 0 (name_field ram_name) 0"
proof -
  have "take 11 ram_entry = take 11 (drop 0 root_image)" by (simp add: ram_entry_bytes min_def)
  also have "\<dots> = name_field ram_name"
    unfolding root_image_def ram_name_ok by (subst take_drop_image) (simp_all add: upt_rec)
  finally have "entry_matches ram_entry (name_field ram_name)"
    by (simp add: entry_matches_def ram_entry_fields ram_name_ok)
  then show ?thesis by (simp add: finds_def skipped_def dir_room_def flip: ram_entry_def) (simp add: ram_entry_fields)
qed

lemma ram_leads: "path_leads ram_sec ram_vol (root_org ram_vol) 0 [ram_name] (FR_OK, Some ram_entry)"
  using ram_finds by (auto simp: ram_layout ram_entry_def)

lemma ram_next: "nth_clust ram_sec ram_vol 2 (Suc 0) = 3"
  by (simp add: nth_clust_Suc fat_entry_def fat_byte_def ram_layout ram_sec_def fat_image_def nth_image Let_def)

lemma ram_chain: "chain_ok ram_sec ram_vol 2 600"
proof -
  have "k = 0 \<or> k = Suc 0" if "k * 512 < 600" for k :: nat using that by simp linarith
  moreover have "valid_clust ram_vol (nth_clust ram_sec ram_vol 2 k)" if "k = 0 \<or> k = Suc 0" for k
    using that by (auto simp: ram_layout valid_clust_def ram_next)
  ultimately show ?thesis by (simp add: chain_ok_def ram_layout)
qed

lemma ram_sectors: "sector_no ram_sec ram_vol 2 0 = 3" "sector_no ram_sec ram_vol 2 (Suc 0) = 4"
  by (simp_all add: sector_no_def clust2sect_def ram_layout ram_next Let_def word_le_nat_alt)

lemma ram_contents: "contents ram_sec ram_vol 2 600 = replicate 512 0x41 @ replicate 88 0x42"
proof (intro nth_equalityI)
  fix i
  assume "i < length (contents ram_sec ram_vol 2 600)"
  then have i: "i < 600" by (simp add: contents_def)
  then have "i div 512 = 0 \<and> i < 512 \<or> i div 512 = Suc 0 \<and> 512 \<le> i" by auto
  then show "contents ram_sec ram_vol 2 600 ! i = (replicate 512 0x41 @ replicate 88 0x42) ! i"
    using i by (auto simp: contents_def file_byte_def ram_sectors ram_sec_def nth_append)
qed (simp add: contents_def)

text \<open>The file as it is after it was opened, and two calls on it that cross the border of a cluster.\<close>

definition ram_file :: FIL where
  "ram_file = new_file\<lparr>fp_flag := 1, fp_org_clust := 2, fp_fsize := 600, fp_sect_clust := 1, fp_fs := Some 0\<rparr>"

lemma ram_readable: "readable ram_sec (ram_fs\<lparr>objs := [ram_vol]\<rparr>) ram_file"
proof -
  have "dirs_ok ram_vol"
    using layout_volume [OF ram_record, of ram_vol] 
    by (simp add: layout_ok_def ram_layout ram_sec_def boot_words boot_numbers)
  moreover have "fs_id ram_vol = 0" "fs_winsect ram_vol = 0" "length (fs_win ram_vol) = 512"
    by (simp_all add: ram_vol_def volume_of_def zero_fs_def)
  ultimately show ?thesis
    using ram_chain by (simp add: readable_def the_fs_def ram_fs_def ram_file_def new_file_def window_ok_def dirs_ok_def cursor_ok_def)
qed

lemma ram_file_contents: "file_contents ram_sec (ram_fs\<lparr>objs := [ram_vol]\<rparr>) ram_file = replicate 512 0x41 @ replicate 88 0x42"
  by (simp add: file_contents_def the_fs_def ram_file_def ram_contents)

theorem file_calls_refine_witness:
  "\<exists>f. run_calls (fat_read ram_disk) (fat_seek ram_disk) [CallSeek 510, CallRead 4, CallRead 1000]
      (ram_file, ram_fs\<lparr>objs := [ram_vol]\<rparr>) =
    ret ([(FR_OK, []), (FR_OK, replicate 2 0x41 @ replicate 2 0x42), (FR_OK, replicate 86 0x42)], f)"
proof -
  have "spec_calls (file_contents ram_sec (ram_fs\<lparr>objs := [ram_vol]\<rparr>) ram_file) (unat (fp_fptr ram_file))
      [CallSeek 510, CallRead 4, CallRead 1000] =
      ([(FR_OK, []), (FR_OK, replicate 2 0x41 @ replicate 2 0x42), (FR_OK, replicate 86 0x42)], 600)"
    unfolding ram_file_contents by (simp add: ram_file_def new_file_def)
  from file_calls_refine [OF ram_serves _ ram_readable this] show ?thesis by auto
qed

subsection \<open>Mounting and opening\<close>

text \<open>
  C12. Mounting a disk with a consistent boot record, on the disk itself or in its first
  partition, fills the object with a well-formed volume: the areas are where the record puts them,
  computed without wrap-around, the kind of table follows from the number of clusters, every
  sector of the table, the root directory and the clusters can be addressed, and the window
  shows the record.
\<close>

theorem mount_well_formed:
  assumes "serves dk ok sec" and "mountable dk ok sec drv s"
  shows "\<exists>b fs s'. mount_volume dk drv s = ret (FR_OK, fs, s') \<and> ok s' \<and> starts_at sec b \<and>
    layout_ok (sec b) (unat b) fs \<and> window_ok sec fs \<and> dirs_ok fs \<and> fs_drive fs = drv"
  using assms by (rule mount_volume_ok)

theorem mount_well_formed_witness:
  "\<exists>fs. mount_volume ram_disk 0 () = ret (FR_OK, fs, ()) \<and> dirs_ok fs \<and> unat (fs_max_clust fs) = 7 \<and> fs_type fs = 1"
proof -
  from mount_well_formed [OF ram_serves ram_mountable] obtain b fs where
    1: "mount_volume ram_disk 0 () = ret (FR_OK, fs, ())" "starts_at ram_sec b" "layout_ok (ram_sec b) (unat b) fs" "dirs_ok fs"
    by auto
  have "b = 0" using 1(2) ram_starts by (rule starts_at_unique)
  then show ?thesis using 1 by (auto simp: layout_ok_def ram_sec_def boot_numbers)
qed

text \<open>
  C20. Opening a file whose path is made of short names mounts the volume if it is not
  mounted yet and follows the path: the result is that of the first name that is missing or is no
  directory, or a file object at position 0 through which the contents of the file are read, whose
  bytes are those of the chain of clusters that the entry of the last name starts.  The drive is ready
  for the next file in every case.
\<close>

theorem open_follows_path:
  assumes "serves dk ok sec" and "drive_ready dk ok sec b i st"
    and "list_all name_ok names" and "names \<noteq> []" and "vol = volume_of (sec b) (unat b)"
    and "path_leads sec vol (root_org vol) 0 names (res, e)"
    and "mode AND 1 = 1" and "length (fp_buffer fp) = 512"
  shows "\<exists>fp' st'. f_open dk fp (path_text names) mode st = ret (open_result res e, fp', st') \<and>
    ok (dsk st') \<and> drive_ready dk ok sec b i st' \<and>
    (\<forall>ent. e = Some ent \<longrightarrow> ent ! 11 AND AM_DIR = 0 \<longrightarrow>
       chain_ok sec vol (entry_clust ent) (unat (LD_DWORD ent 28)) \<longrightarrow>
       readable sec st' fp' \<and> fp_fptr fp' = 0 \<and>
       file_contents sec st' fp' = contents sec vol (entry_clust ent) (unat (LD_DWORD ent 28)))"
  using assms by (rule f_open_ok)

theorem open_follows_path_witness:
  "\<exists>fp' st'. f_open ram_disk new_file [0x61, 0x2E, 0x74, 0x78, 0x74] 1 ram_fs = ret (FR_OK, fp', st') \<and>
    file_contents ram_sec st' fp' = replicate 512 0x41 @ replicate 88 0x42"
proof -
  have "list_all name_ok [ram_name]" "[ram_name] \<noteq> []" "(1 :: u8) AND 1 = 1" "length (fp_buffer new_file) = 512"
    using ram_name_ok by (simp_all add: new_file_def)
  note a = open_follows_path [OF ram_serves ram_ready this(1,2) ram_vol_def ram_leads this(3,4)]
  have "ram_entry ! 11 AND 0x10 = 0" "chain_ok ram_sec ram_vol (entry_clust ram_entry) (unat (LD_DWORD ram_entry 28))"
    using ram_chain by (simp_all add: ram_entry_fields)
  with a show ?thesis
    by (auto simp: open_result_def ram_entry_fields ram_contents ram_name_def name_text_def)
qed

end
