(* ===== verification/Lib_Disk.thy ===== *)
theory Lib_Disk
  imports Lib_Posix Fat_Fs
begin

text \<open>
  The driver of the memory card of \<^verbatim>\<open>libxtcapp/disk.c\<close>: commands and data blocks over the SPI
  controller, with time-outs on the millisecond counter, and the functions of \<^verbatim>\<open>diskio.h\<close>
  that \<^verbatim>\<open>libxtcapp/ffwrap.c\<close> makes of them.  Writing is compiled out.  Messages for debugging are
  left out.
\<close>

subsection \<open>Bytes on the bus\<close>

abbreviation (input) spibase :: u32 where "spibase \<equiv> 0xB0000000"

text \<open>\<^verbatim>\<open>millis\<close> of \<^verbatim>\<open>libxtcapp/support.c\<close>.\<close>

definition millis :: "'d bus \<Rightarrow> 'd \<Rightarrow> u32 \<times> 'd" where
  "millis io d = bus_read io (0x90000000 + 4 * 3) d"

definition init_spi :: "'d bus \<Rightarrow> 'd \<Rightarrow> 'd option" where
  "init_spi io d = usleep (millis io) 10000 (spi_select io spibase 1 d)"

definition xchg_spi :: "'d bus \<Rightarrow> u8 \<Rightarrow> 'd \<Rightarrow> u8 \<times> 'd" where
  "xchg_spi io dat d = (case spi_transfer io spibase 8 (ucast dat) d of (v, d) \<Rightarrow> (ucast v, d))"

fun rcvr_spi_multi :: "'d bus \<Rightarrow> nat \<Rightarrow> 'd \<Rightarrow> u8 list \<times> 'd" where
  "rcvr_spi_multi io 0 d = ([], d)"
| "rcvr_spi_multi io (Suc btr) d =
     (case xchg_spi io 0xFF d of (b, d) \<Rightarrow>
      case rcvr_spi_multi io btr d of (bs, d) \<Rightarrow> (b # bs, d))"

text \<open>A byte is fetched again as long as it is \<open>again\<close> and the time is not up.\<close>

partial_function (option) poll_spi :: "'d bus \<Rightarrow> (u8 \<Rightarrow> bool) \<Rightarrow> u32 \<Rightarrow> 'd \<Rightarrow> (u8 \<times> 'd) option" where
  "poll_spi io again timeout d =
     (case xchg_spi io 0xFF d of (b, d) \<Rightarrow>
      if \<not> again b then Some (b, d)
      else case millis io d of (t, d) \<Rightarrow>
        if t < timeout then poll_spi io again timeout d else Some (b, d))"

declare poll_spi.simps [code]

definition wait_ready :: "'d bus \<Rightarrow> u32 \<Rightarrow> 'd \<Rightarrow> (bool \<times> 'd) option" where
  "wait_ready io wt d =
     (case millis io d of (t, d) \<Rightarrow>
      map_option (\<lambda>(b, d). (b = 0xFF, d)) (poll_spi io (\<lambda>b. b \<noteq> 0xFF) (t + wt) d))"

definition deselect :: "'d bus \<Rightarrow> 'd \<Rightarrow> 'd" where
  "deselect io d = snd (xchg_spi io 0xFF (spi_select io spibase 1 d))"

definition select_card :: "'d bus \<Rightarrow> 'd \<Rightarrow> (bool \<times> 'd) option" where
  "select_card io d =
     map_option (\<lambda>(ready, d). if ready then (True, d) else (False, deselect io d))
       (wait_ready io 500 (snd (xchg_spi io 0xFF (spi_select io spibase 0 d))))"

text \<open>A data block, once its start token has come; the two bytes of the checksum are dropped.\<close>

definition rcvr_datablock :: "'d bus \<Rightarrow> nat \<Rightarrow> 'd \<Rightarrow> (bool \<times> u8 list \<times> 'd) option" where
  "rcvr_datablock io btr d =
     (case millis io d of (t, d) \<Rightarrow>
      map_option (\<lambda>(token, d).
        if token \<noteq> 0xFE then (False, [], d)
        else case rcvr_spi_multi io btr d of (bs, d) \<Rightarrow>
          (True, bs, snd (xchg_spi io 0xFF (snd (xchg_spi io 0xFF d)))))
        (poll_spi io (\<lambda>b. b = 0xFF) (t + 200) d))"

subsection \<open>Commands\<close>

fun xmit_bytes :: "'d bus \<Rightarrow> u8 list \<Rightarrow> 'd \<Rightarrow> 'd" where
  "xmit_bytes io [] d = d"
| "xmit_bytes io (b # bs) d = xmit_bytes io bs (snd (xchg_spi io b d))"

text \<open>The answer is the first byte without its top bit set, within as many bytes as are allowed.\<close>

fun cmd_response :: "'d bus \<Rightarrow> nat \<Rightarrow> 'd \<Rightarrow> u8 \<times> 'd" where
  "cmd_response io 0 d = xchg_spi io 0xFF d"
| "cmd_response io (Suc n) d =
     (case xchg_spi io 0xFF d of (res, d) \<Rightarrow>
      if res AND 0x80 \<noteq> 0 then cmd_response io n d else (res, d))"

definition cmd_packet :: "u8 \<Rightarrow> u32 \<Rightarrow> u8 list" where
  "cmd_packet cmd arg =
     [0x40 OR cmd, ucast (drop_bit 24 arg), ucast (drop_bit 16 arg), ucast (drop_bit 8 arg), ucast arg,
      if cmd = 8 then 0x87 else if cmd = 0 then 0x95 else 0x01]"

definition send_plain :: "'d bus \<Rightarrow> u8 \<Rightarrow> u32 \<Rightarrow> 'd \<Rightarrow> (u8 \<times> 'd) option" where
  "send_plain io cmd arg d =
     Option.bind (if cmd \<noteq> 12 then select_card io (deselect io d) else Some (True, d)) (\<lambda>(ok, d).
     if \<not> ok then Some (0xFF, d)
     else let d = xmit_bytes io (cmd_packet cmd arg) d;
              d = (if cmd = 12 then snd (xchg_spi io 0xFF d) else d) in
          Some (cmd_response io 9 d))"

text \<open>A command with its top bit set is sent after the one that announces it.\<close>

definition send_cmd :: "'d bus \<Rightarrow> u8 \<Rightarrow> u32 \<Rightarrow> 'd \<Rightarrow> (u8 \<times> 'd) option" where
  "send_cmd io cmd arg d =
     (if cmd AND 0x80 \<noteq> 0
      then Option.bind (send_plain io 55 0 d) (\<lambda>(res, d).
             if 1 < res then Some (res, d) else send_plain io (cmd AND 0x7F) arg d)
      else send_plain io cmd arg d)"

text \<open>A command is sent until it is answered with 0 or the time is up.\<close>

partial_function (option) cmd_until_ready :: "'d bus \<Rightarrow> u8 \<Rightarrow> u32 \<Rightarrow> u32 \<Rightarrow> 'd \<Rightarrow> 'd option" where
  "cmd_until_ready io cmd arg timeout d =
     (case millis io d of (t, d) \<Rightarrow>
      if t < timeout
      then Option.bind (send_cmd io cmd arg d) (\<lambda>(res, d).
             if res \<noteq> 0 then cmd_until_ready io cmd arg timeout d else Some d)
      else Some d)"

declare cmd_until_ready.simps [code]

subsection \<open>The card\<close>

record 'd sdcard =
  sd_stat :: u32
  sd_type :: u8
  sd_hw :: 'd

abbreviation (input) CT_MMC :: u8 where "CT_MMC \<equiv> 1"
abbreviation (input) CT_SD1 :: u8 where "CT_SD1 \<equiv> 2"
abbreviation (input) CT_SD2 :: u8 where "CT_SD2 \<equiv> 4"
abbreviation (input) CT_BLOCK :: u8 where "CT_BLOCK \<equiv> 8"
abbreviation (input) ACMD41 :: u8 where "ACMD41 \<equiv> 0x80 + 41"

text \<open>The type of a card of the second version, 0 if it does not get ready in time.\<close>

definition init_v2 :: "'d bus \<Rightarrow> u32 \<Rightarrow> 'd \<Rightarrow> (u8 \<times> 'd) option" where
  "init_v2 io timeout d =
     (case rcvr_spi_multi io 4 d of (ocr, d) \<Rightarrow>
      if ocr ! 2 = 0x01 \<and> ocr ! 3 = 0xAA
      then Option.bind (cmd_until_ready io ACMD41 (push_bit 30 1) timeout d) (\<lambda>d.
           case millis io d of (t, d) \<Rightarrow>
           if t < timeout
           then Option.bind (send_cmd io 58 0 d) (\<lambda>(res, d).
                if res = 0
                then case rcvr_spi_multi io 4 d of (ocr, d) \<Rightarrow>
                  Some (if ocr ! 0 AND 0x40 \<noteq> 0 then CT_SD2 OR CT_BLOCK else CT_SD2, d)
                else Some (0, d))
           else Some (0, d))
      else Some (0, d))"

text \<open>The type of an older card; the type is dropped while the time is not up.\<close>

definition init_v1 :: "'d bus \<Rightarrow> u32 \<Rightarrow> 'd \<Rightarrow> (u8 \<times> 'd) option" where
  "init_v1 io timeout d =
     Option.bind (send_cmd io ACMD41 0 d) (\<lambda>(res, d).
     let (ty, cmd) = (if res \<le> 1 then (CT_SD1, ACMD41) else (CT_MMC, 1)) in
     Option.bind (cmd_until_ready io cmd 0 timeout d) (\<lambda>d.
     case millis io d of (t, d) \<Rightarrow>
     if t < timeout then Some (0, d)
     else Option.bind (send_cmd io 16 512 d) (\<lambda>(res, d). Some (if res \<noteq> 0 then 0 else ty, d))))"

definition card_type :: "'d bus \<Rightarrow> 'd \<Rightarrow> (u8 \<times> 'd) option" where
  "card_type io d =
     Option.bind (send_cmd io 0 0 d) (\<lambda>(res, d).
     if res \<noteq> 1 then Some (0, d)
     else case millis io d of (t, d) \<Rightarrow>
       let timeout = t + 1000 in
       Option.bind (send_cmd io 8 0x1AA d) (\<lambda>(res, d).
         if res = 1 then init_v2 io timeout d else init_v1 io timeout d))"

definition SD_disk_initialize :: "'d bus \<Rightarrow> 'd sdcard \<Rightarrow> (u8 \<times> 'd sdcard) option" where
  "SD_disk_initialize io c =
     Option.bind (init_spi io (sd_hw c)) (\<lambda>d.
     Option.bind (card_type io (xmit_bytes io (replicate 10 0xFF) d)) (\<lambda>(ty, d).
     let stat = (if ty \<noteq> 0 then sd_stat c AND NOT 1 else 1);
         stat = stat AND NOT 4 in
     Some (ucast stat, c\<lparr>sd_type := ty, sd_stat := stat, sd_hw := deselect io d\<rparr>)))"

definition SD_disk_status :: "'d sdcard \<Rightarrow> u8 \<times> 'd sdcard" where
  "SD_disk_status c = (let stat = sd_stat c AND NOT 4 in (ucast stat, c\<lparr>sd_stat := stat\<rparr>))"

text \<open>The blocks of a read of several sectors, with how many are left and the bytes stored.\<close>

fun read_blocks :: "'d bus \<Rightarrow> nat \<Rightarrow> 'd \<Rightarrow> (nat \<times> u8 list \<times> 'd) option" where
  "read_blocks io 0 d = Some (0, [], d)"
| "read_blocks io (Suc count) d =
     Option.bind (rcvr_datablock io 512 d) (\<lambda>(ok, bs, d).
       if \<not> ok then Some (Suc count, bs, d)
       else map_option (\<lambda>(n, bs', d). (n, bs @ bs', d)) (read_blocks io count d))"

definition SD_disk_read :: "'d bus \<Rightarrow> u32 \<Rightarrow> u32 \<Rightarrow> 'd sdcard \<Rightarrow> (DRESULT \<times> u8 list \<times> 'd sdcard) option" where
  "SD_disk_read io sector count c =
     (if sd_stat c AND 1 \<noteq> 0 then Some (RES_NOTRDY, [], c)
      else let sector = (if sd_type c AND CT_BLOCK = 0 then sector * 512 else sector) in
      Option.bind
        (if count = 1 then
           Option.bind (send_cmd io 17 sector (sd_hw c)) (\<lambda>(res, d).
           if res \<noteq> 0 then Some (1, [], d)
           else map_option (\<lambda>(ok, bs, d). (if ok then 0 else 1, bs, d)) (rcvr_datablock io 512 d))
         else
           let n = (if count = 0 then 2 ^ 32 else unat count) in
           Option.bind (send_cmd io 18 sector (sd_hw c)) (\<lambda>(res, d).
           if res \<noteq> 0 then Some (unat count, [], d)
           else Option.bind (read_blocks io n d) (\<lambda>(left, bs, d).
             map_option (\<lambda>(_, d). (left, bs, d)) (send_cmd io 12 0 d))))
        (\<lambda>(left, bs, d). Some (if (of_nat left :: u32) \<noteq> 0 then RES_ERROR else RES_OK, bs, c\<lparr>sd_hw := deselect io d\<rparr>)))"

text \<open>The number of sectors from the card's register, whose layout depends on its version.\<close>

definition csd_sectors :: "u8 list \<Rightarrow> u32 res" where
  "csd_sectors csd =
     (if drop_bit 6 (csd ! 0) = 1
      then ret (push_bit 10 (ucast (csd ! 9) + push_bit 8 (ucast (csd ! 8)) +
                  push_bit 16 (ucast (csd ! 7 AND 63)) + 1))
      else let n = (csd ! 5 AND 15) + drop_bit 7 (csd ! 10 AND 128) + push_bit 1 (csd ! 9 AND 3) + 2;
               csize = ucast (drop_bit 6 (csd ! 8)) + push_bit 2 (ucast (csd ! 7)) +
                 push_bit 10 (ucast (csd ! 6 AND 3)) + 1
           in if n < 9 then undefined_for LibBadArgument else ret (push_bit (unat n - 9) csize))"

definition SD_disk_ioctl :: "'d bus \<Rightarrow> u8 \<Rightarrow> 'd sdcard \<Rightarrow> (DRESULT \<times> u32 option \<times> 'd sdcard) res" where
  "SD_disk_ioctl io cmd c =
     (if sd_stat c AND 1 \<noteq> 0 then ret (RES_NOTRDY, None, c)
      else lbind
        (if cmd = 3 then
           lbind (returns (select_card io (sd_hw c))) (\<lambda>(ok, d). ret (if ok then RES_OK else RES_ERROR, None, d))
         else if cmd = 1 then
           lbind (returns (send_cmd io 9 0 (sd_hw c))) (\<lambda>(res, d).
           if res \<noteq> 0 then ret (RES_ERROR, None, d)
           else lbind (returns (rcvr_datablock io 16 d)) (\<lambda>(ok, csd, d).
             if \<not> ok then ret (RES_ERROR, None, d)
             else lbind (csd_sectors csd) (\<lambda>n. ret (RES_OK, Some n, d))))
         else ret (RES_PARERR, None, sd_hw c))
        (\<lambda>(r, v, d). ret (r, v, c\<lparr>sd_hw := deselect io d\<rparr>)))"

subsection \<open>The functions of diskio.h\<close>

text \<open>At most four attempts, until the card no longer says that it is not initialised.\<close>

fun disk_initialize_loop :: "('s \<Rightarrow> (u8 \<times> 's) option) \<Rightarrow> nat \<Rightarrow> 's \<Rightarrow> (u8 \<times> 's) option" where
  "disk_initialize_loop init 0 s = init s"
| "disk_initialize_loop init (Suc count) s =
     Option.bind (init s) (\<lambda>(r, s). if r AND 1 = 0 then Some (r, s) else disk_initialize_loop init count s)"

definition disk_initialize :: "'d bus \<Rightarrow> u8 \<Rightarrow> 'd sdcard \<Rightarrow> (u8 \<times> 'd sdcard) option" where
  "disk_initialize io drv c = disk_initialize_loop (SD_disk_initialize io) 3 c"

definition disk_status :: "u8 \<Rightarrow> 'd sdcard \<Rightarrow> (u8 \<times> 'd sdcard) option" where
  "disk_status drv c = Some (SD_disk_status c)"

definition disk_read :: "'d bus \<Rightarrow> u8 \<Rightarrow> u32 \<Rightarrow> u8 \<Rightarrow> 'd sdcard \<Rightarrow> (DRESULT \<times> u8 list \<times> 'd sdcard) option" where
  "disk_read io drv sect count c = SD_disk_read io sect (ucast count) c"

definition disk_ioctl :: "'d bus \<Rightarrow> u8 \<Rightarrow> u8 \<Rightarrow> 'd sdcard \<Rightarrow> (DRESULT \<times> u32 option \<times> 'd sdcard) res" where
  "disk_ioctl io drv cmd c = SD_disk_ioctl io cmd c"

definition sd_disk :: "'d bus \<Rightarrow> 'd sdcard disk" where
  "sd_disk io = \<lparr>dk_initialize = disk_initialize io, dk_status = disk_status, dk_read = disk_read io\<rparr>"

end
