(* ===== verification/Lib_Sd.thy ===== *)
theory Lib_Sd
  imports Lib_Disk Lib_Stdio
begin

text \<open>
  The wrapper around the FAT file system of \<^verbatim>\<open>libxtcapp/ffwrap.c\<close>, which makes it a backend
  named \<open>sd\<close>, and what runs before \<^verbatim>\<open>main\<close> in \<^verbatim>\<open>libxtcapp/premain.c\<close>.  The file system
  object is object 0; file objects are taken from the heap by the allocator, an argument, which gives
  the address of a block that is not in use and the contents it happens to have.
\<close>

subsection \<open>State\<close>

text \<open>The state of the file system, the file objects on the heap, and the card with the rest of the hardware.\<close>

record 'h board =
  board_ffs :: "'h sdcard ffs"
  fils :: "nat \<rightharpoonup> FIL"

type_synonym malloc = "(nat \<rightharpoonup> FIL) \<Rightarrow> (nat \<times> FIL) option"

text \<open>The registers, seen from the whole of the state.\<close>

definition board_bus :: "'h bus \<Rightarrow> 'h board bus" where
  "board_bus io =
     (let upd = (\<lambda>b d. b\<lparr>board_ffs := (board_ffs b)\<lparr>dsk := (dsk (board_ffs b))\<lparr>sd_hw := d\<rparr>\<rparr>\<rparr>) in
      \<lparr>bus_read = (\<lambda>a b. case bus_read io a (sd_hw (dsk (board_ffs b))) of (v, d) \<Rightarrow> (v, upd b d)),
       bus_write = (\<lambda>a v b. upd b (bus_write io a v (sd_hw (dsk (board_ffs b)))))\<rparr>)"

definition path_bytes :: "string \<Rightarrow> u8 list" where
  "path_bytes path = map of_char path"

text \<open>The object a handle is the address of.\<close>

definition the_fil :: "nat \<Rightarrow> 'h board \<Rightarrow> FIL res" where
  "the_fil f b = deref (fils b f)"

subsection \<open>The operations\<close>

definition sd_open :: "'h bus \<Rightarrow> malloc \<Rightarrow> string \<Rightarrow> 'h board world \<Rightarrow> (nat option \<times> 'h board world) res" where
  "sd_open io malloc path w =
     lbind (deref (malloc (fils (hw w)))) (\<lambda>(f, fp).
     lbind (f_open (sd_disk io) fp (path_bytes path) FA_READ (board_ffs (hw w))) (\<lambda>(r, fp, st).
     if r \<noteq> FR_OK then ret (None, w\<lparr>hw := (hw w)\<lparr>board_ffs := st\<rparr>\<rparr>)
     else ret (Some f, w\<lparr>hw := \<lparr>board_ffs = st, fils = (fils (hw w))(f \<mapsto> fp)\<rparr>\<rparr>)))"

definition sd_close :: "'h bus \<Rightarrow> nat \<Rightarrow> 'h board world \<Rightarrow> 'h board world res" where
  "sd_close io f w =
     lbind (the_fil f (hw w)) (\<lambda>fp.
     lbind (f_close (sd_disk io) fp (board_ffs (hw w))) (\<lambda>(_, _, st).
     ret (w\<lparr>hw := \<lparr>board_ffs = st, fils = (fils (hw w))(f := None)\<rparr>\<rparr>)))"

text \<open>The loop reads until nothing is left to read; it may never end.\<close>

partial_function (option) sd_read_loop ::
    "'s disk \<Rightarrow> u32 \<Rightarrow> u8 list \<Rightarrow> FIL \<Rightarrow> 's ffs \<Rightarrow> (lib_error + FRESULT \<times> u8 list \<times> FIL \<times> 's ffs) option" where
  "sd_read_loop dk toread got fp st =
     (if sint toread \<le> 0 then Some (Inr (FR_OK, got, fp, st))
      else let chunk = (if 65535 \<le> sint toread then 65535 else ucast toread :: u16) in
           Option.bind (f_read dk fp chunk st) (\<lambda>x.
             case x of
               Inl e \<Rightarrow> Some (Inl e)
             | Inr (r, bytes, bs, fp, st) \<Rightarrow>
                 if r \<noteq> FR_OK then Some (Inr (r, got @ bs, fp, st))
                 else sd_read_loop dk (toread - ucast bytes) (got @ bs) fp st))"

declare sd_read_loop.simps [code]

definition sd_read :: "'h bus \<Rightarrow> nat \<Rightarrow> u32 \<Rightarrow> 'h board world \<Rightarrow> (u32 \<times> u8 list \<times> 'h board world) res" where
  "sd_read io f nbytes w =
     lbind (the_fil f (hw w)) (\<lambda>fp.
     lbind (sd_read_loop (sd_disk io) nbytes [] fp (board_ffs (hw w))) (\<lambda>(r, bs, fp, st).
     ret (if r \<noteq> FR_OK then - fr_num r else nbytes, bs,
          w\<lparr>hw := \<lparr>board_ffs = st, fils = (fils (hw w))(f \<mapsto> fp)\<rparr>\<rparr>)))"

definition sd_write :: "nat \<Rightarrow> u8 list \<Rightarrow> 'h board world \<Rightarrow> (u32 \<times> 'h board world) res" where
  "sd_write f src w = ret (- 1, w)"

definition sd_fstat :: "nat \<Rightarrow> 'h board world \<Rightarrow> (u32 \<times> u32 option \<times> 'h board world) res" where
  "sd_fstat f w = lbind (the_fil f (hw w)) (\<lambda>fp. ret (0, Some (fp_fsize fp), w))"

definition sd_seek :: "'h bus \<Rightarrow> nat \<Rightarrow> u32 \<Rightarrow> u32 \<Rightarrow> 'h board world \<Rightarrow> (u32 \<times> 'h board world) res" where
  "sd_seek io f pos whence w =
     (if whence \<noteq> SEEK_SET then ret (- 1, w)
      else lbind (the_fil f (hw w)) (\<lambda>fp.
           lbind (f_lseek (sd_disk io) fp pos (board_ffs (hw w))) (\<lambda>(r, fp, st).
           ret (if r \<noteq> FR_OK then - fr_num r else fp_fptr fp,
                w\<lparr>hw := \<lparr>board_ffs = st, fils = (fils (hw w))(f \<mapsto> fp)\<rparr>\<rparr>))))"

definition sd_ops :: "'h bus \<Rightarrow> malloc \<Rightarrow> 'h board world zfops" where
  "sd_ops io malloc = \<lparr>ops_open = sd_open io malloc, ops_close = Some (sd_close io), ops_read = Some (sd_read io),
     ops_write = Some sd_write, ops_seek = Some (sd_seek io), ops_fstat = Some sd_fstat\<rparr>"

definition register_sd :: "'h bus \<Rightarrow> malloc \<Rightarrow> 'h board lib \<Rightarrow> 'h board lib res" where
  "register_sd io malloc l =
     (case f_mount 0 (Some 0) (board_ffs (hw (world l))) of (r, st) \<Rightarrow>
        let l = l\<lparr>world := (world l)\<lparr>hw := (hw (world l))\<lparr>board_ffs := st\<rparr>\<rparr>\<rparr> in
        if r \<noteq> FR_OK then ret l
        else lbind (zfRegisterFileBackend ''sd'' (sd_ops io malloc) l) (\<lambda>(r, l). ret l))"

subsection \<open>Before main\<close>

definition premain :: "'h bus \<Rightarrow> malloc \<Rightarrow> (string \<Rightarrow> string \<Rightarrow> 'h board posix \<Rightarrow> (bool \<times> 'h board posix) res) \<Rightarrow>
    'h board posix \<Rightarrow> 'h board posix res" where
  "premain io malloc fopen_fn st =
     lbind (posix_init st) (\<lambda>st.
     lbind (serial_register_device (board_bus io) fopen_fn ''serial0'' 0x90000000 st) (\<lambda>(_, st).
     lbind (on_lib (\<lambda>l. lbind (register_sd io malloc l) (\<lambda>l. ret ((), l))) st) (\<lambda>(_, st). ret st)))"

end
