(* ===== verification/Sd_Card.thy ===== *)
theory Sd_Card
  imports Lib_Sd Fat_Chain
begin

text \<open>
  Reading sectors through the driver of the memory card.  What is asked of the card and of the bus
  it is on is the protocol of the SD specification, stated for the stream of bytes that the card
  is about to send; the driver then gives the bytes of the sectors it is asked for.
\<close>

subsection \<open>The protocol\<close>

text \<open>The bytes the card sends from now on, one with each byte exchanged.\<close>

type_synonym stream_fn = "nat \<Rightarrow> u8"

definition idle :: stream_fn where
  "idle = (\<lambda>i. 0xFF)"

definition ahead :: "nat \<Rightarrow> stream_fn \<Rightarrow> stream_fn" where
  "ahead n p = (\<lambda>i. p (n + i))"

lemma ahead_simps [simp]: "ahead 0 p = p" "ahead m (ahead n p) = ahead (n + m) p" "ahead n idle = idle"
  by (simp_all add: ahead_def idle_def add.assoc)

lemma ahead_nth: "ahead n p i = p (n + i)"
  by (simp add: ahead_def)

text \<open>A command is accepted: at most eight bytes of waiting and a zero.\<close>

definition accepted :: "stream_fn \<Rightarrow> stream_fn \<Rightarrow> bool" where
  "accepted p p' \<longleftrightarrow> (\<exists>n \<le> 8. (\<forall>i < n. p i = 0xFF) \<and> p n = 0 \<and> p' = ahead (n + 1) p)"

text \<open>A block: at most \<open>g\<close> bytes of waiting, the token, the bytes, and a checksum of two bytes.\<close>

definition block_next :: "nat \<Rightarrow> u8 list \<Rightarrow> stream_fn \<Rightarrow> stream_fn \<Rightarrow> bool" where
  "block_next g data p p' \<longleftrightarrow>
     (\<exists>m \<le> g. (\<forall>i < m. p i = 0xFF) \<and> p m = 0xFE \<and> (\<forall>i < length data. p (m + 1 + i) = data ! i) \<and>
       p' = ahead (m + 1 + length data + 2) p)"

fun blocks :: "nat \<Rightarrow> (u32 \<Rightarrow> u8 list) \<Rightarrow> u32 \<Rightarrow> nat \<Rightarrow> stream_fn \<Rightarrow> bool" where
  "blocks g sec n 0 p = True"
| "blocks g sec n (Suc k) p = (\<exists>p'. block_next g (sec n) p p' \<and> blocks g sec (n + 1) k p')"

text \<open>
  A card with \<open>size\<close> sectors, addressed by sector or by byte, on a bus where \<open>pend\<close> is the stream of
  the card and \<open>us\<close> the time in microseconds.  Every access takes at most \<open>tick\<close> microseconds, and the
  waiting before a block takes less than the time-out of 200 milliseconds.
\<close>

record ('d) card_view =
  pend :: "'d \<Rightarrow> stream_fn"
  us :: "'d \<Rightarrow> nat"

definition paced :: "('d \<Rightarrow> nat) \<Rightarrow> nat \<Rightarrow> 'd \<Rightarrow> 'd \<Rightarrow> bool" where
  "paced clk tick d d' \<longleftrightarrow> clk d \<le> clk d' \<and> clk d' \<le> clk d + tick"

definition spi_bus :: "'d bus \<Rightarrow> 'd card_view \<Rightarrow> nat \<Rightarrow> bool" where
  "spi_bus io v tick \<longleftrightarrow>
     (\<forall>b d. paced (us v) tick d (snd (xchg_spi io b d))) \<and>
     (\<forall>d. fst (xchg_spi io 0xFF d) = pend v d 0 \<and> pend v (snd (xchg_spi io 0xFF d)) = ahead 1 (pend v d)) \<and>
     (\<forall>d. fst (millis io d) = of_nat (us v d div 1000) \<and> pend v (snd (millis io d)) = pend v d \<and>
        paced (us v) tick d (snd (millis io d))) \<and>
     (\<forall>d. pend v (spi_select io spibase 1 d) = idle) \<and>
     (\<forall>d. pend v d = idle \<longrightarrow> pend v (spi_select io spibase 0 d) = idle) \<and>
     (\<forall>x d. paced (us v) tick d (spi_select io spibase x d))"

definition spi_card :: "'d bus \<Rightarrow> 'd card_view \<Rightarrow> nat \<Rightarrow> bool \<Rightarrow> (u32 \<Rightarrow> u8 list) \<Rightarrow> nat \<Rightarrow> bool" where
  "spi_card io v g by_block sec sz \<longleftrightarrow>
     (\<forall>n. length (sec n) = 512) \<and>
     (\<forall>cmd n k d. pend v d = idle \<longrightarrow> cmd = 17 \<and> k = 1 \<or> cmd = 18 \<and> k \<le> 255 \<longrightarrow> unat n + k \<le> sz \<longrightarrow>
        (\<exists>p. accepted (pend v (xmit_bytes io (cmd_packet cmd (if by_block then n else n * 512)) d)) p \<and> blocks g sec n k p))"

subsection \<open>Bytes and blocks\<close>

lemma paced_trans: "paced clk a d d' \<Longrightarrow> paced clk b d' d'' \<Longrightarrow> paced clk (a + b) d d''"
  by (auto simp: paced_def)

lemma paced_mono: "paced clk a d d' \<Longrightarrow> a \<le> b \<Longrightarrow> paced clk b d d'"
  by (auto simp: paced_def)

lemma bus_xchg:
  assumes "spi_bus io v tick"
  shows "\<exists>d'. xchg_spi io 0xFF d = (pend v d 0, d') \<and> pend v d' = ahead 1 (pend v d) \<and> paced (us v) tick d d'"
  using assms unfolding spi_bus_def by (intro exI [of _ "snd (xchg_spi io 0xFF d)"]) (metis prod.collapse)

lemma bus_millis:
  assumes "spi_bus io v tick"
  shows "\<exists>d'. millis io d = (of_nat (us v d div 1000), d') \<and> pend v d' = pend v d \<and> paced (us v) tick d d'"
  using assms unfolding spi_bus_def by (intro exI [of _ "snd (millis io d)"]) (metis prod.collapse)

lemma poll_ok:
  assumes b: "spi_bus io v tick"
  shows "(\<forall>i < m. again (pend v d i)) \<Longrightarrow> \<not> again (pend v d m) \<Longrightarrow>
    us v d + 2 * m * tick < 1000 * limit \<Longrightarrow> limit < 2 ^ 32 \<Longrightarrow>
    \<exists>d'. poll_spi io again (of_nat limit) d = Some (pend v d m, d') \<and> pend v d' = ahead (m + 1) (pend v d) \<and>
      paced (us v) ((2 * m + 1) * tick) d d'"
proof (induction m arbitrary: d)
  case 0
  from bus_xchg [OF b, of d] 0 show ?case by (subst poll_spi.simps) auto
next
  case (Suc m)
  from bus_xchg [OF b, of d] obtain d1 where
    1: "xchg_spi io 0xFF d = (pend v d 0, d1)" "pend v d1 = ahead 1 (pend v d)" "paced (us v) tick d d1" by blast
  from bus_millis [OF b, of d1] obtain d2 where
    2: "millis io d1 = (of_nat (us v d1 div 1000), d2)" "pend v d2 = pend v d1" "paced (us v) tick d1 d2" by blast
  have "us v d1 \<le> us v d + tick" "us v d2 \<le> us v d + 2 * tick" using 1(3) 2(3) by (auto simp: paced_def)
  then have lt: "us v d1 div 1000 < limit" "us v d2 + 2 * m * tick < 1000 * limit"
    using Suc.prems(3) by (auto simp: less_mult_imp_div_less algebra_simps)
  then have "(of_nat (us v d1 div 1000) :: u32) < of_nat limit"
    using Suc.prems(4) by (simp add: word_less_nat_alt unat_of_nat take_bit_nat_eq_self)
  moreover have "again (pend v d 0)" using Suc.prems(1) by simp
  ultimately have "poll_spi io again (of_nat limit) d = poll_spi io again (of_nat limit) d2"
    by (subst poll_spi.simps) (simp add: 1(1) 2(1))
  moreover have "pend v d2 i = pend v d (Suc i)" for i by (simp add: 1(2) 2(2) ahead_def)
  with Suc.IH [of d2] Suc.prems lt(2) obtain d3 where
    "poll_spi io again (of_nat limit) d2 = Some (pend v d (Suc m), d3)" "pend v d3 = ahead (Suc m + 1) (pend v d)"
      "paced (us v) ((2 * m + 1) * tick) d2 d3" by (auto simp: 1(2) 2(2))
  moreover from paced_trans [OF paced_trans [OF 1(3) 2(3)] this(3)]
  have "paced (us v) ((2 * Suc m + 1) * tick) d d3" by (simp add: algebra_simps)
  ultimately show ?case by auto
qed

lemma rcvr_multi_ok:
  assumes b: "spi_bus io v tick"
  shows "\<exists>d'. rcvr_spi_multi io n d = (map (pend v d) [0..<n], d') \<and> pend v d' = ahead n (pend v d) \<and> paced (us v) (n * tick) d d'"
proof (induction n arbitrary: d)
  case 0
  then show ?case by (simp add: paced_def)
next
  case (Suc n)
  from bus_xchg [OF b, of d] obtain d1 where
    1: "xchg_spi io 0xFF d = (pend v d 0, d1)" "pend v d1 = ahead 1 (pend v d)" "paced (us v) tick d d1" by blast
  from Suc.IH [of d1] obtain d2 where
    2: "rcvr_spi_multi io n d1 = (map (pend v d1) [0..<n], d2)" "pend v d2 = ahead n (pend v d1)" "paced (us v) (n * tick) d1 d2"
    by blast
  have "pend v d 0 # map (pend v d1) [0..<n] = map (pend v d) [0..<Suc n]"
    by (simp add: 1(2) ahead_def map_upt_Suc del: upt_Suc)
  then show ?case using 1 2 paced_trans [OF 1(3) 2(3)] by simp
qed

lemma xmit_paced:
  assumes b: "spi_bus io v tick"
  shows "paced (us v) (length bs * tick) d (xmit_bytes io bs d)"
proof (induction bs arbitrary: d)
  case (Cons x bs)
  have "paced (us v) tick d (snd (xchg_spi io x d))" using b by (simp add: spi_bus_def)
  from paced_trans [OF this Cons.IH] show ?case by simp
qed (simp add: paced_def)

lemma rcvr_datablock_ok:
  assumes b: "spi_bus io v tick" and blk: "block_next g data (pend v d) p" and g: "(2 * g + 1) * tick \<le> 199000"
    and up: "us v d div 1000 + 200 < 2 ^ 32"
  shows "\<exists>d'. rcvr_datablock io (length data) d = Some (True, data, d') \<and> pend v d' = p \<and>
    paced (us v) ((2 * g + length data + 4) * tick) d d'"
proof -
  let ?limit = "us v d div 1000 + 200"
  obtain m where m: "m \<le> g" "\<forall>i < m. pend v d i = 0xFF" "pend v d m = 0xFE"
    "\<forall>i < length data. pend v d (m + 1 + i) = data ! i" "p = ahead (m + 1 + length data + 2) (pend v d)"
    using blk by (auto simp: block_next_def)
  from bus_millis [OF b, of d] obtain d1 where
    1: "millis io d = (of_nat (us v d div 1000), d1)" "pend v d1 = pend v d" "paced (us v) tick d d1" by blast
  have "(2 * m + 1) * tick \<le> 199000" using m(1) g by (meson add_le_mono1 le_trans mult_le_mono1 mult_le_mono2)
  then have "us v d1 + 2 * m * tick < 1000 * ?limit" using 1(3) by (auto simp: paced_def)
  with poll_ok [OF b, of m "\<lambda>b. b = 0xFF" d1 ?limit] m(2,3) up obtain d2 where
    2: "poll_spi io (\<lambda>b. b = 0xFF) (of_nat ?limit) d1 = Some (0xFE, d2)" "pend v d2 = ahead (m + 1) (pend v d)"
      "paced (us v) ((2 * m + 1) * tick) d1 d2" by (auto simp: 1(2))
  from rcvr_multi_ok [OF b, of "length data" d2] obtain d3 where
    3: "rcvr_spi_multi io (length data) d2 = (map (pend v d2) [0..<length data], d3)" "pend v d3 = ahead (length data) (pend v d2)"
      "paced (us v) (length data * tick) d2 d3" by blast
  from bus_xchg [OF b, of d3] obtain d4 where
    4: "xchg_spi io 0xFF d3 = (pend v d3 0, d4)" "pend v d4 = ahead 1 (pend v d3)" "paced (us v) tick d3 d4" by blast
  from bus_xchg [OF b, of d4] obtain d5 where
    5: "xchg_spi io 0xFF d4 = (pend v d4 0, d5)" "pend v d5 = ahead 1 (pend v d4)" "paced (us v) tick d4 d5" by blast
  have "map (pend v d2) [0..<length data] = data"
    using m(4) by (intro nth_equalityI) (simp_all add: 2(2) ahead_def)
  moreover have "of_nat ?limit = (of_nat (us v d div 1000) + 200 :: u32)" by simp
  ultimately have run: "rcvr_datablock io (length data) d = Some (True, data, d5)"
    using 2(1) by (simp add: rcvr_datablock_def 1(1) 3(1) 4(1) 5(1))
  note paced_trans [OF paced_trans [OF paced_trans [OF paced_trans [OF 1(3) 2(3)] 3(3)] 4(3)] 5(3)]
  moreover have "tick + (2 * m + 1) * tick + length data * tick + tick + tick \<le> (2 * g + length data + 4) * tick"
    using mult_right_mono [of "2 * m" "2 * g" tick] m(1) by (simp add: algebra_simps)
  ultimately have "paced (us v) ((2 * g + length data + 4) * tick) d d5" by (rule paced_mono)
  moreover have "pend v d5 = p" by (simp add: m(5) 5(2) 4(2) 3(2) 2(2) add.assoc)
  ultimately show ?thesis using run by blast
qed

subsection \<open>Commands to the card\<close>

lemma poll_first:
  assumes b: "spi_bus io v tick" and "\<not> again (pend v d 0)"
  shows "\<exists>d'. poll_spi io again limit d = Some (pend v d 0, d') \<and> pend v d' = ahead 1 (pend v d) \<and> paced (us v) tick d d'"
  using bus_xchg [OF b, of d] assms(2) by (subst poll_spi.simps) auto

lemma deselect_ok:
  assumes b: "spi_bus io v tick"
  shows "pend v (deselect io d) = idle" "paced (us v) (2 * tick) d (deselect io d)"
proof -
  let ?d = "spi_select io spibase 1 d"
  have 1: "pend v ?d = idle" "paced (us v) tick d ?d" using b by (simp_all add: spi_bus_def)
  from bus_xchg [OF b, of ?d] obtain d' where
    2: "xchg_spi io 0xFF ?d = (pend v ?d 0, d')" "pend v d' = ahead 1 (pend v ?d)" "paced (us v) tick ?d d'" by blast
  show "pend v (deselect io d) = idle" using 1 2 by (simp add: deselect_def)
  from paced_trans [OF 1(2) 2(3)] show "paced (us v) (2 * tick) d (deselect io d)" using 2 by (simp add: deselect_def mult_2)
qed

lemma select_ok:
  assumes b: "spi_bus io v tick" and i: "pend v d = idle"
  shows "\<exists>d'. select_card io d = Some (True, d') \<and> pend v d' = idle \<and> paced (us v) (4 * tick) d d'"
proof -
  let ?d = "spi_select io spibase 0 d"
  have 1: "pend v ?d = idle" "paced (us v) tick d ?d" using b i by (simp_all add: spi_bus_def)
  from bus_xchg [OF b, of ?d] 1(1) obtain d2 where
    2: "xchg_spi io 0xFF ?d = (0xFF, d2)" "pend v d2 = idle" "paced (us v) tick ?d d2" by (auto simp: idle_def ahead_def)
  from bus_millis [OF b, of d2] obtain d3 where
    3: "millis io d2 = (of_nat (us v d2 div 1000), d3)" "pend v d3 = idle" "paced (us v) tick d2 d3" using 2(2) by auto
  from poll_first [OF b, of "\<lambda>b. b \<noteq> 0xFF" d3] 3(2) obtain d4 where
    4: "poll_spi io (\<lambda>b. b \<noteq> 0xFF) (of_nat (us v d2 div 1000) + 500) d3 = Some (0xFF, d4)" "pend v d4 = idle"
      "paced (us v) tick d3 d4" by (auto simp: idle_def ahead_def)
  from paced_trans [OF paced_trans [OF paced_trans [OF 1(2) 2(3)] 3(3)] 4(3)]
  have "paced (us v) (4 * tick) d d4" by (rule paced_mono) simp
  then show ?thesis using 2(1) 3(1) 4 by (simp add: select_card_def wait_ready_def)
qed

lemma cmd_response_ok:
  assumes b: "spi_bus io v tick"
  shows "n \<le> k \<Longrightarrow> \<forall>i < n. pend v d i = 0xFF \<Longrightarrow> pend v d n = 0 \<Longrightarrow>
    \<exists>d'. cmd_response io k d = (0, d') \<and> pend v d' = ahead (n + 1) (pend v d) \<and> paced (us v) ((n + 1) * tick) d d'"
proof (induction n arbitrary: k d)
  case 0
  from bus_xchg [OF b, of d] 0 show ?case by (cases k) auto
next
  case (Suc n)
  then obtain j where k: "k = Suc j" "n \<le> j" by (cases k) auto
  from bus_xchg [OF b, of d] obtain d1 where
    1: "xchg_spi io 0xFF d = (pend v d 0, d1)" "pend v d1 = ahead 1 (pend v d)" "paced (us v) tick d d1" by blast
  have nth: "pend v d1 i = pend v d (Suc i)" for i by (simp add: 1(2) ahead_def)
  have "cmd_response io k d = cmd_response io j d1" using Suc.prems(2) by (simp add: k 1(1))
  moreover have "\<forall>i < n. pend v d1 i = 0xFF" "pend v d1 n = 0" using Suc.prems(2,3) by (simp_all add: nth)
  from Suc.IH [OF k(2) this] obtain d2 where
    2: "cmd_response io j d1 = (0, d2)" "pend v d2 = ahead (n + 1) (pend v d1)" "paced (us v) ((n + 1) * tick) d1 d2"
    by blast
  moreover have "paced (us v) ((Suc n + 1) * tick) d d2" using paced_trans [OF 1(3) 2(3)] by simp
  ultimately show ?case using 1(2) by simp
qed

text \<open>A read command that the card accepts.\<close>

lemma send_read_ok:
  assumes b: "spi_bus io v tick" and c: "spi_card io v g by_block sec sz"
    and cmd: "cmd = 17 \<and> k = 1 \<or> cmd = 18 \<and> k \<le> 255" and sz: "unat n + k \<le> sz"
  shows "\<exists>d'. send_cmd io cmd (if by_block then n else n * 512) d = Some (0, d') \<and> blocks g sec n k (pend v d') \<and>
    paced (us v) (21 * tick) d d'"
proof -
  let ?arg = "if by_block then n else n * 512"
  from select_ok [OF b deselect_ok(1) [OF b]] obtain d1 where
    1: "select_card io (deselect io d) = Some (True, d1)" "pend v d1 = idle" "paced (us v) (4 * tick) (deselect io d) d1" by blast
  let ?d = "xmit_bytes io (cmd_packet cmd ?arg) d1"
  obtain p where p: "accepted (pend v ?d) p" "blocks g sec n k p" using c 1(2) cmd sz unfolding spi_card_def by blast
  then obtain j where j: "j \<le> 8" "\<forall>i < j. pend v ?d i = 0xFF" "pend v ?d j = 0" "p = ahead (j + 1) (pend v ?d)"
    by (auto simp: accepted_def)
  from cmd_response_ok [OF b _ j(2,3), of 9] j(1) obtain d2 where
    2: "cmd_response io 9 ?d = (0, d2)" "pend v d2 = p" "paced (us v) ((j + 1) * tick) ?d d2" using j(4) by auto
  have "length (cmd_packet cmd ?arg) = 6" by (simp add: cmd_packet_def)
  then have "paced (us v) (6 * tick) d1 ?d" using xmit_paced [OF b, of "cmd_packet cmd ?arg" d1] by metis
  note paced_trans [OF paced_trans [OF paced_trans [OF deselect_ok(2) [OF b] 1(3)] this] 2(3)]
  moreover have "2 * tick + 4 * tick + 6 * tick + (j + 1) * tick \<le> 21 * tick"
    using mult_right_mono [of "j + 1" 9 tick] j(1) by simp
  ultimately have "paced (us v) (21 * tick) d d2" by (rule paced_mono)
  moreover have "cmd AND 0x80 = 0" "cmd \<noteq> 12" using cmd by auto
  ultimately show ?thesis using 1(1) 2 p(2) by (auto simp: send_cmd_def send_plain_def Let_def)
qed

subsection \<open>Reading sectors\<close>

lemma read_blocks_ok:
  assumes b: "spi_bus io v tick" and len: "\<And>n. length (sec n) = 512" and g: "(2 * g + 1) * tick \<le> 199000"
  shows "blocks g sec n k (pend v d) \<Longrightarrow> (us v d + k * ((2 * g + 516) * tick)) div 1000 + 200 < 2 ^ 32 \<Longrightarrow>
    \<exists>d'. read_blocks io k d = Some (0, concat (map (\<lambda>j. sec (n + of_nat j)) [0..<k]), d') \<and>
      paced (us v) (k * ((2 * g + 516) * tick)) d d'"
proof (induction k arbitrary: n d)
  case 0
  then show ?case by (simp add: paced_def)
next
  case (Suc k)
  then obtain p where p: "block_next g (sec n) (pend v d) p" "blocks g sec (n + 1) k p" by auto
  have "us v d div 1000 + 200 < 2 ^ 32"
    using Suc.prems(2) div_le_mono [of "us v d" "us v d + Suc k * ((2 * g + 516) * tick)" 1000] by linarith
  from rcvr_datablock_ok [OF b p(1) g this, unfolded len] obtain d1 where
    1: "rcvr_datablock io 512 d = Some (True, sec n, d1)" "pend v d1 = p" "paced (us v) ((2 * g + 512 + 4) * tick) d d1"
    by blast
  then have 1: "rcvr_datablock io 512 d = Some (True, sec n, d1)" "pend v d1 = p" "paced (us v) ((2 * g + 516) * tick) d d1"
    by (simp_all only: add.assoc numeral_plus_numeral add_num_simps)
  have "us v d1 + k * ((2 * g + 516) * tick) \<le> us v d + Suc k * ((2 * g + 516) * tick)" using 1(3) by (simp add: paced_def)
  from div_le_mono [OF this, of 1000] have "(us v d1 + k * ((2 * g + 516) * tick)) div 1000 + 200 < 2 ^ 32"
    using Suc.prems(2) by linarith
  from Suc.IH [OF _ this] p(2) 1(2) obtain d2 where
    2: "read_blocks io k d1 = Some (0, concat (map (\<lambda>j. sec (n + 1 + of_nat j)) [0..<k]), d2)"
      "paced (us v) (k * ((2 * g + 516) * tick)) d1 d2" by blast
  have "sec n @ concat (map (\<lambda>j. sec (n + 1 + of_nat j)) [0..<k]) = concat (map (\<lambda>j. sec (n + of_nat j)) [0..<Suc k])"
    by (simp add: map_upt_Suc add.assoc del: upt_Suc)
  then show ?case using 1(1) 2(1) paced_trans [OF 1(3) 2(2)] by simp
qed

text \<open>The clock does not wrap round before the sectors are read.\<close>

definition uptime_ok :: "'d card_view \<Rightarrow> nat \<Rightarrow> nat \<Rightarrow> nat \<Rightarrow> 'd \<Rightarrow> bool" where
  "uptime_ok v tick g k d \<longleftrightarrow> (us v d + 21 * tick + k * ((2 * g + 516) * tick)) div 1000 + 200 < 2 ^ 32"

lemma SD_disk_read_ok:
  assumes b: "spi_bus io v tick" and c: "spi_card io v g (sd_type cd AND 8 \<noteq> 0) sec sz" and g: "(2 * g + 1) * tick \<le> 199000"
    and st: "sd_stat cd AND 1 = 0" and k: "1 \<le> unat count" "unat count \<le> 255" "unat n + unat count \<le> sz"
    and up: "uptime_ok v tick g (unat count) (sd_hw cd)"
  shows "\<exists>d'. SD_disk_read io n count cd =
    Some (RES_OK, concat (map (\<lambda>j. sec (n + of_nat j)) [0..<unat count]), cd\<lparr>sd_hw := d'\<rparr>)"
proof -
  let ?arg = "if sd_type cd AND 8 \<noteq> 0 then n else n * 512"
  have arg: "(if sd_type cd AND 8 = 0 then n * 512 else n) = ?arg" by simp
  have len: "length (sec n) = 512" for n using c by (simp add: spi_card_def)
  define cmd where "cmd = (if count = 1 then 17 else 18 :: u8)"
  have "cmd = 17 \<and> unat count = 1 \<or> cmd = 18 \<and> unat count \<le> 255" using k by (simp add: cmd_def)
  from send_read_ok [OF b c this k(3), of "sd_hw cd"] obtain d1 where
    1: "send_cmd io cmd ?arg (sd_hw cd) = Some (0, d1)" "blocks g sec n (unat count) (pend v d1)" "paced (us v) (21 * tick) (sd_hw cd) d1"
    by blast
  have "us v d1 + unat count * ((2 * g + 516) * tick) \<le> us v (sd_hw cd) + 21 * tick + unat count * ((2 * g + 516) * tick)"
    using 1(3) by (simp add: paced_def)
  from div_le_mono [OF this, of 1000] have up1: "(us v d1 + unat count * ((2 * g + 516) * tick)) div 1000 + 200 < 2 ^ 32"
    using up unfolding uptime_ok_def by linarith
  from read_blocks_ok [OF b len g 1(2) this] obtain d2 where
    2: "read_blocks io (unat count) d1 = Some (0, concat (map (\<lambda>j. sec (n + of_nat j)) [0..<unat count]), d2)" by blast
  show ?thesis
  proof (cases "count = 1")
    case True
    then have "rcvr_datablock io 512 d1 = Some (True, sec n, d2)"
      using 2 by (auto simp: bind_eq_Some_conv split: if_splits)
    then show ?thesis
      using 1(1) True st unfolding SD_disk_read_def arg by (auto simp: cmd_def Let_def)
  next
    case False
    moreover have "count \<noteq> 0" using k(1) by auto
    moreover obtain r d3 where "send_cmd io 12 0 d2 = Some (r, d3)"
      by (cases "cmd_response io 9 (snd (xchg_spi io 255 (xmit_bytes io (cmd_packet 12 0) d2)))")
        (auto simp: send_cmd_def send_plain_def Let_def)
    ultimately show ?thesis
      using 1(1) 2 st unfolding SD_disk_read_def arg by (auto simp: cmd_def Let_def)
  qed
qed

text \<open>
  On a card that holds every sector, and as long as the clock is far from wrapping round, the driver
  is a disk in the sense of the file system.
\<close>

lemma sd_serves:
  fixes io :: "'d bus"
  assumes b: "spi_bus io v tick" and c: "spi_card io v g by_block sec (2 ^ 33)" and g: "(2 * g + 1) * tick \<le> 199000"
    and up: "\<And>d. uptime_ok v tick g 255 d"
  shows "serves (sd_disk io) (\<lambda>cd. sd_stat cd AND 1 = 0 \<and> (sd_type cd AND 8 \<noteq> 0) = by_block) sec"
proof -
  have rd: "\<exists>d'. disk_read io drv n k cd = Some (RES_OK, concat (map (\<lambda>j. sec (n + of_nat j)) [0..<unat k]), cd\<lparr>sd_hw := d'\<rparr>)"
    if "sd_stat cd AND 1 = 0" "(sd_type cd AND 8 \<noteq> 0) = by_block" "k \<noteq> 0" for drv n k cd
  proof -
    have u: "unat (ucast k :: u32) = unat k" using u8_lt [of k] by (simp add: unsigned_ucast_eq take_bit_nat_eq_self)
    have k: "1 \<le> unat (ucast k :: u32)" "unat (ucast k :: u32) \<le> 255"
      using that(3) u8_lt [of k] unat_gt_0 [of k] unfolding u by (simp_all add: Suc_le_eq)
    have "unat n + unat (ucast k :: u32) \<le> 2 ^ 33" using k(2) u32_lt [of n] by simp
    moreover have "uptime_ok v tick g (unat (ucast k :: u32)) (sd_hw cd)"
    proof -
      have "unat (ucast k :: u32) * ((2 * g + 516) * tick) \<le> 255 * ((2 * g + 516) * tick)" using k(2) by (rule mult_right_mono) simp
      then show ?thesis using up [of "sd_hw cd"] unfolding uptime_ok_def
        by (meson add_left_mono add_right_mono div_le_mono le_less_trans)
    qed
    ultimately show ?thesis
      using SD_disk_read_ok [OF b c [folded that(2)] g that(1) k] unfolding disk_read_def u by blast
  qed
  show ?thesis
    unfolding serves_def
  proof (intro conjI allI impI)
    show "length (sec n) = 512" for n using c by (simp add: spi_card_def)
    fix drv n and k :: u8 and cd :: "'d sdcard"
    assume ok: "sd_stat cd AND 1 = 0 \<and> (sd_type cd AND 8 \<noteq> 0) = by_block"
    have "(sd_stat cd AND NOT 4) AND 1 = sd_stat cd AND (NOT 4 AND 1)" by (simp only: and.assoc)
    then have "(sd_stat cd AND NOT 4) AND 1 = 0" using ok by simp
    moreover have "(ucast w :: u8) AND 1 = ucast (w AND 1)" for w :: u32
      by (rule bit_word_eqI) (auto simp: bit_simps bit_1_iff)
    ultimately show "\<exists>stat s'. dk_status (sd_disk io) drv cd = Some (stat, s') \<and> stat AND 1 = 0 \<and>
        sd_stat s' AND 1 = 0 \<and> (sd_type s' AND 8 \<noteq> 0) = by_block"
      using ok by (simp add: sd_disk_def disk_status_def SD_disk_status_def Let_def)
    assume "k \<noteq> 0"
    with rd [of cd k drv n] ok show "\<exists>s'. dk_read (sd_disk io) drv n k cd =
        Some (RES_OK, concat (map (\<lambda>k. sec (n + of_nat k)) [0..<unat k]), s') \<and>
        sd_stat s' AND 1 = 0 \<and> (sd_type s' AND 8 \<noteq> 0) = by_block"
      by (fastforce simp: sd_disk_def)
  qed
qed

end
