(* ===== verification/Sd_Props.thy ===== *)
theory Sd_Props
  imports Fat_Props Sd_Card
begin

text \<open>
  Properties of the SD card: what the read operation of the backend gives and when it does not
  return, and that the driver gives the sectors it is asked for.
\<close>

subsection \<open>Reading through the backend\<close>

text \<open>The bytes left in a file.\<close>

definition left :: "FIL \<Rightarrow> nat" where
  "left fp = unat (fp_fsize fp) - unat (fp_fptr fp)"

definition chunk_of :: "u32 \<Rightarrow> u16" where
  "chunk_of toread = (if 65535 \<le> sint toread then 65535 else ucast toread)"

lemma unat_chunk: "0 < sint t \<Longrightarrow> unat (chunk_of t) = min 65535 (unat t)"
proof -
  assume "0 < sint t"
  then obtain u where "unat t = u" "sint t = int u" using sint_positive by blast
  then show ?thesis by (auto simp: chunk_of_def unsigned_ucast_eq take_bit_nat_eq_self)
qed

text \<open>One turn of the loop: a piece of the file, and what is still to be read.\<close>

lemma sd_read_turn:
  assumes d: "serves dk ok sec" and s: "ok (dsk st)" and r: "readable sec st fp" and t: "0 < sint toread"
    and n_def: "n = min (min 65535 (unat toread)) (left fp)"
  shows "\<exists>fp' st'. f_read dk fp (chunk_of toread) st =
      ret (FR_OK, of_nat n, take n (drop (unat (fp_fptr fp)) (file_contents sec st fp)), fp', st') \<and>
    ok (dsk st') \<and> readable sec st' fp' \<and> file_contents sec st' fp' = file_contents sec st fp \<and>
    unat (fp_fptr fp') = unat (fp_fptr fp) + n \<and> left fp' = left fp - n \<and>
    unat (toread - ucast (of_nat n :: u16)) = unat toread - n"
proof -
  have n: "n = min (unat (chunk_of toread)) (unat (fp_fsize fp) - unat (fp_fptr fp))"
    by (simp add: n_def left_def unat_chunk [OF t])
  from f_read_ok [OF d s r n] obtain fp' st' where
    1: "f_read dk fp (chunk_of toread) st =
      ret (FR_OK, of_nat n, take n (drop (unat (fp_fptr fp)) (file_contents sec st fp)), fp', st')" "ok (dsk st')"
      "readable sec st' fp'" "file_contents sec st' fp' = file_contents sec st fp" "same_file fp fp'"
      "unat (fp_fptr fp') = unat (fp_fptr fp) + n" by blast
  have "left fp' = left fp - n" using 1(5,6) by (simp add: left_def same_file_def)
  moreover have "unat (ucast (of_nat n :: u16) :: u32) = n" "n \<le> unat toread"
    by (simp_all add: n_def unat_ucast_u16 unat_of_nat take_bit_nat_eq_self)
  then have "unat (toread - ucast (of_nat n :: u16)) = unat toread - n" by (simp add: unat_sub word_le_nat_alt)
  ultimately show ?thesis using 1 by blast
qed

lemma sd_read_all:
  assumes d: "serves dk ok sec"
  shows "ok (dsk st) \<Longrightarrow> readable sec st fp \<Longrightarrow> unat toread < 2 ^ 31 \<Longrightarrow> unat toread \<le> left fp \<Longrightarrow>
    \<exists>fp' st'. sd_read_loop dk toread got fp st =
        ret (FR_OK, got @ take (unat toread) (drop (unat (fp_fptr fp)) (file_contents sec st fp)), fp', st') \<and>
      ok (dsk st') \<and> readable sec st' fp' \<and> file_contents sec st' fp' = file_contents sec st fp \<and>
      unat (fp_fptr fp') = unat (fp_fptr fp) + unat toread"
proof (induction "unat toread" arbitrary: toread got fp st rule: less_induct)
  case less
  obtain u where u: "unat toread = u" "sint toread = int u" using sint_below [OF less.prems(3)] by blast
  show ?case
  proof (cases "unat toread = 0")
    case True
    then show ?thesis using less.prems u by (simp add: sd_read_loop.simps [of dk toread])
  next
    case False
    then have t: "0 < sint toread" using u by simp
    define n where "n = min (min 65535 (unat toread)) (left fp)"
    from sd_read_turn [OF d less.prems(1,2) t n_def] obtain fp1 st1 where
      1: "f_read dk fp (chunk_of toread) st = ret (FR_OK, of_nat n, take n (drop (unat (fp_fptr fp)) (file_contents sec st fp)), fp1, st1)"
        "ok (dsk st1)" "readable sec st1 fp1" "file_contents sec st1 fp1 = file_contents sec st fp"
        "unat (fp_fptr fp1) = unat (fp_fptr fp) + n" "left fp1 = left fp - n"
        "unat (toread - ucast (of_nat n :: u16)) = unat toread - n" by blast
    have n: "0 < n" "n \<le> unat toread" using False less.prems(4) by (auto simp: n_def)
    let ?got = "got @ take n (drop (unat (fp_fptr fp)) (file_contents sec st fp))"
    have step: "sd_read_loop dk toread got fp st = sd_read_loop dk (toread - ucast (of_nat n :: u16)) ?got fp1 st1"
      using t 1(1) by (subst sd_read_loop.simps) (simp add: chunk_of_def Let_def not_le)
    have "take n (drop p xs) @ take (m - n) (drop (p + n) xs) = take m (drop p xs)" if "n \<le> m" for m p and xs :: "u8 list"
      using that take_add [of n "m - n" "drop p xs"] by (simp add: add.commute)
    with less.hyps [of "toread - ucast (of_nat n :: u16)" st1 fp1 ?got] 1(2-7) n less.prems(3,4) show ?thesis
      unfolding step by auto
  qed
qed

text \<open>If the loop returns, there was as much to read as it was asked for.\<close>

lemma sd_read_returns:
  fixes dk :: "'s disk"
  assumes "sd_read_loop dk toread got fp st = Some y"
  shows "serves dk ok sec \<longrightarrow> ok (dsk st) \<longrightarrow> readable sec st fp \<longrightarrow> 0 < sint toread \<longrightarrow> unat toread \<le> left fp"
proof (rule sd_read_loop.raw_induct [OF _ assms], intro impI, rule ccontr)
  fix loop :: "'s disk \<Rightarrow> u32 \<Rightarrow> _" and dk :: "'s disk" and toread :: u32 and got fp st y
  assume ih: "\<And>dk toread got fp st y. loop dk toread got fp st = Some y \<Longrightarrow>
      serves dk ok sec \<longrightarrow> ok (dsk st) \<longrightarrow> readable sec st fp \<longrightarrow> 0 < sint toread \<longrightarrow> unat toread \<le> left fp"
    and run: "(if sint toread \<le> 0 then ret (FR_OK, got, fp, st)
      else let chunk = if 65535 \<le> sint toread then 65535 else ucast toread
           in Option.bind (f_read dk fp chunk st)
               (\<lambda>x. case x of Inl e \<Rightarrow> undefined_for e
                    | Inr (r, bytes, bs, fp, st) \<Rightarrow>
                        if r \<noteq> FR_OK then ret (r, got @ bs, fp, st)
                        else loop dk (toread - ucast bytes) (got @ bs) fp st)) = Some y"
    and d: "serves dk ok sec" and s: "ok (dsk st)" and r: "readable sec st fp" and t: "0 < sint toread"
    and more: "\<not> unat toread \<le> left fp"
  define n where "n = min (min 65535 (unat toread)) (left fp)"
  from sd_read_turn [OF d s r t n_def] obtain fp1 st1 bs where
    1: "f_read dk fp (chunk_of toread) st = ret (FR_OK, of_nat n, bs, fp1, st1)"
      "ok (dsk st1)" "readable sec st1 fp1" "left fp1 = left fp - n"
      "unat (toread - ucast (of_nat n :: u16)) = unat toread - n" by blast
  have n: "n \<le> left fp" by (simp add: n_def)
  have "unat (toread - ucast (of_nat n :: u16)) < 2 ^ 31" using sint_positive(3) [OF t] 1(5) by simp
  then obtain u where u: "unat (toread - ucast (of_nat n :: u16)) = u" "sint (toread - ucast (of_nat n :: u16)) = int u"
    using sint_below by blast
  then have "0 < sint (toread - ucast (of_nat n :: u16))" using more n 1(5) by simp
  moreover have "loop dk (toread - ucast (of_nat n :: u16)) (got @ bs) fp1 st1 = Some y"
    using run t 1(1) by (simp add: chunk_of_def Let_def not_le)
  ultimately have "unat (toread - ucast (of_nat n :: u16)) \<le> left fp1" using ih d 1(2,3) by blast
  then show False using more n 1(4,5) by simp
qed

text \<open>
  C39. The read operation of the SD card backend gives exactly the bytes asked for when the file
  still has that many, in pieces of at most 65535 bytes, and moves the position behind
  them.  When fewer are left it never returns: at the end of the file every piece is empty and the
  loop goes on.
\<close>

theorem sd_read_exact_or_hangs:
  assumes "serves dk ok sec" and "ok (dsk st)" and "readable sec st fp" and "0 < sint nbytes"
  shows "(unat nbytes \<le> left fp \<longrightarrow>
      (\<exists>fp' st'. sd_read_loop dk nbytes [] fp st =
          ret (FR_OK, take (unat nbytes) (drop (unat (fp_fptr fp)) (file_contents sec st fp)), fp', st') \<and>
        readable sec st' fp' \<and> file_contents sec st' fp' = file_contents sec st fp \<and>
        unat (fp_fptr fp') = unat (fp_fptr fp) + unat nbytes)) \<and>
    (left fp < unat nbytes \<longrightarrow> sd_read_loop dk nbytes [] fp st = None)"
  using sd_read_all [OF assms(1-3) sint_positive(3) [OF assms(4)], of "[]"]
    sd_read_returns [of dk nbytes "[]" fp st _ ok sec] assms
  by (cases "sd_read_loop dk nbytes [] fp st") auto

theorem sd_read_exact_or_hangs_witness:
  "(\<exists>f. sd_read_loop ram_disk 600 [] ram_file (ram_fs\<lparr>objs := [ram_vol]\<rparr>) =
      ret (FR_OK, replicate 512 0x41 @ replicate 88 0x42, f)) \<and>
   sd_read_loop ram_disk 601 [] ram_file (ram_fs\<lparr>objs := [ram_vol]\<rparr>) = None"
proof -
  have f: "left ram_file = 600" "unat (fp_fptr ram_file) = 0" by (simp_all add: left_def ram_file_def new_file_def)
  have "0 < sint (600 :: u32)" "0 < sint (601 :: u32)" by simp_all
  note a = sd_read_exact_or_hangs [OF ram_serves _ ram_readable this(1)] sd_read_exact_or_hangs [OF ram_serves _ ram_readable this(2)]
  show ?thesis using a unfolding ram_file_contents f by auto
qed

subsection \<open>Files on the card\<close>

text \<open>The file system on the driver on a card: an open file is its bytes with a position.\<close>

lemma sd_file_calls:
  assumes "spi_bus io v tick" "spi_card io v g by_block sec (2 ^ 33)" "(2 * g + 1) * tick \<le> 199000" "\<And>d. uptime_ok v tick g 255 d"
    and "sd_stat (dsk st) AND 1 = 0" "(sd_type (dsk st) AND 8 \<noteq> 0) = by_block" "readable sec st fp"
    and "spec_calls (file_contents sec st fp) (unat (fp_fptr fp)) cs = (out, q)"
  shows "\<exists>f. run_calls (fat_read (sd_disk io)) (fat_seek (sd_disk io)) cs (fp, st) = ret (out, f)"
  using fat.calls_ok [of "sd_disk io" _ sec "(fp, st)" cs out q] sd_serves [OF assms(1-4)] assms(5-8)
  by (fastforce simp: fat_open_def)

subsection \<open>Sectors from the card\<close>





























end
