(* ===== verification/Lib_Irq.thy ===== *)
theory Lib_Irq
  imports Lib_Dev
begin

text \<open>
  The exception monitor of \<^verbatim>\<open>libxtcapp/irq.c\<close>: the line editor, the splitting of a line into
  tokens, the parsing of numbers and the commands that inspect and change memory.  What
  \<^verbatim>\<open>printstring\<close>, \<^verbatim>\<open>printhex\<close> and \<^verbatim>\<open>outbyte\<close> print is collected as a string.  The
  functions written in assembler that reach the trace unit and the processor's registers are an
  argument.
\<close>

subsection \<open>Tokens\<close>

text \<open>A pointer into the line is an index; every access is checked against the array.\<close>

definition char_at :: "char list \<Rightarrow> nat \<Rightarrow> lib_error + char" where
  "char_at s i = arr_get LibOutOfBounds s i"

text \<open>The first position from \<open>i\<close> on whose character is no delimiter; blank is the only delimiter used.\<close>

function skip_delims :: "char list \<Rightarrow> nat \<Rightarrow> lib_error + nat" where
  "skip_delims s i =
     (if i < length s
      then if s ! i = CHR '' '' then skip_delims s (i + 1) else Inr i
      else Inl LibOutOfBounds)"
  by pat_completeness auto
termination
  by (relation "measure (\<lambda>(s, i). length s - i)") auto

function scan_token :: "char list \<Rightarrow> nat \<Rightarrow> lib_error + nat" where
  "scan_token s i =
     (if i < length s
      then if s ! i = CHR '' '' \<or> s ! i = NUL then Inr i else scan_token s (i + 1)
      else Inl LibOutOfBounds)"
  by pat_completeness auto
termination
  by (relation "measure (\<lambda>(s, i). length s - i)") auto

declare skip_delims.simps [simp del] scan_token.simps [simp del]

text \<open>The token, where the next one is looked for, and the line with the token's end marked.\<close>

definition internal_strtok :: "nat option \<Rightarrow> nat option \<Rightarrow> char list \<Rightarrow>
    lib_error + (nat option \<times> nat option \<times> char list)" where
  "internal_strtok s rest line =
     (case (case s of None \<Rightarrow> rest | Some i \<Rightarrow> Some i) of
        None \<Rightarrow> Inr (None, rest, line)
      | Some i \<Rightarrow>
          rbind (skip_delims line i) (\<lambda>tok.
          if line ! tok = NUL then Inr (None, None, line)
          else rbind (scan_token line (tok + 1)) (\<lambda>e.
            if line ! e = NUL then Inr (Some tok, None, line)
            else Inr (Some tok, Some (e + 1), line[e := NUL]))))"

text \<open>
  The tokens with the null pointer that ends them; \<open>None\<close> when the array of tokens is full.  The
  number returned is their number, the null pointer included.
\<close>

fun split_loop :: "nat \<Rightarrow> nat option \<Rightarrow> char list \<Rightarrow> nat option list \<Rightarrow>
    lib_error + (nat option list option \<times> nat option \<times> char list)" where
  "split_loop 0 rest line toks = Inr (None, rest, line)"
| "split_loop (Suc room) rest line toks =
     rbind (internal_strtok None rest line) (\<lambda>(t, rest, line).
     let toks = toks @ [t] in
     if room = 0 then Inr (None, rest, line)
     else if t = None then Inr (Some toks, rest, line)
     else split_loop room rest line toks)"

definition split :: "nat \<Rightarrow> nat option \<Rightarrow> char list \<Rightarrow>
    lib_error + (nat option list option \<times> nat option \<times> char list)" where
  "split sz rest line =
     rbind (internal_strtok (Some 0) rest line) (\<lambda>(t, rest, line). split_loop (sz - 1) rest line [t])"

text \<open>The string a pointer points to.\<close>

definition str_at :: "char list \<Rightarrow> nat \<Rightarrow> string" where
  "str_at line i = c_string (drop i line)"

subsection \<open>Numbers\<close>

definition digit_val :: "char \<Rightarrow> u32 option" where
  "digit_val c =
     (let v = of_char c :: u32 in
      if 0x30 \<le> v \<and> v \<le> 0x39 then Some (v - 0x30)
      else if 0x61 \<le> v \<and> v \<le> 0x66 then Some (v - 0x61 + 10)
      else if 0x41 \<le> v \<and> v \<le> 0x46 then Some (v - 0x41 + 10)
      else None)"

text \<open>From the last digit to the first; \<open>None\<close> for a character that is no digit of the base.\<close>

fun strtol_loop :: "u32 \<Rightarrow> string \<Rightarrow> u32 \<Rightarrow> u32 \<Rightarrow> u32 option" where
  "strtol_loop base [] v ex = Some v"
| "strtol_loop base (c # cs) v ex =
     (case digit_val c of
        None \<Rightarrow> None
      | Some ival \<Rightarrow>
          if base - 1 < ival then None else strtol_loop base cs (v + ex * ival) (ex * base))"

definition mystrtol :: "string \<Rightarrow> u32 \<Rightarrow> u32 option" where
  "mystrtol str base = (if str = [] then None else strtol_loop base (rev str) 0 1)"

definition parseinteger :: "string \<Rightarrow> u32 option" where
  "parseinteger str =
     (if take 2 str = ''0x'' then mystrtol (drop 2 str) 16 else mystrtol str 10)"

subsection \<open>Commands\<close>

text \<open>The functions of the trace unit, over the state of the hardware.\<close>

record 'd trace =
  tr_counters :: "'d \<Rightarrow> u32"
  tr_set_counter :: "u32 \<Rightarrow> 'd \<Rightarrow> 'd"
  tr_pc :: "'d \<Rightarrow> u32"
  tr_opcode :: "'d \<Rightarrow> u32"
  tr_lhs :: "'d \<Rightarrow> u32"
  tr_rhs :: "'d \<Rightarrow> u32"
  tr_memcounters :: "'d \<Rightarrow> u32"
  tr_set_memcounter :: "u32 \<Rightarrow> 'd \<Rightarrow> 'd"
  tr_mempc :: "'d \<Rightarrow> u32"
  tr_memaddr :: "'d \<Rightarrow> u32"
  tr_memdata :: "'d \<Rightarrow> u32"
  tr_set_memmatch :: "u32 \<Rightarrow> 'd \<Rightarrow> 'd"
  tr_psr :: "'d \<Rightarrow> u32"

abbreviation (input) crlf :: string where "crlf \<equiv> [CHR 0x0D, CHR 0x0A]"
abbreviation (input) lf :: string where "lf \<equiv> [CHR 0x0A]"

text \<open>The entries behind the newest one, round the buffer.\<close>

fun trace_entries :: "'d trace \<Rightarrow> nat \<Rightarrow> u32 \<Rightarrow> 'd \<Rightarrow> string \<times> 'd" where
  "trace_entries tr 0 r d = ([], d)"
| "trace_entries tr (Suc n) r d =
     (let r = (r + 1) AND 0xFFFF; d = tr_set_counter tr r d;
          (out, d') = trace_entries tr n r d
      in (''E 0x'' @ printhex (tr_pc tr d) @ '' 0x'' @ printhex (tr_opcode tr d) @ '' 0x'' @
          printhex (tr_lhs tr d) @ '' 0x'' @ printhex (tr_rhs tr d) @ crlf @ out, d'))"

definition dump_tracebuffer :: "'d trace \<Rightarrow> 'd \<Rightarrow> string \<times> 'd" where
  "dump_tracebuffer tr d =
     (let r = tr_counters tr d; nentries = drop_bit 16 r in
      if nentries = 0 then ([], d)
      else case trace_entries tr (unat nentries) r d of (out, d) \<Rightarrow> (''Tracebuffer: '' @ crlf @ out, d))"

fun mem_entries :: "'d trace \<Rightarrow> nat \<Rightarrow> u32 \<Rightarrow> 'd \<Rightarrow> string \<times> 'd" where
  "mem_entries tr 0 r d = ([], d)"
| "mem_entries tr (Suc n) r d =
     (let r = (r + 1) AND 0xFFFF; d = tr_set_memcounter tr r d;
          (out, d') = mem_entries tr n r d
      in (''E 0x'' @ printhex (tr_mempc tr d) @ '' 0x'' @ printhex (tr_memaddr tr d) @ '' 0x'' @
          printhex (tr_memdata tr d) @ crlf @ out, d'))"

definition dump_membuffer :: "'d trace \<Rightarrow> 'd \<Rightarrow> string \<times> 'd" where
  "dump_membuffer tr d =
     (let r = tr_memcounters tr d; nentries = drop_bit 16 r in
      if nentries = 0 then ([], d)
      else case mem_entries tr (unat nentries) r d of (out, d) \<Rightarrow> (''Membuffer: '' @ crlf @ out, d))"

text \<open>A token that is printed or parsed is followed as a pointer; so is one that is missing.\<close>

definition token :: "char list \<Rightarrow> nat option list \<Rightarrow> nat \<Rightarrow> lib_error + string" where
  "token line toks k =
     rbind (arr_get LibOutOfBounds toks k) (\<lambda>t.
     case t of None \<Rightarrow> Inl LibNull | Some i \<Rightarrow> Inr (str_at line i))"

definition inspect :: "'d bus \<Rightarrow> char list \<Rightarrow> nat option list \<Rightarrow> 'd \<Rightarrow> lib_error + (string \<times> 'd)" where
  "inspect io line toks d =
     (if length toks < 2 then Inr (''Invalid number of arguments'' @ lf, d)
      else rbind (token line toks 1) (\<lambda>a.
        let out = ''Addr '' @ [CHR 0x27] @ a @ [CHR 0x27] @ lf in
        case parseinteger a of
          None \<Rightarrow> Inr (out @ ''Invalid address '' @ [CHR 0x27] @ a @ [CHR 0x27] @ lf, d)
        | Some address \<Rightarrow>
            case bus_read io address d of (v, d) \<Rightarrow>
              Inr (out @ ''0x'' @ printhex address @ '': '' @ printhex v @ lf, d)))"

definition writedata :: "'d bus \<Rightarrow> char list \<Rightarrow> nat option list \<Rightarrow> 'd \<Rightarrow> lib_error + (string \<times> 'd)" where
  "writedata io line toks d =
     (if length toks < 3 then Inr (''Invalid number of arguments'' @ lf, d)
      else rbind (token line toks 1) (\<lambda>a.
        case parseinteger a of
          None \<Rightarrow> Inr (''Invalid address '' @ [CHR 0x27] @ a @ [CHR 0x27] @ lf, d)
        | Some address \<Rightarrow>
            rbind (token line toks 2) (\<lambda>b.
            case parseinteger b of
              None \<Rightarrow> Inr (''Invalid data '' @ [CHR 0x27] @ b @ [CHR 0x27] @ lf, d)
            | Some data \<Rightarrow>
                case bus_read io address (bus_write io address data d) of (v, d) \<Rightarrow>
                  Inr (''0x'' @ printhex address @ '' <- '' @ printhex data @ '' : '' @ printhex v @ lf, d))))"

definition addmemorywatch :: "'d trace \<Rightarrow> char list \<Rightarrow> nat option list \<Rightarrow> 'd \<Rightarrow> lib_error + (string \<times> 'd)" where
  "addmemorywatch tr line toks d =
     (if length toks < 2 then Inr (''Invalid number of arguments'' @ lf, d)
      else rbind (token line toks 1) (\<lambda>a.
        case parseinteger a of
          None \<Rightarrow> Inr (''Invalid address '' @ [CHR 0x27] @ a @ [CHR 0x27] @ lf, d)
        | Some address \<Rightarrow>
            Inr (''Setting memory address match to 0x'' @ printhex address @ lf, tr_set_memmatch tr address d)))"

subsection \<open>The line editor\<close>

text \<open>A line leaves the monitor, goes on with it, or restarts the program and never returns.\<close>

datatype outcome = Leave | Stay | RestartFromIrq | RestartApp

record 'd monitor =
  mon_line :: "char list"
  lptr :: nat
  strtok_last :: "nat option"
  mon_out :: string
  mon_hw :: 'd

definition emit :: "string \<Rightarrow> 'd monitor \<Rightarrow> 'd monitor" where
  "emit s m = m\<lparr>mon_out := mon_out m @ s\<rparr>"

definition run_command :: "('d \<Rightarrow> lib_error + (string \<times> 'd)) \<Rightarrow> 'd monitor \<Rightarrow> lib_error + (outcome \<times> 'd monitor)" where
  "run_command cmd m =
     rbind (cmd (mon_hw m)) (\<lambda>(out, d). Inr (Stay, emit (out @ ''Ok'' @ crlf) (m\<lparr>mon_hw := d\<rparr>)))"

definition interactive_line :: "'d bus \<Rightarrow> 'd trace \<Rightarrow> 'd monitor \<Rightarrow> lib_error + (outcome \<times> 'd monitor)" where
  "interactive_line io tr m =
     rbind (char_at (mon_line m) 0) (\<lambda>c.
     if c = NUL then Inr (Stay, m)
     else rbind (split 8 (strtok_last m) (mon_line m)) (\<lambda>(toks, rest, line).
     let m = m\<lparr>mon_line := line, strtok_last := rest\<rparr> in
     case toks of
       None \<Rightarrow> Inr (Stay, emit (''Invalid line'' @ lf) m)
     | Some toks \<Rightarrow>
         rbind (token line toks 0) (\<lambda>cmd.
         if cmd = ''x'' then run_command (inspect io line toks) m
         else if cmd = ''w'' then run_command (writedata io line toks) m
         else if cmd = ''c'' then Inr (Leave, m)
         else if cmd = ''t'' then
           run_command (\<lambda>d. case dump_tracebuffer tr d of (o1, d) \<Rightarrow>
             case dump_membuffer tr d of (o2, d) \<Rightarrow> Inr (o1 @ o2, d)) m
         else if cmd = ''mw'' then run_command (addmemorywatch tr line toks) m
         else if cmd = ''r'' then Inr (RestartFromIrq, emit ''Restarting application (reset).'' m)
         else if cmd = ''ra'' then Inr (RestartApp, emit ''Restarting application.'' m)
         else run_command (\<lambda>d. Inr (''Invalid command '' @ cmd @ lf, d)) m)))"

definition interactive_process :: "'d bus \<Rightarrow> 'd trace \<Rightarrow> u8 \<Rightarrow> 'd monitor \<Rightarrow> lib_error + (outcome \<times> 'd monitor)" where
  "interactive_process io tr r m =
     (if r = 0x0A \<or> r = 0x0D then
        rbind (arr_put LibOutOfBounds (mon_line m) (lptr m) NUL) (\<lambda>line.
        rbind (interactive_line io tr (emit crlf (m\<lparr>mon_line := line\<rparr>))) (\<lambda>(oc, m).
        Inr (oc, if oc = Stay then m\<lparr>lptr := 0\<rparr> else m)))
      else if r = 0x08 then
        Inr (Stay, emit [CHR 0x08, CHR 0x20, CHR 0x08] (if 0 < lptr m then m\<lparr>lptr := lptr m - 1\<rparr> else m))
      else if r < 0x20 \<or> 127 < r then Inr (Stay, m)
      else if lptr m < 127 then
        rbind (arr_put LibOutOfBounds (mon_line m) (lptr m) (char_of (unat r))) (\<lambda>line.
        Inr (Stay, emit [char_of (unat r)] (m\<lparr>mon_line := line, lptr := lptr m + 1\<rparr>)))
      else Inr (Stay, m))"

text \<open>A character from the serial port, which is polled until there is one.\<close>

definition inbyte_nonblock :: "'d bus \<Rightarrow> 'd \<Rightarrow> u8 option \<times> 'd" where
  "inbyte_nonblock io d =
     (case bus_read io (0x90000000 + 4) d of (status, d) \<Rightarrow>
      if status AND 1 = 0 then (None, d)
      else case bus_read io 0x90000000 d of (v, d) \<Rightarrow> (Some (ucast v), d))"

partial_function (option) inbyte :: "'d bus \<Rightarrow> 'd \<Rightarrow> (u8 \<times> 'd) option" where
  "inbyte io d = (case inbyte_nonblock io d of (r, d) \<Rightarrow>
     case r of None \<Rightarrow> inbyte io d | Some b \<Rightarrow> Some (b, d))"

declare inbyte.simps [code]

partial_function (option) interactive_loop ::
    "'d bus \<Rightarrow> 'd trace \<Rightarrow> 'd monitor \<Rightarrow> (lib_error + (outcome \<times> 'd monitor)) option" where
  "interactive_loop io tr m =
     Option.bind (inbyte io (mon_hw m)) (\<lambda>(r, d).
     case interactive_process io tr r (m\<lparr>mon_hw := d\<rparr>) of
       Inl e \<Rightarrow> Some (Inl e)
     | Inr (oc, m) \<Rightarrow> if oc = Stay then interactive_loop io tr m else Some (Inr (oc, m)))"

declare interactive_loop.simps [code]

definition interactive :: "'d bus \<Rightarrow> 'd trace \<Rightarrow> 'd monitor \<Rightarrow> (outcome \<times> 'd monitor) res" where
  "interactive io tr m = interactive_loop io tr (m\<lparr>lptr := 0\<rparr>)"

subsection \<open>The exception handler\<close>

text \<open>The registers saved by the exception; \<open>pt_R\<close> holds the general registers from the first on.\<close>

record pt_regs =
  pt_TPC :: u32
  pt_SPSR :: u32
  pt_R :: "u32 list"

definition dump_reg :: "string \<Rightarrow> u32 \<Rightarrow> string" where
  "dump_reg label v = label @ printhex v @ '' ''"

definition dump_regs :: "'d trace \<Rightarrow> pt_regs \<Rightarrow> 'd \<Rightarrow> string" where
  "dump_regs tr regs d =
     (let r = (\<lambda>n. pt_R regs ! (n - 1)) in
      crlf @ ''Exception caught at address 0x'' @ printhex (pt_TPC regs) @ crlf @
      ''PSR : '' @ printhex (tr_psr tr d) @ crlf @
      dump_reg ''SPSR: '' (pt_SPSR regs) @ crlf @
      dump_reg ''R1 : '' (r 1) @ dump_reg ''R2 : '' (r 2) @ dump_reg ''R3 : '' (r 3) @ dump_reg ''R4 : '' (r 4) @ crlf @
      dump_reg ''R5 : '' (r 5) @ dump_reg ''R6 : '' (r 6) @ dump_reg ''R7 : '' (r 7) @ dump_reg ''R8 : '' (r 8) @ crlf @
      dump_reg ''R9 : '' (r 9) @ dump_reg ''R10: '' (r 10) @ dump_reg ''R11: '' (r 11) @ dump_reg ''R12: '' (r 12) @ crlf @
      dump_reg ''R13: '' (r 13) @ dump_reg ''R14: '' (r 14) @ dump_reg ''R15: '' (r 15) @ crlf @
      crlf @ ''Entering interactive mode.'' @ crlf)"

text \<open>A software interrupt returns to the instruction behind it.\<close>

definition handle_irq :: "'d bus \<Rightarrow> 'd trace \<Rightarrow> pt_regs \<Rightarrow> 'd monitor \<Rightarrow> (outcome \<times> pt_regs \<times> 'd monitor) res" where
  "handle_irq io tr regs m =
     lbind (interactive io tr (emit (dump_regs tr regs (mon_hw m)) m)) (\<lambda>(oc, m).
     if oc \<noteq> Leave then ret (oc, regs, m)
     else if drop_bit 4 (tr_psr tr (mon_hw m)) AND 0xF = 2
     then ret (oc, regs\<lparr>pt_TPC := pt_TPC regs + 2\<rparr>, emit (''Returning to next instruction'' @ lf) m)
     else ret (oc, regs, m))"

end
