(* ===== verification/Irq_Props.thy ===== *)
theory Irq_Props
  imports Lib_Irq
begin

text \<open>
  Properties of the exception monitor: numbers are read back as they are printed, lines are split
  into the words they are made of, the line editor stays within its buffer, and what a typed
  command does.
\<close>

subsection \<open>Numbers\<close>

lemma of_char_u32: "unat (w :: u32) < 256 \<Longrightarrow> (of_char (char_of (unat w)) :: u32) = w"
proof -
  assume "unat w < 256"
  then have "(of_char (char_of (unat w)) :: nat) = unat w" by (simp only: of_char_of mod_less)
  moreover have "(of_char (char_of (unat w)) :: u32) = of_nat (of_char (char_of (unat w)))" by (simp only: of_nat_of_char)
  ultimately show ?thesis by (simp only: word_of_nat_eq_iff unat_of_nat) (simp add: word_unat_eq_iff)
qed

lemma digit_val_hex:
  assumes "unat n < 16"
  shows "digit_val (hex_char n) = Some n"
proof (cases "n \<le> 9")
  case True
  then have u: "unat (n + 48) = unat n + 48" by (simp add: unat_word_ariths word_le_nat_alt)
  moreover have "(of_char (hex_char n) :: u32) = n + 48"
    unfolding hex_char_def using True u by (subst of_char_u32) (simp_all add: word_less_nat_alt word_le_nat_alt)
  ultimately show ?thesis using True by (simp add: digit_val_def word_le_nat_alt Let_def)
next
  case False
  then have u: "unat (n + 55) = unat n + 55" using assms by (simp add: unat_word_ariths)
  moreover have "(of_char (hex_char n) :: u32) = n + 55"
    unfolding hex_char_def using False u assms by (subst of_char_u32) (simp_all add: not_le)
  ultimately show ?thesis using False assms by (simp add: digit_val_def word_le_nat_alt Let_def)
qed

lemma strtol_append:
  "strtol_loop base (xs @ ys) v ex =
     (case strtol_loop base xs v ex of None \<Rightarrow> None | Some v \<Rightarrow> strtol_loop base ys v (ex * base ^ length xs))"
  by (induction xs arbitrary: v ex) (auto simp: algebra_simps split: option.splits)

lemma length_printhex_loop [simp]: "length (printhex_loop k v) = k"
  by (induction k arbitrary: v) simp_all

lemma hex_join:
  assumes "k < 8"
  shows "drop_bit (32 - 4 * k) (push_bit 4 v) + 16 ^ k * drop_bit 28 v = drop_bit (28 - 4 * k) (v :: u32)"
proof -
  have p: "16 ^ k * drop_bit 28 v = push_bit (4 * k) (drop_bit 28 v)"
    using power_mult [of "2 :: u32" 4 k] by (simp add: push_bit_eq_mult mult.commute)
  have "drop_bit (32 - 4 * k) (push_bit 4 v) + push_bit (4 * k) (drop_bit 28 v) =
      drop_bit (32 - 4 * k) (push_bit 4 v) OR push_bit (4 * k) (drop_bit 28 v)"
    using assms by (intro disjunctive_add) (auto simp: bit_simps)
  also have "\<dots> = drop_bit (28 - 4 * k) v"
  proof (rule bit_word_eqI)
    fix n
    show "bit (drop_bit (32 - 4 * k) (push_bit 4 v) OR push_bit (4 * k) (drop_bit 28 v)) n = bit (drop_bit (28 - 4 * k) v) n"
      if "n < LENGTH(32)"
      using assms that by (cases "4 * k \<le> n") (auto simp: bit_simps)
  qed
  finally show ?thesis by (simp add: p)
qed

lemma strtol_hex:
  "k \<le> 8 \<Longrightarrow> strtol_loop 16 (rev (printhex_loop k v)) a ex = Some (a + ex * drop_bit (32 - 4 * k) v)"
proof (induction k arbitrary: v a ex)
  case (Suc k)
  have "unat (drop_bit 28 v) < 16"
    using u32_lt [of v] unfolding unat_drop_bit_eq by (simp add: drop_bit_eq_div less_mult_imp_div_less)
  then have "digit_val (hex_char (drop_bit 28 v)) = Some (drop_bit 28 v)" "\<not> 15 < drop_bit 28 v"
    by (simp_all add: digit_val_hex word_less_nat_alt)
  then have "strtol_loop 16 (rev (printhex_loop (Suc k) v)) a ex =
      Some (a + ex * (drop_bit (32 - 4 * k) (push_bit 4 v) + 16 ^ k * drop_bit 28 v))"
    using Suc by (simp add: strtol_append distrib_left mult.assoc add.assoc)
  also have "drop_bit (32 - 4 * k) (push_bit 4 v) + 16 ^ k * drop_bit 28 v = drop_bit (32 - 4 * Suc k) v"
    using hex_join [of k v] Suc.prems by simp
  finally show ?case .
qed simp

lemma mystrtol_printhex: "mystrtol (printhex v) 16 = Some v"
  using strtol_hex [of 8 v 0 1] by (auto simp: mystrtol_def printhex_def simp flip: length_0_conv)

subsection \<open>Words of a line\<close>

definition word_ok :: "string \<Rightarrow> bool" where
  "word_ok t \<longleftrightarrow> t \<noteq> [] \<and> CHR '' '' \<notin> set t \<and> NUL \<notin> set t"

lemma skip_delims_stop: "i < length s \<Longrightarrow> s ! i \<noteq> CHR '' '' \<Longrightarrow> skip_delims s i = Inr i"
  by (simp add: skip_delims.simps)

lemma scan_token_end:
  assumes "CHR '' '' \<notin> set t" "NUL \<notin> set t" "c = CHR '' '' \<or> c = NUL"
  shows "scan_token (pre @ t @ c # post) (length pre) = Inr (length pre + length t)"
  using assms(1,2)
proof (induction t arbitrary: pre)
  case Nil
  then show ?case using assms(3) by (auto simp: scan_token.simps)
next
  case (Cons a t)
  then show ?case using Cons.IH [of "pre @ [a]"] by (auto simp: scan_token.simps [of _ "length pre"])
qed

lemma scan_word:
  assumes "word_ok t" "c = CHR '' '' \<or> c = NUL"
  shows "scan_token (pre @ t @ c # post) (Suc (length pre)) = Inr (length pre + length t)"
proof -
  obtain a u where t: "t = a # u" using assms(1) by (auto simp: word_ok_def neq_Nil_conv)
  then show ?thesis using assms scan_token_end [of u c "pre @ [a]" post] by (auto simp: word_ok_def)
qed

lemma strtok_at:
  "internal_strtok (Some i) r line = internal_strtok None (Some i) line"
  by (simp add: internal_strtok_def)

lemma strtok_word:
  assumes "word_ok t"
  shows "internal_strtok None (Some (length pre)) (pre @ t @ CHR '' '' # post) =
      Inr (Some (length pre), Some (length pre + length t + 1), pre @ t @ NUL # post)"
    "internal_strtok None (Some (length pre)) (pre @ t @ NUL # post) = Inr (Some (length pre), None, pre @ t @ NUL # post)"
proof -
  have first: "length pre < length (pre @ t @ c # post)" "(pre @ t @ c # post) ! length pre \<noteq> CHR '' ''"
      "(pre @ t @ c # post) ! length pre \<noteq> NUL" for c
    using assms by (auto simp: word_ok_def nth_append neq_Nil_conv)
  show "internal_strtok None (Some (length pre)) (pre @ t @ CHR '' '' # post) =
      Inr (Some (length pre), Some (length pre + length t + 1), pre @ t @ NUL # post)"
    using first [of "CHR '' ''"] scan_word [OF assms, of "CHR '' ''" pre post]
    by (simp add: internal_strtok_def skip_delims_stop nth_append list_update_append)
  show "internal_strtok None (Some (length pre)) (pre @ t @ NUL # post) = Inr (Some (length pre), None, pre @ t @ NUL # post)"
    using first [of NUL] scan_word [OF assms, of NUL pre post]
    by (simp add: internal_strtok_def skip_delims_stop nth_append)
qed

text \<open>The words with a separator between them, and where each of them starts.\<close>

fun joined :: "char \<Rightarrow> string list \<Rightarrow> string" where
  "joined c [] = []"
| "joined c [t] = t"
| "joined c (t # ts) = t @ c # joined c ts"

fun starts :: "nat \<Rightarrow> string list \<Rightarrow> nat list" where
  "starts i [] = []"
| "starts i (t # ts) = i # starts (i + length t + 1) ts"

lemma split_loop_words:
  assumes "ts \<noteq> []" "\<forall>t \<in> set ts. word_ok t" "length ts + 1 < room"
  shows "split_loop room (Some (length pre)) (pre @ joined (CHR '' '') ts @ NUL # post) acc =
    Inr (Some (acc @ map Some (starts (length pre) ts) @ [None]), None, pre @ joined NUL ts @ NUL # post)"
  using assms
proof (induction ts arbitrary: pre acc room rule: induct_list012)
  case 1
  then show ?case by simp
next
  case (2 t)
  then obtain k where "room = Suc (2 + k)" using less_imp_Suc_add [of 2 room] by auto
  then have k: "room = Suc (Suc (Suc k))" by simp
  have "internal_strtok None None line = Inr (None, None, line)" for line by (simp add: internal_strtok_def)
  then show ?case using 2 k strtok_word(2) [of t pre post] by simp
next
  case (3 t u ts)
  obtain k where k: "room = Suc k" "k \<noteq> 0" using 3(5) by (cases room) auto
  have "split_loop k (Some (length (pre @ t @ [NUL]))) ((pre @ t @ [NUL]) @ joined (CHR '' '') (u # ts) @ NUL # post) (acc @ [Some (length pre)]) =
      Inr (Some ((acc @ [Some (length pre)]) @ map Some (starts (length (pre @ t @ [NUL])) (u # ts)) @ [None]), None,
        (pre @ t @ [NUL]) @ joined NUL (u # ts) @ NUL # post)"
    using 3(3-5) k by (intro 3(2)) auto
  then show ?case
    using k 3(4) strtok_word(1) [of t pre "joined (CHR '' '') (u # ts) @ NUL # post"] by simp
qed

lemma split_words:
  assumes "ts \<noteq> []" "\<forall>t \<in> set ts. word_ok t" "length ts < 7"
  shows "split 8 r (joined (CHR '' '') ts @ NUL # post) =
    Inr (Some (map Some (starts 0 ts) @ [None]), None, joined NUL ts @ NUL # post)"
proof -
  have first: "split 8 r line = rbind (internal_strtok None (Some 0) line) (\<lambda>(t, r, line). split_loop 7 r line [t])" for line
    by (simp add: split_def strtok_at)
  obtain t us where ts: "ts = t # us" using assms(1) by (cases ts) auto
  show ?thesis
  proof (cases us)
    case Nil
    have "internal_strtok None None line = Inr (None, None, line)" for line by (simp add: internal_strtok_def)
    then have "split_loop 7 None line [Some 0] = Inr (Some [Some 0, None], None, line)" for line
      by (simp add: numeral_eq_Suc)
    then show ?thesis
      using assms ts Nil strtok_word(2) [of t "[]" post] by (simp add: first)
  next
    case (Cons u vs)
    have "split_loop 7 (Some (length (t @ [NUL]))) ((t @ [NUL]) @ joined (CHR '' '') us @ NUL # post) [Some 0] =
        Inr (Some ([Some 0] @ map Some (starts (length (t @ [NUL])) us) @ [None]), None, (t @ [NUL]) @ joined NUL us @ NUL # post)"
      using assms ts Cons by (intro split_loop_words) auto
    then show ?thesis
      using assms ts Cons strtok_word(1) [of t "[]" "joined (CHR '' '') us @ NUL # post"] by (simp add: first)
  qed
qed

lemma str_at_word: "NUL \<notin> set t \<Longrightarrow> str_at (pre @ t @ NUL # post) (length pre) = t"
  by (simp add: str_at_def)

lemma str_at_starts:
  assumes "\<forall>t \<in> set ts. word_ok t" "k < length ts"
  shows "str_at (pre @ joined NUL ts @ NUL # post) (starts (length pre) ts ! k) = ts ! k"
  using assms
proof (induction ts arbitrary: pre k rule: induct_list012)
  case (2 t)
  then show ?case by (simp add: str_at_word word_ok_def)
next
  case (3 t u ts)
  show ?case
  proof (cases k)
    case 0
    then show ?thesis using 3(3) str_at_word [of t pre "joined NUL (u # ts) @ NUL # post"] by (simp add: word_ok_def)
  next
    case (Suc j)
    then show ?thesis using 3(3,4) 3(2) [of j "pre @ t @ [NUL]"] by simp
  qed
qed simp

lemma length_starts [simp]: "length (starts i ts) = length ts"
  by (induction ts arbitrary: i) simp_all

lemma token_word:
  assumes "\<forall>t \<in> set ts. word_ok t" "k < length ts"
  shows "token (joined NUL ts @ NUL # post) (map Some (starts 0 ts) @ [None]) k = Inr (ts ! k)"
  using assms str_at_starts [of ts k "[]" post] by (simp add: token_def nth_append)

lemma token_missing: "token line (map Some (starts 0 ts) @ [None]) (length ts) = Inl LibNull"
  by (simp add: token_def nth_append)

subsection \<open>Typing a line\<close>

text \<open>The characters are processed one after the other while the monitor is not left.\<close>

fun feed :: "'d bus \<Rightarrow> 'd trace \<Rightarrow> u8 list \<Rightarrow> 'd monitor \<Rightarrow> lib_error + (outcome \<times> 'd monitor)" where
  "feed io tr [] m = Inr (Stay, m)"
| "feed io tr (r # rs) m =
     rbind (interactive_process io tr r m) (\<lambda>(oc, m). if oc = Stay then feed io tr rs m else Inr (oc, m))"

definition printable :: "string \<Rightarrow> bool" where
  "printable s \<longleftrightarrow> (\<forall>c \<in> set s. 32 \<le> (of_char c :: nat) \<and> (of_char c :: nat) \<le> 127)"

definition typed :: "string \<Rightarrow> u8 list" where
  "typed s = map of_char s"

text \<open>The editor's state: the buffer of 128 characters and a position within it.\<close>

definition mon_ok :: "'d monitor \<Rightarrow> bool" where
  "mon_ok m \<longleftrightarrow> length (mon_line m) = 128 \<and> lptr m \<le> 127"

lemma unat_of_char: "unat (of_char c :: u8) = of_char c"
proof -
  have "unat (of_nat (of_char c) :: u8) = of_char c"
    using nat_of_char_less_256 [of c] by (subst unat_of_nat) (simp add: take_bit_nat_eq_self)
  then show ?thesis by (simp only: of_nat_of_char)
qed

lemma process_printable:
  assumes "mon_ok m" "lptr m < 127" "32 \<le> unat r" "unat r \<le> 127"
  shows "interactive_process io tr r m =
    Inr (Stay, emit [char_of (unat r)] (m\<lparr>mon_line := (mon_line m)[lptr m := char_of (unat r)], lptr := lptr m + 1\<rparr>))"
proof -
  have "r \<noteq> 10" "r \<noteq> 13" "r \<noteq> 8" "\<not> r < 32" "\<not> 127 < r" using assms(3,4) by (auto simp: word_less_nat_alt)
  then show ?thesis using assms(1,2) by (simp add: interactive_process_def mon_ok_def)
qed

lemma feed_printable:
  assumes "mon_ok m" "printable s" "lptr m + length s \<le> 127"
  shows "feed io tr (typed s @ rs) m = feed io tr rs
    (m\<lparr>mon_line := take (lptr m) (mon_line m) @ s @ drop (lptr m + length s) (mon_line m),
       lptr := lptr m + length s, mon_out := mon_out m @ s\<rparr>)"
  using assms
proof (induction s arbitrary: m)
  case Nil
  then show ?case by (simp add: typed_def)
next
  case (Cons c s)
  let ?m = "emit [c] (m\<lparr>mon_line := (mon_line m)[lptr m := c], lptr := lptr m + 1\<rparr>)"
  have "interactive_process io tr (of_char c) m = Inr (Stay, ?m)"
    using Cons.prems by (subst process_printable) (simp_all add: unat_of_char printable_def)
  moreover have "mon_ok ?m" "printable s" "lptr ?m + length s \<le> 127"
    using Cons.prems by (simp_all add: mon_ok_def emit_def printable_def)
  moreover have "take (Suc (lptr m)) ((mon_line m)[lptr m := c]) = take (lptr m) (mon_line m) @ [c]"
    using Cons.prems by (simp add: take_Suc_conv_app_nth mon_ok_def)
  ultimately show ?case using Cons.IH [of ?m] by (simp add: typed_def emit_def)
qed

text \<open>What happens at the end of a line made of words.\<close>

definition line_state :: "string list \<Rightarrow> 'd monitor \<Rightarrow> 'd monitor" where
  "line_state ts m =
     (let s = joined (CHR '' '') ts in
      m\<lparr>mon_line := joined NUL ts @ NUL # drop (length s + 1) (mon_line m), lptr := length s, strtok_last := None,
         mon_out := mon_out m @ s @ [CHR 0x0D, CHR 0x0A]\<rparr>)"

lemma joined_first:
  assumes "ts \<noteq> []" "\<forall>t \<in> set ts. word_ok t"
  shows "\<exists>c u. joined sep ts = c # u \<and> c \<noteq> NUL"
proof -
  obtain t us where ts: "ts = t # us" using assms(1) by (cases ts) auto
  then obtain c v where t: "t = c # v" "c \<noteq> NUL" using assms(2) by (cases t) (auto simp: word_ok_def)
  show ?thesis using t ts by (cases us) auto
qed

lemma feed_words:
  assumes m: "mon_ok m" "lptr m = 0" and ts: "ts \<noteq> []" "\<forall>t \<in> set ts. word_ok t" "length ts < 7"
    and s: "printable (joined (CHR '' '') ts)" "length (joined (CHR '' '') ts) \<le> 127"
    and cmd: "hd ts = ''x'' \<and> f = inspect io \<or> hd ts = ''w'' \<and> f = writedata io"
  shows "feed io tr (typed (joined (CHR '' '') ts) @ [0x0D]) m =
    rbind (run_command (f (mon_line (line_state ts m)) (map Some (starts 0 ts) @ [None])) (line_state ts m))
      (\<lambda>(oc, m). Inr (oc, m\<lparr>lptr := 0\<rparr>))"
proof -
  let ?s = "joined (CHR '' '') ts"
  obtain c u where cu: "?s = c # u" "c \<noteq> NUL" using joined_first [OF ts(1,2)] by blast
  define m0 where "m0 = m\<lparr>mon_line := ?s @ drop (length ?s) (mon_line m), lptr := length ?s, mon_out := mon_out m @ ?s\<rparr>"
  define m1 where "m1 = emit [CHR 0x0D, CHR 0x0A] (m0\<lparr>mon_line := ?s @ NUL # drop (length ?s + 1) (mon_line m)\<rparr>)"
  have "feed io tr (typed ?s @ [0x0D]) m = feed io tr [0x0D] m0"
    using m s by (subst feed_printable) (simp_all add: m0_def)
  also have "\<dots> = rbind (interactive_line io tr m1) (\<lambda>(oc, m). Inr (oc, if oc = Stay then m\<lparr>lptr := 0\<rparr> else m))"
  proof -
    have "(?s @ drop (length ?s) (mon_line m))[length ?s := NUL] = ?s @ NUL # drop (length ?s + 1) (mon_line m)"
      using m s by (simp add: list_update_append mon_ok_def flip: Cons_nth_drop_Suc)
    then have "interactive_process io tr 0x0D m0 =
        rbind (interactive_line io tr m1) (\<lambda>(oc, m). Inr (oc, if oc = Stay then m\<lparr>lptr := 0\<rparr> else m))"
      using m s by (simp add: interactive_process_def m0_def m1_def mon_ok_def)
    then show ?thesis by (cases "interactive_line io tr m1") (auto split: prod.splits)
  qed
  also have "interactive_line io tr m1 =
      run_command (f (mon_line (line_state ts m)) (map Some (starts 0 ts) @ [None])) (line_state ts m)"
    using cu cmd token_word [OF ts(2), of 0 "drop (length ?s + 1) (mon_line m)"] ts(1)
      split_words [OF ts, of "strtok_last m" "drop (length ?s + 1) (mon_line m)"]
    by (cases m) (auto simp: interactive_line_def char_at_def line_state_def m1_def m0_def emit_def hd_conv_nth Let_def)
  finally show ?thesis
    by (auto simp: run_command_def rbind_assoc intro!: rbind_cong)
qed

subsection \<open>A command that writes\<close>

lemma of_char_hex:
  assumes "unat n < 16"
  shows "32 < (of_char (hex_char n) :: nat) \<and> (of_char (hex_char n) :: nat) \<le> 127"
proof -
  have "unat (n + 55) = unat n + 55" "unat (n + 48) = unat n + 48" using assms by (simp_all add: unat_word_ariths)
  then show ?thesis using assms by (simp add: hex_char_def of_char_of)
qed

lemma printhex_chars: "c \<in> set (printhex_loop k v) \<Longrightarrow> 32 < (of_char c :: nat) \<and> (of_char c :: nat) \<le> 127"
proof (induction k arbitrary: v)
  case (Suc k)
  have "unat (drop_bit 28 v) < 16"
    using u32_lt [of v] unfolding unat_drop_bit_eq by (simp add: drop_bit_eq_div less_mult_imp_div_less)
  then show ?case using Suc of_char_hex by auto
qed simp

lemma hex_word: "word_ok (''0x'' @ printhex v)" "printable (''0x'' @ printhex v)"
proof -
  have c: "32 < (of_char c :: nat) \<and> (of_char c :: nat) \<le> 127" if "c \<in> set (''0x'' @ printhex v)" for c
    using that printhex_chars [of c 8 v] by (auto simp: printhex_def)
  show "printable (''0x'' @ printhex v)" unfolding printable_def using c less_imp_le by blast
  have "CHR '' '' \<notin> set (''0x'' @ printhex v)" "NUL \<notin> set (''0x'' @ printhex v)" using c [of "CHR '' ''"] c [of NUL] by auto
  then show "word_ok (''0x'' @ printhex v)" by (simp add: word_ok_def)
qed

lemma length_printhex: "length (printhex v) = 8"
  by (simp add: printhex_def)

lemma parse_printed: "parseinteger (''0x'' @ printhex v) = Some v"
  by (simp add: parseinteger_def mystrtol_printhex)

text \<open>
  C18. Typing a line that writes a word - the letter, an address and a value in hexadecimal - does
  exactly that: the value is written to the address, the address is read back, the exchange is
  shown, and the editor is ready for the next line.
\<close>

theorem monitor_write:
  assumes "mon_ok m" and "lptr m = 0" and "bus_read io a (bus_write io a v (mon_hw m)) = (x, d)"
  shows "\<exists>m'. feed io tr (typed (''w 0x'' @ printhex a @ '' 0x'' @ printhex v) @ [0x0D]) m = Inr (Stay, m') \<and>
    mon_hw m' = d \<and> mon_ok m' \<and> lptr m' = 0 \<and>
    mon_out m' = mon_out m @ ''w 0x'' @ printhex a @ '' 0x'' @ printhex v @ [CHR 0x0D, CHR 0x0A] @
      ''0x'' @ printhex a @ '' <- '' @ printhex v @ '' : '' @ printhex x @ [CHR 0x0A] @ ''Ok'' @ [CHR 0x0D, CHR 0x0A]"
proof -
  define ts where "ts = [''w'', ''0x'' @ printhex a, ''0x'' @ printhex v]"
  have line: "''w 0x'' @ printhex a @ '' 0x'' @ printhex v = joined (CHR '' '') ts" by (simp add: ts_def)
  have ok: "\<forall>t \<in> set ts. word_ok t" using hex_word(1) by (simp add: ts_def word_ok_def)
  have "printable (joined (CHR '' '') ts)" using hex_word(2) [of a] hex_word(2) [of v] by (simp add: ts_def printable_def ball_Un)
  moreover have "length (joined (CHR '' '') ts) = 23" by (simp add: ts_def length_printhex)
  ultimately have run: "feed io tr (typed (joined (CHR '' '') ts) @ [0x0D]) m =
      rbind (run_command (writedata io (mon_line (line_state ts m)) (map Some (starts 0 ts) @ [None])) (line_state ts m))
        (\<lambda>(oc, m). Inr (oc, m\<lparr>lptr := 0\<rparr>))"
    using assms ok by (intro feed_words) (simp_all add: ts_def)
  have tok: "token (mon_line (line_state ts m)) (map Some (starts 0 ts) @ [None]) k = Inr (ts ! k)" if "k < 3" for k
    using token_word [OF ok, of k] that by (simp add: line_state_def Let_def ts_def)
  have "writedata io (mon_line (line_state ts m)) (map Some (starts 0 ts) @ [None]) (mon_hw m) =
      Inr (''0x'' @ printhex a @ '' <- '' @ printhex v @ '' : '' @ printhex x @ [CHR 0x0A], d)"
    using tok [of 1] tok [of 2] assms(3) parse_printed [of a] parse_printed [of v]
    by (simp add: writedata_def ts_def)
  moreover have "mon_hw (line_state ts m) = mon_hw m" "length (mon_line (line_state ts m)) = 128"
    using assms(1) by (simp_all add: line_state_def mon_ok_def Let_def ts_def length_printhex)
  ultimately show ?thesis
    unfolding line run by (simp add: run_command_def emit_def mon_ok_def) (simp add: line_state_def ts_def Let_def)
qed

definition mem_bus :: "(u32 \<Rightarrow> u32) bus" where
  "mem_bus = \<lparr>bus_read = (\<lambda>a d. (d a, d)), bus_write = (\<lambda>a v d. d(a := v))\<rparr>"

definition no_trace :: "(u32 \<Rightarrow> u32) trace" where
  "no_trace = \<lparr>tr_counters = (\<lambda>d. 0), tr_set_counter = (\<lambda>n d. d), tr_pc = (\<lambda>d. 0), tr_opcode = (\<lambda>d. 0),
     tr_lhs = (\<lambda>d. 0), tr_rhs = (\<lambda>d. 0), tr_memcounters = (\<lambda>d. 0), tr_set_memcounter = (\<lambda>n d. d),
     tr_mempc = (\<lambda>d. 0), tr_memaddr = (\<lambda>d. 0), tr_memdata = (\<lambda>d. 0), tr_set_memmatch = (\<lambda>n d. d), tr_psr = (\<lambda>d. 0)\<rparr>"

definition mon_start :: "(u32 \<Rightarrow> u32) monitor" where
  "mon_start = \<lparr>mon_line = replicate 128 NUL, lptr = 0, strtok_last = None, mon_out = [], mon_hw = (\<lambda>a. 0)\<rparr>"

lemma mon_start_ok: "mon_ok mon_start" "lptr mon_start = 0"
  by (simp_all add: mon_start_def mon_ok_def)

theorem monitor_write_witness:
  "\<exists>m'. feed mem_bus no_trace (typed (''w 0x'' @ printhex 0x1000 @ '' 0x'' @ printhex 42) @ [0x0D]) mon_start = Inr (Stay, m') \<and>
    mon_hw m' 0x1000 = 42"
proof -
  have "bus_read mem_bus 0x1000 (bus_write mem_bus 0x1000 42 (mon_hw mon_start)) =
      (42, (mon_hw mon_start)(0x1000 := 42))" by (simp add: mem_bus_def)
  from monitor_write [OF mon_start_ok this, of no_trace] show ?thesis by fastforce
qed

subsection \<open>Within the buffer\<close>

lemma skip_bound:
  assumes "z < length s" "s ! z = NUL"
  shows "i \<le> z \<Longrightarrow> \<exists>j. skip_delims s i = Inr j \<and> j \<le> z \<and> s ! j \<noteq> CHR '' ''"
proof (induction "z - i" arbitrary: i)
  case 0
  then show ?case using assms by (simp add: skip_delims.simps)
next
  case (Suc k)
  then show ?case using assms Suc.hyps(1) [of "i + 1"] by (auto simp: skip_delims.simps [of s i])
qed

lemma scan_bound:
  assumes "z < length s" "s ! z = NUL"
  shows "i \<le> z \<Longrightarrow> \<exists>e. scan_token s i = Inr e \<and> e \<le> z \<and> (s ! e = CHR '' '' \<or> s ! e = NUL)"
proof (induction "z - i" arbitrary: i)
  case 0
  then show ?case using assms by (simp add: scan_token.simps)
next
  case (Suc k)
  then show ?case using assms Suc.hyps(1) [of "i + 1"] by (auto simp: scan_token.simps [of s i])
qed

text \<open>A line with a terminator, and a place to go on from that is not behind it.\<close>

definition line_ok :: "nat \<Rightarrow> nat option \<Rightarrow> char list \<Rightarrow> bool" where
  "line_ok z r line \<longleftrightarrow> z < length line \<and> line ! z = NUL \<and> (\<forall>i. r = Some i \<longrightarrow> i \<le> z)"

lemma strtok_bound:
  assumes "line_ok z r line"
  shows "\<exists>t r' line'. internal_strtok None r line = Inr (t, r', line') \<and> line_ok z r' line' \<and> length line' = length line"
proof (cases r)
  case None
  then show ?thesis using assms by (simp add: internal_strtok_def)
next
  case (Some i)
  then obtain j where j: "skip_delims line i = Inr j" "j \<le> z" "line ! j \<noteq> CHR '' ''"
    using assms skip_bound [of z line i] by (auto simp: line_ok_def)
  show ?thesis
  proof (cases "line ! j = NUL")
    case True
    then show ?thesis using assms Some j by (auto simp: internal_strtok_def line_ok_def)
  next
    case False
    then have "j + 1 \<le> z" using j assms by (cases "j = z") (auto simp: line_ok_def)
    then obtain e where e: "scan_token line (j + 1) = Inr e" "e \<le> z" "line ! e = CHR '' '' \<or> line ! e = NUL"
      using assms scan_bound [of z line "j + 1"] by (auto simp: line_ok_def)
    moreover have "e \<noteq> z" if "line ! e = CHR '' ''" using assms that by (auto simp: line_ok_def)
    ultimately show ?thesis
      using assms Some j False by (auto simp: internal_strtok_def line_ok_def nth_list_update)
  qed
qed

lemma split_loop_bound:
  assumes "line_ok z r line"
  shows "\<exists>toks r' line'. split_loop room r line acc = Inr (toks, r', line') \<and> length line' = length line \<and>
    (\<forall>ts. toks = Some ts \<longrightarrow> length acc \<le> length ts)"
  using assms
proof (induction room arbitrary: r line acc)
  case (Suc room)
  from strtok_bound [OF Suc.prems] obtain t r' line' where
    s: "internal_strtok None r line = Inr (t, r', line')" "line_ok z r' line'" "length line' = length line" by blast
  from Suc.IH [OF s(2), of "acc @ [t]"] obtain toks r2 line2 where
    "split_loop room r' line' (acc @ [t]) = Inr (toks, r2, line2)" "length line2 = length line'"
    "\<forall>ts. toks = Some ts \<longrightarrow> length (acc @ [t]) \<le> length ts" by blast
  note ih = this
  have "split_loop (Suc room) r line acc =
      (if room = 0 then Inr (None, r', line') else if t = None then Inr (Some (acc @ [t]), r', line')
       else split_loop room r' line' (acc @ [t]))" using s(1) by (simp add: Let_def)
  moreover have "length acc \<le> length ts" if "toks = Some ts" for ts using ih(3) that by fastforce
  ultimately show ?case using ih(1,2) s(3)
    by (cases "room = 0"; cases "t = None"; simp only: simp_thms if_True if_False if_P if_not_P) force+
qed simp

lemma split_bound:
  assumes "line_ok z (Some 0) line"
  shows "\<exists>toks r' line'. split n r line = Inr (toks, r', line') \<and> length line' = length line \<and>
    (\<forall>ts. toks = Some ts \<longrightarrow> ts \<noteq> [])"
proof -
  from strtok_bound [OF assms] obtain t r1 line1 where
    s: "internal_strtok None (Some 0) line = Inr (t, r1, line1)" "line_ok z r1 line1" "length line1 = length line" by blast
  from split_loop_bound [OF s(2), of "n - 1" "[t]"] s show ?thesis
    by (fastforce simp: split_def strtok_at)
qed

lemma token_error: "k < length toks \<Longrightarrow> token line toks k = Inl e \<Longrightarrow> e = LibNull"
  by (auto simp: token_def split: option.splits)

lemma command_errors:
  "inspect io line toks d = Inl e \<Longrightarrow> e = LibNull" "writedata io line toks d = Inl e \<Longrightarrow> e = LibNull"
  "addmemorywatch tr line toks d = Inl e \<Longrightarrow> e = LibNull"
  by (auto simp: inspect_def writedata_def addmemorywatch_def Let_def split: if_splits option.splits prod.splits
      dest!: token_error [rotated])

text \<open>A step that fails at most by following a null pointer, and otherwise leads to a state with \<open>P\<close>.\<close>

definition leads :: "('d monitor \<Rightarrow> bool) \<Rightarrow> lib_error + (outcome \<times> 'd monitor) \<Rightarrow> bool" where
  "leads P r = (case r of Inl e \<Rightarrow> e = LibNull | Inr (oc, m) \<Rightarrow> P m)"

lemma leads_simps [simp]: "leads P (Inl e) = (e = LibNull)" "leads P (Inr (oc, m)) = P m"
  by (simp_all add: leads_def)

lemma leads_bind:
  "(\<And>e. r = Inl e \<Longrightarrow> e = LibNull) \<Longrightarrow> (\<And>x. r = Inr x \<Longrightarrow> leads P (f x)) \<Longrightarrow> leads P (rbind r f)"
  by (cases r) simp_all

lemma leads_if: "(b \<Longrightarrow> leads P x) \<Longrightarrow> (\<not> b \<Longrightarrow> leads P y) \<Longrightarrow> leads P (if b then x else y)"
  by simp

lemma run_command_leads:
  assumes "\<And>d e. cmd d = Inl e \<Longrightarrow> e = LibNull" "\<And>out d. P (emit out (m\<lparr>mon_hw := d\<rparr>))"
  shows "leads P (run_command cmd m)"
  unfolding run_command_def using assms by (intro leads_bind) auto

lemma interactive_line_leads:
  assumes "line_ok z (Some 0) (mon_line m)"
  shows "leads (\<lambda>m'. length (mon_line m') = length (mon_line m) \<and> lptr m' = lptr m) (interactive_line io tr m)"
proof -
  from split_bound [OF assms, of 8 "strtok_last m"] obtain toks r line where
    s: "split 8 (strtok_last m) (mon_line m) = Inr (toks, r, line)" "length line = length (mon_line m)"
      "\<forall>ts. toks = Some ts \<longrightarrow> ts \<noteq> []" by blast
  have c: "char_at (mon_line m) 0 = Inr (mon_line m ! 0)" using assms by (auto simp: char_at_def line_ok_def)
  show ?thesis
  proof (cases toks)
    case None
    then show ?thesis using s c by (simp add: interactive_line_def emit_def)
  next
    case (Some ts)
    then have e0: "token line ts 0 = Inl e \<Longrightarrow> e = LibNull" for e using s(3) token_error by blast
    show ?thesis
      unfolding interactive_line_def c s(1) Some rbind_simps Let_def prod.case option.case
      using s(2) by (intro leads_if leads_bind run_command_leads)
        (auto simp: emit_def e0 dest: command_errors split: prod.splits)
  qed
qed

lemma process_leads: "mon_ok m \<Longrightarrow> leads mon_ok (interactive_process io tr r m)"
proof (cases "r = 0x0A \<or> r = 0x0D")
  case True
  assume "mon_ok m"
  let ?m = "emit [CHR 0x0D, CHR 0x0A] (m\<lparr>mon_line := (mon_line m)[lptr m := NUL]\<rparr>)"
  have "line_ok (lptr m) (Some 0) (mon_line ?m)" using \<open>mon_ok m\<close> by (simp add: mon_ok_def line_ok_def emit_def)
  from interactive_line_leads [OF this, of io tr] show ?thesis
    using True \<open>mon_ok m\<close> by (cases "interactive_line io tr ?m") (auto simp: interactive_process_def mon_ok_def emit_def)
next
  case False
  assume "mon_ok m"
  then show ?thesis using False by (auto simp: interactive_process_def mon_ok_def emit_def)
qed

lemma feed_leads: "mon_ok m \<Longrightarrow> leads mon_ok (feed io tr rs m)"
proof (induction rs arbitrary: m)
  case (Cons r rs)
  from process_leads [OF Cons.prems, of io tr r] show ?case
    using Cons.IH by (cases "interactive_process io tr r m") (auto split: prod.splits)
qed simp

text \<open>
  C32. Whatever is typed, the editor writes only inside its buffer of 128 characters and the
  splitting of a line reads and writes only inside it; the one thing that can go wrong is that a
  missing word is followed as a null pointer.  That does happen: the count of words includes the
  null pointer behind the last one, so the letter of the command that inspects memory,
  typed without an address, passes the check for a missing argument.
\<close>

theorem monitor_safe:
  "(mon_ok m \<longrightarrow> feed io tr rs m = Inl e \<longrightarrow> e = LibNull) \<and>
   (mon_ok m \<longrightarrow> feed io tr rs m = Inr (oc, m') \<longrightarrow> mon_ok m') \<and>
   (mon_ok m \<longrightarrow> lptr m = 0 \<longrightarrow> feed io tr (typed ''x'' @ [0x0D]) m = Inl LibNull)"
proof (intro conjI impI)
  show "e = LibNull" if "mon_ok m" "feed io tr rs m = Inl e" using feed_leads [OF that(1), of io tr rs] that(2) by simp
  show "mon_ok m'" if "mon_ok m" "feed io tr rs m = Inr (oc, m')" using feed_leads [OF that(1), of io tr rs] that(2) by simp
  assume m: "mon_ok m" "lptr m = 0"
  have "feed io tr (typed (joined (CHR '' '') [''x'']) @ [0x0D]) m =
      rbind (run_command (inspect io (mon_line (line_state [''x''] m)) (map Some (starts 0 [''x'']) @ [None])) (line_state [''x''] m))
        (\<lambda>(oc, m). Inr (oc, m\<lparr>lptr := 0\<rparr>))"
    using m by (intro feed_words) (simp_all add: word_ok_def printable_def)
  moreover have "inspect io line (map Some (starts 0 [''x'']) @ [None]) d = Inl LibNull" for line d
    using token_missing [of line "[''x'']"] by (simp add: inspect_def)
  ultimately show "feed io tr (typed ''x'' @ [0x0D]) m = Inl LibNull" by (simp add: run_command_def)
qed

theorem monitor_safe_witness:
  "feed mem_bus no_trace (typed ''x'' @ [0x0D]) mon_start = Inl LibNull \<and> mon_ok mon_start"
  using monitor_safe [of mon_start mem_bus no_trace "[]" LibNull Stay mon_start] mon_start_ok by blast

end
