(* ===== verification/Spec2Isabelle.thy ===== *)
theory Spec2Isabelle
  imports Sim_Props Gas_Props Lib_Props Sd_Props Irq_Props
begin

text \<open>
  A verification library for XTC, a 32-bit processor with 16-bit instructions and extension
  words: its instruction-set simulator, the XTC parts of its assembler, disassembler and linker,
  and the run-time library its programs are linked with.

  \<^bold>\<open>The program and its parts.\<close>  A source file goes through the assembler
  (\<^verbatim>\<open>binutils-2.23.1/gas/config/tc-xtc.c\<close> over the table in
  \<^verbatim>\<open>binutils-2.23.1/opcodes/xtc-opc.h\<close>), which emits bytes and fixups; the fixups become
  relocations, which the linker (\<^verbatim>\<open>binutils-2.23.1/bfd/elf32-xtc.c\<close>) stores into the
  instructions, after it has shortened those whose values turn out to be small.  The
  program runs on the simulator (\<^verbatim>\<open>softsim\<close>) or on the hardware, together with the run-time
  library (\<^verbatim>\<open>libxtcapp\<close>): system calls and streams over a table of file backends, which are
  the devices, files in memory and a FAT file system on an SD card, and a monitor that is
  entered on an exception.

  \<^bold>\<open>Conventions.\<close>  \<open>Xtc_Prelude\<close> holds the words, the result type whose left side is an
  error, its bind \<open>rbind\<close>, and arrays whose accesses are checked: every \<^verbatim>\<open>abort\<close>, failed
  assertion and access outside an object in the C code is an error value.  Integers have the
  width they have in C.  In the run-time library a computation is a
  \<open>res\<close>, an option of a result, where \<open>None\<close> means that it never returns.  Code that is not in
  the repository, and hardware, is an argument: a disk, a bus with its registers, a clock, the
  expression parser of the assembler, the symbol printer of the disassembler.

  \<^bold>\<open>The simulator.\<close>  \<open>Sim_Cpu\<close> models \<^verbatim>\<open>cpu.h\<close>, \<^verbatim>\<open>cpu.c\<close> and \<^verbatim>\<open>opcodes.h\<close>
  (record \<open>xtc_cpu\<close>), \<open>Sim_Memory\<close> \<^verbatim>\<open>memory.c\<close> and \<^verbatim>\<open>io.c\<close>, \<open>Sim_Ops\<close> the handlers of
  \<^verbatim>\<open>alu_ops.c\<close>, \<^verbatim>\<open>reg_ops.c\<close>, \<^verbatim>\<open>cflow_ops.c\<close> and \<^verbatim>\<open>mem_ops.c\<close>, \<open>Sim_Decode\<close>
  \<^verbatim>\<open>decode.c\<close>, \<open>Sim_Executor\<close> \<^verbatim>\<open>executor.c\<close> with its older switch and \<^verbatim>\<open>softsim.c\<close>.
  \<open>Sim_Machine\<close> states what the instruction cycle asks of a handler as a locale, interpreted on
  the table of handlers and on the older switch, and the simulator as an instance of the
  locale of machines.  \<open>Sim_Props\<close> shows why a run can stop (C1), that what the decoder
  finds in an uninitialised structure does not matter (C2), what the decoder accepts (C3), that stores are read back and unmapped accesses
  stop (C4, C5), how constants, branches, delay slots and calls behave (C6 to C10), how far
  the two executors agree (C13), and that the executor
  returns only when its trace file cannot be opened (C14).

  \<^bold>\<open>Table, assembler and disassembler.\<close>  \<open>Xtc_Opc\<close> is the instruction table, \<open>Xtc_Dis\<close>
  \<^verbatim>\<open>xtc-dis.c\<close>, \<open>Gas_Xtc\<close> the statements of \<^verbatim>\<open>tc-xtc.c\<close>, \<open>Gas_Fix\<close> its fixups with the
  functions of \<^verbatim>\<open>gas/write.c\<close> and \<^verbatim>\<open>gas/symbols.c\<close> they pass through.  \<open>Xtc_Props\<close> shows that the
  table search is unambiguous (C15), what the bit count means (C16), that a register
  statement is printed back by the disassembler (C17), and where conditions and targets go wrong
  (C19, C21).  \<open>Gas_Props\<close> follows an operand from the statement to the linker (C29, C30), and
  shows what becomes of data directives and numbers (C31, C33).

  \<^bold>\<open>The linker.\<close>  \<open>Elf_Howto\<close> holds the relocation tables, \<open>Elf_Xtc\<close> the storing of values and
  the shortening of one instruction, \<open>Elf_Link\<close> deletion, relaxation and the final link of a
  section.  \<open>Elf_Emit\<close> and \<open>Elf_Relax\<close> hold the lemmas on stores and on the turns of the
  shortening loop.  \<open>Elf_Props\<close> shows that a stored value is read back (C22), that shortening
  keeps the instruction (C23), that everything moves with deleted bytes (C25), that the passes
  are bounded (C26), what the final link stores (C27), and that a relative addend is counted
  twice (C28).
\<close>

text \<open>
  \<^bold>\<open>The run-time library.\<close>  \<open>Lib_Support\<close> models \<^verbatim>\<open>support.c\<close> and \<^verbatim>\<open>print.c\<close> and has the
  locales of tables of slots, \<open>Lib_Dev\<close> \<^verbatim>\<open>zfdevice.c\<close>, \<^verbatim>\<open>zfmem.c\<close>, \<^verbatim>\<open>serial.c\<close> and
  \<^verbatim>\<open>spi.c\<close>, \<open>Lib_Posix\<close> \<^verbatim>\<open>zposix.c\<close>, \<open>Lib_Stdio\<close> \<^verbatim>\<open>zstdio.c\<close>.  The locales are interpreted
  on the tables of backends, devices, descriptors and streams.  \<open>Lib_Props\<close> shows the
  multiplication (C34), the bounds and the faults of formatted output (C35 to C37), opening and
  writing to a device (C38), and that a wait ends (C40).

  \<^bold>\<open>The file system and the card.\<close>  \<open>Fat_Fs\<close> models \<^verbatim>\<open>fatfs/ff.c\<close> in the configuration of
  \<^verbatim>\<open>fatfs/ff.h\<close>, \<open>Lib_Disk\<close> \<^verbatim>\<open>disk.c\<close>, \<open>Lib_Sd\<close> \<^verbatim>\<open>ffwrap.c\<close> and \<^verbatim>\<open>premain.c\<close>.
  \<open>Fat_Chain\<close> says what a working disk is (\<open>serves\<close>) and what the table of a volume means,
  \<open>Fat_File\<close> what a file holds and that reading and seeking keep to it, \<open>Fat_Dir\<close> what a
  directory and a path mean and that the search finds it, \<open>Fat_Mount\<close> what a boot record means,
  that mounting gives a well-formed volume and what opening gives.  \<open>Fat_Props\<close> puts them
  together: any sequence of reads and seeks behaves like one on bytes with a position (C11, over a
  locale of such files, interpreted on \<^verbatim>\<open>f_read\<close> and \<^verbatim>\<open>f_lseek\<close>), mounting (C12), opening
  (C20).  \<open>Sd_Card\<close> states the protocol of a card on a bus, as the stream of the bytes it is
  about to send, with the time its waiting takes, and shows that the driver gives the sectors
  asked for; \<open>sd_serves\<close> there makes the driver a working disk in the sense of the file system, so
  that \<open>sd_file_calls\<close> has C11 for files on a card.
  \<open>Sd_Props\<close> has the property of the driver (C24) and of the backend's read operation, which
  never returns at the end of a file (C39).

  \<^bold>\<open>The monitor.\<close>  \<open>Lib_Irq\<close> models \<^verbatim>\<open>irq.c\<close>: the exception handler, the line editor, the
  tokens, the numbers and the commands.  \<open>Irq_Props\<close> shows what a typed command does (C18) and
  that whatever is typed stays within the buffer, apart from a null pointer (C32).

  \<^bold>\<open>Bounds and fuel.\<close>  A run of the simulator is a run of a given number of instructions, and the
  theorems hold for every number.  The loop that shortens an instruction is a total function;
  the passes over a section, which the linker repeats as long as one asks for another, are
  bounded by C26.  Loops that may run for ever, those that poll hardware, follow a chain of
  clusters or scan a directory, are partial functions into options: what they return is proved as
  an equation with a value, so that returning is part of the claim, and C39 proves the case
  that does not return.  Reading a file ends because every turn takes at least one byte, scanning a
  directory because its entries have 16-bit numbers; polling a card ends with its
  answer when its waiting, counted in accesses to the bus of a known duration, fits the time-out and
  the millisecond counter does not wrap round.

  \<^bold>\<open>Not modelled.\<close>  The processor and the peripherals in VHDL need a semantics of that language.
  The boot loader and \<^verbatim>\<open>libxtcapp/entry.S\<close> are assembler.  \<^verbatim>\<open>sim/pty-impl.c\<close> only does input and
  output.  newlib and the general parts of binutils are third-party code, of which what the
  XTC code relies on is modelled with it or is an argument; dynamic linking in
  \<^verbatim>\<open>elf32-xtc.c\<close> is never reached, because the creation of its sections always fails.  Text
  printed for tracing and debugging is left out, as are functions of the run-time library
  that are compiled out (writing to the file system and to the card) or do nothing but return a
  constant.  The order of outputs among themselves is kept; that of outputs and accesses to
  other hardware registers is not.
\<close>

end
